(* ===== verification/QM_Base.thy ===== *)
theory QM_Base
  imports Main "HOL-Library.Word" "HOL-Library.List_Lexorder" "HOL-Library.Product_Lexorder"
    "HOL-Library.Multiset" "HOL-Library.Sublist"
begin

text \<open>
  Prelude of the QM codec development (src/src/linguist/shared/qm.cpp).
  It names the machine types of the model (bytes, 16- and 32-bit words), the
  representation of Qt's byte arrays and strings, the big-endian integer encoding
  that \<open>QDataStream\<close> and the reader's \<open>read32\<close> share, and the list lemmas the
  component theories use to read a field back out of a concatenated buffer.
  The collection \<open>codec_simps\<close> gathers the encode/decode round-trip facts.
\<close>

unbundle bit_operations_syntax

named_theorems codec_simps "round trips of the byte-level encodings"

type_synonym byte = "8 word"
type_synonym u16 = "16 word"
type_synonym u32 = "32 word"

text \<open>
  A \<open>QByteArray\<close> that is never null (every byte array the codec builds comes from
  \<open>originalBytes\<close>, which returns \<open>QByteArray("")\<close> for the empty string) is its list
  of bytes.  A \<open>QString\<close> is its list of UTF-16 code units, with \<open>None\<close> for the null
  string: the two serialise differently (length \<open>0xFFFFFFFF\<close> against length 0).
\<close>

type_synonym qbytes = "byte list"
type_synonym qstring = "u16 list option"

text \<open>
  Undefined behaviour of the C++ code is a value of the model, never a silent total
  result: a memory read outside the buffer (at the given index), an integer division
  by zero, a negative length handed to a view constructor.
\<close>

datatype ub = OutOfBounds int | DivisionByZero | NegativeLength

subsection \<open>Big-endian integers\<close>

text \<open>\<open>QDataStream << quint16 / quint32\<close>: most significant byte first.\<close>

definition put_u16 :: "u16 \<Rightarrow> byte list" where
  "put_u16 w = [ucast (drop_bit 8 w), ucast w]"

definition put_u32 :: "u32 \<Rightarrow> byte list" where
  "put_u32 w = [ucast (drop_bit 24 w), ucast (drop_bit 16 w), ucast (drop_bit 8 w), ucast w]"

text \<open>
  \<open>read32\<close> of qm.cpp, lines 423--426: \<open>(d[0] << 24) | (d[1] << 16) | (d[2] << 8) | d[3]\<close>
  on four bytes; the 16-bit analogue reads a code unit of a UTF-16 string.
\<close>

definition be32 :: "byte \<Rightarrow> byte \<Rightarrow> byte \<Rightarrow> byte \<Rightarrow> u32" where
  "be32 a b c d = push_bit 24 (ucast a) OR push_bit 16 (ucast b) OR push_bit 8 (ucast c) OR ucast d"

definition be16 :: "byte \<Rightarrow> byte \<Rightarrow> u16" where
  "be16 a b = push_bit 8 (ucast a) OR ucast b"

fun be16_units :: "byte list \<Rightarrow> u16 list" where
  "be16_units (a # b # rest) = be16 a b # be16_units rest"
| "be16_units _ = []"

lemma length_put_u16 [simp]: "length (put_u16 w) = 2"
  by (simp add: put_u16_def)

lemma length_put_u32 [simp]: "length (put_u32 w) = 4"
  by (simp add: put_u32_def)

lemma be32_put_u32 [codec_simps]:
  "be32 (put_u32 w ! 0) (put_u32 w ! 1) (put_u32 w ! 2) (put_u32 w ! 3) = w"
  unfolding be32_def put_u32_def
  by (rule bit_word_eqI) (case_tac "n < 8"; case_tac "n < 16"; case_tac "n < 24"; auto simp: bit_simps)

lemma be16_put_u16 [codec_simps]: "be16 (put_u16 w ! 0) (put_u16 w ! 1) = w"
  unfolding be16_def put_u16_def
  by (rule bit_word_eqI) (case_tac "n < 8"; auto simp: bit_simps)

lemma be16_units_append_put [codec_simps]:
  "be16_units (put_u16 w @ rest) = w # be16_units rest"
  using be16_put_u16 [of w] by (simp add: put_u16_def)

lemma be16_units_concat [codec_simps]: "be16_units (concat (map put_u16 us)) = us"
  by (induction us) (simp_all add: be16_units_append_put)

lemma length_concat_put_u16 [simp]: "length (concat (map put_u16 us)) = 2 * length us"
  by (induction us) simp_all

lemma unat_word_of_nat_u32 [simp]: "n < 2 ^ 32 \<Longrightarrow> unat (word_of_nat n :: u32) = n"
  by (simp add: unat_of_nat)

lemma unat_word_of_nat_u16 [simp]: "n < 2 ^ 16 \<Longrightarrow> unat (word_of_nat n :: u16) = n"
  by (simp add: unat_of_nat)

subsection \<open>Reading back out of a buffer\<close>

lemma nth_append_at [simp]: "(pre @ xs @ post) ! (length pre + i) = (if i < length xs then xs ! i else post ! (i - length xs))"
  by (simp add: nth_append)

lemma drop_append_at [simp]: "drop (length pre) (pre @ rest) = rest"
  by simp

lemma take_prefix_at [simp]: "take (length xs) (xs @ rest) = xs"
  by simp

subsection \<open>Segments of a buffer\<close>

text \<open>
  A field written at position \<open>n\<close> of a buffer \<open>ba\<close> is a \<open>prefix\<close> of \<open>drop n ba\<close>;
  reading it back means walking along such prefixes.
\<close>

lemma prefix_drop_nth:
  assumes "prefix xs (drop n ba)" "i < length xs"
  shows "n + i < length ba \<and> ba ! (n + i) = xs ! i"
proof -
  from assms(1) obtain zs where d: "drop n ba = xs @ zs" by (auto simp: prefix_def)
  then have "i < length (drop n ba)" using assms(2) by simp
  then have "n + i < length ba" by simp
  moreover have "ba ! (n + i) = drop n ba ! i" using \<open>n + i < length ba\<close> by simp
  ultimately show ?thesis using d assms(2) by (simp add: nth_append)
qed

lemma prefix_shift:
  "0 \<le> p \<Longrightarrow> prefix (xs @ ys) (drop (nat p) ba) \<Longrightarrow> prefix ys (drop (nat (p + int (length xs))) ba)"
proof -
  assume "0 \<le> p" "prefix (xs @ ys) (drop (nat p) ba)"
  then obtain zs where "drop (nat p) ba = xs @ ys @ zs" by (auto simp: prefix_def)
  then have "drop (length xs) (drop (nat p) ba) = ys @ zs" by simp
  with \<open>0 \<le> p\<close> show ?thesis by (simp add: prefix_def nat_add_distrib add.commute)
qed

lemma prefix_drop_length:
  "prefix xs (drop n ba) \<Longrightarrow> length xs \<le> length ba"
  by (metis prefix_length_le length_drop diff_le_self le_trans)

lemma sint_word_of_nat_u32: "n < 2 ^ 31 \<Longrightarrow> sint (word_of_nat n :: u32) = int n"
  by (simp add: signed_of_nat signed_take_bit_int_eq_self)

lemma uint_word_of_nat_u32 [simp]: "n < 2 ^ 32 \<Longrightarrow> uint (word_of_nat n :: u32) = int n"
  by (simp add: unsigned_of_nat take_bit_nat_eq_self)

lemma prefix_shift_nat:
  "prefix (xs @ ys) (drop n ba) \<Longrightarrow> prefix ys (drop (n + length xs) ba)"
proof -
  assume "prefix (xs @ ys) (drop n ba)"
  then obtain zs where "drop n ba = xs @ ys @ zs" by (auto simp: prefix_def)
  then have "drop (length xs) (drop n ba) = ys @ zs" by simp
  then show ?thesis by (simp add: prefix_def add.commute)
qed

lemma take_drop_prefix:
  "prefix (xs @ rest) (drop n ba) \<Longrightarrow> take (length xs) (drop n ba) = xs"
  by (auto simp: prefix_def)

lemma length_concat_member: "x \<in> set xs \<Longrightarrow> length (f x) \<le> length (concat (map f xs))"
  by (induction xs) auto

lemma concat_replicate_pair: "concat (replicate n [a, a]) = replicate (2 * n) a"
  by (induction n) simp_all

lemma replicate_update: "i < n \<Longrightarrow> (replicate n x)[i := y] = replicate i x @ y # replicate (n - Suc i) x"
  by (induction n arbitrary: i) (auto simp: nth_Cons split: nat.splits)

end
