(* ===== verification/QM_Format.thy ===== *)
theory QM_Format
  imports QM_Base
begin

text \<open>
  The wire-format constants of qm.cpp (magic number, record tags, prefix levels,
  block tags) and the ELF hash \<open>elfHash\<close> that keys the hash index and the context
  table.  The lemmas show that the hash is never 0, that its top nibble is always
  clear (so it is below \<open>2^28\<close>), and that it reads its argument only up to the first
  NUL byte.
\<close>

unbundle bit_operations_syntax

subsection \<open>Constants of the format\<close>

text \<open>qm.cpp lines 21--25: the 16-byte magic number that opens every file.\<close>

definition MagicLength :: nat where
  "MagicLength = 16"

definition magic :: "byte list" where
  "magic = [0x3c, 0xb8, 0x64, 0x18, 0xca, 0xef, 0x9c, 0x95,
            0xcd, 0x21, 0x1c, 0xbf, 0x60, 0xa1, 0xbd, 0xdd]"

text \<open>qm.cpp lines 30--40: the tags of the fields of a message record.\<close>

datatype tag = Tag_End | Tag_SourceText16 | Tag_Translation | Tag_Context16 | Tag_Obsolete1
  | Tag_SourceText | Tag_Context | Tag_Comment | Tag_Obsolete2

fun tag_code :: "tag \<Rightarrow> byte" where
  "tag_code Tag_End = 1"
| "tag_code Tag_SourceText16 = 2"
| "tag_code Tag_Translation = 3"
| "tag_code Tag_Context16 = 4"
| "tag_code Tag_Obsolete1 = 5"
| "tag_code Tag_SourceText = 6"
| "tag_code Tag_Context = 7"
| "tag_code Tag_Comment = 8"
| "tag_code Tag_Obsolete2 = 9"

text \<open>
  qm.cpp lines 42--48: how much of the key a record shares with a neighbour.  The
  code computes with the enum's integer values (\<open>qMax(cpPrev, cpNext + 1)\<close> can be 5,
  outside the enum), so \<open>prefix_rank\<close> gives those values.
\<close>

datatype prefix = NoPrefix | Hash | HashContext | HashContextSourceText | HashContextSourceTextComment

fun prefix_rank :: "prefix \<Rightarrow> nat" where
  "prefix_rank NoPrefix = 0"
| "prefix_rank Hash = 1"
| "prefix_rank HashContext = 2"
| "prefix_rank HashContextSourceText = 3"
| "prefix_rank HashContextSourceTextComment = 4"

text \<open>qm.cpp line 129 (writer) and line 445 (reader): the top-level block tags.\<close>

datatype block = Contexts | Hashes | Messages | NumerusRules | Dependencies | Language

fun block_code :: "block \<Rightarrow> byte" where
  "block_code Contexts = 0x2f"
| "block_code Hashes = 0x42"
| "block_code Messages = 0x69"
| "block_code NumerusRules = 0x88"
| "block_code Dependencies = 0x96"
| "block_code Language = 0xa7"

text \<open>
  The messages \<open>loadQM\<close> and \<open>saveQM\<close> append to \<open>ConversionData\<close> (lines 441, 530,
  601, 681--700), one constructor per message text, with its counts.
\<close>

datatype diag = Diag_MagicMissing | Diag_FormatError | Diag_InvalidUtf8
  | Diag_DroppedNoId nat | Diag_ExcessDropped nat | Diag_Generated nat nat nat
  | Diag_IgnoredUntranslated nat

subsection \<open>The ELF hash\<close>

text \<open>
  qm.cpp lines 52--69.  One iteration of the loop on a byte \<open>c\<close>:
  \<open>h = (h << 4) + c; g = h & 0xf0000000; if (g) h ^= g >> 24; h &= ~g\<close>, on a
  32-bit \<open>uint\<close>.  The loop runs while \<open>*k\<close> is not 0, so it stops at the first NUL
  byte (a \<open>QByteArray\<close>'s data is NUL-terminated); a zero result becomes 1.
\<close>

definition elf_step :: "u32 \<Rightarrow> byte \<Rightarrow> u32" where
  "elf_step h c =
     (let h1 = push_bit 4 h + ucast c;
          g = h1 AND 0xf0000000;
          h2 = (if g \<noteq> 0 then h1 XOR drop_bit 24 g else h1)
      in h2 AND NOT g)"

definition elfHash :: "qbytes \<Rightarrow> u32" where
  "elfHash ba = (let h = foldl elf_step 0 (takeWhile (\<lambda>c. c \<noteq> 0) ba) in if h = 0 then 1 else h)"

subsection \<open>Lemmas on the format constants\<close>

lemma length_magic [simp]: "length magic = MagicLength"
  by (simp add: magic_def MagicLength_def)

lemma tag_code_inj: "tag_code a = tag_code b \<longleftrightarrow> a = b"
  by (cases a; cases b) simp_all

lemma block_code_inj: "block_code a = block_code b \<longleftrightarrow> a = b"
  by (cases a; cases b) simp_all

lemma block_code_nonzero [simp]: "block_code b \<noteq> 0"
  by (cases b) simp_all

lemma prefix_rank_le: "prefix_rank p \<le> 4"
  by (cases p) simp_all

subsection \<open>Lemmas on the hash\<close>

lemma top_nibble_mask: "(0xf0000000 :: u32) = NOT (mask 28)"
  by (simp add: mask_eq_exp_minus_1)

lemma and_not_mask_zero_bit: "(x::'a::len word) AND NOT (mask n) = 0 \<Longrightarrow> bit x k \<Longrightarrow> k < n"
  by (drule arg_cong [where f = "\<lambda>y. bit y k"]) (auto simp: bit_simps dest: bit_imp_le_length)

text \<open>The step clears the top nibble: it is the low 28 bits of the folded value.\<close>

lemma elf_step_take_bit:
  "elf_step h c = take_bit 28 (push_bit 4 h + ucast c XOR drop_bit 24 (push_bit 4 h + ucast c AND 0xf0000000))"
  unfolding elf_step_def Let_def top_nibble_mask
  by (rule bit_word_eqI) (auto simp: bit_simps dest: and_not_mask_zero_bit)

lemma take_bit_28_less: "take_bit 28 (x :: u32) < 0x10000000"
  using and_mask_less_size [of 28 x] by (simp add: take_bit_eq_mask word_size)

lemma elf_step_less: "elf_step h c < 0x10000000"
  by (simp only: elf_step_take_bit take_bit_28_less)

lemma foldl_elf_step_less: "h < 0x10000000 \<Longrightarrow> foldl elf_step h cs < 0x10000000"
  by (induction cs arbitrary: h) (simp_all add: elf_step_less)

lemma takeWhile_nonzero_nul:
  "takeWhile (\<lambda>c. c \<noteq> 0) (xs @ 0 # ys) = takeWhile (\<lambda>c. c \<noteq> (0::byte)) xs"
  by (induction xs) auto

subsection \<open>Properties of the hash\<close>

text \<open>\<open>elfHash\<close> never returns 0, the value the lookup structures reserve for "no entry".\<close>

theorem elfHash_nonzero: "elfHash ba \<noteq> 0"
  by (simp add: elfHash_def Let_def)

text \<open>
  every step clears the top nibble of the 32-bit state, so the hash is below
  \<open>2^28\<close> for every input.
\<close>

theorem elfHash_less_2p28: "elfHash ba < 0x10000000"
  using foldl_elf_step_less [of 0] by (simp add: elfHash_def Let_def)

text \<open>
  the hash reads its argument only up to the first NUL byte: whatever follows a
  zero byte does not change it.  \<open>msgHash\<close> hashes source text and comment
  concatenated, so a source text with a NUL byte makes the comment irrelevant.
\<close>

theorem elfHash_stops_at_nul: "elfHash (xs @ 0 # ys) = elfHash xs"
  by (simp add: elfHash_def takeWhile_nonzero_nul)

end
