(* ===== verification/Qt_Support.thy ===== *)
theory Qt_Support
  imports QM_Base
begin

text \<open>
  The parts of the Qt library that qm.cpp calls and whose behaviour the codec
  depends on: \<open>QDataStream\<close>'s serialisation of \<open>QByteArray\<close> and \<open>QString\<close> (big
  endian, 32-bit length prefix, \<open>0xFFFFFFFF\<close> for a null string), its reading of a
  \<open>QString\<close>, and the error status of the strict UTF-8 decoder \<open>QStringDecoder\<close>.
  These are modelled from Qt's documented behaviour (Qt 6 before 6.7, whose stream
  format writes every size as a \<open>quint32\<close>), not from this repository's sources.
\<close>

subsection \<open>QDataStream output\<close>

text \<open>\<open>QDataStream << QByteArray\<close> for a non-null array: the length, then the bytes.\<close>

definition qds_bytes :: "qbytes \<Rightarrow> byte list" where
  "qds_bytes b = put_u32 (word_of_nat (length b)) @ b"

text \<open>
  \<open>QDataStream << QString\<close>: a null string is the length \<open>0xFFFFFFFF\<close> alone;
  otherwise the byte length (twice the number of UTF-16 code units) and the units,
  most significant byte first.
\<close>

fun qds_qstring :: "qstring \<Rightarrow> byte list" where
  "qds_qstring None = put_u32 0xFFFFFFFF"
| "qds_qstring (Some us) = put_u32 (word_of_nat (2 * length us)) @ concat (map put_u16 us)"

subsection \<open>QDataStream input\<close>

text \<open>
  \<open>QDataStream >> QString\<close> on the remaining input: the 32-bit byte length, then the
  units.  With fewer than 4 bytes left the length reads as 0 (the stream consumes
  what is left), giving an empty string; \<open>0xFFFFFFFF\<close> is the null string; an odd
  length marks the stream corrupt and clears the string without consuming the body;
  a body longer than the input consumes the rest and clears the string.
  Result: the string read and the input left.
\<close>

fun qds_read_qstring :: "byte list \<Rightarrow> qstring \<times> byte list" where
  "qds_read_qstring (a # b # c # d # rest) =
     (let n = be32 a b c d in
      if n = 0xFFFFFFFF then (None, rest)
      else if n = 0 then (Some [], rest)
      else if odd (unat n) then (None, rest)
      else if length rest < unat n then (None, [])
      else (Some (be16_units (take (unat n) rest)), drop (unat n) rest))"
| "qds_read_qstring _ = (Some [], [])"

subsection \<open>Strict UTF-8\<close>

text \<open>
  \<open>QStringDecoder(Utf8)\<close> reports an error (\<open>hasError()\<close>) exactly when its input is
  not well-formed UTF-8 in the sense of the Unicode standard (Table 3-7): no
  overlong forms, no surrogates, nothing above U+10FFFF, no truncated sequence.
\<close>

definition utf8_cont :: "byte \<Rightarrow> bool" where
  "utf8_cont c \<longleftrightarrow> 0x80 \<le> c \<and> c \<le> 0xBF"

fun utf8_valid :: "byte list \<Rightarrow> bool" where
  "utf8_valid [] = True"
| "utf8_valid (b # bs) =
     (if b < 0x80 then utf8_valid bs
      else if 0xC2 \<le> b \<and> b \<le> 0xDF then
        (case bs of c # r \<Rightarrow> utf8_cont c \<and> utf8_valid r | [] \<Rightarrow> False)
      else if 0xE0 \<le> b \<and> b \<le> 0xEF then
        (case bs of c # d # r \<Rightarrow>
            (if b = 0xE0 then 0xA0 \<le> c \<and> c \<le> 0xBF
             else if b = 0xED then 0x80 \<le> c \<and> c \<le> 0x9F
             else utf8_cont c) \<and> utf8_cont d \<and> utf8_valid r
         | _ \<Rightarrow> False)
      else if 0xF0 \<le> b \<and> b \<le> 0xF4 then
        (case bs of c # d # e # r \<Rightarrow>
            (if b = 0xF0 then 0x90 \<le> c \<and> c \<le> 0xBF
             else if b = 0xF4 then 0x80 \<le> c \<and> c \<le> 0x8F
             else utf8_cont c) \<and> utf8_cont d \<and> utf8_cont e \<and> utf8_valid r
         | _ \<Rightarrow> False)
      else False)"

text \<open>
  \<open>QString::fromUtf8\<close> on well-formed UTF-8: one code unit per code point below
  U+10000, a surrogate pair above.  A text field of the model is the UTF-8 image of a
  \<open>QString\<close>, so this recovers the string's code units; on ill-formed input (which the
  model never builds from a \<open>QString\<close>) a replacement character stands for the bad
  sequence.
\<close>

fun utf8_to_utf16 :: "byte list \<Rightarrow> u16 list" where
  "utf8_to_utf16 [] = []"
| "utf8_to_utf16 (b # bs) =
     (if b < 0x80 then ucast b # utf8_to_utf16 bs
      else if 0xC0 \<le> b \<and> b < 0xE0 then
        (case bs of c # r \<Rightarrow> word_of_nat (unat b mod 32 * 64 + unat c mod 64) # utf8_to_utf16 r
         | [] \<Rightarrow> [0xFFFD])
      else if 0xE0 \<le> b \<and> b < 0xF0 then
        (case bs of c # d # r \<Rightarrow>
            word_of_nat (unat b mod 16 * 4096 + unat c mod 64 * 64 + unat d mod 64) # utf8_to_utf16 r
         | _ \<Rightarrow> [0xFFFD])
      else if 0xF0 \<le> b \<and> b < 0xF8 then
        (case bs of c # d # e # r \<Rightarrow>
            (let v = unat b mod 8 * 262144 + unat c mod 64 * 4096 + unat d mod 64 * 64 + unat e mod 64 - 0x10000
             in word_of_nat (0xD800 + v div 1024) # word_of_nat (0xDC00 + v mod 1024) # utf8_to_utf16 r)
         | _ \<Rightarrow> [0xFFFD])
      else 0xFFFD # utf8_to_utf16 bs)"

subsection \<open>Ordered maps\<close>

text \<open>
  \<open>QMap::insert\<close> on a map ordered by the key's \<open>operator<\<close>, modelled as the sorted list
  of its entries.  Qt 6's \<open>QMap\<close> is a \<open>std::map\<close> and \<open>insert\<close> is its
  \<open>insert_or_assign\<close>: when an equivalent key is present the stored key is kept and only
  the value is assigned.  The values the codec stores are constants, so an entry is its key.
\<close>

fun qmap_insert :: "('a \<Rightarrow> 'k::linorder) \<Rightarrow> 'a \<Rightarrow> 'a list \<Rightarrow> 'a list" where
  "qmap_insert key x [] = [x]"
| "qmap_insert key x (y # ys) =
     (if key x < key y then x # y # ys
      else if key y < key x then y # qmap_insert key x ys
      else y # ys)"

text \<open>
  \<open>QMultiMap::insert\<close>: the new entry goes before every entry with an equal key (Qt
  inserts at the \<open>lower_bound\<close> of the key, so equal keys come newest first).
\<close>

fun qmultimap_insert :: "'k::linorder \<Rightarrow> 'v \<Rightarrow> ('k \<times> 'v) list \<Rightarrow> ('k \<times> 'v) list" where
  "qmultimap_insert k v [] = [(k, v)]"
| "qmultimap_insert k v ((k', v') # rest) =
     (if k \<le> k' then (k, v) # (k', v') # rest else (k', v') # qmultimap_insert k v rest)"

subsection \<open>Lemmas\<close>

lemma length_qds_bytes [simp]: "length (qds_bytes b) = 4 + length b"
  by (simp add: qds_bytes_def)

lemma length_qds_qstring_Some [simp]: "length (qds_qstring (Some us)) = 4 + 2 * length us"
  by simp

lemma length_qds_qstring_None [simp]: "length (qds_qstring None) = 4"
  by simp

lemma qds_read_qstring_shorter:
  "bs \<noteq> [] \<Longrightarrow> length (snd (qds_read_qstring bs)) < length bs"
  by (cases bs rule: qds_read_qstring.cases) (auto simp: Let_def)

text \<open>Reading back what \<open>QDataStream << QString\<close> wrote, for strings whose byte length fits the 32-bit field.\<close>

lemma qds_read_qstring_qds [codec_simps]:
  assumes "case s of None \<Rightarrow> True | Some us \<Rightarrow> 2 * length us < 2 ^ 32 - 1"
  shows "qds_read_qstring (qds_qstring s @ rest) = (s, rest)"
proof (cases s)
  case None
  then show ?thesis
    using be32_put_u32 [of "0xFFFFFFFF"] by (simp add: put_u32_def)
next
  case (Some us)
  let ?n = "word_of_nat (2 * length us) :: u32"
  from Some assms have small: "2 * length us < 2 ^ 32 - 1" by simp
  then have un: "unat ?n = 2 * length us"
    by (simp del: of_nat_mult)
  have ne: "?n \<noteq> 0xFFFFFFFF"
  proof
    assume "?n = 0xFFFFFFFF"
    then have "unat ?n = 4294967295" by simp
    with un small show False by simp
  qed
  have rd: "be32 (put_u32 ?n ! 0) (put_u32 ?n ! 1) (put_u32 ?n ! 2) (put_u32 ?n ! 3) = ?n"
    by (rule be32_put_u32)
  show ?thesis
  proof (cases "us = []")
    case True
    with Some show ?thesis
      using be32_put_u32 [of 0] by (simp add: put_u32_def)
  next
    case False
    then have "?n \<noteq> 0"
      using un by (metis mult_is_0 length_0_conv unsigned_0 zero_neq_numeral)
    with Some ne un rd show ?thesis
      by (simp add: put_u32_def Let_def be16_units_concat)
  qed
qed

subsubsection \<open>Ordered maps\<close>

lemma set_qmap_insert: "set (qmap_insert key x xs) \<subseteq> insert x (set xs)"
  by (induction xs) auto

lemma keys_qmap_insert [simp]: "key ` set (qmap_insert key x xs) = insert (key x) (key ` set xs)"
  by (induction xs) (auto simp: not_less_iff_gr_or_eq)

lemma sorted_qmap_insert:
  "sorted_wrt (\<lambda>a b. key a < key b) xs \<Longrightarrow> sorted_wrt (\<lambda>a b. key a < key b) (qmap_insert key x xs)"
proof (induction xs)
  case Nil
  then show ?case by simp
next
  case (Cons y ys)
  have "key y < key z" if "key y < key x" "z \<in> set (qmap_insert key x ys)" for z
  proof -
    have "key z \<in> insert (key x) (key ` set ys)"
      using that(2) keys_qmap_insert [of key x ys] by blast
    with that(1) Cons.prems show ?thesis by auto
  qed
  with Cons show ?case by auto
qed

lemma qmap_insert_absent:
  "key x \<notin> key ` set xs \<Longrightarrow> mset (qmap_insert key x xs) = add_mset x (mset xs)"
  by (induction xs) auto

lemma qmap_insert_present:
  "sorted_wrt (\<lambda>a b. key a < key b) xs \<Longrightarrow> key x \<in> key ` set xs \<Longrightarrow> qmap_insert key x xs = xs"
  by (induction xs) (auto simp: not_less_iff_gr_or_eq)

lemma mset_qmultimap_insert [simp]: "mset (qmultimap_insert k v xs) = add_mset (k, v) (mset xs)"
  by (induction xs) auto

lemma set_qmultimap_insert [simp]: "set (qmultimap_insert k v xs) = insert (k, v) (set xs)"
  by (induction xs) (auto split: if_splits)

lemma sorted_qmultimap_insert:
  "sorted (map fst xs) \<Longrightarrow> sorted (map fst (qmultimap_insert k v xs))"
proof (induction xs)
  case Nil
  then show ?case by simp
next
  case (Cons p xs)
  obtain a b where p: "p = (a, b)" by (cases p)
  show ?case
  proof (cases "k \<le> a")
    case True
    with Cons.prems p show ?thesis
      using order_trans by fastforce
  next
    case False
    with Cons p show ?thesis by auto
  qed
qed

end
