(* ===== verification/Translator_Model.thy ===== *)
theory Translator_Model
  imports QM_Base
begin

text \<open>
  The collaborators of the codec that live in linguist/shared outside qm.cpp
  (translator.h, translatormessage.h): the message record \<open>TranslatorMessage\<close>, the
  catalogue \<open>Translator\<close>, the conversion options \<open>ConversionData\<close>, and the save
  modes.  Only the fields the codec reads or writes are modelled.  The text fields
  of a message (context, source text, comment, id, language) are represented by
  their UTF-8 encoding, the image of \<open>QString::toUtf8\<close>, since the codec only ever
  converts them to and from UTF-8; translations stay UTF-16 strings, as the codec
  stores them.
\<close>

datatype msg_type = Unfinished | Finished | Vanished | Obsolete

record tmsg =
  tm_context :: qbytes
  tm_source :: qbytes
  tm_comment :: qbytes
  tm_id :: qbytes
  tm_translations :: "qstring list"
  tm_type :: msg_type
  tm_plural :: bool

text \<open>A default-constructed \<open>TranslatorMessage\<close>: unfinished, not plural, empty fields.\<close>

definition empty_tmsg :: tmsg where
  "empty_tmsg = \<lparr>tm_context = [], tm_source = [], tm_comment = [], tm_id = [],
     tm_translations = [], tm_type = Unfinished, tm_plural = False\<rparr>"

text \<open>\<open>TranslatorMessage::translation()\<close>: the first translation, or a null string.\<close>

definition tm_translation :: "tmsg \<Rightarrow> qstring" where
  "tm_translation m = (case tm_translations m of [] \<Rightarrow> None | t # _ \<Rightarrow> t)"

text \<open>\<open>QString::isEmpty\<close>: the null string is empty too.\<close>

definition qstring_empty :: "qstring \<Rightarrow> bool" where
  "qstring_empty s \<longleftrightarrow> (case s of None \<Rightarrow> True | Some us \<Rightarrow> us = [])"

record translator =
  tr_language :: qbytes
  tr_dependencies :: "qstring list"
  tr_messages :: "tmsg list"

text \<open>A default-constructed \<open>Translator\<close>: no language, no dependencies, no messages.\<close>

definition empty_translator :: translator where
  "empty_translator = \<lparr>tr_language = [], tr_dependencies = [], tr_messages = []\<rparr>"

text \<open>\<open>Translator::append\<close> adds a message at the end.\<close>

definition tr_append :: "tmsg \<Rightarrow> translator \<Rightarrow> translator" where
  "tr_append m tr = tr\<lparr>tr_messages := tr_messages tr @ [m]\<rparr>"

datatype save_mode = SaveEverything | SaveStripped

record conversion_data =
  cd_idBased :: bool
  cd_unTrPrefix :: "u16 list"
  cd_saveMode :: save_mode
  cd_ignoreUnfinished :: bool
  cd_verbose :: bool

end
