(* ===== verification/QM_Releaser.thy ===== *)
theory QM_Releaser
  imports QM_Format Qt_Support Translator_Model
begin

text \<open>
  The writer of qm.cpp: the class \<open>ByteTranslatorMessage\<close> and its order, and the
  class \<open>Releaser\<close> with its state (the message map and the byte arrays that
  \<open>squeeze\<close> builds) and its operations \<open>insert\<close>, \<open>insertIdBased\<close>,
  \<open>setNumerusRules\<close>, \<open>setDependencies\<close>, \<open>squeeze\<close> (with \<open>commonPrefix\<close>,
  \<open>msgHash\<close>, \<open>writeMessage\<close> and the context hash table) and \<open>save\<close>.
  Each operation takes the releaser state and returns the new one.
\<close>

unbundle bit_operations_syntax

subsection \<open>Messages and their order\<close>

text \<open>qm.cpp lines 71--95: \<open>ByteTranslatorMessage\<close>.\<close>

record bmsg =
  bm_context :: qbytes
  bm_source :: qbytes
  bm_comment :: qbytes
  bm_translations :: "qstring list"

text \<open>
  qm.cpp lines 99--106: \<open>operator<\<close> compares context, then source text, then comment,
  each as a \<open>QByteArray\<close> (unsigned bytes, lexicographically, a prefix first).  The
  key triple with the lexicographic orders of List_Lexorder and Product_Lexorder is
  exactly that comparison; translations take no part in it.
\<close>

definition bkey :: "bmsg \<Rightarrow> qbytes \<times> qbytes \<times> qbytes" where
  "bkey m = (bm_context m, bm_source m, bm_comment m)"

definition bmsg_less :: "bmsg \<Rightarrow> bmsg \<Rightarrow> bool" where
  "bmsg_less m1 m2 \<longleftrightarrow> bkey m1 < bkey m2"

subsection \<open>The releaser state\<close>

text \<open>qm.cpp lines 108--166: the members of \<open>Releaser\<close>; \<open>m_messages\<close> is the QMap, as its sorted keys.\<close>

record releaser =
  rl_language :: qbytes
  rl_messageArray :: "byte list"
  rl_offsetArray :: "byte list"
  rl_contextArray :: "byte list"
  rl_messages :: "bmsg list"
  rl_numerusRules :: "byte list"
  rl_dependencies :: "qstring list"
  rl_dependencyArray :: "byte list"

text \<open>qm.cpp line 131: the constructor.\<close>

definition new_releaser :: "qbytes \<Rightarrow> releaser" where
  "new_releaser lang = \<lparr>rl_language = lang, rl_messageArray = [], rl_offsetArray = [],
     rl_contextArray = [], rl_messages = [], rl_numerusRules = [], rl_dependencies = [],
     rl_dependencyArray = []\<rparr>"

text \<open>
  qm.cpp lines 168--176: \<open>originalBytes\<close> is the UTF-8 encoding of the string, and
  \<open>QByteArray("")\<close> (never a null array) for the empty string.  A text field of the
  model is its UTF-8 encoding already, so this is the identity on the representation.
\<close>

definition originalBytes :: "qbytes \<Rightarrow> qbytes" where
  "originalBytes s = s"

text \<open>qm.cpp lines 178--181.\<close>

definition msgHash :: "bmsg \<Rightarrow> u32" where
  "msgHash m = elfHash (bm_source m @ bm_comment m)"

text \<open>qm.cpp lines 183--194.\<close>

definition commonPrefix :: "bmsg \<Rightarrow> bmsg \<Rightarrow> prefix" where
  "commonPrefix m1 m2 =
     (if msgHash m1 \<noteq> msgHash m2 then NoPrefix
      else if bm_context m1 \<noteq> bm_context m2 then Hash
      else if bm_source m1 \<noteq> bm_source m2 then HashContext
      else if bm_comment m1 \<noteq> bm_comment m2 then HashContextSourceText
      else HashContextSourceTextComment)"

text \<open>
  qm.cpp lines 196--220: one message record.  All translations first, then, by the
  prefix level (forced to the top level in \<open>SaveEverything\<close> mode), the comment, the
  source text and the context, falling through the \<open>switch\<close>; the levels 0, 1 and 5
  reach the \<open>default\<close> branch and write all three.
\<close>

definition field_bytes :: "tag \<Rightarrow> qbytes \<Rightarrow> byte list" where
  "field_bytes t b = tag_code t # qds_bytes b"

definition translation_bytes :: "qstring \<Rightarrow> byte list" where
  "translation_bytes s = tag_code Tag_Translation # qds_qstring s"

definition writeMessage :: "bmsg \<Rightarrow> save_mode \<Rightarrow> nat \<Rightarrow> byte list" where
  "writeMessage msg mode prefix' =
     (let p = (if mode = SaveEverything then prefix_rank HashContextSourceTextComment else prefix');
          ctx = field_bytes Tag_Context (bm_context msg);
          src = field_bytes Tag_SourceText (bm_source msg);
          cmt = field_bytes Tag_Comment (bm_comment msg)
      in concat (map translation_bytes (bm_translations msg))
         @ (if p = prefix_rank HashContext then ctx
            else if p = prefix_rank HashContextSourceText then src @ ctx
            else cmt @ src @ ctx)
         @ [tag_code Tag_End])"

subsection \<open>Building the arrays: squeeze\<close>

text \<open>
  qm.cpp lines 283--293: the message loop.  \<open>cpPrev\<close> is the common prefix with the
  previous message (the last iteration's \<open>cpNext\<close>); each record is written at the
  current end of the message array, whose position goes into the offset map
  (\<open>QMap<Offset, void*>\<close>, ordered by hash, then offset).
\<close>

definition next_prefix :: "bmsg \<Rightarrow> bmsg list \<Rightarrow> nat" where
  "next_prefix m rest = (case rest of [] \<Rightarrow> 0 | n # _ \<Rightarrow> prefix_rank (commonPrefix m n))"

fun write_messages ::
  "save_mode \<Rightarrow> nat \<Rightarrow> bmsg list \<Rightarrow> byte list \<Rightarrow> (u32 \<times> u32) list \<Rightarrow> byte list \<times> (u32 \<times> u32) list" where
  "write_messages mode cpPrev [] arr offs = (arr, offs)"
| "write_messages mode cpPrev (m # rest) arr offs =
     (let cpNext = next_prefix m rest;
          offs' = qmap_insert id (msgHash m, word_of_nat (length arr)) offs
      in write_messages mode cpNext rest (arr @ writeMessage m mode (max cpPrev (cpNext + 1))) offs')"

text \<open>qm.cpp lines 295--301: the offset array, \<open>(hash, offset)\<close> pairs in the map's order.\<close>

definition offset_array :: "(u32 \<times> u32) list \<Rightarrow> byte list" where
  "offset_array offs = concat (map (\<lambda>(h, off). put_u32 h @ put_u32 off) offs)"

text \<open>
  qm.cpp lines 304--314: the distinct contexts (\<open>QMap<QByteArray, int>\<close>, its keys in
  order) and the table size from their number, assigned to a \<open>quint16\<close>.
\<close>

definition context_set :: "bmsg list \<Rightarrow> qbytes list" where
  "context_set ms = foldl (\<lambda>s m. qmap_insert id (bm_context m) s) [] ms"

definition hTableSize :: "nat \<Rightarrow> u16" where
  "hTableSize n =
     (if n < 200 then (if n < 60 then 151 else 503)
      else if n < 2500 then (if n < 750 then 1511 else 5003)
      else (if n < 10000 then 15013 else word_of_nat (3 * n div 2)))"

text \<open>
  qm.cpp lines 316--318: the contexts by bucket (\<open>QMultiMap<int, QByteArray>\<close>).  The
  bucket is \<open>elfHash(c) % hTableSize\<close>; a table size of 0 is a division by zero.
\<close>

definition context_buckets :: "u16 \<Rightarrow> qbytes list \<Rightarrow> ub + (nat \<times> qbytes) list" where
  "context_buckets hsz cs =
     (if hsz = 0 \<and> cs \<noteq> [] then Inl DivisionByZero
      else Inr (foldl (\<lambda>mm c. qmultimap_insert (unat (elfHash c) mod unat hsz) c mm) [] cs))"

text \<open>
  qm.cpp lines 353--372: the context pool.  A context is a Pascal string of at most 255
  bytes; the inner do-while loop writes the contexts of one bucket; the outer loop
  records the bucket's start (\<open>upto >> 1\<close> as a \<open>quint16\<close>) in the table and pads the
  pool to an even length with an empty string.
\<close>

definition pool_entry :: "qbytes \<Rightarrow> byte list" where
  "pool_entry c = (let len = min (length c) 255 in word_of_nat len # take len c)"

fun write_bucket :: "nat \<Rightarrow> (nat \<times> qbytes) list \<Rightarrow> byte list \<times> (nat \<times> qbytes) list" where
  "write_bucket i [] = ([], [])"
| "write_bucket i ((k, c) # rest) =
     (if k = i then (let (bs, rest') = write_bucket i rest in (pool_entry c @ bs, rest'))
      else ([], (k, c) # rest))"

lemma write_bucket_shorter: "length (snd (write_bucket i xs)) \<le> length xs"
  by (induction i xs rule: write_bucket.induct) (auto split: prod.splits)

function write_pool :: "(nat \<times> qbytes) list \<Rightarrow> nat \<Rightarrow> u16 list \<Rightarrow> byte list \<times> nat \<times> u16 list" where
  "write_pool [] pos tbl = ([], pos, tbl)"
| "write_pool ((i, c) # rest) pos tbl =
     (let (bs, rest') = write_bucket i rest;
          ents = pool_entry c @ bs;
          pos1 = pos + length ents;
          pad = (if odd pos1 then [0] else []);
          (bs', pos', tbl') = write_pool rest' (pos1 + length pad) (tbl[i := word_of_nat (pos div 2)])
      in (ents @ pad @ bs', pos', tbl'))"
  by pat_completeness auto
termination
  by (relation "measure (\<lambda>(xs, _, _). length xs)")
     (auto, metis le_imp_less_Suc snd_conv write_bucket_shorter)

text \<open>
  qm.cpp lines 342--381: the context array, \<open>hTableSize\<close>, the table, two zero bytes
  (pool offset 0 is unusable) and the pool; dropped when the pool passes 131072 bytes.
\<close>

definition context_array :: "bmsg list \<Rightarrow> ub + byte list" where
  "context_array ms =
     (let cs = context_set ms; hsz = hTableSize (length cs)
      in case context_buckets hsz cs of
           Inl e \<Rightarrow> Inl e
         | Inr hm \<Rightarrow>
             (let (pool, pos, tbl) = write_pool hm 2 (replicate (unat hsz) 0)
              in Inr (if 131072 < pos then []
                      else put_u16 hsz @ concat (map put_u16 tbl) @ [0, 0] @ pool)))"

text \<open>
  qm.cpp lines 262--383: \<open>squeeze\<close>.  The dependency array is always rebuilt; with no
  messages in \<open>SaveEverything\<close> mode nothing else changes; otherwise the arrays are
  rebuilt from the messages, the message map is cleared, and in \<open>SaveStripped\<close> mode
  the context array is built (in \<open>SaveEverything\<close> mode it is cleared).
\<close>

definition releaser_squeeze :: "save_mode \<Rightarrow> releaser \<Rightarrow> ub + releaser" where
  "releaser_squeeze mode rl =
     (let rl1 = rl\<lparr>rl_dependencyArray := concat (map qds_qstring (rl_dependencies rl))\<rparr>
      in if rl_messages rl1 = [] \<and> mode = SaveEverything then Inr rl1
         else
           (let msgs = rl_messages rl1;
                (marr, offs) = write_messages mode 0 msgs [] [];
                rl2 = rl1\<lparr>rl_messageArray := marr, rl_offsetArray := offset_array offs,
                          rl_contextArray := [], rl_messages := []\<rparr>
            in if mode = SaveStripped then
                 (case context_array msgs of
                    Inl e \<Rightarrow> Inl e
                  | Inr carr \<Rightarrow> Inr (rl2\<lparr>rl_contextArray := carr\<rparr>))
               else Inr rl2))"

subsection \<open>Saving\<close>

text \<open>qm.cpp lines 228--258: one block, written only when its data is not empty.\<close>

definition write_block :: "block \<Rightarrow> byte list \<Rightarrow> byte list" where
  "write_block b data =
     (if data = [] then [] else block_code b # put_u32 (word_of_nat (length data)) @ data)"

text \<open>qm.cpp lines 223--260: \<open>save\<close> writes the magic number and the blocks; it always returns true.\<close>

definition releaser_save :: "releaser \<Rightarrow> byte list" where
  "releaser_save rl =
     magic
     @ write_block Language (originalBytes (rl_language rl))
     @ write_block Dependencies (rl_dependencyArray rl)
     @ write_block Hashes (rl_offsetArray rl)
     @ write_block Messages (rl_messageArray rl)
     @ write_block Contexts (rl_contextArray rl)
     @ write_block NumerusRules (rl_numerusRules rl)"

subsection \<open>Inserting messages\<close>

text \<open>
  qm.cpp lines 385--400: \<open>insert\<close>.  Unless the comment is forced, the message goes in
  under an empty comment when no message already holds that (context, source text,
  "") key; otherwise it goes in with its comment.
\<close>

definition msg_contains :: "bmsg list \<Rightarrow> bmsg \<Rightarrow> bool" where
  "msg_contains ms m \<longleftrightarrow> (\<exists>x\<in>set ms. bkey x = bkey m)"

definition releaser_insert :: "tmsg \<Rightarrow> qstring list \<Rightarrow> bool \<Rightarrow> releaser \<Rightarrow> releaser" where
  "releaser_insert message tlns forceComment rl =
     (let bmsg = \<lparr>bm_context = originalBytes (tm_context message),
                  bm_source = originalBytes (tm_source message),
                  bm_comment = originalBytes (tm_comment message),
                  bm_translations = tlns\<rparr>;
          bmsg2 = bmsg\<lparr>bm_comment := []\<rparr>
      in if \<not> forceComment \<and> \<not> msg_contains (rl_messages rl) bmsg2
         then rl\<lparr>rl_messages := qmap_insert bkey bmsg2 (rl_messages rl)\<rparr>
         else rl\<lparr>rl_messages := qmap_insert bkey bmsg (rl_messages rl)\<rparr>)"

text \<open>qm.cpp lines 402--406: \<open>insertIdBased\<close> keys the message by its id alone.\<close>

definition releaser_insertIdBased :: "tmsg \<Rightarrow> qstring list \<Rightarrow> releaser \<Rightarrow> releaser" where
  "releaser_insertIdBased message tlns rl =
     rl\<lparr>rl_messages := qmap_insert bkey
         \<lparr>bm_context = [], bm_source = originalBytes (tm_id message), bm_comment = [],
          bm_translations = tlns\<rparr> (rl_messages rl)\<rparr>"

text \<open>qm.cpp lines 408--416.\<close>

definition releaser_setNumerusRules :: "byte list \<Rightarrow> releaser \<Rightarrow> releaser" where
  "releaser_setNumerusRules rules rl = rl\<lparr>rl_numerusRules := rules\<rparr>"

definition releaser_setDependencies :: "qstring list \<Rightarrow> releaser \<Rightarrow> releaser" where
  "releaser_setDependencies deps rl = rl\<lparr>rl_dependencies := deps\<rparr>"

end
