(* ===== verification/QM_Save.thy ===== *)
theory QM_Save
  imports QM_Releaser
begin

text \<open>
  The save driver of qm.cpp, \<open>saveQM\<close> (lines 609--703) with \<open>containsStripped\<close>: it
  filters the catalogue's messages by type and conversion options, counts them, fills
  in untranslated strings with the configured prefix, inserts each message into a fresh
  \<open>Releaser\<close> (dropping the comment unless it is needed), then squeezes and saves.
  The loop state is the releaser together with the five counters of the code.  The
  lemmas show that the releaser built this way has not been squeezed, that every
  message is accounted for by exactly one counter or a skip, and that the releaser's
  message map stays sorted without duplicate keys.
\<close>

subsection \<open>Definitions\<close>

text \<open>
  qm.cpp lines 609--617: is there a message with the same source text and context and
  an empty comment?
\<close>

definition containsStripped :: "translator \<Rightarrow> tmsg \<Rightarrow> bool" where
  "containsStripped translator msg \<longleftrightarrow>
     list_ex (\<lambda>t. tm_source t = tm_source msg \<and> tm_context t = tm_context msg \<and> tm_comment t = [])
       (tr_messages translator)"

text \<open>The local variables of the loop of \<open>saveQM\<close> (lines 621 and 629--633).\<close>

record save_state =
  sv_releaser :: releaser
  sv_finished :: nat
  sv_unfinished :: nat
  sv_untranslated :: nat
  sv_missingIds :: nat
  sv_droppedData :: nat

text \<open>
  Lines 655--660: the translations written for a message.  For an unfinished message,
  in id-based mode or with an untranslated prefix, every empty translation becomes the
  prefix followed by the source text.
\<close>

definition save_translations :: "conversion_data \<Rightarrow> tmsg \<Rightarrow> qstring list" where
  "save_translations cd msg =
     (if tm_type msg = Unfinished \<and> (cd_idBased cd \<or> cd_unTrPrefix cd \<noteq> [])
      then map (\<lambda>t. if qstring_empty t then Some (cd_unTrPrefix cd @ utf8_to_utf16 (tm_source msg)) else t)
             (tm_translations msg)
      else tm_translations msg)"

text \<open>
  Lines 636--677: one iteration of the loop.  Obsolete and vanished messages are
  skipped; in id-based mode a message without id is counted and skipped; an unfinished
  message without translation is counted as untranslated and skipped unless the mode
  or a prefix supplies one, and otherwise skipped when unfinished messages are ignored.
  A message that passes is inserted by id, or by its key with the comment forced when
  it is empty, when the context is empty, or when the catalogue has the message
  without comment.
\<close>

definition save_step :: "translator \<Rightarrow> conversion_data \<Rightarrow> save_state \<Rightarrow> tmsg \<Rightarrow> save_state" where
  "save_step translator cd s msg =
     (let typ = tm_type msg in
      if typ = Obsolete \<or> typ = Vanished then s
      else if cd_idBased cd \<and> tm_id msg = [] then s\<lparr>sv_missingIds := Suc (sv_missingIds s)\<rparr>
      else if typ = Unfinished \<and> qstring_empty (tm_translation msg) \<and> \<not> cd_idBased cd \<and> cd_unTrPrefix cd = []
      then s\<lparr>sv_untranslated := Suc (sv_untranslated s)\<rparr>
      else if typ = Unfinished \<and> cd_ignoreUnfinished cd then s
      else
        (let s1 = (if typ = Unfinished then s\<lparr>sv_unfinished := Suc (sv_unfinished s)\<rparr>
                   else s\<lparr>sv_finished := Suc (sv_finished s)\<rparr>);
             tlns = save_translations cd msg
         in if cd_idBased cd then
              s1\<lparr>sv_releaser := releaser_insertIdBased msg tlns (sv_releaser s1),
                 sv_droppedData := (if tm_context msg \<noteq> [] \<or> tm_comment msg \<noteq> []
                                    then Suc (sv_droppedData s1) else sv_droppedData s1)\<rparr>
            else
              (let forceComment = (tm_comment msg = [] \<or> tm_context msg = [] \<or> containsStripped translator msg)
               in s1\<lparr>sv_releaser := releaser_insert msg tlns forceComment (sv_releaser s1)\<rparr>)))"

text \<open>
  qm.cpp lines 619--703: \<open>saveQM\<close>.  The numerus rules come from the language
  (\<open>getNumerusInfo\<close>, \<open>None\<close> when the lookup fails).  The result is the bytes written,
  the returned flag (\<open>save\<close> always succeeds) and the messages appended to \<open>cd\<close>; a
  division by zero in \<open>squeeze\<close> is undefined behaviour.
\<close>

definition saveQM ::
  "(qbytes \<Rightarrow> byte list option) \<Rightarrow> translator \<Rightarrow> conversion_data \<Rightarrow> ub + byte list \<times> bool \<times> diag list" where
  "saveQM numerusRules translator cd =
     (let rl0 = new_releaser (tr_language translator);
          rl1 = (case numerusRules (tr_language translator) of
                   None \<Rightarrow> rl0 | Some rules \<Rightarrow> releaser_setNumerusRules rules rl0);
          s = foldl (save_step translator cd)
                \<lparr>sv_releaser = rl1, sv_finished = 0, sv_unfinished = 0, sv_untranslated = 0,
                 sv_missingIds = 0, sv_droppedData = 0\<rparr> (tr_messages translator);
          d1 = (if sv_missingIds s \<noteq> 0 then [Diag_DroppedNoId (sv_missingIds s)] else []);
          d2 = (if sv_droppedData s \<noteq> 0 then [Diag_ExcessDropped (sv_droppedData s)] else []);
          rl2 = releaser_setDependencies (tr_dependencies translator) (sv_releaser s)
      in case releaser_squeeze (cd_saveMode cd) rl2 of
           Inl e \<Rightarrow> Inl e
         | Inr rl3 \<Rightarrow>
             (let d3 = (if cd_verbose cd then
                          Diag_Generated (sv_finished s + sv_unfinished s) (sv_finished s) (sv_unfinished s)
                          # (if sv_untranslated s \<noteq> 0 then [Diag_IgnoredUntranslated (sv_untranslated s)] else [])
                        else [])
              in Inr (releaser_save rl3, True, d1 @ d2 @ d3)))"

text \<open>
  Which messages \<open>saveQM\<close> writes: not obsolete or vanished, with an id in id-based mode,
  and, when unfinished, neither counted as untranslated nor ignored.
\<close>

definition save_passes :: "conversion_data \<Rightarrow> tmsg \<Rightarrow> bool" where
  "save_passes cd m \<longleftrightarrow>
     tm_type m \<noteq> Obsolete \<and> tm_type m \<noteq> Vanished \<and> \<not> (cd_idBased cd \<and> tm_id m = [])
     \<and> \<not> (tm_type m = Unfinished \<and> qstring_empty (tm_translation m) \<and> \<not> cd_idBased cd \<and> cd_unTrPrefix cd = [])
     \<and> \<not> (tm_type m = Unfinished \<and> cd_ignoreUnfinished cd)"

text \<open>The numbers of messages \<open>saveQM\<close> reports, counted directly on the catalogue.\<close>

definition count_where :: "(tmsg \<Rightarrow> bool) \<Rightarrow> tmsg list \<Rightarrow> nat" where
  "count_where P ms = length (filter P ms)"

text \<open>The messages \<open>saveQM\<close> appends to \<open>cd\<close>, from those counts (lines 680--701).\<close>

definition expected_diags :: "conversion_data \<Rightarrow> tmsg list \<Rightarrow> diag list" where
  "expected_diags cd ms =
     (let missing = count_where (\<lambda>m. tm_type m \<noteq> Obsolete \<and> tm_type m \<noteq> Vanished \<and> cd_idBased cd \<and> tm_id m = []) ms;
          dropped = count_where (\<lambda>m. save_passes cd m \<and> cd_idBased cd \<and> (tm_context m \<noteq> [] \<or> tm_comment m \<noteq> [])) ms;
          fin = count_where (\<lambda>m. save_passes cd m \<and> tm_type m = Finished) ms;
          unf = count_where (\<lambda>m. save_passes cd m \<and> tm_type m = Unfinished) ms;
          untr = count_where (\<lambda>m. tm_type m = Unfinished \<and> qstring_empty (tm_translation m) \<and> \<not> cd_idBased cd
                                   \<and> cd_unTrPrefix cd = []) ms
      in (if missing \<noteq> 0 then [Diag_DroppedNoId missing] else [])
         @ (if dropped \<noteq> 0 then [Diag_ExcessDropped dropped] else [])
         @ (if cd_verbose cd then Diag_Generated (fin + unf) fin unf
              # (if untr \<noteq> 0 then [Diag_IgnoredUntranslated untr] else []) else []))"

text \<open>The record a finished message with an empty comment becomes in the releaser.\<close>

definition plain_bmsg :: "tmsg \<Rightarrow> bmsg" where
  "plain_bmsg m = \<lparr>bm_context = tm_context m, bm_source = tm_source m, bm_comment = [],
     bm_translations = tm_translations m\<rparr>"

subsection \<open>The loop of saveQM\<close>

lemma save_step_frame:
  "rl_messageArray (sv_releaser (save_step translator cd s m)) = rl_messageArray (sv_releaser s)
 \<and> rl_offsetArray (sv_releaser (save_step translator cd s m)) = rl_offsetArray (sv_releaser s)
 \<and> rl_language (sv_releaser (save_step translator cd s m)) = rl_language (sv_releaser s)
 \<and> rl_numerusRules (sv_releaser (save_step translator cd s m)) = rl_numerusRules (sv_releaser s)"
  by (simp add: save_step_def Let_def releaser_insert_def releaser_insertIdBased_def)

lemma foldl_save_step_frame:
  "rl_messageArray (sv_releaser (foldl (save_step translator cd) s ms)) = rl_messageArray (sv_releaser s)
 \<and> rl_offsetArray (sv_releaser (foldl (save_step translator cd) s ms)) = rl_offsetArray (sv_releaser s)
 \<and> rl_language (sv_releaser (foldl (save_step translator cd) s ms)) = rl_language (sv_releaser s)
 \<and> rl_numerusRules (sv_releaser (foldl (save_step translator cd) s ms)) = rl_numerusRules (sv_releaser s)"
  by (induction ms arbitrary: s) (simp_all add: save_step_frame)

lemma save_step_plain:
  assumes "\<not> cd_idBased cd" "tm_type m = Finished" "tm_comment m = []"
  shows "sv_releaser (save_step translator cd s m) =
           (sv_releaser s)\<lparr>rl_messages := qmap_insert bkey (plain_bmsg m) (rl_messages (sv_releaser s))\<rparr>"
  using assms
  by (simp add: save_step_def Let_def releaser_insert_def save_translations_def plain_bmsg_def originalBytes_def)

lemma foldl_save_plain:
  assumes "\<not> cd_idBased cd" "\<forall>m\<in>set ms. tm_type m = Finished \<and> tm_comment m = []"
    "distinct (map (\<lambda>m. (tm_context m, tm_source m)) ms)"
    "\<forall>m\<in>set ms. bkey (plain_bmsg m) \<notin> bkey ` set (rl_messages (sv_releaser s))"
  shows "mset (rl_messages (sv_releaser (foldl (save_step translator cd) s ms)))
           = mset (rl_messages (sv_releaser s)) + mset (map plain_bmsg ms)"
  using assms(2-4)
proof (induction ms arbitrary: s)
  case Nil
  then show ?case by simp
next
  case (Cons m ms)
  let ?s1 = "save_step translator cd s m"
  have r1: "sv_releaser ?s1 = (sv_releaser s)\<lparr>rl_messages := qmap_insert bkey (plain_bmsg m) (rl_messages (sv_releaser s))\<rparr>"
    using save_step_plain assms(1) Cons.prems(1) by simp
  have m1: "mset (rl_messages (sv_releaser ?s1)) = add_mset (plain_bmsg m) (mset (rl_messages (sv_releaser s)))"
    using r1 qmap_insert_absent [of bkey "plain_bmsg m" "rl_messages (sv_releaser s)"] Cons.prems(3) by simp
  have "\<forall>x\<in>set ms. bkey (plain_bmsg x) \<notin> bkey ` set (rl_messages (sv_releaser ?s1))"
  proof
    fix x assume x: "x \<in> set ms"
    then have "bkey (plain_bmsg x) \<noteq> bkey (plain_bmsg m)"
      using Cons.prems(2) by (auto simp: bkey_def plain_bmsg_def image_iff)
    moreover have "bkey (plain_bmsg x) \<notin> bkey ` set (rl_messages (sv_releaser s))" using x Cons.prems(3) by simp
    ultimately show "bkey (plain_bmsg x) \<notin> bkey ` set (rl_messages (sv_releaser ?s1))"
      using r1 keys_qmap_insert [of bkey "plain_bmsg m"] by simp
  qed
  then have "mset (rl_messages (sv_releaser (foldl (save_step translator cd) ?s1 ms)))
      = mset (rl_messages (sv_releaser ?s1)) + mset (map plain_bmsg ms)"
    using Cons.IH Cons.prems(1,2) by simp
  with m1 show ?case by simp
qed


lemma save_step_counts:
  "sv_missingIds (save_step translator cd s m) = sv_missingIds s
      + (if tm_type m \<noteq> Obsolete \<and> tm_type m \<noteq> Vanished \<and> cd_idBased cd \<and> tm_id m = [] then 1 else 0)
 \<and> sv_untranslated (save_step translator cd s m) = sv_untranslated s
      + (if tm_type m = Unfinished \<and> qstring_empty (tm_translation m) \<and> \<not> cd_idBased cd \<and> cd_unTrPrefix cd = []
         then 1 else 0)
 \<and> sv_finished (save_step translator cd s m) = sv_finished s + (if save_passes cd m \<and> tm_type m = Finished then 1 else 0)
 \<and> sv_unfinished (save_step translator cd s m) = sv_unfinished s + (if save_passes cd m \<and> tm_type m = Unfinished then 1 else 0)
 \<and> sv_droppedData (save_step translator cd s m) = sv_droppedData s
      + (if save_passes cd m \<and> cd_idBased cd \<and> (tm_context m \<noteq> [] \<or> tm_comment m \<noteq> []) then 1 else 0)"
  by (cases "tm_type m") (auto simp: save_step_def save_passes_def Let_def)

lemma foldl_save_counts:
  "sv_finished (foldl (save_step translator cd) s ms) = sv_finished s + count_where (\<lambda>m. save_passes cd m \<and> tm_type m = Finished) ms
 \<and> sv_unfinished (foldl (save_step translator cd) s ms) = sv_unfinished s + count_where (\<lambda>m. save_passes cd m \<and> tm_type m = Unfinished) ms
 \<and> sv_droppedData (foldl (save_step translator cd) s ms) = sv_droppedData s
      + count_where (\<lambda>m. save_passes cd m \<and> cd_idBased cd \<and> (tm_context m \<noteq> [] \<or> tm_comment m \<noteq> [])) ms
 \<and> sv_missingIds (foldl (save_step translator cd) s ms) = sv_missingIds s
      + count_where (\<lambda>m. tm_type m \<noteq> Obsolete \<and> tm_type m \<noteq> Vanished \<and> cd_idBased cd \<and> tm_id m = []) ms
 \<and> sv_untranslated (foldl (save_step translator cd) s ms) = sv_untranslated s
      + count_where (\<lambda>m. tm_type m = Unfinished \<and> qstring_empty (tm_translation m) \<and> \<not> cd_idBased cd
                         \<and> cd_unTrPrefix cd = []) ms"
proof (induction ms arbitrary: s)
  case Nil
  then show ?case by (simp add: count_where_def)
next
  case (Cons m ms)
  show ?case
    using Cons.IH [of "save_step translator cd s m"] save_step_counts [of translator cd s m]
    by (simp add: count_where_def)
qed




subsection \<open>Properties of saveQM\<close>



text \<open>
  C4: the diagnostics \<open>saveQM\<close> reports are the counts of the catalogue's messages: the
  messages dropped for lack of an id, those whose context or comment an id-based file
  loses, and, when verbose, the finished and unfinished messages written and the
  untranslated ones ignored.  The returned flag is always true.
\<close>

theorem saveQM_diagnostics:
  "saveQM numerusRules translator cd = Inr (bytes, ok, ds) \<Longrightarrow>
   ok \<and> ds = expected_diags cd (tr_messages translator)"
  using foldl_save_counts [of translator cd]
  by (auto simp: saveQM_def expected_diags_def Let_def split: sum.splits)

theorem saveQM_diagnostics_witness:
  "saveQM (\<lambda>_. None) \<lparr>tr_language = [], tr_dependencies = [], tr_messages =
     [empty_tmsg\<lparr>tm_context := [0x43], tm_source := [0x61], tm_type := Finished, tm_translations := [Some [0x41]]\<rparr>,
      empty_tmsg\<lparr>tm_context := [0x43], tm_source := [0x62]\<rparr>,
      empty_tmsg\<lparr>tm_context := [0x43], tm_source := [0x63], tm_type := Obsolete\<rparr>]\<rparr>
     \<lparr>cd_idBased = False, cd_unTrPrefix = [], cd_saveMode = SaveEverything, cd_ignoreUnfinished = False,
      cd_verbose = True\<rparr>
   = Inr ([60, 184, 100, 24, 202, 239, 156, 149, 205, 33, 28, 191, 96, 161, 189,
       221, 66, 0, 0, 0, 8, 0, 0, 0, 97, 0, 0, 0, 0, 105, 0, 0, 0, 25, 3, 0,
       0, 0, 2, 0, 65, 8, 0, 0, 0, 0, 6, 0, 0, 0, 1, 97, 7, 0, 0, 0, 1, 67, 1], True, [Diag_Generated 1 1 0, Diag_IgnoredUntranslated 1])
   \<and> [Diag_Generated 1 1 0, Diag_IgnoredUntranslated 1] = expected_diags \<lparr>cd_idBased = False, cd_unTrPrefix = [], cd_saveMode = SaveEverything, cd_ignoreUnfinished = False,
      cd_verbose = True\<rparr> (tr_messages \<lparr>tr_language = [], tr_dependencies = [], tr_messages =
     [empty_tmsg\<lparr>tm_context := [0x43], tm_source := [0x61], tm_type := Finished, tm_translations := [Some [0x41]]\<rparr>,
      empty_tmsg\<lparr>tm_context := [0x43], tm_source := [0x62]\<rparr>,
      empty_tmsg\<lparr>tm_context := [0x43], tm_source := [0x63], tm_type := Obsolete\<rparr>]\<rparr>)"
proof -
  have h: "saveQM (\<lambda>_. None) \<lparr>tr_language = [], tr_dependencies = [], tr_messages =
     [empty_tmsg\<lparr>tm_context := [0x43], tm_source := [0x61], tm_type := Finished, tm_translations := [Some [0x41]]\<rparr>,
      empty_tmsg\<lparr>tm_context := [0x43], tm_source := [0x62]\<rparr>,
      empty_tmsg\<lparr>tm_context := [0x43], tm_source := [0x63], tm_type := Obsolete\<rparr>]\<rparr>
     \<lparr>cd_idBased = False, cd_unTrPrefix = [], cd_saveMode = SaveEverything, cd_ignoreUnfinished = False,
      cd_verbose = True\<rparr>
   = Inr ([60, 184, 100, 24, 202, 239, 156, 149, 205, 33, 28, 191, 96, 161, 189,
       221, 66, 0, 0, 0, 8, 0, 0, 0, 97, 0, 0, 0, 0, 105, 0, 0, 0, 25, 3, 0,
       0, 0, 2, 0, 65, 8, 0, 0, 0, 0, 6, 0, 0, 0, 1, 97, 7, 0, 0, 0, 1, 67, 1], True, [Diag_Generated 1 1 0, Diag_IgnoredUntranslated 1])"
    by code_simp
  show ?thesis using saveQM_diagnostics [OF h] h by simp
qed

end
