(* ===== verification/QM_Reader.thy ===== *)
theory QM_Reader
  imports QM_Format Qt_Support Translator_Model "HOL-Library.Sublist"
begin

text \<open>
  The reader of qm.cpp, \<open>loadQM\<close> (lines 418--605): the byte and word reads, the scan
  of the top-level blocks, the decoding of one message record (a loop over its tagged
  fields that carries context, source text and comment over from the previous record),
  and the loop over the hash index.  Memory is the file's byte array with its NUL
  terminator; a read anywhere else is undefined behaviour (\<open>OutOfBounds\<close>).  The field
  loop can move backwards (a negative translation length) and need not end, so it is
  a \<open>partial_function\<close> in the option monad: \<open>None\<close> is a loop that never returns.
\<close>

unbundle bit_operations_syntax

subsection \<open>Reading memory\<close>

text \<open>
  qm.cpp lines 418--426.  \<open>QByteArray::data()\<close> has a NUL byte after its last byte, so
  the index \<open>size()\<close> reads 0; every other index outside the array is undefined.
\<close>

definition read8 :: "byte list \<Rightarrow> int \<Rightarrow> ub + byte" where
  "read8 ba p =
     (if 0 \<le> p \<and> p < int (length ba) then Inr (ba ! nat p)
      else if p = int (length ba) then Inr 0
      else Inl (OutOfBounds p))"

definition read32 :: "byte list \<Rightarrow> int \<Rightarrow> ub + u32" where
  "read32 ba p =
     (case read8 ba p of Inl e \<Rightarrow> Inl e | Inr a \<Rightarrow>
      case read8 ba (p + 1) of Inl e \<Rightarrow> Inl e | Inr b \<Rightarrow>
      case read8 ba (p + 2) of Inl e \<Rightarrow> Inl e | Inr c \<Rightarrow>
      case read8 ba (p + 3) of Inl e \<Rightarrow> Inl e | Inr d \<Rightarrow> Inr (be32 a b c d))"

text \<open>\<open>n\<close> consecutive bytes from \<open>p\<close> (a view of them; nothing is read when \<open>n = 0\<close>).\<close>

definition read_bytes :: "byte list \<Rightarrow> int \<Rightarrow> nat \<Rightarrow> ub + byte list" where
  "read_bytes ba p n =
     (if n = 0 then Inr []
      else if p < 0 then Inl (OutOfBounds p)
      else if int (length ba) + 1 < p + int n then Inl (OutOfBounds (int (length ba) + 1))
      else Inr (take n (drop (nat p) (ba @ [0]))))"

text \<open>
  qm.cpp lines 428--433: \<open>fromBytes\<close> decodes \<open>len\<close> bytes as UTF-8 and sets the flag
  to the decoder's error state.  The \<open>quint32\<close> length becomes an \<open>int\<close>; a negative
  one is undefined.  The decoded string is represented by its UTF-8 bytes.
\<close>

definition fromBytes :: "byte list \<Rightarrow> int \<Rightarrow> u32 \<Rightarrow> ub + qbytes \<times> bool" where
  "fromBytes ba p len =
     (if sint len < 0 then Inl NegativeLength
      else case read_bytes ba p (unat len) of
             Inl e \<Rightarrow> Inl e
           | Inr bs \<Rightarrow> Inr (bs, \<not> utf8_valid bs))"

text \<open>
  qm.cpp line 535: \<open>QString((const QChar *)m, len / 2)\<close> followed by the byte swap of
  lines 536--540: the units are big endian.  A negative size makes \<open>QString\<close> read
  up to the first NUL code unit.
\<close>

function read_units_nul :: "byte list \<Rightarrow> int \<Rightarrow> ub + u16 list" where
  "read_units_nul ba p =
     (case read8 ba p of Inl e \<Rightarrow> Inl e | Inr a \<Rightarrow>
      case read8 ba (p + 1) of Inl e \<Rightarrow> Inl e | Inr b \<Rightarrow>
        if be16 a b = 0 then Inr []
        else (case read_units_nul ba (p + 2) of Inl e \<Rightarrow> Inl e | Inr us \<Rightarrow> Inr (be16 a b # us)))"
  by pat_completeness auto
termination
  by (relation "measure (\<lambda>(ba, p). nat (int (length ba) + 2 - p))")
     (auto simp: read8_def split: if_splits)

definition read_translation :: "byte list \<Rightarrow> int \<Rightarrow> int \<Rightarrow> ub + qstring" where
  "read_translation ba p len =
     (if len = -1 then Inr None
      else if 0 \<le> len then
        (case read_bytes ba p (2 * (nat len div 2)) of Inl e \<Rightarrow> Inl e | Inr bs \<Rightarrow> Inr (Some (be16_units bs)))
      else (case read_units_nul ba p of Inl e \<Rightarrow> Inl e | Inr us \<Rightarrow> Inr (Some us)))"

subsection \<open>Decoding one message record\<close>

text \<open>
  The variables of \<open>loadQM\<close> that the field loop reads and writes (lines 453 and
  508--509): context, source text and comment live across records, the translations
  are cleared after each record, the UTF-8 failure flag is global.
\<close>

record rstate =
  rs_context :: qbytes
  rs_source :: qbytes
  rs_comment :: qbytes
  rs_translations :: "qstring list"
  rs_utf8Fail :: bool

datatype fields_result = Fields_End rstate | Fields_FormatError

text \<open>
  qm.cpp lines 548--575: a text field (source text, context, comment): a 32-bit length,
  then that many bytes decoded by \<open>fromBytes\<close>; \<open>m\<close> moves past them.  The result is
  the decoded text, the decoder's error flag and the next position.
\<close>

definition read_text :: "byte list \<Rightarrow> int \<Rightarrow> ub + qbytes \<times> bool \<times> int" where
  "read_text ba p =
     (case read32 ba p of Inl e \<Rightarrow> Inl e | Inr len \<Rightarrow>
      case fromBytes ba (p + 4) len of Inl e \<Rightarrow> Inl e | Inr (s, fail) \<Rightarrow> Inr (s, fail, p + 4 + uint len))"

text \<open>
  qm.cpp lines 517--580: the field loop of one record, from position \<open>m\<close>.  A
  translation's length is read as a signed \<open>int\<close>: -1 is the null string, another odd
  length is a format error, and \<open>m\<close> moves by the length whatever its sign (for -1 it
  steps back onto the last length byte, read next as an unknown tag).  An unknown tag
  is skipped alone.
\<close>

partial_function (option) read_fields :: "byte list \<Rightarrow> int \<Rightarrow> rstate \<Rightarrow> (ub + fields_result) option" where
  "read_fields ba m st =
     (case read8 ba m of
        Inl e \<Rightarrow> Some (Inl e)
      | Inr tag \<Rightarrow>
          if tag = tag_code Tag_End then Some (Inr (Fields_End st))
          else if tag = tag_code Tag_Translation then
            (case read32 ba (m + 1) of
               Inl e \<Rightarrow> Some (Inl e)
             | Inr w \<Rightarrow>
                 (if sint w \<noteq> -1 \<and> odd (sint w) then Some (Inr Fields_FormatError)
                  else (case read_translation ba (m + 5) (sint w) of
                          Inl e \<Rightarrow> Some (Inl e)
                        | Inr str \<Rightarrow> read_fields ba (m + 5 + sint w)
                                        (st\<lparr>rs_translations := rs_translations st @ [str]\<rparr>))))
          else if tag = tag_code Tag_Obsolete1 then read_fields ba (m + 5) st
          else if tag = tag_code Tag_SourceText then
            (case read_text ba (m + 1) of
               Inl e \<Rightarrow> Some (Inl e)
             | Inr (s, fail, m') \<Rightarrow> read_fields ba m' (st\<lparr>rs_source := s, rs_utf8Fail := fail\<rparr>))
          else if tag = tag_code Tag_Context then
            (case read_text ba (m + 1) of
               Inl e \<Rightarrow> Some (Inl e)
             | Inr (s, fail, m') \<Rightarrow> read_fields ba m' (st\<lparr>rs_context := s, rs_utf8Fail := fail\<rparr>))
          else if tag = tag_code Tag_Comment then
            (case read_text ba (m + 1) of
               Inl e \<Rightarrow> Some (Inl e)
             | Inr (s, fail, m') \<Rightarrow> read_fields ba m' (st\<lparr>rs_comment := s, rs_utf8Fail := fail\<rparr>))
          else read_fields ba (m + 1) st)"

declare read_fields.simps [code]

text \<open>
  qm.cpp lines 582--598: the message built from a decoded record.  It is plural when it
  has more than one translation or, when plurals are guessed, when its source text
  contains \<open>%n\<close>.
\<close>

definition decoded_msg :: "bool \<Rightarrow> rstate \<Rightarrow> tmsg" where
  "decoded_msg guessPlurals st =
     empty_tmsg\<lparr>tm_type := Finished,
       tm_plural := (1 < length (rs_translations st)
                     \<or> (guessPlurals \<and> sublist [0x25, 0x6E] (rs_source st))),
       tm_translations := rs_translations st,
       tm_context := rs_context st, tm_source := rs_source st, tm_comment := rs_comment st\<rparr>"

subsection \<open>The loop over the hash index\<close>

datatype loop_result = Loop_Done rstate translator | Loop_FormatError translator

text \<open>
  qm.cpp lines 511--599: for each (hash, offset) pair, in file order, the record at
  \<open>messageArray + offset\<close> is decoded and appended to the translator.  Without a
  Messages block \<open>messageArray\<close> is null and the access is undefined.
\<close>

fun read_messages ::
  "byte list \<Rightarrow> int option \<Rightarrow> int \<Rightarrow> nat \<Rightarrow> bool \<Rightarrow> rstate \<Rightarrow> translator \<Rightarrow> (ub + loop_result) option" where
  "read_messages ba marr start 0 guess st tr = Some (Inr (Loop_Done st tr))"
| "read_messages ba marr start (Suc n) guess st tr =
     (case read32 ba (start + 4) of
        Inl e \<Rightarrow> Some (Inl e)
      | Inr ro \<Rightarrow>
          (case marr of
             None \<Rightarrow> Some (Inl (OutOfBounds (uint ro)))
           | Some base \<Rightarrow>
               (case read_fields ba (base + uint ro) st of
                  None \<Rightarrow> None
                | Some (Inl e) \<Rightarrow> Some (Inl e)
                | Some (Inr Fields_FormatError) \<Rightarrow> Some (Inr (Loop_FormatError tr))
                | Some (Inr (Fields_End st')) \<Rightarrow>
                    read_messages ba marr (start + 8) n guess (st'\<lparr>rs_translations := []\<rparr>)
                      (tr_append (decoded_msg guess st') tr))))"

subsection \<open>The block scan\<close>

text \<open>
  qm.cpp lines 477--485: the Dependencies block is read as \<open>QString\<close>s until the
  stream is at its end.
\<close>

function read_dependencies :: "byte list \<Rightarrow> qstring list" where
  "read_dependencies bs =
     (if bs = [] then [] else (case qds_read_qstring bs of (s, rest) \<Rightarrow> s # read_dependencies rest))"
  by pat_completeness auto
termination
  by (relation "measure length") (auto dest: qds_read_qstring_shorter [THEN less_le_trans] simp: prod_eq_iff)

declare read_dependencies.simps [simp del]

record scan =
  sc_offsetArray :: "int option"
  sc_offsetLength :: nat
  sc_messageArray :: "int option"
  sc_ok :: bool
  sc_utf8Fail :: bool
  sc_tr :: translator

text \<open>
  qm.cpp lines 470--490: one block of \<open>blockLen\<close> bytes at \<open>p\<close>.  Hashes and Messages
  are located, Dependencies and Language decoded (the last occurrence wins), any other
  tag is skipped.
\<close>

definition scan_block :: "byte \<Rightarrow> nat \<Rightarrow> nat \<Rightarrow> byte list \<Rightarrow> scan \<Rightarrow> scan" where
  "scan_block tag p blockLen blk sc =
     (if tag = block_code Hashes then sc\<lparr>sc_offsetArray := Some (int p), sc_offsetLength := blockLen\<rparr>
      else if tag = block_code Messages then sc\<lparr>sc_messageArray := Some (int p)\<rparr>
      else if tag = block_code Dependencies then
        sc\<lparr>sc_tr := (sc_tr sc)\<lparr>tr_dependencies := read_dependencies blk\<rparr>\<rparr>
      else if tag = block_code Language then
        sc\<lparr>sc_utf8Fail := \<not> utf8_valid blk, sc_tr := (sc_tr sc)\<lparr>tr_language := blk\<rparr>\<rparr>
      else sc)"

text \<open>
  qm.cpp lines 458--493: the top-level scan, while at least five bytes remain before
  \<open>end\<close>.  A zero tag or length stops it; a block running past \<open>end\<close> clears
  \<open>ok\<close> and stops it.
\<close>

function scan_blocks :: "byte list \<Rightarrow> nat \<Rightarrow> nat \<Rightarrow> scan \<Rightarrow> scan" where
  "scan_blocks ba endp data sc =
     (if data + 4 < endp then
        (let tag = ba ! data;
             blockLen = be32 (ba ! (data + 1)) (ba ! (data + 2)) (ba ! (data + 3)) (ba ! (data + 4));
             p = data + 5
         in if tag = 0 \<or> blockLen = 0 then sc
            else if endp < p + unat blockLen then sc\<lparr>sc_ok := False\<rparr>
            else scan_blocks ba endp (p + unat blockLen)
                   (scan_block tag p (unat blockLen) (take (unat blockLen) (drop p ba)) sc))
      else sc)"
  by pat_completeness auto
termination
  by (relation "measure (\<lambda>(ba, endp, data, sc). endp - data)") auto

declare scan_blocks.simps [simp del]

subsection \<open>loadQM\<close>

text \<open>
  qm.cpp lines 435--605.  The size is taken as an \<open>int\<close>.  The plural guess depends
  on the number of plural forms of the catalogue's language, \<open>numerus\<close> (the
  \<open>getNumerusInfo\<close> lookup, \<open>None\<close> when it fails).  The result is undefined
  behaviour, a loop that never returns (\<open>None\<close>), or the returned flag with the
  translator and the errors appended to \<open>cd\<close>.
\<close>

definition init_rstate :: "bool \<Rightarrow> rstate" where
  "init_rstate fail = \<lparr>rs_context = [], rs_source = [], rs_comment = [], rs_translations = [],
     rs_utf8Fail = fail\<rparr>"

definition loadQM ::
  "(qbytes \<Rightarrow> nat option) \<Rightarrow> byte list \<Rightarrow> translator \<Rightarrow> (ub + bool \<times> translator \<times> diag list) option" where
  "loadQM numerus ba tr =
     (let len = sint (word_of_nat (length ba) :: u32)
      in if len < int MagicLength \<or> take MagicLength ba \<noteq> magic
         then Some (Inr (False, tr, [Diag_MagicMissing]))
         else
           (let sc = scan_blocks ba (nat len) MagicLength
                       \<lparr>sc_offsetArray = None, sc_offsetLength = 0, sc_messageArray = None,
                        sc_ok = True, sc_utf8Fail = False, sc_tr = tr\<rparr>;
                numItems = sc_offsetLength sc div 8;
                guess = (case numerus (tr_language (sc_tr sc)) of None \<Rightarrow> True | Some n \<Rightarrow> n = 1);
                start = (case sc_offsetArray sc of None \<Rightarrow> 0 | Some q \<Rightarrow> q)
            in case read_messages ba (sc_messageArray sc) start numItems guess
                      (init_rstate (sc_utf8Fail sc)) (sc_tr sc) of
                 None \<Rightarrow> None
               | Some (Inl e) \<Rightarrow> Some (Inl e)
               | Some (Inr (Loop_FormatError tr')) \<Rightarrow> Some (Inr (False, tr', [Diag_FormatError]))
               | Some (Inr (Loop_Done st tr')) \<Rightarrow>
                   (if rs_utf8Fail st then Some (Inr (False, tr', [Diag_InvalidUtf8]))
                    else Some (Inr (sc_ok sc, tr', [])))))"

end
