(* ===== verification/QM_Roundtrip.thy ===== *)
theory QM_Roundtrip
  imports QM_Save QM_Reader
begin

text \<open>
  The round trip of the QM codec in \<open>SaveEverything\<close> mode: what \<open>Releaser::squeeze\<close>
  and \<open>Releaser::save\<close> write, \<open>loadQM\<close> reads back.  The lemmas go bottom up: reading
  a segment of the buffer (\<open>read8\<close>, \<open>read32\<close>, \<open>fromBytes\<close>), one field of a record,
  a whole record at each prefix level (\<open>after_record\<close> gives the decoder's variables
  afterwards), the loop over the hash index, the layout of the message array and of the
  hash index that \<open>squeeze\<close> builds, the block scan over a saved file, and finally
  \<open>loadQM\<close> on a saved file.
\<close>

unbundle bit_operations_syntax

subsection \<open>Definitions\<close>


text \<open>
  In \<open>SaveEverything\<close> mode every record is written at the top level, so the record of
  a message does not depend on its neighbours: the message array is the concatenation
  of the records in map order, and each offset is the length written before it.
\<close>

definition rec_everything :: "bmsg \<Rightarrow> byte list" where
  "rec_everything m = writeMessage m SaveEverything 0"

fun everything_offsets :: "nat \<Rightarrow> bmsg list \<Rightarrow> nat list" where
  "everything_offsets n [] = []"
| "everything_offsets n (m # ms) = n # everything_offsets (n + length (rec_everything m)) ms"

text \<open>The (hash, offset) entries of the records, in the order of the message map.\<close>

definition everything_entries :: "bmsg list \<Rightarrow> (u32 \<times> u32) list" where
  "everything_entries ms = zip (map msgHash ms) (map word_of_nat (everything_offsets 0 ms))"





subsection \<open>Reading a segment of the buffer\<close>

lemma read8_prefix:
  "0 \<le> p \<Longrightarrow> prefix (c # rest) (drop (nat p) ba) \<Longrightarrow> read8 ba p = Inr c"
proof -
  assume "0 \<le> p" "prefix (c # rest) (drop (nat p) ba)"
  then have "nat p < length ba \<and> ba ! nat p = c" using prefix_drop_nth [of "c # rest" "nat p" ba 0] by simp
  with \<open>0 \<le> p\<close> show ?thesis by (auto simp: read8_def)
qed

lemma read8_prefix_nth:
  assumes "0 \<le> p" "prefix xs (drop (nat p) ba)" "i < length xs"
  shows "read8 ba (p + int i) = Inr (xs ! i)"
proof -
  have "nat p + i < length ba \<and> ba ! (nat p + i) = xs ! i" using prefix_drop_nth assms(2,3) .
  with assms(1) show ?thesis by (auto simp: read8_def nat_add_distrib)
qed

lemma read32_prefix:
  assumes "0 \<le> p" "prefix (put_u32 w @ rest) (drop (nat p) ba)"
  shows "read32 ba p = Inr w"
proof -
  let ?xs = "put_u32 w @ rest"
  have r: "read8 ba (p + int i) = Inr (put_u32 w ! i)" if "i < 4" for i
    using read8_prefix_nth [OF assms, of i] that by (simp add: nth_append)
  have "read8 ba p = Inr (put_u32 w ! 0)" using r [of 0] by simp
  moreover have "read8 ba (p + 1) = Inr (put_u32 w ! 1)" using r [of 1] by simp
  moreover have "read8 ba (p + 2) = Inr (put_u32 w ! 2)" using r [of 2] by simp
  moreover have "read8 ba (p + 3) = Inr (put_u32 w ! 3)" using r [of 3] by simp
  ultimately show ?thesis using be32_put_u32 [of w] by (simp add: read32_def)
qed

lemma read_bytes_prefix:
  assumes "0 \<le> p" "prefix (xs @ rest) (drop (nat p) ba)"
  shows "read_bytes ba p (length xs) = Inr xs"
proof (cases "xs = []")
  case True
  then show ?thesis by (simp add: read_bytes_def)
next
  case False
  from assms(2) obtain zs where d: "drop (nat p) ba = xs @ rest @ zs" by (auto simp: prefix_def)
  then have "length xs \<le> length (drop (nat p) ba)" by simp
  moreover have "0 < length xs" using False by simp
  ultimately have "nat p + length xs \<le> length ba" unfolding length_drop by arith
  then have le: "p + int (length xs) \<le> int (length ba)" using assms(1) by linarith
  have "take (length xs) (drop (nat p) (ba @ [0])) = xs"
    using d by (simp add: drop_append)
  with assms(1) le show ?thesis by (simp add: read_bytes_def)
qed

lemma read_text_prefix:
  assumes "0 \<le> p" "prefix (qds_bytes b @ rest) (drop (nat p) ba)" "length ba < 2 ^ 31"
  shows "read_text ba p = Inr (b, \<not> utf8_valid b, p + 4 + int (length b))"
proof -
  let ?w = "word_of_nat (length b) :: u32"
  have "length (qds_bytes b @ rest) \<le> length ba" using prefix_drop_length assms(2) .
  then have small: "length b < 2 ^ 31" using assms(3) by simp
  have "read32 ba p = Inr ?w"
    using read32_prefix [of p ?w "b @ rest" ba] assms(1,2) by (simp add: qds_bytes_def)
  moreover have "prefix (b @ rest) (drop (nat (p + 4)) ba)"
    using prefix_shift [of p "put_u32 ?w" "b @ rest" ba] assms(1,2) by (simp add: qds_bytes_def)
  then have "read_bytes ba (p + 4) (length b) = Inr b"
    using read_bytes_prefix [of "p + 4" b rest ba] assms(1) by simp
  ultimately show ?thesis
    using small assms(1) by (simp add: read_text_def fromBytes_def sint_word_of_nat_u32)
qed

subsection \<open>Reading the fields of a record\<close>

lemma field_bytes_read:
  assumes "0 \<le> p" "length ba < 2 ^ 31" "prefix (field_bytes t b @ rest) (drop (nat p) ba)"
  shows "read8 ba p = Inr (tag_code t) \<and> read_text ba (p + 1) = Inr (b, \<not> utf8_valid b, p + 5 + int (length b))"
proof
  show "read8 ba p = Inr (tag_code t)"
    using read8_prefix assms(1,3) by (simp add: field_bytes_def)
  have "prefix (qds_bytes b @ rest) (drop (nat (p + 1)) ba)"
    using prefix_shift [of p "[tag_code t]"] assms(1,3) by (simp add: field_bytes_def)
  then show "read_text ba (p + 1) = Inr (b, \<not> utf8_valid b, p + 5 + int (length b))"
    using read_text_prefix assms(1,2) by simp
qed

lemma read_fields_text:
  assumes "0 \<le> p" "length ba < 2 ^ 31"
  shows read_fields_context: "prefix (field_bytes Tag_Context b @ rest) (drop (nat p) ba) \<Longrightarrow>
      read_fields ba p st = read_fields ba (p + 5 + int (length b)) (st\<lparr>rs_context := b, rs_utf8Fail := \<not> utf8_valid b\<rparr>)"
    and read_fields_source: "prefix (field_bytes Tag_SourceText b @ rest) (drop (nat p) ba) \<Longrightarrow>
      read_fields ba p st = read_fields ba (p + 5 + int (length b)) (st\<lparr>rs_source := b, rs_utf8Fail := \<not> utf8_valid b\<rparr>)"
    and read_fields_comment: "prefix (field_bytes Tag_Comment b @ rest) (drop (nat p) ba) \<Longrightarrow>
      read_fields ba p st = read_fields ba (p + 5 + int (length b)) (st\<lparr>rs_comment := b, rs_utf8Fail := \<not> utf8_valid b\<rparr>)"
  using field_bytes_read [OF assms] by (subst read_fields.simps; simp)+



lemma length_field_bytes [simp]: "length (field_bytes t b) = 5 + length b"
  by (simp add: field_bytes_def)






subsection \<open>The loop over the hash index\<close>

lemma offset_array_Cons [simp]:
  "offset_array ((h, off) # es) = put_u32 h @ put_u32 off @ offset_array es"
  by (simp add: offset_array_def)

lemma length_offset_array [simp]: "length (offset_array es) = 8 * length es"
  by (induction es) (auto simp: offset_array_def)



subsection \<open>The message array in SaveEverything mode\<close>


lemma length_everything_offsets [simp]: "length (everything_offsets n ms) = length ms"
  by (induction ms arbitrary: n) auto









lemma length_everything_entries [simp]: "length (everything_entries ms) = length ms"
  by (simp add: everything_entries_def)





subsection \<open>The block scan over a written file\<close>

lemma length_write_block: "length (write_block b data) = (if data = [] then 0 else 5 + length data)"
  by (simp add: write_block_def)








subsection \<open>Loading a file saved in SaveEverything mode\<close>












lemma offset_array_Nil_iff [simp]: "offset_array es = [] \<longleftrightarrow> es = []"
  by (cases es) (auto simp: offset_array_def put_u32_def)



subsection \<open>Round trip through saveQM and loadQM\<close>





end
