(* ===== verification/Qt_String.thy ===== *)
theory Qt_String
  imports QM_Base
begin

text \<open>
  The \<open>QString\<close> operations the qdoc and Linguist helpers call, on strings as lists of
  UTF-16 code units: Latin-1 literals, \<open>mid\<close>, \<open>QChar::isSpace\<close>, \<open>trimmed().isEmpty()\<close>,
  \<open>QStringList::join\<close> and \<open>QString::split\<close> on one character.  Modelled from Qt's
  documentation, not from this repository.
\<close>

text \<open>A Latin-1 literal (\<open>QLatin1String\<close>) as a \<open>QString\<close>.\<close>

definition latin1 :: "string \<Rightarrow> u16 list" where
  "latin1 s = map (\<lambda>c. of_nat (of_char c)) s"

text \<open>\<open>QString::mid(pos, n)\<close> with non-negative arguments: empty past the end, the rest
  of the string when \<open>n\<close> reaches past it.\<close>

definition qmid :: "u16 list \<Rightarrow> u32 \<Rightarrow> u32 \<Rightarrow> u16 list" where
  "qmid s p n = take (unat n) (drop (unat p) s)"

text \<open>\<open>QChar::isSpace\<close>: ASCII white space, U+0085, U+00A0 and the Unicode separators.\<close>

definition qchar_isSpace :: "u16 \<Rightarrow> bool" where
  "qchar_isSpace c = (c = 0x20 \<or> (0x09 \<le> c \<and> c \<le> 0x0D) \<or> c = 0x85 \<or> c = 0xA0 \<or> c = 0x1680
     \<or> (0x2000 \<le> c \<and> c \<le> 0x200A) \<or> c = 0x2028 \<or> c = 0x2029 \<or> c = 0x202F \<or> c = 0x205F
     \<or> c = 0x3000)"

text \<open>\<open>s.trimmed().isEmpty()\<close>: the string is white space only.\<close>

definition qtrimmed_empty :: "u16 list \<Rightarrow> bool" where
  "qtrimmed_empty s = list_all qchar_isSpace s"

text \<open>\<open>QStringList::join(QChar)\<close>.\<close>

fun qjoin :: "u16 \<Rightarrow> u16 list list \<Rightarrow> u16 list" where
  "qjoin sep [] = []"
| "qjoin sep [x] = x"
| "qjoin sep (x # y # zs) = x @ [sep] @ qjoin sep (y # zs)"

text \<open>\<open>QString::split(QChar)\<close>, keeping empty parts.\<close>

fun qsplit :: "u16 \<Rightarrow> u16 list \<Rightarrow> u16 list list" where
  "qsplit sep [] = [[]]"
| "qsplit sep (c # cs) = (if c = sep then [] # qsplit sep cs
     else (case qsplit sep cs of w # ws \<Rightarrow> (c # w) # ws | [] \<Rightarrow> [[c]]))"

end
