(* ===== verification/QML_Markup.thy ===== *)
theory QML_Markup
  imports Qt_String
begin

text \<open>
  The core of qdoc's QML/JavaScript code marker, src/src/qdoc/qmlmarkupvisitor.cpp:
  the state of a \<open>QmlMarkupVisitor\<close>, its constructor (which merges the source
  locations of comments and pragmas), \<open>protect\<close> (HTML escaping), \<open>addExtra\<close>
  (copying the text between tokens, wrapping comments), \<open>addMarkedUpToken\<close>,
  \<open>addVerbatim\<close>, \<open>sourceText\<close> and \<open>markedUpCode\<close>.  Strings are \<open>QString\<close>s, lists of
  UTF-16 code units; offsets and lengths are the \<open>quint32\<close> fields of
  \<open>QQmlJS::SourceLocation\<close>, so their arithmetic wraps.
\<close>

subsection \<open>Source locations\<close>

text \<open>\<open>QQmlJS::SourceLocation\<close>: a location is valid when it differs from the default
  one (all fields zero); \<open>end()\<close> is \<open>offset + length\<close> in \<open>quint32\<close>.\<close>

record srcloc =
  sl_offset :: u32
  sl_length :: u32
  sl_startLine :: u32
  sl_startColumn :: u32

definition no_loc :: srcloc where
  "no_loc = \<lparr>sl_offset = 0, sl_length = 0, sl_startLine = 0, sl_startColumn = 0\<rparr>"

definition sl_isValid :: "srcloc \<Rightarrow> bool" where
  "sl_isValid l = (sl_offset l \<noteq> 0 \<or> sl_length l \<noteq> 0 \<or> sl_startLine l \<noteq> 0 \<or> sl_startColumn l \<noteq> 0)"

definition sl_end :: "srcloc \<Rightarrow> u32" where
  "sl_end l = sl_offset l + sl_length l"

subsection \<open>Visitor state and constructor\<close>

datatype extra_type = Comment | Pragma

record visitor =
  m_source :: "u16 list"
  m_extraTypes :: "extra_type list"
  m_extraLocations :: "srcloc list"
  m_cursor :: u32
  m_extraIndex :: nat
  m_output :: "u16 list"
  m_hasRecursionDepthError :: bool

text \<open>The first merge loop of the constructor (lines 31--41), on the indices \<open>i\<close> into
  the comments and \<open>j\<close> into the pragmas.  As in the source, the pragma branch appends
  \<open>comments[j]\<close>; an index past the comments is undefined behaviour.\<close>

function merge_loop :: "srcloc list \<Rightarrow> srcloc list \<Rightarrow> nat \<Rightarrow> nat \<Rightarrow> extra_type list
    \<Rightarrow> srcloc list \<Rightarrow> ub + nat \<times> nat \<times> extra_type list \<times> srcloc list" where
  "merge_loop comments pragmas i j tys locs =
    (if i < length comments \<and> j < length pragmas then
       (if sl_offset (comments ! i) < sl_offset (pragmas ! j)
        then merge_loop comments pragmas (Suc i) j (tys @ [Comment]) (locs @ [comments ! i])
        else if j < length comments
        then merge_loop comments pragmas i (Suc j) (tys @ [Pragma]) (locs @ [comments ! j])
        else Inl (OutOfBounds (int j)))
     else Inr (i, j, tys, locs))"
  by pat_completeness auto
termination
  by (relation "measure (\<lambda>(c, p, i, j, _). (length c - i) + (length p - j))") auto

declare merge_loop.simps [simp del]

text \<open>The constructor: the merge loop, then the comments and pragmas left over.\<close>

definition QmlMarkupVisitor :: "u16 list \<Rightarrow> srcloc list \<Rightarrow> srcloc list \<Rightarrow> ub + visitor" where
  "QmlMarkupVisitor source pragmas comments =
    (case merge_loop comments pragmas 0 0 [] [] of
       Inl e \<Rightarrow> Inl e
     | Inr (i, j, tys, locs) \<Rightarrow> Inr
         \<lparr>m_source = source,
          m_extraTypes = tys @ replicate (length comments - i) Comment @ replicate (length pragmas - j) Pragma,
          m_extraLocations = locs @ drop i comments @ drop j pragmas,
          m_cursor = 0, m_extraIndex = 0, m_output = [], m_hasRecursionDepthError = False\<rparr>)"

subsection \<open>Escaping\<close>

definition protect_char :: "u16 \<Rightarrow> u16 list" where
  "protect_char c =
    (if c = 0x26 then latin1 ''&amp;'' else if c = 0x3C then latin1 ''&lt;''
     else if c = 0x3E then latin1 ''&gt;'' else if c = 0x22 then latin1 ''&quot;'' else [c])"

definition protect :: "u16 list \<Rightarrow> u16 list" where
  "protect s = concat (map protect_char s)"

subsection \<open>Copying the text between tokens\<close>

text \<open>Lines 116--125: skip the comments and pragmas that lie before \<open>start\<close> (a comment's
  text begins two units before its location, after the \<open>//\<close> or \<open>/*\<close>).\<close>

function skip_extras :: "u32 \<Rightarrow> visitor \<Rightarrow> visitor" where
  "skip_extras start v =
    (if m_extraIndex v < length (m_extraLocations v) then
       (let loc = m_extraLocations v ! m_extraIndex v in
        if (if m_extraTypes v ! m_extraIndex v = Comment then start \<le> sl_offset loc - 2
            else start \<le> sl_offset loc)
        then v
        else skip_extras start (v\<lparr>m_extraIndex := Suc (m_extraIndex v)\<rparr>))
     else v)"
  by pat_completeness auto
termination
  by (relation "measure (\<lambda>(_, v). length (m_extraLocations v) - m_extraIndex v)") auto

text \<open>Lines 127--150: copy the text up to each comment or pragma inside
  \<open>[i, finish)\<close>, then the comment (wrapped in \<open><@comment>\<close>) or the pragma.
  Returns the position reached and the state.\<close>

function emit_extras :: "u32 \<Rightarrow> u32 \<Rightarrow> visitor \<Rightarrow> u32 \<times> visitor" where
  "emit_extras i finish v =
    (if i < finish \<and> m_extraIndex v < length (m_extraLocations v) then
       (let loc = m_extraLocations v ! m_extraIndex v;
            j = sl_offset loc - 2;
            src = m_source v in
        if i \<le> j \<and> j < finish then
          (let out1 = m_output v @ (if i < j then protect (qmid src i (j - i)) else []);
               l = (if m_extraTypes v ! m_extraIndex v = Comment
                    then (if qmid src j 2 = latin1 ''/*'' then sl_length loc + 4 else sl_length loc + 2)
                    else sl_length loc);
               out2 = out1 @ (if m_extraTypes v ! m_extraIndex v = Comment
                              then latin1 ''<@comment>'' @ protect (qmid src j l) @ latin1 ''</@comment>''
                              else protect (qmid src j l))
           in emit_extras (j + l) finish (v\<lparr>m_output := out2, m_extraIndex := Suc (m_extraIndex v)\<rparr>))
        else (i, v))
     else (i, v))"
  by pat_completeness auto
termination
  by (relation "measure (\<lambda>(_, _, v). length (m_extraLocations v) - m_extraIndex v)") auto

declare skip_extras.simps [simp del] emit_extras.simps [simp del]

text \<open>The text left after the last comment: copied as is when it is white space,
  escaped otherwise.\<close>

definition add_rest :: "u16 list \<Rightarrow> u16 list \<Rightarrow> u16 list" where
  "add_rest out extra = out @ (if qtrimmed_empty extra then extra else protect extra)"

definition addExtra :: "u32 \<Rightarrow> u32 \<Rightarrow> visitor \<Rightarrow> visitor" where
  "addExtra start finish v =
    (if length (m_extraLocations v) \<le> m_extraIndex v then
       v\<lparr>m_output := add_rest (m_output v) (qmid (m_source v) start (finish - start)),
         m_cursor := finish\<rparr>
     else
       (let (i, v2) = emit_extras start finish (skip_extras start v) in
        v2\<lparr>m_output := add_rest (m_output v2) (qmid (m_source v2) i (finish - i)),
          m_cursor := finish\<rparr>))"

subsection \<open>Tokens\<close>

definition sourceText :: "srcloc \<Rightarrow> visitor \<Rightarrow> u16 list" where
  "sourceText loc v = qmid (m_source v) (sl_offset loc) (sl_length loc)"

text \<open>\<open>attributes[key]\<close> on a constant \<open>QHash\<close>: the value, or the empty string.\<close>

definition hash_value :: "(u16 list \<times> u16 list) list \<Rightarrow> u16 list \<Rightarrow> u16 list" where
  "hash_value attrs key = (case map_of attrs key of Some x \<Rightarrow> x | None \<Rightarrow> [])"

text \<open>Lines 161--178.  The loop over \<open>attributes\<close> binds its values (a range-for over a
  \<open>QHash\<close> yields the values), and looks each one up as a key.\<close>

definition addMarkedUpToken :: "srcloc \<Rightarrow> u16 list \<Rightarrow> (u16 list \<times> u16 list) list \<Rightarrow> visitor \<Rightarrow> visitor" where
  "addMarkedUpToken loc tagName attrs v =
    (if \<not> sl_isValid loc \<or> sl_offset loc < m_cursor v then v
     else
       (let v1 = (if m_cursor v < sl_offset loc then addExtra (m_cursor v) (sl_offset loc) v else v) in
        v1\<lparr>m_output := m_output v1 @ latin1 ''<@'' @ tagName
             @ concat (map (\<lambda>key. latin1 '' '' @ key @ [0x3D, 0x22] @ hash_value attrs key @ [0x22])
                           (map snd attrs))
             @ latin1 ''>'' @ protect (sourceText loc v1) @ latin1 ''</@'' @ tagName @ latin1 ''>'',
           m_cursor := m_cursor v1 + sl_length loc\<rparr>))"

text \<open>Lines 185--206.\<close>

definition addVerbatim :: "srcloc \<Rightarrow> srcloc \<Rightarrow> visitor \<Rightarrow> visitor" where
  "addVerbatim first last' v =
    (if \<not> sl_isValid first then v
     else
       (let start = sl_offset first;
            finish = (if sl_isValid last' then sl_end last' else sl_end first) in
        if start < m_cursor v then v
        else
          (let v1 = (if m_cursor v < start then addExtra (m_cursor v) start v else v) in
           v1\<lparr>m_output := m_output v1 @ protect (qmid (m_source v1) start (finish - start)),
             m_cursor := finish\<rparr>)))"

text \<open>Lines 90--96: the rest of the source after the last token.  The cursor is read as
  an \<open>int\<close> and the length passed as a \<open>quint32\<close>.\<close>

definition markedUpCode :: "visitor \<Rightarrow> u16 list \<times> visitor" where
  "markedUpCode v =
    (let v1 = (if sint (m_cursor v) < int (length (m_source v))
               then addExtra (m_cursor v) (word_of_nat (length (m_source v))) v else v)
     in (m_output v1, v1))"


subsection \<open>The syntax tree\<close>

text \<open>
  The nodes of \<open>QQmlJS::AST\<close> that the visitor handles, with the tokens and children
  its \<open>visit\<close> and \<open>endVisit\<close> methods read, grouped as the source file orders them.
  A null child pointer is \<open>None\<close>; the linked lists of the AST are lists.  \<open>Other\<close> is a
  node whose class the visitor does not override: the default \<open>visit\<close> returns
  true and its children are visited in order.  A unary expression carries its
  operator kind (\<open>PostIncrementExpression\<close> \<dots> \<open>NotExpression\<close>), whose visit methods
  are identical.  \<open>FunctionExpression\<close> carries a flag for \<open>FunctionDeclaration\<close>.
\<close>

datatype unop = PostIncrement | PostDecrement | Delete | Void | TypeOf | PreIncrement
  | PreDecrement | UnaryPlus | UnaryMinus | Tilde | Not

datatype qnode =
    Ui ui_node | Primary primary_node | Compound compound_node | Stmt stmt_node
  | Ctrl ctrl_node | Decl decl_node | Other "qnode list"
and ui_node =
    UiImport srcloc bool srcloc "(srcloc \<times> srcloc) option" srcloc srcloc srcloc
  | UiPublicMember bool srcloc srcloc srcloc srcloc srcloc srcloc srcloc
      "qnode option" "qnode option" "qnode option" srcloc
  | UiObjectInitializer srcloc "qnode list" srcloc
  | UiObjectBinding "qnode option" srcloc "qnode option" "qnode option"
  | UiScriptBinding "qnode option" srcloc "qnode option"
  | UiArrayBinding "qnode option" srcloc srcloc "qnode option" srcloc
  | UiArrayMemberList "qnode list"
  | UiQualifiedId srcloc
and primary_node =
    ThisExpression srcloc | IdentifierExpression srcloc | NullExpression srcloc
  | TrueLiteral srcloc | FalseLiteral srcloc | NumericLiteral srcloc | StringLiteral srcloc
  | RegExpLiteral srcloc
  | ArrayPattern srcloc "qnode option" srcloc
  | ObjectPattern srcloc "qnode option" srcloc
  | PatternElementList "qnode list" "qnode option"
  | Elision srcloc
  | PatternProperty "qnode option" srcloc "qnode option"
and compound_node =
    ArrayMemberExpression "qnode option" srcloc "qnode option" srcloc
  | FieldMemberExpression "qnode option" srcloc srcloc
  | NewMemberExpression srcloc "qnode option" srcloc "qnode option" srcloc
  | NewExpression srcloc "qnode option"
  | ArgumentList srcloc "qnode list"
  | UnaryExpression unop srcloc "qnode option"
  | BinaryExpression "qnode option" srcloc "qnode option"
  | ConditionalExpression "qnode option" srcloc "qnode option" srcloc "qnode option"
  | Expression "qnode option" srcloc "qnode option"
and stmt_node =
    Block srcloc "qnode option" srcloc
  | VariableStatement srcloc "qnode option"
  | VariableDeclarationList "(qnode option \<times> srcloc) list"
  | EmptyStatement srcloc
  | ExpressionStatement "qnode option" srcloc
  | IfStatement srcloc srcloc "qnode option" srcloc "qnode option" srcloc "qnode option"
  | DoWhileStatement srcloc "qnode option" srcloc srcloc "qnode option" srcloc srcloc
  | WhileStatement srcloc srcloc "qnode option" srcloc "qnode option"
  | ForStatement srcloc srcloc "qnode option" srcloc "qnode option" srcloc "qnode option"
      srcloc "qnode option"
  | ForEachStatement srcloc srcloc "qnode option" srcloc "qnode option" srcloc "qnode option"
and ctrl_node =
    ContinueStatement srcloc srcloc srcloc
  | BreakStatement srcloc srcloc srcloc
  | ReturnStatement srcloc "qnode option" srcloc
  | WithStatement srcloc srcloc "qnode option" srcloc "qnode option"
  | CaseBlock srcloc "qnode list" srcloc
  | SwitchStatement srcloc srcloc "qnode option" srcloc "qnode option"
  | CaseClause srcloc "qnode option" srcloc "qnode option"
  | DefaultClause srcloc srcloc "qnode option"
  | LabelledStatement srcloc srcloc "qnode option"
  | ThrowStatement srcloc "qnode option" srcloc
  | Catch srcloc srcloc srcloc srcloc
and decl_node =
    Finally srcloc "qnode option"
  | TryStatement srcloc "qnode option" "qnode option" "qnode option"
  | FunctionExpression bool srcloc srcloc srcloc "qnode option" srcloc srcloc "qnode option" srcloc
  | FormalParameterList "qnode option"
  | DebuggerStatement srcloc srcloc
  | UiObjectDefinition srcloc "qnode option"

text \<open>\<open>addVerbatim(first)\<close> with the default (invalid) last location, and
  \<open>addMarkedUpToken\<close> with a Latin-1 tag and no attributes.\<close>

abbreviation verb :: "srcloc \<Rightarrow> visitor \<Rightarrow> visitor" where
  "verb t \<equiv> addVerbatim t no_loc"

abbreviation mark :: "srcloc \<Rightarrow> string \<Rightarrow> visitor \<Rightarrow> visitor" where
  "mark t tag \<equiv> addMarkedUpToken t (latin1 tag) []"

text \<open>\<open>BaseVisitor\<close>'s recursion guard: \<open>Node::accept\<close> raises the depth and, at the
  limit, calls \<open>throwRecursionDepthError\<close> (lines 785--788) instead of visiting.\<close>

definition recursion_limit :: nat where
  "recursion_limit = 4096"


subsection \<open>The traversal\<close>

text \<open>
  Each group of visit methods is a function of the traversal \<open>acc\<close> it calls on
  children (\<open>Node::accept\<close> at the next depth): \<open>acc_opt\<close> skips a null child, a list
  of the AST is visited with \<open>fold\<close>.  A method is the sequence of its \<open>visit\<close>
  (children included when it returns true) and its \<open>endVisit\<close>.
\<close>

type_synonym traversal = "qnode \<Rightarrow> visitor \<Rightarrow> visitor"

fun acc_opt :: "traversal \<Rightarrow> qnode option \<Rightarrow> visitor \<Rightarrow> visitor" where
  "acc_opt acc None v = v"
| "acc_opt acc (Some n) v = acc n v"

text \<open>Lines 546--553: each declaration of a \<open>VariableDeclarationList\<close>, then its comma.\<close>

definition acc_decls :: "traversal \<Rightarrow> (qnode option \<times> srcloc) list \<Rightarrow> visitor \<Rightarrow> visitor" where
  "acc_decls acc ds v = fold (\<lambda>(n, comma) w. verb comma (acc_opt acc n w)) ds v"

text \<open>Lines 208--302: imports, property declarations, bindings and qualified names.\<close>

fun visit_ui :: "traversal \<Rightarrow> ui_node \<Rightarrow> visitor \<Rightarrow> visitor" where
  "visit_ui acc (UiImport importTok hasUri fileTok version asTok idTok semiTok) v =
    (let v1 = verb importTok v;
         v2 = (if hasUri then v1 else mark fileTok ''headerfile'' v1);
         v3 = (case version of None \<Rightarrow> v2 | Some (f, l) \<Rightarrow> addVerbatim f l v2);
         v4 = mark idTok ''headerfile'' (verb asTok v3)
     in verb semiTok v4)"
| "visit_ui acc (UiPublicMember isProperty defaultTok readonlyTok propertyTok modifierTok typeTok
       identTok colonTok binding statement parameters semiTok) v =
    (if isProperty then
       (let v1 = verb propertyTok (verb readonlyTok (verb defaultTok v));
            v2 = mark typeTok ''type'' (verb modifierTok v1);
            v3 = verb colonTok (mark identTok ''name'' v2);
            v4 = (if binding \<noteq> None then acc_opt acc binding v3 else acc_opt acc statement v3)
        in verb semiTok v4)
     else
       (let v1 = mark typeTok ''type'' (verb modifierTok (verb propertyTok v))
        in verb semiTok (acc_opt acc parameters v1)))"
| "visit_ui acc (UiObjectInitializer lbrace members rbrace) v =
    addVerbatim rbrace rbrace (fold acc members (addVerbatim lbrace lbrace v))"
| "visit_ui acc (UiObjectBinding qid colon typeId initializer) v =
    acc_opt acc initializer (acc_opt acc typeId (verb colon (acc_opt acc qid v)))"
| "visit_ui acc (UiScriptBinding qid colon statement) v =
    acc_opt acc statement (verb colon (acc_opt acc qid v))"
| "visit_ui acc (UiArrayBinding qid colon lbracket members rbracket) v =
    verb rbracket (acc_opt acc members (verb lbracket (verb colon (acc_opt acc qid v))))"
| "visit_ui acc (UiArrayMemberList members) v = fold acc members v"
| "visit_ui acc (UiQualifiedId identTok) v = mark identTok ''name'' v"

text \<open>Lines 304--394: primary expressions, literals and patterns.\<close>

fun visit_primary :: "traversal \<Rightarrow> primary_node \<Rightarrow> visitor \<Rightarrow> visitor" where
  "visit_primary acc (ThisExpression tok) v = verb tok v"
| "visit_primary acc (IdentifierExpression tok) v = mark tok ''name'' v"
| "visit_primary acc (NullExpression tok) v = mark tok ''number'' v"
| "visit_primary acc (TrueLiteral tok) v = mark tok ''number'' v"
| "visit_primary acc (FalseLiteral tok) v = mark tok ''number'' v"
| "visit_primary acc (NumericLiteral tok) v = mark tok ''number'' v"
| "visit_primary acc (StringLiteral tok) v = mark tok ''string'' v"
| "visit_primary acc (RegExpLiteral tok) v = verb tok v"
| "visit_primary acc (ArrayPattern lbracket elements rbracket) v =
    verb rbracket (acc_opt acc elements (verb lbracket v))"
| "visit_primary acc (ObjectPattern lbrace properties rbrace) v =
    verb rbrace (acc_opt acc properties (verb lbrace v))"
| "visit_primary acc (PatternElementList elements elision) v =
    acc_opt acc elision (fold acc elements v)"
| "visit_primary acc (Elision comma) v = addVerbatim comma comma v"
| "visit_primary acc (PatternProperty name colon initializer) v =
    acc_opt acc initializer (addVerbatim colon colon (acc_opt acc name v))"

text \<open>Lines 396--525: member, call, unary, binary, conditional and comma expressions.\<close>

fun visit_compound :: "traversal \<Rightarrow> compound_node \<Rightarrow> visitor \<Rightarrow> visitor" where
  "visit_compound acc (ArrayMemberExpression base lbracket expr rbracket) v =
    verb rbracket (acc_opt acc expr (verb lbracket (acc_opt acc base v)))"
| "visit_compound acc (FieldMemberExpression base dot identTok) v =
    mark identTok ''name'' (verb dot (acc_opt acc base v))"
| "visit_compound acc (NewMemberExpression newTok base lparen args rparen) v =
    verb rparen (acc_opt acc args (verb lparen (acc_opt acc base (verb newTok v))))"
| "visit_compound acc (NewExpression newTok expr) v = acc_opt acc expr (verb newTok v)"
| "visit_compound acc (ArgumentList comma args) v = fold acc args (addVerbatim comma comma v)"
| "visit_compound acc (UnaryExpression op tok expr) v = acc_opt acc expr (verb tok v)"
| "visit_compound acc (BinaryExpression left opTok right) v =
    acc_opt acc right (mark opTok ''op'' (acc_opt acc left v))"
| "visit_compound acc (ConditionalExpression expr question ok colon ko) v =
    acc_opt acc ko (verb colon (acc_opt acc ok (verb question (acc_opt acc expr v))))"
| "visit_compound acc (Expression left comma right) v =
    acc_opt acc right (verb comma (acc_opt acc left v))"

text \<open>Lines 527--628: blocks, declarations, expression statements, conditionals and loops.\<close>

fun visit_stmt :: "traversal \<Rightarrow> stmt_node \<Rightarrow> visitor \<Rightarrow> visitor" where
  "visit_stmt acc (Block lbrace statements rbrace) v =
    verb rbrace (acc_opt acc statements (verb lbrace v))"
| "visit_stmt acc (VariableStatement kindTok declarations) v =
    acc_opt acc declarations (verb kindTok v)"
| "visit_stmt acc (VariableDeclarationList decls) v = acc_decls acc decls v"
| "visit_stmt acc (EmptyStatement semi) v = verb semi v"
| "visit_stmt acc (ExpressionStatement expr semi) v = verb semi (acc_opt acc expr v)"
| "visit_stmt acc (IfStatement ifTok lparen expr rparen ok elseTok ko) v =
    (let v1 = verb rparen (acc_opt acc expr (verb lparen (mark ifTok ''keyword'' v)));
         v2 = acc_opt acc ok v1
     in if ko \<noteq> None then acc_opt acc ko (mark elseTok ''keyword'' v2) else v2)"
| "visit_stmt acc (DoWhileStatement doTok stmt whileTok lparen expr rparen semi) v =
    (let v1 = mark whileTok ''keyword'' (acc_opt acc stmt (mark doTok ''keyword'' v))
     in verb semi (verb rparen (acc_opt acc expr (verb lparen v1))))"
| "visit_stmt acc (WhileStatement whileTok lparen expr rparen stmt) v =
    acc_opt acc stmt (verb rparen (acc_opt acc expr (verb lparen (mark whileTok ''keyword'' v))))"
| "visit_stmt acc (ForStatement forTok lparen init semi1 cond semi2 expr rparen stmt) v =
    (let v1 = acc_opt acc init (verb lparen (mark forTok ''keyword'' v));
         v2 = acc_opt acc cond (verb semi1 v1);
         v3 = verb rparen (acc_opt acc expr (verb semi2 v2))
     in acc_opt acc stmt v3)"
| "visit_stmt acc (ForEachStatement forTok lparen lhs inOf expr rparen stmt) v =
    (let v1 = acc_opt acc lhs (verb lparen (mark forTok ''keyword'' v));
         v2 = verb rparen (acc_opt acc expr (verb inOf v1))
     in acc_opt acc stmt v2)"

text \<open>Lines 630--724: jumps, \<open>with\<close>, \<open>switch\<close>, labels, \<open>throw\<close> and \<open>catch\<close>.\<close>

fun visit_ctrl :: "traversal \<Rightarrow> ctrl_node \<Rightarrow> visitor \<Rightarrow> visitor" where
  "visit_ctrl acc (ContinueStatement kw identTok semi) v =
    verb semi (mark identTok ''name'' (mark kw ''keyword'' v))"
| "visit_ctrl acc (BreakStatement kw identTok semi) v =
    verb semi (mark identTok ''name'' (mark kw ''keyword'' v))"
| "visit_ctrl acc (ReturnStatement kw expr semi) v =
    verb semi (acc_opt acc expr (mark kw ''keyword'' v))"
| "visit_ctrl acc (WithStatement kw lparen expr rparen stmt) v =
    acc_opt acc stmt (verb rparen (acc_opt acc expr (verb lparen (mark kw ''keyword'' v))))"
| "visit_ctrl acc (CaseBlock lbrace clauses rbrace) v =
    addVerbatim rbrace rbrace (fold acc clauses (verb lbrace v))"
| "visit_ctrl acc (SwitchStatement kw lparen expr rparen block) v =
    acc_opt acc block (verb rparen (acc_opt acc expr (verb lparen (mark kw ''keyword'' v))))"
| "visit_ctrl acc (CaseClause kw expr colon statements) v =
    acc_opt acc statements (verb colon (acc_opt acc expr (mark kw ''keyword'' v)))"
| "visit_ctrl acc (DefaultClause kw colon statements) v =
    acc_opt acc statements (addVerbatim colon colon (mark kw ''keyword'' v))"
| "visit_ctrl acc (LabelledStatement identTok colon stmt) v =
    acc_opt acc stmt (verb colon (mark identTok ''name'' v))"
| "visit_ctrl acc (ThrowStatement kw expr semi) v =
    verb semi (acc_opt acc expr (mark kw ''keyword'' v))"
| "visit_ctrl acc (Catch kw lparen identTok rparen) v =
    verb rparen (mark identTok ''name'' (verb lparen (mark kw ''keyword'' v)))"

text \<open>Lines 726--783: \<open>finally\<close>, \<open>try\<close>, functions, parameters, \<open>debugger\<close> and object definitions.\<close>

fun visit_decl :: "traversal \<Rightarrow> decl_node \<Rightarrow> visitor \<Rightarrow> visitor" where
  "visit_decl acc (Finally kw stmt) v = acc_opt acc stmt (mark kw ''keyword'' v)"
| "visit_decl acc (TryStatement kw stmt catchExpr finallyExpr) v =
    acc_opt acc finallyExpr (acc_opt acc catchExpr (acc_opt acc stmt (mark kw ''keyword'' v)))"
| "visit_decl acc (FunctionExpression isDecl kw identTok lparen formals rparen lbrace body rbrace) v =
    (let v1 = verb lparen (mark identTok ''name'' (mark kw ''keyword'' v));
         v2 = verb lbrace (verb rparen (acc_opt acc formals v1))
     in verb rbrace (acc_opt acc body v2))"
| "visit_decl acc (FormalParameterList element) v = acc_opt acc element v"
| "visit_decl acc (DebuggerStatement kw semi) v = verb semi (verb kw v)"
| "visit_decl acc (UiObjectDefinition typeTok initializer) v =
    acc_opt acc initializer (mark typeTok ''type'' v)"

text \<open>\<open>Node::accept\<close> at depth \<open>d\<close> with \<open>accept0\<close> inlined: below the recursion limit
  the node's group of visit methods runs with the traversal one level deeper; a node
  whose class the visitor does not override visits its children.\<close>

function accept :: "nat \<Rightarrow> qnode \<Rightarrow> visitor \<Rightarrow> visitor" where
  "accept d n v =
    (if Suc d < recursion_limit then
       (case n of
          Ui u \<Rightarrow> visit_ui (accept (Suc d)) u v
        | Primary u \<Rightarrow> visit_primary (accept (Suc d)) u v
        | Compound u \<Rightarrow> visit_compound (accept (Suc d)) u v
        | Stmt u \<Rightarrow> visit_stmt (accept (Suc d)) u v
        | Ctrl u \<Rightarrow> visit_ctrl (accept (Suc d)) u v
        | Decl u \<Rightarrow> visit_decl (accept (Suc d)) u v
        | Other ns \<Rightarrow> fold (accept (Suc d)) ns v)
     else v\<lparr>m_hasRecursionDepthError := True\<rparr>)"
  by pat_completeness auto
termination
  by (relation "measure (\<lambda>(d, _, _). recursion_limit - d)") auto

end
