(* ===== verification/QML_Text.thy ===== *)
theory QML_Text
  imports QML_Markup
begin

text \<open>
  What the markup visitor promises: its output, read back by a reader that drops
  the \<open><@tag>\<close> markup and decodes the four entities \<open>protect\<close> writes, is the source
  text.  \<open>strip_markup\<close> is that reader and \<open>closed\<close> says a piece of output can be
  read on its own (every tag and entity complete).  The invariant \<open>text_inv\<close> of a
  visitor state says that the output read back is the source up to the cursor, and
  that the comments not yet emitted lie after the cursor; \<open>addExtra\<close>, \<open>addVerbatim\<close>,
  \<open>addMarkedUpToken\<close>, every group of visit methods and so the whole traversal
  preserve it, for syntax trees whose tokens (\<open>qspans\<close>) lie inside the source and
  do not overlap a comment, and comments that are sorted, disjoint and inside the
  source (\<open>comments_ok\<close>).
\<close>

subsection \<open>Definitions\<close>

definition entities :: "(u16 list \<times> u16) list" where
  "entities = [(latin1 ''amp;'', 0x26), (latin1 ''lt;'', 0x3C), (latin1 ''gt;'', 0x3E), (latin1 ''quot;'', 0x22)]"

fun entity :: "(u16 list \<times> u16) list \<Rightarrow> u16 list \<Rightarrow> (u16 list \<times> u16) option" where
  "entity [] cs = None"
| "entity ((w, c) # es) cs = (if prefix w cs then Some (w, c) else entity es cs)"

function strip_markup :: "u16 list \<Rightarrow> u16 list" where
  "strip_markup [] = []"
| "strip_markup (c # cs) =
    (if c = 0x3C then strip_markup (drop 1 (dropWhile (\<lambda>x. x \<noteq> 0x3E) cs))
     else if c = 0x26 then
       (case entity entities cs of
          Some (w, d) \<Rightarrow> d # strip_markup (drop (length w) cs)
        | None \<Rightarrow> c # strip_markup cs)
     else c # strip_markup cs)"
  by pat_completeness auto
termination
  by (relation "measure length") (auto simp: less_Suc_eq_le intro: le_trans [OF diff_le_self length_dropWhile_le])

function closed :: "u16 list \<Rightarrow> bool" where
  "closed [] = True"
| "closed (c # cs) =
    (if c = 0x3C then 0x3E \<in> set cs \<and> closed (drop 1 (dropWhile (\<lambda>x. x \<noteq> 0x3E) cs))
     else if c = 0x26 then
       (case entity entities cs of
          Some (w, d) \<Rightarrow> closed (drop (length w) cs)
        | None \<Rightarrow> False)
     else closed cs)"
  by pat_completeness auto
termination
  by (relation "measure length") (auto simp: less_Suc_eq_le intro: le_trans [OF diff_le_self length_dropWhile_le])

definition opt_concat :: "'a list option \<Rightarrow> 'a list" where
  "opt_concat x = (case x of None \<Rightarrow> [] | Some l \<Rightarrow> l)"

abbreviation tok :: "srcloc \<Rightarrow> srcloc \<times> srcloc" where
  "tok t \<equiv> (t, no_loc)"

primrec qspans :: "qnode \<Rightarrow> (srcloc \<times> srcloc) list"
and ui_spans :: "ui_node \<Rightarrow> (srcloc \<times> srcloc) list"
and primary_spans :: "primary_node \<Rightarrow> (srcloc \<times> srcloc) list"
and compound_spans :: "compound_node \<Rightarrow> (srcloc \<times> srcloc) list"
and stmt_spans :: "stmt_node \<Rightarrow> (srcloc \<times> srcloc) list"
and ctrl_spans :: "ctrl_node \<Rightarrow> (srcloc \<times> srcloc) list"
and decl_spans :: "decl_node \<Rightarrow> (srcloc \<times> srcloc) list" where
  "qspans (Ui u) = ui_spans u"
| "qspans (Primary u) = primary_spans u"
| "qspans (Compound u) = compound_spans u"
| "qspans (Stmt u) = stmt_spans u"
| "qspans (Ctrl u) = ctrl_spans u"
| "qspans (Decl u) = decl_spans u"
| "qspans (Other ns) = concat (map qspans ns)"
| "ui_spans (UiImport a b c ver d e f) = [tok a, tok c, tok d, tok e, tok f] @ opt_concat (map_option (\<lambda>p. [p]) ver)"
| "ui_spans (UiPublicMember b t1 t2 t3 t4 t5 t6 t7 x y z t8) =
     map tok [t1, t2, t3, t4, t5, t6, t7, t8] @ opt_concat (map_option qspans x)
     @ opt_concat (map_option qspans y) @ opt_concat (map_option qspans z)"
| "ui_spans (UiObjectInitializer a ns b) = [(a, a), (b, b)] @ concat (map qspans ns)"
| "ui_spans (UiObjectBinding x a y z) = [tok a] @ opt_concat (map_option qspans x)
     @ opt_concat (map_option qspans y) @ opt_concat (map_option qspans z)"
| "ui_spans (UiScriptBinding x a y) = [tok a] @ opt_concat (map_option qspans x) @ opt_concat (map_option qspans y)"
| "ui_spans (UiArrayBinding x a b y c) = map tok [a, b, c] @ opt_concat (map_option qspans x) @ opt_concat (map_option qspans y)"
| "ui_spans (UiArrayMemberList ns) = concat (map qspans ns)"
| "ui_spans (UiQualifiedId a) = [tok a]"
| "primary_spans (ThisExpression a) = [tok a]"
| "primary_spans (IdentifierExpression a) = [tok a]"
| "primary_spans (NullExpression a) = [tok a]"
| "primary_spans (TrueLiteral a) = [tok a]"
| "primary_spans (FalseLiteral a) = [tok a]"
| "primary_spans (NumericLiteral a) = [tok a]"
| "primary_spans (StringLiteral a) = [tok a]"
| "primary_spans (RegExpLiteral a) = [tok a]"
| "primary_spans (ArrayPattern a x b) = map tok [a, b] @ opt_concat (map_option qspans x)"
| "primary_spans (ObjectPattern a x b) = map tok [a, b] @ opt_concat (map_option qspans x)"
| "primary_spans (PatternElementList ns x) = concat (map qspans ns) @ opt_concat (map_option qspans x)"
| "primary_spans (Elision a) = [(a, a)]"
| "primary_spans (PatternProperty x a y) = [(a, a)] @ opt_concat (map_option qspans x) @ opt_concat (map_option qspans y)"
| "compound_spans (ArrayMemberExpression x a y b) = map tok [a, b] @ opt_concat (map_option qspans x) @ opt_concat (map_option qspans y)"
| "compound_spans (FieldMemberExpression x a b) = map tok [a, b] @ opt_concat (map_option qspans x)"
| "compound_spans (NewMemberExpression a x b y c) = map tok [a, b, c] @ opt_concat (map_option qspans x) @ opt_concat (map_option qspans y)"
| "compound_spans (NewExpression a x) = [tok a] @ opt_concat (map_option qspans x)"
| "compound_spans (ArgumentList a ns) = [(a, a)] @ concat (map qspans ns)"
| "compound_spans (UnaryExpression op a x) = [tok a] @ opt_concat (map_option qspans x)"
| "compound_spans (BinaryExpression x a y) = [tok a] @ opt_concat (map_option qspans x) @ opt_concat (map_option qspans y)"
| "compound_spans (ConditionalExpression x a y b z) = map tok [a, b] @ opt_concat (map_option qspans x)
     @ opt_concat (map_option qspans y) @ opt_concat (map_option qspans z)"
| "compound_spans (Expression x a y) = [tok a] @ opt_concat (map_option qspans x) @ opt_concat (map_option qspans y)"
| "stmt_spans (Block a x b) = map tok [a, b] @ opt_concat (map_option qspans x)"
| "stmt_spans (VariableStatement a x) = [tok a] @ opt_concat (map_option qspans x)"
| "stmt_spans (VariableDeclarationList ds) = concat (map (\<lambda>(x, c). tok c # opt_concat x) (map (map_prod (map_option qspans) id) ds))"
| "stmt_spans (EmptyStatement a) = [tok a]"
| "stmt_spans (ExpressionStatement x a) = [tok a] @ opt_concat (map_option qspans x)"
| "stmt_spans (IfStatement a b x c y d z) = map tok [a, b, c, d] @ opt_concat (map_option qspans x)
     @ opt_concat (map_option qspans y) @ opt_concat (map_option qspans z)"
| "stmt_spans (DoWhileStatement a x b c y d e) = map tok [a, b, c, d, e] @ opt_concat (map_option qspans x)
     @ opt_concat (map_option qspans y)"
| "stmt_spans (WhileStatement a b x c y) = map tok [a, b, c] @ opt_concat (map_option qspans x)
     @ opt_concat (map_option qspans y)"
| "stmt_spans (ForStatement a b x c y d z e w) = map tok [a, b, c, d, e] @ opt_concat (map_option qspans x)
     @ opt_concat (map_option qspans y) @ opt_concat (map_option qspans z) @ opt_concat (map_option qspans w)"
| "stmt_spans (ForEachStatement a b x c y d z) = map tok [a, b, c, d] @ opt_concat (map_option qspans x)
     @ opt_concat (map_option qspans y) @ opt_concat (map_option qspans z)"
| "ctrl_spans (ContinueStatement a b c) = map tok [a, b, c]"
| "ctrl_spans (BreakStatement a b c) = map tok [a, b, c]"
| "ctrl_spans (ReturnStatement a x b) = map tok [a, b] @ opt_concat (map_option qspans x)"
| "ctrl_spans (WithStatement a b x c y) = map tok [a, b, c] @ opt_concat (map_option qspans x) @ opt_concat (map_option qspans y)"
| "ctrl_spans (CaseBlock a ns b) = [tok a, (b, b)] @ concat (map qspans ns)"
| "ctrl_spans (SwitchStatement a b x c y) = map tok [a, b, c] @ opt_concat (map_option qspans x) @ opt_concat (map_option qspans y)"
| "ctrl_spans (CaseClause a x b y) = map tok [a, b] @ opt_concat (map_option qspans x) @ opt_concat (map_option qspans y)"
| "ctrl_spans (DefaultClause a b y) = [tok a, (b, b)] @ opt_concat (map_option qspans y)"
| "ctrl_spans (LabelledStatement a b y) = map tok [a, b] @ opt_concat (map_option qspans y)"
| "ctrl_spans (ThrowStatement a x b) = map tok [a, b] @ opt_concat (map_option qspans x)"
| "ctrl_spans (Catch a b c d) = map tok [a, b, c, d]"
| "decl_spans (Finally a x) = [tok a] @ opt_concat (map_option qspans x)"
| "decl_spans (TryStatement a x y z) = [tok a] @ opt_concat (map_option qspans x) @ opt_concat (map_option qspans y)
     @ opt_concat (map_option qspans z)"
| "decl_spans (FunctionExpression f a b c x d e y g) = map tok [a, b, c, d, e, g] @ opt_concat (map_option qspans x)
     @ opt_concat (map_option qspans y)"
| "decl_spans (FormalParameterList x) = opt_concat (map_option qspans x)"
| "decl_spans (DebuggerStatement a b) = map tok [a, b]"
| "decl_spans (UiObjectDefinition a x) = [tok a] @ opt_concat (map_option qspans x)"

definition vframe :: "visitor \<Rightarrow> u16 list \<times> srcloc list \<times> extra_type list \<times> u32" where
  "vframe v = (m_source v, m_extraLocations v, m_extraTypes v, m_cursor v)"

definition cstart :: "srcloc \<Rightarrow> nat" where
  "cstart c = unat (sl_offset c) - 2"

definition cwidth :: "u16 list \<Rightarrow> srcloc \<Rightarrow> nat" where
  "cwidth src c = unat (sl_length c) + (if qmid src (sl_offset c - 2) 2 = latin1 ''/*'' then 4 else 2)"

definition cend :: "u16 list \<Rightarrow> srcloc \<Rightarrow> nat" where
  "cend src c = cstart c + cwidth src c"

definition comments_ok :: "u16 list \<Rightarrow> srcloc list \<Rightarrow> bool" where
  "comments_ok src cs = (list_all (\<lambda>c. 2 \<le> unat (sl_offset c) \<and> cend src c \<le> length src) cs
     \<and> sorted_wrt (\<lambda>a b. cend src a \<le> cstart b) cs)"

definition core :: "u16 list \<Rightarrow> srcloc list \<Rightarrow> nat \<Rightarrow> visitor \<Rightarrow> bool" where
  "core src cs p v = (m_source v = src \<and> m_extraLocations v = cs
     \<and> m_extraTypes v = replicate (length cs) Comment \<and> m_extraIndex v \<le> length cs
     \<and> (\<forall>c \<in> set (drop (m_extraIndex v) cs). p \<le> cstart c)
     \<and> closed (m_output v) \<and> strip_markup (m_output v) = take p src \<and> p \<le> length src)"

definition text_inv :: "u16 list \<Rightarrow> srcloc list \<Rightarrow> visitor \<Rightarrow> bool" where
  "text_inv src cs v = (length src < 2 ^ 31 \<and> comments_ok src cs \<and> core src cs (unat (m_cursor v)) v)"

definition tok_end :: "srcloc \<times> srcloc \<Rightarrow> nat" where
  "tok_end p = (case p of (f, l) \<Rightarrow> let e = (if sl_isValid l then l else f) in unat (sl_offset e) + unat (sl_length e))"

definition span_ok :: "u16 list \<Rightarrow> srcloc list \<Rightarrow> srcloc \<times> srcloc \<Rightarrow> bool" where
  "span_ok src cs p = (sl_isValid (fst p) \<longrightarrow> unat (sl_offset (fst p)) \<le> tok_end p \<and> tok_end p \<le> length src
     \<and> list_all (\<lambda>c. tok_end p \<le> cstart c \<or> cend src c \<le> unat (sl_offset (fst p))) cs)"

definition ast_ok :: "u16 list \<Rightarrow> srcloc list \<Rightarrow> qnode \<Rightarrow> bool" where
  "ast_ok src cs n = list_all (span_ok src cs) (qspans n)"

definition preserves_text :: "u16 list \<Rightarrow> srcloc list \<Rightarrow> traversal \<Rightarrow> bool" where
  "preserves_text src cs acc = (\<forall>c w. ast_ok src cs c \<longrightarrow> text_inv src cs w \<longrightarrow> text_inv src cs (acc c w))"

text \<open>A two-statement example: the source \<open>if (a) b; // hi\<close>, its syntax tree and its
  comment.\<close>

definition ex_loc :: "nat \<Rightarrow> nat \<Rightarrow> srcloc" where
  "ex_loc off len = \<lparr>sl_offset = of_nat off, sl_length = of_nat len, sl_startLine = 1, sl_startColumn = of_nat off + 1\<rparr>"

definition ex_src :: "u16 list" where
  "ex_src = latin1 ''if (a) b; // hi''"

definition ex_if :: qnode where
  "ex_if = Stmt (IfStatement (ex_loc 0 2) (ex_loc 3 1) (Some (Primary (IdentifierExpression (ex_loc 4 1))))
     (ex_loc 5 1) (Some (Stmt (ExpressionStatement (Some (Primary (IdentifierExpression (ex_loc 7 1)))) (ex_loc 8 1))))
     no_loc None)"

definition ex_visitor :: visitor where
  "ex_visitor = \<lparr>m_source = ex_src, m_extraTypes = [Comment], m_extraLocations = [ex_loc 12 3],
     m_cursor = 0, m_extraIndex = 0, m_output = [], m_hasRecursionDepthError = False\<rparr>"

subsection \<open>Lemmas\<close>

lemma entity_append:
  assumes "entity es cs = Some (w, d)" "\<forall>(w1, d1) \<in> set es. \<forall>(w2, d2) \<in> set es. w1 = w2 \<or> (\<not> prefix w1 w2 \<and> \<not> prefix w2 w1)"
  shows "entity es (cs @ ys) = Some (w, d)"
  using assms
proof (induction es cs rule: entity.induct)
  case (2 w' c' es cs)
  show ?case
  proof (cases "prefix w' cs")
    case True
    then show ?thesis using "2.prems" by (auto intro: prefix_append [THEN iffD2, OF disjI1] simp: prefix_prefix)
  next
    case False
    then have e: "entity es cs = Some (w, d)" using "2.prems" by simp
    then have "(w, d) \<in> set es" by (induction es) (auto split: if_splits)
    moreover have "prefix w cs" using e by (induction es) (auto split: if_splits)
    ultimately have "\<not> prefix w' (cs @ ys)"
      using "2.prems"(2) False prefix_same_cases [of w' "cs @ ys" w]
      by (fastforce simp: prefix_prefix)
    moreover have "\<forall>(w1, d1) \<in> set es. \<forall>(w2, d2) \<in> set es. w1 = w2 \<or> (\<not> prefix w1 w2 \<and> \<not> prefix w2 w1)"
      using "2.prems"(2) by auto
    ultimately show ?thesis using "2.IH" [OF False e] by simp
  qed
qed simp

lemma entity_Some: "entity es cs = Some (w, d) \<Longrightarrow> prefix w cs"
  by (induction es cs rule: entity.induct) (auto split: if_splits)

lemma entities_distinct: "\<forall>(w1, d1) \<in> set entities. \<forall>(w2, d2) \<in> set entities. w1 = w2 \<or> (\<not> prefix w1 w2 \<and> \<not> prefix w2 w1)"
  by (simp add: entities_def latin1_def)

lemma strip_closed_append:
  "closed xs \<Longrightarrow> strip_markup (xs @ ys) = strip_markup xs @ strip_markup ys \<and> (closed ys \<longrightarrow> closed (xs @ ys))"
proof (induction xs rule: closed.induct)
  case 1
  then show ?case by simp
next
  case (2 c cs)
  show ?case
  proof (cases "c = 0x3C")
    case True
    with "2.prems" have m: "0x3E \<in> set cs" and cl: "closed (drop 1 (dropWhile (\<lambda>x. x \<noteq> 0x3E) cs))" by simp_all
    have "dropWhile (\<lambda>x. x \<noteq> 0x3E) (cs @ ys) = dropWhile (\<lambda>x. x \<noteq> 0x3E) cs @ ys"
      using m by (simp add: dropWhile_append1)
    moreover have "dropWhile (\<lambda>x. x \<noteq> 0x3E) cs \<noteq> []" using m by (simp add: dropWhile_eq_Nil_conv)
    ultimately have d: "drop 1 (dropWhile (\<lambda>x. x \<noteq> 0x3E) (cs @ ys)) = drop 1 (dropWhile (\<lambda>x. x \<noteq> 0x3E) cs) @ ys"
      by (cases "dropWhile (\<lambda>x. x \<noteq> 0x3E) cs") simp_all
    show ?thesis using "2.IH"(1) [OF True cl] True m d by simp
  next
    case nl: False
    show ?thesis
    proof (cases "c = 0x26")
      case True
      then obtain w d where e: "entity entities cs = Some (w, d)" and cl: "closed (drop (length w) cs)"
        using "2.prems" nl by (auto split: option.splits)
      have e2: "entity entities (cs @ ys) = Some (w, d)" using entity_append [OF e entities_distinct] .
      have "length w \<le> length cs" using entity_Some [OF e] by (rule prefix_length_le)
      then have "drop (length w) (cs @ ys) = drop (length w) cs @ ys" by simp
      then show ?thesis using "2.IH"(2) [OF nl True e refl cl] True nl e e2 by simp
    next
      case False
      then show ?thesis using "2.prems" "2.IH"(3) nl by simp
    qed
  qed
qed

lemma protect_char_text: "closed (protect_char c) \<and> strip_markup (protect_char c) = [c]"
  by (simp add: protect_char_def latin1_def entities_def)

lemma protect_text: "closed (protect s) \<and> strip_markup (protect s) = s"
proof (induction s)
  case (Cons c s)
  then show ?case
    using protect_char_text [of c] strip_closed_append [of "protect_char c" "protect s"]
    by (simp add: protect_def)
qed (simp add: protect_def)

lemma space_text: "qtrimmed_empty s \<Longrightarrow> closed s \<and> strip_markup s = s"
proof (induction s)
  case (Cons c s)
  then have "c \<noteq> 0x3C \<and> c \<noteq> 0x26" by (auto simp: qtrimmed_empty_def qchar_isSpace_def)
  then show ?case using Cons by (simp add: qtrimmed_empty_def)
qed simp

lemma rest_text:
  "closed (if qtrimmed_empty e then e else protect e) \<and> strip_markup (if qtrimmed_empty e then e else protect e) = e"
  using protect_text [of e] space_text [of e] by simp

lemma tag_text: "0x3E \<notin> set t \<Longrightarrow> closed (0x3C # t @ [0x3E]) \<and> strip_markup (0x3C # t @ [0x3E]) = []"
proof -
  assume "0x3E \<notin> set t"
  then have "dropWhile (\<lambda>x. x \<noteq> 0x3E) (t @ [0x3E]) = [0x3E]"
    by (subst dropWhile_append2) auto
  then show ?thesis by simp
qed

lemma skip_extras_frame: "vframe (skip_extras s v) = vframe v"
  by (induction s v rule: skip_extras.induct) (subst skip_extras.simps, simp add: Let_def vframe_def)

lemma emit_extras_frame: "vframe (snd (emit_extras i f v)) = vframe v"
  by (induction i f v rule: emit_extras.induct) (subst emit_extras.simps, simp add: Let_def vframe_def)

lemma addExtra_frame: "vframe (addExtra s f v) = (m_source v, m_extraLocations v, m_extraTypes v, f)"
proof (cases "emit_extras s f (skip_extras s v)")
  case (Pair i v2)
  then have "vframe v2 = vframe v"
    using emit_extras_frame [of s f "skip_extras s v"] skip_extras_frame [of s v] by simp
  then show ?thesis using Pair by (simp add: addExtra_def vframe_def)
qed

lemma unat_end:
  "unat (sl_offset e) + unat (sl_length e) \<le> n \<Longrightarrow> n < 2 ^ 32 \<Longrightarrow> unat (sl_end e) = unat (sl_offset e) + unat (sl_length e)"
  by (simp add: sl_end_def unat_add_lem [symmetric])

lemma no_loc_invalid [simp]: "\<not> sl_isValid no_loc"
  by (simp add: sl_isValid_def no_loc_def)

lemma markup_text:
  assumes "0x3E \<notin> set tag"
  shows "closed (latin1 ''<@'' @ tag @ latin1 ''>'' @ protect x @ latin1 ''</@'' @ tag @ latin1 ''>'')
    \<and> strip_markup (latin1 ''<@'' @ tag @ latin1 ''>'' @ protect x @ latin1 ''</@'' @ tag @ latin1 ''>'') = x"
proof -
  have t1: "closed (0x3C # (0x40 # tag) @ [0x3E]) \<and> strip_markup (0x3C # (0x40 # tag) @ [0x3E]) = []"
    and t2: "closed (0x3C # (0x2F # 0x40 # tag) @ [0x3E]) \<and> strip_markup (0x3C # (0x2F # 0x40 # tag) @ [0x3E]) = []"
    using tag_text assms by simp_all
  have p: "closed (protect x @ 0x3C # (0x2F # 0x40 # tag) @ [0x3E])
      \<and> strip_markup (protect x @ 0x3C # (0x2F # 0x40 # tag) @ [0x3E]) = x"
    using strip_closed_append [of "protect x" "0x3C # (0x2F # 0x40 # tag) @ [0x3E]"] protect_text [of x] t2 by simp
  have eq: "latin1 ''<@'' @ tag @ latin1 ''>'' @ protect x @ latin1 ''</@'' @ tag @ latin1 ''>''
      = (0x3C # (0x40 # tag) @ [0x3E]) @ (protect x @ 0x3C # (0x2F # 0x40 # tag) @ [0x3E])"
    by (simp add: latin1_def)
  show ?thesis
    unfolding eq
    using strip_closed_append [of "0x3C # (0x40 # tag) @ [0x3E]" "protect x @ 0x3C # (0x2F # 0x40 # tag) @ [0x3E]"] t1 p
    by (simp del: strip_markup.simps closed.simps)
qed

lemma take_mid: "p \<le> q \<Longrightarrow> take p src @ take (q - p) (drop p src) = take q src"
  by (metis le_add_diff_inverse take_add)

lemma core_append:
  assumes "core src cs p v" "closed chunk" "strip_markup chunk = take (q - p) (drop p src)" "p \<le> q" "q \<le> length src"
    "m_extraIndex v \<le> k" "k \<le> length cs" "\<forall>c \<in> set (drop k cs). q \<le> cstart c"
  shows "core src cs q (v\<lparr>m_output := m_output v @ chunk, m_extraIndex := k\<rparr>)"
  using assms strip_closed_append [of "m_output v" chunk] take_mid [of p q src]
  by (simp add: core_def)

lemma sorted_drop_after:
  assumes "comments_ok src cs" "k < length cs"
  shows "\<forall>c' \<in> set (drop (Suc k) cs). cend src (cs ! k) \<le> cstart c'"
proof -
  have "sorted_wrt (\<lambda>a b. cend src a \<le> cstart b) (drop k cs)"
    using assms(1) by (simp add: comments_ok_def sorted_wrt_drop)
  moreover have "drop k cs = cs ! k # drop (Suc k) cs" using assms(2) by (simp add: Cons_nth_drop_Suc)
  ultimately show ?thesis by simp
qed

lemma comment_chunk_text:
  assumes ij: "unat i \<le> unat j" and jl: "unat j + unat l \<le> length src"
  shows "closed ((if i < j then protect (qmid src i (j - i)) else [])
            @ latin1 ''<@comment>'' @ protect (qmid src j l) @ latin1 ''</@comment>'')
    \<and> strip_markup ((if i < j then protect (qmid src i (j - i)) else [])
            @ latin1 ''<@comment>'' @ protect (qmid src j l) @ latin1 ''</@comment>'')
      = take (unat j + unat l - unat i) (drop (unat i) src)"
proof -
  have tag: "latin1 ''<@comment>'' @ protect (qmid src j l) @ latin1 ''</@comment>''
      = latin1 ''<@'' @ latin1 ''comment'' @ latin1 ''>'' @ protect (qmid src j l) @ latin1 ''</@'' @ latin1 ''comment'' @ latin1 ''>''"
    by (simp add: latin1_def)
  have m: "closed (latin1 ''<@comment>'' @ protect (qmid src j l) @ latin1 ''</@comment>'')
      \<and> strip_markup (latin1 ''<@comment>'' @ protect (qmid src j l) @ latin1 ''</@comment>'') = qmid src j l"
    unfolding tag by (rule markup_text) (simp add: latin1_def)
  have pre: "closed (if i < j then protect (qmid src i (j - i)) else [])
      \<and> strip_markup (if i < j then protect (qmid src i (j - i)) else []) = take (unat j - unat i) (drop (unat i) src)"
    using protect_text [of "qmid src i (j - i)"] ij
    by (auto simp: qmid_def unat_sub word_less_nat_alt word_le_nat_alt)
  have "take (unat j - unat i) (drop (unat i) src) @ qmid src j l = take (unat j + unat l - unat i) (drop (unat i) src)"
  proof -
    have "take (unat j - unat i) (drop (unat i) src) @ take (unat l) (drop (unat j - unat i) (drop (unat i) src))
        = take (unat j - unat i + unat l) (drop (unat i) src)"
      by (simp add: take_add)
    moreover have "drop (unat j - unat i) (drop (unat i) src) = drop (unat j) src" using ij by simp
    moreover have "unat j - unat i + unat l = unat j + unat l - unat i" using ij by simp
    ultimately show ?thesis by (simp add: qmid_def)
  qed
  then show ?thesis
    using strip_closed_append [of "if i < j then protect (qmid src i (j - i)) else []"] pre m by simp
qed

lemma emit_extras_text:
  assumes len: "length src < 2 ^ 31" and ok: "comments_ok src cs"
  shows "core src cs (unat i) v \<Longrightarrow> i \<le> f \<Longrightarrow> unat f \<le> length src \<Longrightarrow>
    (\<forall>c \<in> set cs. unat i \<le> cstart c \<longrightarrow> cstart c < unat f \<longrightarrow> cend src c \<le> unat f) \<Longrightarrow>
    core src cs (unat (fst (emit_extras i f v))) (snd (emit_extras i f v)) \<and> fst (emit_extras i f v) \<le> f
    \<and> (\<forall>c \<in> set (drop (m_extraIndex (snd (emit_extras i f v))) cs). unat f \<le> cstart c)"
proof (induction "length cs - m_extraIndex v" arbitrary: i v rule: less_induct)
  case less
  note co = less.prems(1)
  define k where "k = m_extraIndex v"
  have src: "m_source v = src" and locs: "m_extraLocations v = cs" and ty: "m_extraTypes v = replicate (length cs) Comment"
    and after: "\<forall>c\<in>set (drop k cs). unat i \<le> cstart c"
    using co by (simp_all add: core_def k_def)
  show ?case
  proof (cases "i < f \<and> k < length cs")
    case False
    then have e: "emit_extras i f v = (i, v)" using locs k_def by (subst emit_extras.simps) auto
    have "\<forall>c\<in>set (drop k cs). unat f \<le> cstart c"
    proof (cases "k < length cs")
      case True
      then have "unat f \<le> unat i" using False by (auto simp: word_le_nat_alt not_less)
      then show ?thesis using after by fastforce
    next
      case False
      then show ?thesis by simp
    qed
    then show ?thesis using e co less.prems(2) k_def by simp
  next
    case True
    define c where "c = cs ! k"
    have dk: "drop k cs = c # drop (Suc k) cs" using True by (simp add: c_def Cons_nth_drop_Suc)
    have ge: "unat i \<le> cstart c" using after dk by simp
    have cmem: "c \<in> set cs" using True c_def by simp
    have cok: "2 \<le> unat (sl_offset c)" "cend src c \<le> length src"
      using ok cmem by (auto simp: comments_ok_def list_all_iff)
    have two: "(2::u32) \<le> sl_offset c" using cok(1) by (simp add: word_le_nat_alt)
    have uj: "unat (sl_offset c - 2) = cstart c" using two by (simp add: cstart_def unat_sub)
    show ?thesis
    proof (cases "cstart c < unat f")
      case False
      then have "\<not> sl_offset c - 2 < f" using uj by (simp add: word_less_nat_alt)
      then have e: "emit_extras i f v = (i, v)"
        using True locs k_def c_def by (subst emit_extras.simps) (simp add: Let_def)
      have "\<forall>c'\<in>set (drop k cs). unat f \<le> cstart c'"
        using dk sorted_drop_after [OF ok, of k] True False c_def by (auto simp: cend_def)
      then show ?thesis using e co less.prems(2) k_def by simp
    next
      case inside: True
      have cend_f: "cend src c \<le> unat f" using less.prems(4) ge inside cmem by blast
      define l :: u32 where "l = (if qmid src (sl_offset c - 2) 2 = latin1 ''/*'' then sl_length c + 4 else sl_length c + 2)"
      have small: "unat (sl_length c) + 4 < 2 ^ 32" using cok(2) len by (simp add: cend_def cwidth_def split: if_splits)
      have a4: "unat (sl_length c + 4) = unat (sl_length c) + 4"
        using small unat_add_lem [of "sl_length c" "4::u32"] by simp
      have a2: "unat (sl_length c + 2) = unat (sl_length c) + 2"
        using small unat_add_lem [of "sl_length c" "2::u32"] by simp
      have ul: "unat l = cwidth src c" by (simp add: l_def cwidth_def a4 a2)
      have uje: "unat (sl_offset c - 2 + l) = cend src c"
        using uj ul cok(2) len unat_add_lem [of "sl_offset c - 2" l] by (simp add: cend_def)
      have ij: "i \<le> sl_offset c - 2" using ge uj by (simp add: word_le_nat_alt)
      have jf: "sl_offset c - 2 < f" using inside uj by (simp add: word_less_nat_alt)
      define chunk where "chunk = (if i < sl_offset c - 2 then protect (qmid src i (sl_offset c - 2 - i)) else [])
          @ latin1 ''<@comment>'' @ protect (qmid src (sl_offset c - 2) l) @ latin1 ''</@comment>''"
      define v' where "v' = v\<lparr>m_output := m_output v @ chunk, m_extraIndex := Suc k\<rparr>"
      have e: "emit_extras i f v = emit_extras (sl_offset c - 2 + l) f v'"
        using True ij jf
        by (subst emit_extras.simps) (simp add: Let_def locs ty src c_def k_def l_def chunk_def v'_def)
      have ct: "closed chunk \<and> strip_markup chunk = take (cend src c - unat i) (drop (unat i) src)"
        using comment_chunk_text [of i "sl_offset c - 2" l src] ge uj ul cok(2)
        by (simp add: chunk_def cend_def)
      have core': "core src cs (cend src c) v'"
        unfolding v'_def
        using core_append [OF co ct [THEN conjunct1] ct [THEN conjunct2], of "Suc k"] ge cok(2) True
          sorted_drop_after [OF ok, of k] c_def k_def co
        by (simp add: core_def cend_def)
      have step: "length cs - m_extraIndex v' < length cs - m_extraIndex v" using True by (simp add: v'_def k_def diff_less_mono2)
      have "core src cs (unat (fst (emit_extras (sl_offset c - 2 + l) f v'))) (snd (emit_extras (sl_offset c - 2 + l) f v'))
          \<and> fst (emit_extras (sl_offset c - 2 + l) f v') \<le> f
          \<and> (\<forall>c\<in>set (drop (m_extraIndex (snd (emit_extras (sl_offset c - 2 + l) f v'))) cs). unat f \<le> cstart c)"
      proof (rule less.hyps [OF step])
        show "core src cs (unat (sl_offset c - 2 + l)) v'" using core' uje by simp
        show "sl_offset c - 2 + l \<le> f" using uje cend_f by (simp add: word_le_nat_alt)
        show "unat f \<le> length src" by (rule less.prems(3))
        show "\<forall>c'\<in>set cs. unat (sl_offset c - 2 + l) \<le> cstart c' \<longrightarrow> cstart c' < unat f \<longrightarrow> cend src c' \<le> unat f"
          using less.prems(4) uje ge by (auto simp: cend_def)
      qed
      then show ?thesis using e by simp
    qed
  qed
qed

lemma skip_extras_noop:
  assumes "core src cs (unat s) v"
  shows "skip_extras s v = v"
proof (cases "m_extraIndex v < length cs")
  case True
  have "unat s \<le> cstart (cs ! m_extraIndex v)"
    using assms True by (simp add: core_def Cons_nth_drop_Suc [symmetric])
  then show ?thesis using assms True
    by (subst skip_extras.simps) (auto simp: core_def Let_def cstart_def word_le_nat_alt unat_sub_if')
next
  case False
  then show ?thesis using assms by (subst skip_extras.simps) (simp add: core_def)
qed

lemma addExtra_text:
  assumes inv: "text_inv src cs v" and le: "m_cursor v \<le> f" and fl: "unat f \<le> length src"
    and inside: "\<forall>c \<in> set cs. unat (m_cursor v) \<le> cstart c \<longrightarrow> cstart c < unat f \<longrightarrow> cend src c \<le> unat f"
  shows "text_inv src cs (addExtra (m_cursor v) f v)"
proof -
  have len: "length src < 2 ^ 31" and ok: "comments_ok src cs" and co: "core src cs (unat (m_cursor v)) v"
    using inv by (simp_all add: text_inv_def)
  have cf: "m_cursor (addExtra (m_cursor v) f v) = f" using addExtra_frame [of "m_cursor v" f v] by (simp add: vframe_def)
  have ule: "unat (m_cursor v) \<le> unat f" using le by (simp add: word_le_nat_alt)
  show ?thesis
  proof (cases "length (m_extraLocations v) \<le> m_extraIndex v")
    case True
    then have "core src cs (unat f) (v\<lparr>m_output := m_output v @ (if qtrimmed_empty (qmid src (m_cursor v) (f - m_cursor v))
        then qmid src (m_cursor v) (f - m_cursor v) else protect (qmid src (m_cursor v) (f - m_cursor v))),
        m_extraIndex := m_extraIndex v\<rparr>)"
      using core_append [OF co rest_text [THEN conjunct1] _ ule fl] rest_text [THEN conjunct2] co
      by (simp add: qmid_def unat_sub le core_def)
    then show ?thesis using True co len ok cf
      by (simp add: text_inv_def addExtra_def add_rest_def core_def)
  next
    case False
    obtain i' v2 where e: "emit_extras (m_cursor v) f v = (i', v2)" by fastforce
    have sk: "skip_extras (m_cursor v) v = v" using skip_extras_noop co by simp
    have em: "core src cs (unat i') v2 \<and> i' \<le> f \<and> (\<forall>c \<in> set (drop (m_extraIndex v2) cs). unat f \<le> cstart c)"
      using emit_extras_text [OF len ok co le fl inside] e by simp
    have ui: "unat i' \<le> unat f" using em by (simp add: word_le_nat_alt)
    have s2: "m_source v2 = src" and k2: "m_extraIndex v2 \<le> length cs" using em by (simp_all add: core_def)
    have qm: "qmid src i' (f - i') = take (unat f - unat i') (drop (unat i') src)"
      using em by (simp add: qmid_def unat_sub)
    have st: "strip_markup (if qtrimmed_empty (qmid src i' (f - i')) then qmid src i' (f - i')
        else protect (qmid src i' (f - i'))) = take (unat f - unat i') (drop (unat i') src)"
      by (rule trans [OF rest_text [THEN conjunct2] qm])
    have "core src cs (unat f) (v2\<lparr>m_output := m_output v2 @ (if qtrimmed_empty (qmid src i' (f - i'))
        then qmid src i' (f - i') else protect (qmid src i' (f - i'))), m_extraIndex := m_extraIndex v2\<rparr>)"
      by (rule core_append [OF em [THEN conjunct1] rest_text [THEN conjunct1] st ui fl order_refl k2]) (use em in simp)
    moreover have "addExtra (m_cursor v) f v = v2\<lparr>m_output := m_output v2 @ (if qtrimmed_empty (qmid src i' (f - i'))
        then qmid src i' (f - i') else protect (qmid src i' (f - i'))), m_cursor := f\<rparr>"
      using False e sk s2 by (simp add: addExtra_def add_rest_def)
    ultimately show ?thesis using len ok by (simp add: text_inv_def core_def)
  qed
qed

lemma span_ok_comments:
  assumes "span_ok src cs p" "sl_isValid (fst p)" "c \<in> set cs"
  shows "unat (sl_offset (fst p)) \<le> cstart c \<Longrightarrow> tok_end p \<le> cstart c"
    and "cstart c < unat (sl_offset (fst p)) \<Longrightarrow> cend src c \<le> unat (sl_offset (fst p))"
proof -
  have d: "tok_end p \<le> cstart c \<or> cend src c \<le> unat (sl_offset (fst p))"
    using assms by (simp add: span_ok_def list_all_iff)
  have w: "cstart c + 2 \<le> cend src c" by (simp add: cend_def cwidth_def)
  show "unat (sl_offset (fst p)) \<le> cstart c \<Longrightarrow> tok_end p \<le> cstart c" using d w by linarith
  show "cstart c < unat (sl_offset (fst p)) \<Longrightarrow> cend src c \<le> unat (sl_offset (fst p))"
    using d assms(1,2) by (simp add: span_ok_def)
qed

lemma flush_text:
  assumes inv: "text_inv src cs v" and s: "m_cursor v \<le> s" "unat s \<le> length src"
    and before: "\<forall>c \<in> set cs. cstart c < unat s \<longrightarrow> cend src c \<le> unat s"
  obtains v1 where "v1 = (if m_cursor v < s then addExtra (m_cursor v) s v else v)"
    "text_inv src cs v1" "m_cursor v1 = s" "m_source v1 = src"
proof -
  have "text_inv src cs (if m_cursor v < s then addExtra (m_cursor v) s v else v)
      \<and> m_cursor (if m_cursor v < s then addExtra (m_cursor v) s v else v) = s"
  proof (cases "m_cursor v < s")
    case True
    then show ?thesis using addExtra_text [OF inv s] before addExtra_frame [of "m_cursor v" s v]
      by (simp add: vframe_def)
  next
    case False
    then show ?thesis using inv s(1) by simp
  qed
  moreover have "m_source (if m_cursor v < s then addExtra (m_cursor v) s v else v) = src"
    using inv addExtra_frame [of "m_cursor v" s v] by (simp add: vframe_def text_inv_def core_def)
  ultimately show ?thesis using that by blast
qed

lemma core_token:
  assumes co: "core src cs p v" and ok: "span_ok src cs (f, l)" and valid: "sl_isValid f"
    and p: "p = unat (sl_offset f)" and chunk: "closed chunk" "strip_markup chunk = take (tok_end (f, l) - p) (drop p src)"
  shows "core src cs (tok_end (f, l)) (v\<lparr>m_output := m_output v @ chunk, m_extraIndex := m_extraIndex v\<rparr>)"
proof (rule core_append [OF co chunk])
  show "p \<le> tok_end (f, l)" "tok_end (f, l) \<le> length src" using ok valid p by (simp_all add: span_ok_def)
  show "m_extraIndex v \<le> m_extraIndex v" ..
  show "m_extraIndex v \<le> length cs" using co by (simp add: core_def)
  show "\<forall>c\<in>set (drop (m_extraIndex v) cs). tok_end (f, l) \<le> cstart c"
    using co span_ok_comments(1) [OF ok] valid p by (auto simp: core_def dest: in_set_dropD)
qed

lemma core_cursor [simp]: "core src cs p (v\<lparr>m_cursor := c\<rparr>) = core src cs p v"
  by (simp add: core_def)

lemma tok_end_sl_end:
  assumes "tok_end (f, l) \<le> length src" "length src < 2 ^ 31"
  shows "unat (sl_end (if sl_isValid l then l else f)) = tok_end (f, l)"
  using assms unat_end [of "if sl_isValid l then l else f" "length src"] by (simp add: tok_end_def Let_def)

lemma addVerbatim_text:
  assumes inv: "text_inv src cs v" and ok: "span_ok src cs (f, l)"
  shows "text_inv src cs (addVerbatim f l v)"
proof (cases "sl_isValid f \<and> \<not> sl_offset f < m_cursor v")
  case True
  define e where "e = (if sl_isValid l then l else f)"
  have len: "length src < 2 ^ 31" and cok: "comments_ok src cs" using inv by (simp_all add: text_inv_def)
  have b: "unat (sl_offset f) \<le> tok_end (f, l)" "tok_end (f, l) \<le> length src"
    using ok True by (simp_all add: span_ok_def)
  have fin: "unat (sl_end e) = tok_end (f, l)" using tok_end_sl_end [OF b(2) len] by (simp add: e_def)
  have s1: "m_cursor v \<le> sl_offset f" using True by (simp add: not_less)
  have s2: "unat (sl_offset f) \<le> length src" using b by linarith
  have before: "\<forall>c \<in> set cs. cstart c < unat (sl_offset f) \<longrightarrow> cend src c \<le> unat (sl_offset f)"
    using span_ok_comments(2) [OF ok] True by simp
  obtain v1 where v1: "v1 = (if m_cursor v < sl_offset f then addExtra (m_cursor v) (sl_offset f) v else v)"
    and i1: "text_inv src cs v1" and c1: "m_cursor v1 = sl_offset f" and src1: "m_source v1 = src"
    using flush_text [OF inv s1 s2 before] by blast
  have le: "sl_offset f \<le> sl_end e" using b fin by (simp add: word_le_nat_alt)
  have st: "strip_markup (protect (qmid src (sl_offset f) (sl_end e - sl_offset f)))
      = take (tok_end (f, l) - unat (sl_offset f)) (drop (unat (sl_offset f)) src)"
    using protect_text le fin by (simp add: qmid_def unat_sub)
  have "core src cs (tok_end (f, l))
      (v1\<lparr>m_output := m_output v1 @ protect (qmid src (sl_offset f) (sl_end e - sl_offset f)),
         m_extraIndex := m_extraIndex v1\<rparr>)"
    using core_token [OF _ ok _ _ protect_text [THEN conjunct1] st] i1 c1 True by (simp add: text_inv_def)
  then have "text_inv src cs (v1\<lparr>m_output := m_output v1 @ protect (qmid src (sl_offset f) (sl_end e - sl_offset f)),
      m_cursor := sl_end e\<rparr>)"
    using len cok fin by (simp add: text_inv_def)
  moreover have "addVerbatim f l v = v1\<lparr>m_output := m_output v1 @ protect (qmid src (sl_offset f) (sl_end e - sl_offset f)),
      m_cursor := sl_end e\<rparr>"
    using True src1 unfolding v1
    by (simp add: addVerbatim_def Let_def e_def if_distrib [where f = sl_end] split del: if_split)
  ultimately show ?thesis by simp
next
  case False
  then show ?thesis using inv by (auto simp: addVerbatim_def)
qed

lemma addMarkedUpToken_text:
  assumes inv: "text_inv src cs v" and ok: "span_ok src cs (t, no_loc)" and tag: "0x3E \<notin> set tag"
  shows "text_inv src cs (addMarkedUpToken t tag [] v)"
proof (cases "sl_isValid t \<and> \<not> sl_offset t < m_cursor v")
  case True
  have len: "length src < 2 ^ 31" and cok: "comments_ok src cs" using inv by (simp_all add: text_inv_def)
  have b: "unat (sl_offset t) \<le> tok_end (t, no_loc)" "tok_end (t, no_loc) \<le> length src"
    using ok True by (simp_all add: span_ok_def)
  have fin: "unat (sl_offset t + sl_length t) = tok_end (t, no_loc)"
    using tok_end_sl_end [OF b(2) len] by (simp add: sl_end_def)
  have s1: "m_cursor v \<le> sl_offset t" using True by (simp add: not_less)
  have s2: "unat (sl_offset t) \<le> length src" using b by linarith
  have before: "\<forall>c \<in> set cs. cstart c < unat (sl_offset t) \<longrightarrow> cend src c \<le> unat (sl_offset t)"
    using span_ok_comments(2) [OF ok] True by simp
  obtain v1 where v1: "v1 = (if m_cursor v < sl_offset t then addExtra (m_cursor v) (sl_offset t) v else v)"
    and i1: "text_inv src cs v1" and c1: "m_cursor v1 = sl_offset t" and src1: "m_source v1 = src"
    using flush_text [OF inv s1 s2 before] by blast
  have st: "strip_markup (latin1 ''<@'' @ tag @ latin1 ''>'' @ protect (qmid src (sl_offset t) (sl_length t))
        @ latin1 ''</@'' @ tag @ latin1 ''>'')
      = take (tok_end (t, no_loc) - unat (sl_offset t)) (drop (unat (sl_offset t)) src)"
    using markup_text [OF tag] by (simp add: qmid_def tok_end_def)
  have "core src cs (tok_end (t, no_loc))
      (v1\<lparr>m_output := m_output v1 @ latin1 ''<@'' @ tag @ latin1 ''>''
          @ protect (qmid src (sl_offset t) (sl_length t)) @ latin1 ''</@'' @ tag @ latin1 ''>'',
         m_extraIndex := m_extraIndex v1\<rparr>)"
    using core_token [OF _ ok _ _ markup_text [OF tag, THEN conjunct1] st] i1 c1 True by (simp add: text_inv_def)
  then have "text_inv src cs (v1\<lparr>m_output := m_output v1 @ latin1 ''<@'' @ tag @ latin1 ''>''
          @ protect (qmid src (sl_offset t) (sl_length t)) @ latin1 ''</@'' @ tag @ latin1 ''>'',
      m_cursor := sl_offset t + sl_length t\<rparr>)"
    using len cok fin by (simp add: text_inv_def)
  moreover have "addMarkedUpToken t tag [] v = v1\<lparr>m_output := m_output v1 @ latin1 ''<@'' @ tag @ latin1 ''>''
          @ protect (qmid src (sl_offset t) (sl_length t)) @ latin1 ''</@'' @ tag @ latin1 ''>'',
      m_cursor := sl_offset t + sl_length t\<rparr>"
    using True src1 c1 unfolding v1 by (simp add: addMarkedUpToken_def Let_def sourceText_def split del: if_split)
  ultimately show ?thesis by simp
next
  case False
  then show ?thesis using inv by (auto simp: addMarkedUpToken_def)
qed

lemma acc_opt_text:
  "preserves_text src cs acc \<Longrightarrow> list_all (span_ok src cs) (opt_concat (map_option qspans x)) \<Longrightarrow> text_inv src cs w
    \<Longrightarrow> text_inv src cs (acc_opt acc x w)"
  by (cases x) (simp_all add: preserves_text_def ast_ok_def opt_concat_def)

lemma fold_text:
  "preserves_text src cs acc \<Longrightarrow> list_all (span_ok src cs) (concat (map qspans ns)) \<Longrightarrow> text_inv src cs w
    \<Longrightarrow> text_inv src cs (fold acc ns w)"
  by (induction ns arbitrary: w) (simp_all add: preserves_text_def ast_ok_def)

lemma acc_decls_text:
  "preserves_text src cs acc
    \<Longrightarrow> list_all (span_ok src cs) (concat (map (\<lambda>(x, c). tok c # opt_concat x) (map (map_prod (map_option qspans) id) ds)))
    \<Longrightarrow> text_inv src cs w \<Longrightarrow> text_inv src cs (acc_decls acc ds w)"
  unfolding acc_decls_def
proof (induction ds arbitrary: w)
  case (Cons p ds)
  obtain x c where p: "p = (x, c)" by fastforce
  have "text_inv src cs (verb c (acc_opt acc x w))"
    using Cons.prems p by (auto intro!: addVerbatim_text acc_opt_text)
  then show ?case using Cons p by simp
qed simp

lemmas text_steps = addVerbatim_text addMarkedUpToken_text acc_opt_text fold_text acc_decls_text

lemma visit_ui_text:
  "preserves_text src cs acc \<Longrightarrow> list_all (span_ok src cs) (ui_spans u) \<Longrightarrow> text_inv src cs v
    \<Longrightarrow> text_inv src cs (visit_ui acc u v)"
  by (cases u) (auto simp: Let_def text_steps latin1_def opt_concat_def split: option.splits)

lemma visit_primary_text:
  "preserves_text src cs acc \<Longrightarrow> list_all (span_ok src cs) (primary_spans u) \<Longrightarrow> text_inv src cs v
    \<Longrightarrow> text_inv src cs (visit_primary acc u v)"
  by (cases u) (simp_all add: Let_def text_steps latin1_def)

lemma visit_compound_text:
  "preserves_text src cs acc \<Longrightarrow> list_all (span_ok src cs) (compound_spans u) \<Longrightarrow> text_inv src cs v
    \<Longrightarrow> text_inv src cs (visit_compound acc u v)"
  by (cases u) (simp_all add: Let_def text_steps latin1_def)

lemma visit_stmt_text:
  "preserves_text src cs acc \<Longrightarrow> list_all (span_ok src cs) (stmt_spans u) \<Longrightarrow> text_inv src cs v
    \<Longrightarrow> text_inv src cs (visit_stmt acc u v)"
  by (cases u) (simp_all add: Let_def text_steps latin1_def)

lemma visit_ctrl_text:
  "preserves_text src cs acc \<Longrightarrow> list_all (span_ok src cs) (ctrl_spans u) \<Longrightarrow> text_inv src cs v
    \<Longrightarrow> text_inv src cs (visit_ctrl acc u v)"
  by (cases u) (simp_all add: Let_def text_steps latin1_def)

lemma visit_decl_text:
  "preserves_text src cs acc \<Longrightarrow> list_all (span_ok src cs) (decl_spans u) \<Longrightarrow> text_inv src cs v
    \<Longrightarrow> text_inv src cs (visit_decl acc u v)"
  by (cases u) (simp_all add: Let_def text_steps latin1_def)

lemma accept_preserves_text: "preserves_text src cs (accept d)"
proof (induction "recursion_limit - d" arbitrary: d rule: less_induct)
  case less
  show ?case
  proof (cases "Suc d < recursion_limit")
    case True
    then have p: "preserves_text src cs (accept (Suc d))" using less by simp
    show ?thesis unfolding preserves_text_def
    proof (intro allI impI)
      fix c w assume "ast_ok src cs c" "text_inv src cs w"
      then show "text_inv src cs (accept d c w)" using True p
        by (subst accept.simps) (cases c; simp add: ast_ok_def visit_ui_text visit_primary_text
            visit_compound_text visit_stmt_text visit_ctrl_text visit_decl_text fold_text)
    qed
  next
    case False
    then show ?thesis unfolding preserves_text_def
      by (intro allI impI, subst accept.simps) (simp add: text_inv_def core_def)
  qed
qed


lemma visitor_text:
  "length src < 2 ^ 31 \<Longrightarrow> comments_ok src cs \<Longrightarrow> QmlMarkupVisitor src [] cs = Inr v \<Longrightarrow> text_inv src cs v"
  by (auto simp: QmlMarkupVisitor_def merge_loop.simps text_inv_def core_def)

lemma ex_visitor_built: "QmlMarkupVisitor ex_src [] [ex_loc 12 3] = Inr ex_visitor"
  by (simp add: QmlMarkupVisitor_def merge_loop.simps ex_visitor_def)

lemma ex_facts: "length ex_src < 2 ^ 31" "comments_ok ex_src [ex_loc 12 3]" "ast_ok ex_src [ex_loc 12 3] ex_if"
  by (simp add: ex_src_def latin1_def) code_simp+

subsection \<open>Properties\<close>



text \<open>C5: the text invariant is an invariant of the traversal: visiting any well-placed
  syntax tree from a state satisfying it yields a state satisfying it.\<close>

theorem accept_keeps_text_invariant:
  "text_inv src cs v \<Longrightarrow> ast_ok src cs n \<Longrightarrow> text_inv src cs (accept d n v)"
  using accept_preserves_text [of src cs d] unfolding preserves_text_def by blast

theorem accept_keeps_text_invariant_witness:
  "text_inv ex_src [ex_loc 12 3] ex_visitor \<and> ast_ok ex_src [ex_loc 12 3] ex_if
   \<and> text_inv ex_src [ex_loc 12 3] (accept 0 ex_if ex_visitor)"
proof -
  have i: "text_inv ex_src [ex_loc 12 3] ex_visitor"
    using visitor_text [OF ex_facts(1,2) ex_visitor_built] .
  show ?thesis using accept_keeps_text_invariant [OF i ex_facts(3)] i ex_facts(3) by simp
qed

text \<open>C10: \<open>protect\<close> escapes every markup character: its output contains no \<open><\<close>, \<open>>\<close>
  or \<open>"\<close>, and decoding the entities gives the input back.\<close>

theorem protect_escapes:
  "strip_markup (protect s) = s \<and> 0x3C \<notin> set (protect s) \<and> 0x3E \<notin> set (protect s) \<and> 0x22 \<notin> set (protect s)"
  using protect_text [of s] by (auto simp: protect_def protect_char_def latin1_def)

end
