(* ===== verification/QML_Findings.thy ===== *)
theory QML_Findings
  imports QML_Text
begin

text \<open>
  Behaviours of the QML markup visitor found while modelling it: the constructor's
  merge of comments and pragmas reads the comment list with the pragma index
  (qmlmarkupvisitor.cpp line 38), a postfix operator's operand is never marked up,
  and the attribute loop of \<open>addMarkedUpToken\<close> prints each value as a key.
\<close>

subsection \<open>The intended merge\<close>

text \<open>What the comment of the constructor describes: merge the two lists of
  locations by offset, a comment first when it starts strictly earlier.\<close>

fun merge_ref :: "srcloc list \<Rightarrow> srcloc list \<Rightarrow> (extra_type \<times> srcloc) list" where
  "merge_ref [] ps = map (Pair Pragma) ps"
| "merge_ref cs [] = map (Pair Comment) cs"
| "merge_ref (c # cs) (p # ps) =
    (if sl_offset c < sl_offset p then (Comment, c) # merge_ref cs (p # ps)
     else (Pragma, p) # merge_ref (c # cs) ps)"

definition ex_pragmas_first :: "srcloc list \<times> srcloc list" where
  "ex_pragmas_first = ([ex_loc 0 15, ex_loc 16 20], [ex_loc 40 5])"

subsection \<open>Lemmas\<close>

lemma merge_loop_comments_first:
  assumes "ps \<noteq> []" "\<forall>c \<in> set cs. sl_offset c < sl_offset (hd ps)"
  shows "i \<le> length cs \<Longrightarrow> merge_loop cs ps i 0 tys locs
    = Inr (length cs, 0, tys @ replicate (length cs - i) Comment, locs @ drop i cs)"
proof (induction "length cs - i" arbitrary: i tys locs)
  case 0
  then show ?case by (subst merge_loop.simps) simp
next
  case (Suc k)
  then have i: "i < length cs" by simp
  have "sl_offset (cs ! i) < sl_offset (ps ! 0)" using assms i by (simp add: hd_conv_nth)
  then have "merge_loop cs ps i 0 tys locs = merge_loop cs ps (Suc i) 0 (tys @ [Comment]) (locs @ [cs ! i])"
    using i assms(1) by (subst merge_loop.simps) simp
  also have "\<dots> = Inr (length cs, 0, tys @ [Comment] @ replicate (length cs - Suc i) Comment, (locs @ [cs ! i]) @ drop (Suc i) cs)"
    using Suc.hyps(1) [of "Suc i"] Suc.hyps(2) i by simp
  finally show ?case using i by (simp add: Cons_nth_drop_Suc replicate_Suc [symmetric] Suc_diff_Suc)
qed

lemma merge_ref_comments_first:
  "\<forall>c \<in> set cs. \<forall>p \<in> set ps. sl_offset c < sl_offset p \<Longrightarrow>
    merge_ref cs ps = map (Pair Comment) cs @ map (Pair Pragma) ps"
  by (induction cs ps rule: merge_ref.induct) auto


lemma addVerbatim_cursor:
  "sl_isValid t \<Longrightarrow> m_cursor v \<le> sl_offset t \<Longrightarrow> m_cursor (addVerbatim t no_loc v) = sl_end t"
  by (auto simp: addVerbatim_def Let_def not_less)

lemma visitor_no_pragmas: "QmlMarkupVisitor src [] cs = Inr v \<Longrightarrow>
    m_extraTypes v = replicate (length cs) Comment \<and> m_extraLocations v = cs"
  by (auto simp: QmlMarkupVisitor_def merge_loop.simps)

subsection \<open>Properties\<close>

text \<open>C9: when every comment starts before every pragma, the constructor's merge is the
  merge the comment describes: the extras are the comments, then the pragmas, in order.\<close>

theorem merge_refines_when_comments_first:
  assumes "\<forall>c \<in> set cs. \<forall>p \<in> set ps. sl_offset c < sl_offset p" "QmlMarkupVisitor src ps cs = Inr v"
  shows "zip (m_extraTypes v) (m_extraLocations v) = merge_ref cs ps"
proof (cases "ps = []")
  case True
  then show ?thesis using assms(2) visitor_no_pragmas [of src cs v]
    by (simp add: zip_replicate1 merge_ref_comments_first)
next
  case False
  then have "\<forall>c \<in> set cs. sl_offset c < sl_offset (hd ps)" using assms(1) by simp
  then have "merge_loop cs ps 0 0 [] [] = Inr (length cs, 0, replicate (length cs) Comment, cs)"
    using merge_loop_comments_first [OF False] by simp
  then have "m_extraTypes v = replicate (length cs) Comment @ replicate (length ps) Pragma"
      "m_extraLocations v = cs @ ps"
    using assms(2) by (auto simp: QmlMarkupVisitor_def)
  then show ?thesis using merge_ref_comments_first [OF assms(1)] by (simp add: zip_replicate1)
qed

theorem merge_refines_when_comments_first_witness:
  "sl_offset (ex_loc 2 10) < sl_offset (ex_loc 14 15)
   \<and> QmlMarkupVisitor ex_src [ex_loc 14 15] [ex_loc 2 10] = Inr \<lparr>m_source = ex_src,
       m_extraTypes = [Comment, Pragma], m_extraLocations = [ex_loc 2 10, ex_loc 14 15],
       m_cursor = 0, m_extraIndex = 0, m_output = [], m_hasRecursionDepthError = False\<rparr>
   \<and> zip [Comment, Pragma] [ex_loc 2 10, ex_loc 14 15] = merge_ref [ex_loc 2 10] [ex_loc 14 15]"
proof -
  have h: "\<forall>c \<in> set [ex_loc 2 10]. \<forall>p \<in> set [ex_loc 14 15]. sl_offset c < sl_offset p"
    by (simp add: ex_loc_def)
  have v: "QmlMarkupVisitor ex_src [ex_loc 14 15] [ex_loc 2 10] = Inr \<lparr>m_source = ex_src,
       m_extraTypes = [Comment, Pragma], m_extraLocations = [ex_loc 2 10, ex_loc 14 15],
       m_cursor = 0, m_extraIndex = 0, m_output = [], m_hasRecursionDepthError = False\<rparr>"
    by (simp add: QmlMarkupVisitor_def merge_loop.simps ex_loc_def)
  show ?thesis using merge_refines_when_comments_first [OF h v] v by (simp add: ex_loc_def)
qed

text \<open>when a pragma does not start after a comment, the merge records the comment's
  location for the pragma (line 38 appends \<open>comments[j]\<close>): the pragma's location is
  lost and the comment appears twice, where the described merge keeps both.\<close>

theorem pragma_location_replaced:
  assumes "\<not> sl_offset c < sl_offset p"
  shows "map_sum id (\<lambda>v. zip (m_extraTypes v) (m_extraLocations v)) (QmlMarkupVisitor src [p] [c])
      = Inr [(Pragma, c), (Comment, c)]
    \<and> merge_ref [c] [p] = [(Pragma, p), (Comment, c)]"
  using assms by (simp add: QmlMarkupVisitor_def merge_loop.simps)

theorem pragma_location_replaced_witness:
  "\<not> sl_offset (ex_loc 12 3) < sl_offset (ex_loc 0 10)
   \<and> map_sum id (\<lambda>v. zip (m_extraTypes v) (m_extraLocations v)) (QmlMarkupVisitor ex_src [ex_loc 0 10] [ex_loc 12 3])
      = Inr [(Pragma, ex_loc 12 3), (Comment, ex_loc 12 3)]"
proof -
  have h: "\<not> sl_offset (ex_loc 12 3) < sl_offset (ex_loc 0 10)" by (simp add: ex_loc_def)
  show ?thesis using pragma_location_replaced [OF h] h by simp
qed

text \<open>C8: with two pragmas before the only comment, the merge reads \<open>comments[1]\<close>, past
  the end of the comment list: undefined behaviour (an assertion in a debug build).\<close>

theorem visitor_reads_past_comments:
  assumes "sl_offset p0 \<le> sl_offset c" "sl_offset p1 \<le> sl_offset c"
  shows "QmlMarkupVisitor src [p0, p1] [c] = Inl (OutOfBounds 1)"
  using assms by (simp add: QmlMarkupVisitor_def merge_loop.simps not_less)

theorem visitor_reads_past_comments_witness:
  "sl_offset (ex_loc 0 15) \<le> sl_offset (ex_loc 40 5) \<and> sl_offset (ex_loc 16 20) \<le> sl_offset (ex_loc 40 5)
   \<and> QmlMarkupVisitor ex_src [ex_loc 0 15, ex_loc 16 20] [ex_loc 40 5] = Inl (OutOfBounds 1)"
proof -
  have h: "sl_offset (ex_loc 0 15) \<le> sl_offset (ex_loc 40 5)" "sl_offset (ex_loc 16 20) \<le> sl_offset (ex_loc 40 5)"
    by (simp_all add: ex_loc_def)
  show ?thesis using visitor_reads_past_comments [OF h] h by simp
qed

text \<open>the operand of a postfix operator is never marked up: the visit writes the
  operator token first, which moves the cursor past the operand, so the operand's
  \<open>addMarkedUpToken\<close> returns without output (the operand's text was already copied as
  plain text).  Visiting the expression is the same as writing the operator alone.\<close>

theorem postfix_operand_not_marked:
  assumes "Suc (Suc d) < recursion_limit" "sl_isValid t" "m_cursor v \<le> sl_offset t"
    "sl_offset x < sl_offset t" "sl_offset t \<le> sl_end t"
  shows "accept d (Compound (UnaryExpression op t (Some (Primary (IdentifierExpression x))))) v
    = addVerbatim t no_loc v"
proof -
  have c: "m_cursor (addVerbatim t no_loc v) = sl_end t" using addVerbatim_cursor assms(2,3) .
  have "sl_offset x < m_cursor (addVerbatim t no_loc v)" using c assms(4,5) by simp
  then show ?thesis using assms(1) by (simp add: addMarkedUpToken_def)
qed

theorem postfix_operand_not_marked_witness:
  "Suc (Suc 0) < recursion_limit \<and> sl_isValid (ex_loc 1 2) \<and> m_cursor ex_visitor \<le> sl_offset (ex_loc 1 2)
   \<and> sl_offset (ex_loc 0 1) < sl_offset (ex_loc 1 2) \<and> sl_offset (ex_loc 1 2) \<le> sl_end (ex_loc 1 2)
   \<and> accept 0 (Compound (UnaryExpression PostIncrement (ex_loc 1 2) (Some (Primary (IdentifierExpression (ex_loc 0 1))))))
       ex_visitor = addVerbatim (ex_loc 1 2) no_loc ex_visitor"
proof -
  have h: "Suc (Suc 0) < recursion_limit" "sl_isValid (ex_loc 1 2)" "m_cursor ex_visitor \<le> sl_offset (ex_loc 1 2)"
    "sl_offset (ex_loc 0 1) < sl_offset (ex_loc 1 2)" "sl_offset (ex_loc 1 2) \<le> sl_end (ex_loc 1 2)"
    by (simp_all add: recursion_limit_def sl_isValid_def ex_loc_def ex_visitor_def sl_end_def)
  show ?thesis using postfix_operand_not_marked [OF h] h by simp
qed

text \<open>C40: \<open>addMarkedUpToken\<close> prints an attribute \<open>key="value"\<close> as \<open>value=""\<close>: the
  range-for over the \<open>QHash\<close> binds its values, and each value is then looked up as a
  key.  (No caller in this file passes attributes.)\<close>

theorem attribute_value_printed_as_name:
  assumes "sl_isValid t" "m_cursor v = sl_offset t" "k \<noteq> val"
  shows "m_output (addMarkedUpToken t tag [(k, val)] v) = m_output v @ latin1 ''<@'' @ tag
    @ latin1 '' '' @ val @ [0x3D, 0x22, 0x22] @ latin1 ''>'' @ protect (sourceText t v)
    @ latin1 ''</@'' @ tag @ latin1 ''>''"
  using assms by (simp add: addMarkedUpToken_def hash_value_def)

theorem attribute_value_printed_as_name_witness:
  "sl_isValid (ex_loc 0 2) \<and> m_cursor ex_visitor = sl_offset (ex_loc 0 2) \<and> latin1 ''href'' \<noteq> latin1 ''x''
   \<and> m_output (addMarkedUpToken (ex_loc 0 2) (latin1 ''link'') [(latin1 ''href'', latin1 ''x'')] ex_visitor)
     = latin1 ''<@link x='' @ [0x22, 0x22] @ latin1 ''>if</@link>''"
proof -
  have h: "sl_isValid (ex_loc 0 2)" "m_cursor ex_visitor = sl_offset (ex_loc 0 2)" "latin1 ''href'' \<noteq> latin1 ''x''"
    by (simp_all add: sl_isValid_def ex_loc_def ex_visitor_def latin1_def)
  have "m_output (addMarkedUpToken (ex_loc 0 2) (latin1 ''link'') [(latin1 ''href'', latin1 ''x'')] ex_visitor)
     = latin1 ''<@link x='' @ [0x22, 0x22] @ latin1 ''>if</@link>''"
    using attribute_value_printed_as_name [OF h]
    by (simp add: ex_visitor_def ex_src_def ex_loc_def sourceText_def qmid_def protect_def protect_char_def latin1_def)
  then show ?thesis using h by simp
qed

end
