(* ===== verification/Run_Qt_Tool.thy ===== *)
theory Run_Qt_Tool
  imports Qt_String
begin

text \<open>
  Linguist's helper for running another Qt tool, src/src/linguist/shared/runqttool.cpp:
  the tool's path (\<open>qtToolFilePath\<close>), the quoting of the program and its arguments
  for the shell (\<open>shellQuoted\<close>, \<open>commandLineForSystem\<close>), the run through
  \<open>std::system\<close> with its exit status (\<open>runQtTool\<close>, \<open>runInternalQtTool\<close>), and
  \<open>createProjectDescription\<close>.  The shell and the process are the environment: the
  status \<open>std::system\<close> returns is an argument, and \<open>/bin/sh\<close>'s splitting of a
  command line into words is modelled by \<open>sh_split\<close> for the characters it treats
  literally.
\<close>

subsection \<open>Qt and C library behaviour\<close>

text \<open>\<open>QDir::cleanPath\<close> on Unix: empty and \<open>.\<close> segments dropped, \<open>..\<close> resolved against
  the previous segment (dropped at the root of an absolute path, kept at the start
  of a relative one), no trailing separator, \<open>.\<close> for an empty result.\<close>

definition clean_segments :: "bool \<Rightarrow> u16 list list \<Rightarrow> u16 list list" where
  "clean_segments absolute segs =
     foldl (\<lambda>st s. if s = [] \<or> s = latin1 ''.'' then st
                   else if s = latin1 ''..'' then
                     (if st \<noteq> [] \<and> last st \<noteq> latin1 ''..'' then butlast st
                      else if absolute then st else st @ [s])
                   else st @ [s]) [] segs"

definition cleanPath :: "u16 list \<Rightarrow> u16 list" where
  "cleanPath p =
     (let absolute = (p \<noteq> [] \<and> hd p = 0x2F);
          r = (if absolute then [0x2F] else []) @ qjoin 0x2F (clean_segments absolute (qsplit 0x2F p))
      in if r = [] then latin1 ''.'' else r)"

text \<open>\<open>WEXITSTATUS\<close> of the status \<open>std::system\<close> returns (glibc: bits 8 to 15).\<close>

definition wexitstatus :: "32 word \<Rightarrow> int" where
  "wexitstatus status = uint (drop_bit 8 (status AND 0xFF00))"

subsection \<open>The shell\<close>

text \<open>
  How \<open>/bin/sh -c\<close> splits a command line into words, for the characters it reads
  literally.  Outside quotes, blanks (space, tab, newline) separate words and a
  double quote opens a quoted part; inside double quotes every character is literal
  up to the closing quote.  A character the shell would interpret (an operator, an
  expansion, a glob, an escape, a comment or quote character) makes the result
  \<open>None\<close>: the command line no longer means a list of literal words.
\<close>

definition sh_meta :: "u16 \<Rightarrow> bool" where
  "sh_meta c = (c \<in> set [0x5C, 0x27, 0x3B, 0x26, 0x7C, 0x3C, 0x3E, 0x28, 0x29, 0x2A, 0x3F, 0x5B, 0x5D,
     0x23, 0x7E, 0x21, 0x7B, 0x7D, 0x24, 0x60, 0x22])"

definition sh_blank :: "u16 \<Rightarrow> bool" where
  "sh_blank c = (c = 0x20 \<or> c = 0x09 \<or> c = 0x0A)"

datatype sh_state = Outside "u16 list list" | InWord "u16 list list" "u16 list"
  | InQuotes "u16 list list" "u16 list" | ShFail

fun sh_step :: "sh_state \<Rightarrow> u16 \<Rightarrow> sh_state" where
  "sh_step (Outside ws) c =
     (if sh_blank c then Outside ws else if c = 0x22 then InQuotes ws []
      else if sh_meta c then ShFail else InWord ws [c])"
| "sh_step (InWord ws w) c =
     (if sh_blank c then Outside (ws @ [w]) else if c = 0x22 then InQuotes ws w
      else if sh_meta c then ShFail else InWord ws (w @ [c]))"
| "sh_step (InQuotes ws w) c =
     (if c = 0x22 then InWord ws w else if c = 0x24 \<or> c = 0x60 \<or> c = 0x5C then ShFail
      else InQuotes ws (w @ [c]))"
| "sh_step ShFail c = ShFail"

fun sh_finish :: "sh_state \<Rightarrow> u16 list list option" where
  "sh_finish (Outside ws) = Some ws"
| "sh_finish (InWord ws w) = Some (ws @ [w])"
| "sh_finish (InQuotes ws w) = None"
| "sh_finish ShFail = None"

definition sh_split :: "u16 list \<Rightarrow> u16 list list option" where
  "sh_split cmd = sh_finish (foldl sh_step (Outside []) cmd)"

subsection \<open>The tool's command line\<close>

text \<open>Lines 23--30, on Unix (no \<open>.exe\<close> suffix): the library path, a slash, the tool.\<close>

definition qtToolFilePath :: "u16 list \<Rightarrow> u16 list \<Rightarrow> u16 list" where
  "qtToolFilePath toolName location = cleanPath (location @ [0x2F] @ toolName)"

text \<open>Lines 37--47: a string containing white space (\<open>\s\<close>) is put between double
  quotes; nothing inside it is escaped.\<close>

definition shellQuoted :: "u16 list \<Rightarrow> u16 list" where
  "shellQuoted str = (if list_ex qchar_isSpace str then [0x22] @ str @ [0x22] else str)"

text \<open>Lines 49--56.\<close>

definition shellQuoted_list :: "u16 list list \<Rightarrow> u16 list list" where
  "shellQuoted_list strs = map shellQuoted strs"

text \<open>Lines 58--64.\<close>

definition commandLineForSystem :: "u16 list \<Rightarrow> u16 list list \<Rightarrow> u16 list" where
  "commandLineForSystem program arguments =
     shellQuoted program @ [0x20] @ qjoin 0x20 (shellQuoted_list arguments)"

subsection \<open>Running the tool\<close>

text \<open>What a run ends with: the caller continues, or the process exits with a code.\<close>

datatype 'a run_result = Continue 'a | Exit int

text \<open>Lines 66--81, on Unix: the command line is run by \<open>std::system\<close>, whose status is
  \<open>status_of\<close> of the command; a non-zero \<open>WEXITSTATUS\<close> ends the process with it.\<close>

definition runQtTool :: "(u16 list \<Rightarrow> 32 word) \<Rightarrow> u16 list \<Rightarrow> u16 list list \<Rightarrow> u16 list \<Rightarrow> unit run_result" where
  "runQtTool status_of toolName arguments location =
     (let commandLine = commandLineForSystem (qtToolFilePath toolName location) arguments;
          exitCode = wexitstatus (status_of commandLine)
      in if exitCode \<noteq> 0 then Exit exitCode else Continue ())"

text \<open>Lines 83--86: a tool from the library-executables directory \<open>libexec\<close>.\<close>

definition runInternalQtTool :: "(u16 list \<Rightarrow> 32 word) \<Rightarrow> u16 list \<Rightarrow> u16 list \<Rightarrow> u16 list list \<Rightarrow> unit run_result" where
  "runInternalQtTool status_of libexec toolName arguments = runQtTool status_of toolName arguments libexec"

text \<open>Lines 88--99: create the temporary file (\<open>opened\<close> says whether \<open>open()\<close>
  succeeded, \<open>fileName\<close> is its name), then run \<open>lprodump\<close> with \<open>-out\<close> and the name
  appended to the arguments; the result is the file.\<close>

definition createProjectDescription ::
  "(u16 list \<Rightarrow> 32 word) \<Rightarrow> u16 list \<Rightarrow> bool \<Rightarrow> u16 list \<Rightarrow> u16 list list \<Rightarrow> u16 list run_result" where
  "createProjectDescription status_of libexec opened fileName args =
     (if \<not> opened then Exit 1
      else case runInternalQtTool status_of libexec (latin1 ''lprodump'') (args @ [latin1 ''-out'', fileName]) of
             Exit c \<Rightarrow> Exit c
           | Continue _ \<Rightarrow> Continue fileName)"


text \<open>An example library-executables directory.\<close>

definition ex_libexec :: "u16 list" where
  "ex_libexec = latin1 ''/usr/lib/qt6/libexec/''"

subsection \<open>Lemmas\<close>

lemma blank_is_space: "sh_blank c \<Longrightarrow> qchar_isSpace c"
  by (auto simp: sh_blank_def qchar_isSpace_def)

lemma sh_quoted_chars:
  "\<forall>c \<in> set a. \<not> sh_meta c \<Longrightarrow> foldl sh_step (InQuotes ws w) a = InQuotes ws (w @ a)"
  by (induction a arbitrary: w) (auto simp: sh_meta_def)

lemma sh_word_chars:
  "\<forall>c \<in> set a. \<not> sh_meta c \<and> \<not> sh_blank c \<Longrightarrow> foldl sh_step (InWord ws w) a = InWord ws (w @ a)"
  by (induction a arbitrary: w) (auto simp: sh_meta_def)

lemma sh_shellQuoted:
  assumes "a \<noteq> []" "\<forall>c \<in> set a. \<not> sh_meta c"
  shows "foldl sh_step (Outside ws) (shellQuoted a) = InWord ws a"
proof (cases "list_ex qchar_isSpace a")
  case True
  have "foldl sh_step (Outside ws) (shellQuoted a) = sh_step (foldl sh_step (InQuotes ws []) a) 0x22"
    using True by (simp add: shellQuoted_def sh_blank_def)
  then show ?thesis using sh_quoted_chars [OF assms(2)] by simp
next
  case False
  then have nb: "\<forall>c \<in> set a. \<not> sh_meta c \<and> \<not> sh_blank c"
    using assms(2) blank_is_space by (auto simp: list_ex_iff)
  obtain c cs where a: "a = c # cs" using assms(1) by (cases a) auto
  have "foldl sh_step (Outside ws) (shellQuoted a) = foldl sh_step (InWord ws [c]) cs"
    using False nb a by (simp add: shellQuoted_def sh_meta_def)
  then show ?thesis using sh_word_chars [of cs ws "[c]"] nb a by simp
qed

lemma sh_joined:
  assumes "\<forall>a \<in> set args. a \<noteq> [] \<and> (\<forall>c \<in> set a. \<not> sh_meta c)" "args \<noteq> []"
  shows "foldl sh_step (Outside ws) (qjoin 0x20 (map shellQuoted args)) = InWord (ws @ butlast args) (last args)"
  using assms
proof (induction args arbitrary: ws)
  case Nil
  then show ?case by simp
next
  case (Cons x xs)
  show ?case
  proof (cases xs)
    case Nil
    then show ?thesis using sh_shellQuoted [of x ws] Cons.prems(1) by simp
  next
    case (Cons y zs)
    have "foldl sh_step (Outside ws) (shellQuoted x @ [0x20]) = Outside (ws @ [x])"
      using sh_shellQuoted [of x ws] Cons.prems(1) by (simp add: sh_blank_def)
    then show ?thesis using Cons.IH [of "ws @ [x]"] Cons.prems(1) \<open>xs = y # zs\<close> by simp
  qed
qed


lemma commandLine_split:
  "commandLineForSystem p args = shellQuoted p @ [0x20] @ qjoin 0x20 (map shellQuoted args)"
  by (simp add: commandLineForSystem_def shellQuoted_list_def)

lemma sh_program:
  assumes "p \<noteq> []" "\<forall>c \<in> set p. \<not> sh_meta c"
  shows "foldl sh_step (Outside []) (shellQuoted p @ [0x20]) = Outside [p]"
  using sh_shellQuoted [OF assms, of "[]"] by (simp add: sh_blank_def)

lemma wexitstatus_range: "0 \<le> wexitstatus s \<and> wexitstatus s \<le> 255"
proof -
  have "unat (drop_bit 8 s AND (255 :: 32 word)) \<le> 255"
    using word_and_le1 [of "drop_bit 8 s" "255 :: 32 word"] by (simp add: word_le_nat_alt)
  moreover have "drop_bit 8 (s AND 0xFF00) = drop_bit 8 s AND (255 :: 32 word)" by simp
  ultimately have "unat (drop_bit 8 (s AND 0xFF00)) \<le> 255" by simp
  then show ?thesis unfolding wexitstatus_def uint_nat by linarith
qed

lemma wexitstatus_zero: "s AND 0xFF00 = 0 \<Longrightarrow> wexitstatus s = 0"
  by (simp only: wexitstatus_def) simp

subsection \<open>Properties\<close>

text \<open>C7: for a program and arguments that are non-empty and contain no character the
  shell interprets, the shell splits the command line back into exactly the program
  and the arguments, in order.\<close>

theorem commandLine_words:
  assumes "\<forall>a \<in> set (program # arguments). a \<noteq> [] \<and> (\<forall>c \<in> set a. \<not> sh_meta c)"
  shows "sh_split (commandLineForSystem program arguments) = Some (program # arguments)"
proof (cases "arguments = []")
  case True
  then show ?thesis using sh_program [of program] assms by (simp add: sh_split_def commandLine_split)
next
  case False
  have "foldl sh_step (Outside [p]) (qjoin 0x20 (map shellQuoted arguments))
      = InWord ([p] @ butlast arguments) (last arguments)" for p
    using sh_joined [OF _ False] assms by simp
  then show ?thesis using sh_program [of program] assms False
    by (simp add: sh_split_def commandLine_split)
qed


theorem commandLine_words_witness:
  "sh_split (commandLineForSystem (qtToolFilePath (latin1 ''lprodump'') ex_libexec)
      [latin1 ''my app.pro'', latin1 ''-out'', latin1 ''x.json''])
   = Some [latin1 ''/usr/lib/qt6/libexec/lprodump'', latin1 ''my app.pro'', latin1 ''-out'', latin1 ''x.json'']"
proof -
  have p: "qtToolFilePath (latin1 ''lprodump'') ex_libexec = latin1 ''/usr/lib/qt6/libexec/lprodump''"
    by code_simp
  have h: "\<forall>a \<in> set (latin1 ''/usr/lib/qt6/libexec/lprodump'' # [latin1 ''my app.pro'', latin1 ''-out'', latin1 ''x.json'']).
      a \<noteq> [] \<and> (\<forall>c \<in> set a. \<not> sh_meta c)"
    by code_simp
  show ?thesis using commandLine_words [OF h] p by simp
qed

text \<open>C26: an argument containing white space and a double quote is not protected: the
  argument \<open>u" "v\<close> reaches the tool as the two arguments \<open>u\<close> and \<open>v\<close> (shellQuoted
  adds quotes but escapes nothing inside them).\<close>

theorem quoted_argument_splits:
  assumes "program \<noteq> []" "\<forall>c \<in> set program. \<not> sh_meta c" "\<forall>c \<in> set (u @ v). \<not> sh_meta c"
  shows "sh_split (commandLineForSystem program [u @ [0x22, 0x20, 0x22] @ v]) = Some [program, u, v]"
proof -
  have q: "shellQuoted (u @ [0x22, 0x20, 0x22] @ v) = [0x22] @ u @ [0x22, 0x20, 0x22] @ v @ [0x22]"
    by (simp add: shellQuoted_def qchar_isSpace_def)
  have "foldl sh_step (Outside [program]) ([0x22] @ u @ [0x22, 0x20, 0x22] @ v @ [0x22]) = InWord [program, u] v"
    using sh_quoted_chars [of u "[program]" "[]"] sh_quoted_chars [of v "[program, u]" "[]"] assms(3)
    by (simp add: sh_blank_def)
  then show ?thesis using sh_program [OF assms(1,2)] q by (simp add: sh_split_def commandLine_split)
qed

theorem quoted_argument_splits_witness:
  "sh_split (commandLineForSystem (latin1 ''lupdate'') [latin1 ''a'' @ [0x22, 0x20, 0x22] @ latin1 ''b''])
   = Some [latin1 ''lupdate'', latin1 ''a'', latin1 ''b'']"
proof -
  have h: "latin1 ''lupdate'' \<noteq> []" "\<forall>c \<in> set (latin1 ''lupdate''). \<not> sh_meta c"
    "\<forall>c \<in> set (latin1 ''a'' @ latin1 ''b''). \<not> sh_meta c"
    by (simp_all add: latin1_def sh_meta_def)
  show ?thesis using quoted_argument_splits [OF h] .
qed

text \<open>an empty argument is lost: \<open>shellQuoted\<close> leaves it empty, so the shell sees
  two adjacent blanks, and the next argument takes its place.\<close>

theorem empty_argument_dropped:
  assumes "\<forall>a \<in> set [program, x]. a \<noteq> [] \<and> (\<forall>c \<in> set a. \<not> sh_meta c)"
  shows "sh_split (commandLineForSystem program [[], x]) = Some [program, x]"
proof -
  have "foldl sh_step (Outside [program]) (0x20 # shellQuoted x) = InWord [program] x"
    using sh_shellQuoted [of x "[program]"] assms by (simp add: sh_blank_def)
  then show ?thesis using sh_program [of program] assms
    by (simp add: sh_split_def commandLine_split shellQuoted_def)
qed

theorem empty_argument_dropped_witness:
  "sh_split (commandLineForSystem (latin1 ''lrelease'') [[], latin1 ''x.ts'']) = Some [latin1 ''lrelease'', latin1 ''x.ts'']"
proof -
  have h: "\<forall>a \<in> set [latin1 ''lrelease'', latin1 ''x.ts'']. a \<noteq> [] \<and> (\<forall>c \<in> set a. \<not> sh_meta c)"
    by code_simp
  show ?thesis using empty_argument_dropped [OF h] .
qed

text \<open>C25: a tool that dies from a signal is taken for a success: its status has exit
  bits 0 (the signal number is in the low bits), \<open>WEXITSTATUS\<close> is 0 and \<open>runQtTool\<close>
  returns to its caller.\<close>

theorem signal_counts_as_success:
  assumes "status_of (commandLineForSystem (qtToolFilePath toolName location) arguments) AND 0xFF00 = 0"
  shows "runQtTool status_of toolName arguments location = Continue ()"
  using wexitstatus_zero [OF assms] by (simp add: runQtTool_def Let_def)

theorem signal_counts_as_success_witness:
  "runQtTool (\<lambda>_. 11) (latin1 ''lrelease'') [latin1 ''x.ts''] ex_libexec = Continue ()"
  using signal_counts_as_success [of "\<lambda>_. 11"] by (simp add: wexitstatus_def)

text \<open>when \<open>runQtTool\<close> ends the process, the exit code is between 1 and 255.\<close>

theorem runQtTool_exit_range:
  "runQtTool status_of toolName arguments location = Exit c \<Longrightarrow> 1 \<le> c \<and> c \<le> 255"
proof -
  assume r: "runQtTool status_of toolName arguments location = Exit c"
  define s where "s = status_of (commandLineForSystem (qtToolFilePath toolName location) arguments)"
  have "c = wexitstatus s \<and> wexitstatus s \<noteq> 0"
    using r by (simp add: runQtTool_def Let_def s_def split: if_splits)
  then show ?thesis using wexitstatus_range [of s] by simp
qed

theorem runQtTool_exit_range_witness:
  "runQtTool (\<lambda>_. 0x300) (latin1 ''lrelease'') [] ex_libexec = Exit 3 \<and> 1 \<le> (3::int) \<and> (3::int) \<le> 255"
proof -
  have e: "runQtTool (\<lambda>_. 0x300) (latin1 ''lrelease'') [] ex_libexec = Exit 3"
    by (simp add: runQtTool_def wexitstatus_def)
  show ?thesis using runQtTool_exit_range [OF e] e by simp
qed

text \<open>The command line is the program and the arguments, each quoted, joined by
  spaces, with one trailing space when there are no arguments.\<close>

theorem commandLine_is_join:
  "commandLineForSystem program arguments
     = qjoin 0x20 (map shellQuoted (program # arguments)) @ (if arguments = [] then [0x20] else [])"
  by (cases arguments) (simp_all add: commandLine_split)

end
