(* ===== verification/QML_Property_Node.thy ===== *)
theory QML_Property_Node
  imports Qt_String "HOL-Library.While_Combinator"
begin

text \<open>
  qdoc's QML property node, src/src/qdoc/qmlpropertynode.cpp: the constructor, which
  links the new node into its parent; \<open>isWritable\<close> and \<open>isRequired\<close>, which fall
  back on the C++ property a QML property documents; and
  \<open>findCorrespondingCppProperty\<close>, which walks up the parent pointers to the
  enclosing QML or JS type and looks the property, or its property group, up in the
  C++ class of that type.  The node tree is a store from addresses to nodes; the
  class database (\<open>ClassNode::findPropertyNode\<close>, \<open>QDocDatabase::findClassNode\<close>) is an
  interface the model takes as an argument.
\<close>

subsection \<open>Nodes\<close>

text \<open>\<open>Node::FlagValue\<close>, with \<open>toFlagValue\<close> and \<open>fromFlagValue\<close>.\<close>

datatype flag_value = FlagValueDefault | FlagValueFalse | FlagValueTrue

definition toFlagValue :: "bool \<Rightarrow> flag_value" where
  "toFlagValue b = (if b then FlagValueTrue else FlagValueFalse)"

fun fromFlagValue :: "flag_value \<Rightarrow> bool \<Rightarrow> bool" where
  "fromFlagValue FlagValueTrue _ = True"
| "fromFlagValue FlagValueFalse _ = False"
| "fromFlagValue FlagValueDefault d = d"

text \<open>\<open>Node::NodeType\<close> (the kinds the model distinguishes), \<open>Node::Genus\<close> with
  \<open>Node::getGenus\<close>, and \<open>Node::Status\<close>.\<close>

datatype node_type = Namespace | Class | Page | Property | Function | Variable
  | QmlType | QmlProperty | QmlBasicType | JsType | JsProperty | JsBasicType

datatype genus = CPP | DOC | QML | JS

fun getGenus :: "node_type \<Rightarrow> genus" where
  "getGenus Page = DOC"
| "getGenus QmlType = QML" | "getGenus QmlProperty = QML" | "getGenus QmlBasicType = QML"
| "getGenus JsType = JS" | "getGenus JsProperty = JS" | "getGenus JsBasicType = JS"
| "getGenus _ = CPP"

datatype node_status = Deprecated | Preliminary | Active | Internal | DontDocument

text \<open>A node as the rest of qdoc sees it through \<open>Node *\<close>: its type, parent, name,
  status, children (for an aggregate), and the C++ class of a QML type
  (\<open>classNode()\<close>, null for every other node) with \<open>cppClassRequired()\<close>.\<close>

record node =
  n_type :: node_type
  n_parent :: "nat option"
  n_name :: "u16 list"
  n_status :: node_status
  n_children :: "nat list"
  n_classNode :: "nat option"
  n_classNodeRequired :: bool

type_synonym node_store = "nat \<rightharpoonup> node"

text \<open>A \<open>QmlPropertyNode\<close> extends \<open>Node\<close> with its members (lines 17--27).\<close>

record qml_property_node = node +
  qp_type :: "u16 list"
  qp_isAlias :: bool
  qp_attached :: bool
  qp_readOnly :: flag_value
  qp_required :: flag_value

text \<open>A C++ \<open>PropertyNode\<close>: its name, its qualified data type, and what its
  \<open>isWritable()\<close> and \<open>isRequired()\<close> return.\<close>

record cpp_property =
  pn_name :: "u16 list"
  pn_qualifiedDataType :: "u16 list"
  pn_isWritable :: bool
  pn_isRequired :: bool

text \<open>The class database the property node consults: \<open>ClassNode::findPropertyNode\<close>
  on the class node at an address (it searches the class and its bases), and
  \<open>QDocDatabase::findClassNode\<close> on a qualified class name.\<close>

record qdoc_db =
  db_findPropertyNode :: "nat \<Rightarrow> u16 list \<Rightarrow> cpp_property option"
  db_findClassNode :: "u16 list list \<Rightarrow> nat option"

definition isQmlType :: "'a node_scheme \<Rightarrow> bool" where
  "isQmlType n = (n_type n = QmlType)"

definition isJsType :: "'a node_scheme \<Rightarrow> bool" where
  "isJsType n = (n_type n = JsType)"

text \<open>\<open>Node::parent()\<close>, followed in the store.\<close>

definition parent_node :: "node_store \<Rightarrow> 'a node_scheme \<Rightarrow> node option" where
  "parent_node st n = (case n_parent n of None \<Rightarrow> None | Some p \<Rightarrow> st p)"

text \<open>\<open>Aggregate::addChild\<close>: the child is appended to the children (the name maps
  kept for lookups are not modelled).\<close>

definition addChild :: "node \<Rightarrow> nat \<Rightarrow> node" where
  "addChild a c = a\<lparr>n_children := n_children a @ [c]\<rparr>"

subsection \<open>The property node\<close>

text \<open>Lines 17--27: \<open>parent->isJsType()\<close> chooses the node type (a null parent is
  undefined behaviour, \<open>None\<close>); the \<open>Node\<close> constructor links the node at the fresh
  address \<open>i\<close> into its parent; an \<open>alias\<close> type marks an alias and a name starting
  with \<open>__\<close> makes the property internal.\<close>

definition QmlPropertyNode ::
  "node_store \<Rightarrow> nat \<Rightarrow> nat \<Rightarrow> u16 list \<Rightarrow> u16 list \<Rightarrow> bool \<Rightarrow> (node_store \<times> qml_property_node) option" where
  "QmlPropertyNode st parent i name type attached =
     (case st parent of
        None \<Rightarrow> None
      | Some pa \<Rightarrow>
          (let p0 = \<lparr>n_type = (if isJsType pa then JsProperty else QmlProperty),
                     n_parent = Some parent, n_name = name, n_status = Active, n_children = [],
                     n_classNode = None, n_classNodeRequired = False,
                     qp_type = type, qp_isAlias = False, qp_attached = attached,
                     qp_readOnly = FlagValueDefault, qp_required = FlagValueDefault\<rparr>;
               p1 = (if type = latin1 ''alias'' then p0\<lparr>qp_isAlias := True\<rparr> else p0);
               p2 = (if prefix (latin1 ''__'') name then p1\<lparr>n_status := Internal\<rparr> else p1)
           in Some ((st(parent \<mapsto> addChild pa i))(i \<mapsto> node.truncate p2), p2)))"

text \<open>Lines 90--92: from a node, follow the parent pointers while the node is not a
  QML or JS type.  The loop runs for ever on a cycle of non-type nodes: \<open>None\<close>.\<close>

definition walk_to_type :: "node_store \<Rightarrow> node option \<Rightarrow> node option option" where
  "walk_to_type st =
     while_option (\<lambda>n. case n of None \<Rightarrow> False | Some m \<Rightarrow> \<not> (isQmlType m \<or> isJsType m))
                  (\<lambda>n. case n of None \<Rightarrow> None | Some m \<Rightarrow> parent_node st m)"

text \<open>\<open>Node::qmlTypeNode\<close>: for a QML or JS node, the same walk from the node itself.\<close>

definition qmlTypeNode :: "node_store \<Rightarrow> 'a node_scheme \<Rightarrow> node option option" where
  "qmlTypeNode st n =
     (if getGenus (n_type n) = QML \<or> getGenus (n_type n) = JS then walk_to_type st (Some (node.truncate n))
      else Some None)"

text \<open>\<open>Node::extractClassName\<close>: the first run of letters, digits, \<open>_\<close> and \<open>:\<close> that
  is not \<open>const\<close> (letters and digits are the ASCII ones).  The sentinel character
  past the end of the string ends the last run.\<close>

definition ecn_char :: "u16 \<Rightarrow> bool" where
  "ecn_char ch = ((0x61 \<le> ch \<and> ch \<le> 0x7A) \<or> (0x41 \<le> ch \<and> ch \<le> 0x5A) \<or> (0x30 \<le> ch \<and> ch \<le> 0x39)
                  \<or> ch = 0x5F \<or> ch = 0x3A)"

fun ecn_loop :: "u16 list \<Rightarrow> u16 list \<Rightarrow> u16 list" where
  "ecn_loop [] result = (if result \<noteq> [] \<and> result \<noteq> latin1 ''const'' then result else [])"
| "ecn_loop (ch # cs) result =
     (if ecn_char ch then ecn_loop cs (result @ [ch])
      else if result \<noteq> [] then (if result \<noteq> latin1 ''const'' then result else ecn_loop cs [])
      else ecn_loop cs result)"

definition extractClassName :: "u16 list \<Rightarrow> u16 list" where
  "extractClassName s = ecn_loop s []"

text \<open>Lines 87--131.  The outer option is the walk's termination; the inner one the
  pointer returned.  \<open>QString::split\<close> returns at least one part, so \<open>dotSplit[0]\<close> is
  always defined.\<close>

definition findCorrespondingCppProperty ::
  "node_store \<Rightarrow> qdoc_db \<Rightarrow> 'a node_scheme \<Rightarrow> cpp_property option option" where
  "findCorrespondingCppProperty st db p =
     (case walk_to_type st (parent_node st p) of
        None \<Rightarrow> None
      | Some n \<Rightarrow> Some
          (case n of
             None \<Rightarrow> None
           | Some qcn \<Rightarrow>
               (case n_classNode qcn of
                  None \<Rightarrow> None
                | Some cn \<Rightarrow>
                    (let dotSplit = qsplit 0x2E (n_name p) in
                     case db_findPropertyNode db cn (dotSplit ! 0) of
                       None \<Rightarrow> None
                     | Some pn \<Rightarrow>
                         if 1 < length dotSplit then
                           (case db_findClassNode db [extractClassName (pn_qualifiedDataType pn)] of
                              Some nn \<Rightarrow>
                                (case db_findPropertyNode db nn (dotSplit ! 1) of
                                   Some pn2 \<Rightarrow> Some pn2
                                 | None \<Rightarrow> Some pn)
                            | None \<Rightarrow> None)
                         else Some pn))))"

text \<open>The two warnings \<open>isWritable\<close> prints on the documentation location.\<close>

datatype pwarning = NoQPropertyInClass | NoCppClass

text \<open>Lines 41--68: the answer and the warnings printed.\<close>

definition isWritable ::
  "node_store \<Rightarrow> qdoc_db \<Rightarrow> qml_property_node \<Rightarrow> (bool \<times> pwarning list) option" where
  "isWritable st db p =
     (if qp_readOnly p \<noteq> FlagValueDefault then Some (\<not> fromFlagValue (qp_readOnly p) False, [])
      else case qmlTypeNode st p of
        None \<Rightarrow> None
      | Some None \<Rightarrow> Some (True, [])
      | Some (Some qcn) \<Rightarrow>
          (if n_classNodeRequired qcn then
             (if n_classNode qcn \<noteq> None then
                (case findCorrespondingCppProperty st db p of
                   None \<Rightarrow> None
                 | Some (Some pn) \<Rightarrow> Some (pn_isWritable pn, [])
                 | Some None \<Rightarrow> Some (True, [NoQPropertyInClass]))
              else Some (True, [NoCppClass]))
           else Some (True, [])))"

text \<open>Lines 74--81.\<close>

definition isRequired :: "node_store \<Rightarrow> qdoc_db \<Rightarrow> qml_property_node \<Rightarrow> bool option" where
  "isRequired st db p =
     (if qp_required p \<noteq> FlagValueDefault then Some (fromFlagValue (qp_required p) False)
      else map_option (\<lambda>r. case r of Some pn \<Rightarrow> pn_isRequired pn | None \<Rightarrow> False)
                      (findCorrespondingCppProperty st db p))"

text \<open>A well-formed store: every parent pointer points into the store, to a node of
  smaller rank (so parent chains end).\<close>

definition store_wf :: "node_store \<Rightarrow> (nat \<Rightarrow> nat) \<Rightarrow> bool" where
  "store_wf st rank = (\<forall>j n k. st j = Some n \<longrightarrow> n_parent n = Some k \<longrightarrow> k \<in> dom st \<and> rank k < rank j)"

text \<open>The measure of the parent walk: nodes of the store, ranked by their parent.\<close>

definition in_store :: "node_store \<Rightarrow> node option \<Rightarrow> bool" where
  "in_store st n = (case n of None \<Rightarrow> True | Some m \<Rightarrow> m \<in> ran st)"

definition walk_measure :: "(nat \<Rightarrow> nat) \<Rightarrow> node option \<Rightarrow> nat" where
  "walk_measure rank n =
     (case n of None \<Rightarrow> 0 | Some m \<Rightarrow> (case n_parent m of None \<Rightarrow> 1 | Some k \<Rightarrow> rank k + 2))"

subsection \<open>Examples\<close>

text \<open>A QML type \<open>Text\<close> at address 1 documented by the C++ class at address 2, whose
  properties \<open>font\<close> and \<open>color\<close> the class database knows; a page at address 5 that is
  its own parent.\<close>
definition ex_type_node :: node where
  "ex_type_node = \<lparr>n_type = QmlType, n_parent = None, n_name = latin1 ''Text'', n_status = Active,
     n_children = [], n_classNode = Some 2, n_classNodeRequired = True\<rparr>"

definition ex_class_node :: node where
  "ex_class_node = \<lparr>n_type = Class, n_parent = None, n_name = latin1 ''QQuickText'', n_status = Active,
     n_children = [], n_classNode = None, n_classNodeRequired = False\<rparr>"

definition ex_store :: node_store where
  "ex_store = [1 \<mapsto> ex_type_node, 2 \<mapsto> ex_class_node]"

definition ex_font :: cpp_property where
  "ex_font = \<lparr>pn_name = latin1 ''font'', pn_qualifiedDataType = latin1 ''QFont'',
     pn_isWritable = True, pn_isRequired = False\<rparr>"

definition ex_color :: cpp_property where
  "ex_color = \<lparr>pn_name = latin1 ''color'', pn_qualifiedDataType = latin1 ''QColor'',
     pn_isWritable = False, pn_isRequired = True\<rparr>"

definition ex_db :: qdoc_db where
  "ex_db = \<lparr>db_findPropertyNode = (\<lambda>c nm. if c = 2 \<and> nm = latin1 ''font'' then Some ex_font
                                         else if c = 2 \<and> nm = latin1 ''color'' then Some ex_color else None),
            db_findClassNode = (\<lambda>path. None)\<rparr>"

definition ex_prop :: "u16 list \<Rightarrow> nat \<Rightarrow> qml_property_node" where
  "ex_prop name parent = \<lparr>n_type = QmlProperty, n_parent = Some parent, n_name = name, n_status = Active,
     n_children = [], n_classNode = None, n_classNodeRequired = False,
     qp_type = latin1 ''var'', qp_isAlias = False, qp_attached = False,
     qp_readOnly = FlagValueDefault, qp_required = FlagValueDefault\<rparr>"

definition ex_loop_node :: node where
  "ex_loop_node = \<lparr>n_type = Page, n_parent = Some 5, n_name = latin1 ''page'', n_status = Active,
     n_children = [], n_classNode = None, n_classNodeRequired = False\<rparr>"

definition ex_cycle_store :: node_store where
  "ex_cycle_store = [5 \<mapsto> ex_loop_node]"

subsection \<open>The parent walk\<close>

lemma while_option_stuck:
  assumes "b s" "c s = s"
  shows "while_option b c s = None"
proof -
  have "(c ^^ k) s = s" for k by (induction k) (simp_all add: assms(2))
  then show ?thesis using assms(1) by (simp add: while_option_def)
qed

lemma parent_step:
  assumes wf: "store_wf st rank" and m: "m \<in> ran st"
  shows "in_store st (parent_node st m) \<and> walk_measure rank (parent_node st m) < walk_measure rank (Some m)"
proof (cases "n_parent m")
  case None
  then show ?thesis by (simp add: parent_node_def in_store_def walk_measure_def)
next
  case (Some k)
  obtain j where j: "st j = Some m" using m by (auto simp: ran_def)
  have "k \<in> dom st" using wf j Some unfolding store_wf_def by blast
  then obtain m' where m': "st k = Some m'" by blast
  have "rank k' < rank k" if "n_parent m' = Some k'" for k'
    using wf m' that by (auto simp: store_wf_def)
  then show ?thesis using Some m'
    by (auto simp: parent_node_def in_store_def walk_measure_def ranI split: option.splits)
qed

lemma walk_terminates:
  assumes wf: "store_wf st rank" and n: "in_store st n"
  shows "\<exists>r. walk_to_type st n = Some r"
  unfolding walk_to_type_def
proof (rule measure_while_option_Some [where P = "in_store st" and f = "walk_measure rank"])
  fix s :: "node option"
  assume P: "in_store st s" and b: "case s of None \<Rightarrow> False | Some m \<Rightarrow> \<not> (isQmlType m \<or> isJsType m)"
  then obtain m where s: "s = Some m" and "m \<in> ran st"
    by (auto simp: in_store_def split: option.splits)
  then show "in_store st (case s of None \<Rightarrow> None | Some m \<Rightarrow> parent_node st m)
      \<and> walk_measure rank (case s of None \<Rightarrow> None | Some m \<Rightarrow> parent_node st m) < walk_measure rank s"
    using parent_step [OF wf] by simp
qed (fact n)

lemma in_store_parent: "in_store st (parent_node st p)"
  by (auto simp: in_store_def parent_node_def ranI split: option.splits)

lemma find_terminates:
  assumes "store_wf st rank"
  shows "\<exists>r. findCorrespondingCppProperty st db p = Some r"
proof -
  obtain r where "walk_to_type st (parent_node st p) = Some r"
    using walk_terminates [OF assms in_store_parent] by blast
  then show ?thesis by (simp add: findCorrespondingCppProperty_def)
qed

lemma walk_unfold:
  "walk_to_type st (Some m) =
     (if isQmlType m \<or> isJsType m then Some (Some m) else walk_to_type st (parent_node st m))"
  unfolding walk_to_type_def by (subst while_option_unfold) simp

lemma walk_terminates_from:
  assumes "store_wf st rank"
  shows "\<exists>r. walk_to_type st (Some m) = Some r"
  using walk_terminates [OF assms in_store_parent [of st m]] by (simp add: walk_unfold)

lemma isWritable_terminates:
  assumes "store_wf st rank"
  shows "\<exists>w. isWritable st db p = Some w"
proof -
  have "\<exists>r. qmlTypeNode st p = Some r"
    using walk_terminates_from [OF assms, of "node.truncate p"] by (simp add: qmlTypeNode_def)
  then obtain r where r: "qmlTypeNode st p = Some r" by blast
  obtain f where f: "findCorrespondingCppProperty st db p = Some f"
    using find_terminates [OF assms] by blast
  show ?thesis using r f by (auto simp: isWritable_def split: option.splits)
qed

subsection \<open>Constructor and class names\<close>

lemma QmlPropertyNode_SomeE:
  assumes "QmlPropertyNode st parent i name ty att = Some (st', p)"
  obtains pa where "st parent = Some pa" "st' = (st(parent \<mapsto> addChild pa i))(i \<mapsto> node.truncate p)"
    "n_parent p = Some parent" "n_type p = (if isJsType pa then JsProperty else QmlProperty)"
    "n_name p = name" "qp_type p = ty" "qp_attached p = att"
    "qp_isAlias p = (ty = latin1 ''alias'')"
    "n_status p = (if prefix (latin1 ''__'') name then Internal else Active)"
    "qp_readOnly p = FlagValueDefault" "qp_required p = FlagValueDefault"
  using assms by (auto simp: QmlPropertyNode_def Let_def split: option.splits)

lemma addChild_parent [simp]: "n_parent (addChild a c) = n_parent a"
  by (simp add: addChild_def)

lemma ecn_loop_sublist: "sublist (ecn_loop cs r) (r @ cs)"
proof (induction cs arbitrary: r)
  case Nil
  then show ?case by simp
next
  case (Cons ch cs)
  have "sublist (ecn_loop cs []) (r @ ch # cs)"
    using Cons.IH [of "[]"] sublist_append_leftI [of cs "r @ [ch]"]
    by (auto intro: sublist_order.order.trans)
  then show ?case using Cons.IH [of "r @ [ch]"] Cons.IH [of r]
    by (auto simp: sublist_append_rightI)
qed

lemma ecn_loop_chars: "list_all ecn_char r \<Longrightarrow> list_all ecn_char (ecn_loop cs r)"
  by (induction cs r rule: ecn_loop.induct) auto

lemma ecn_loop_not_const: "ecn_loop cs r \<noteq> latin1 ''const''"
  by (induction cs r rule: ecn_loop.induct) (auto simp: latin1_def)

lemma extractClassName_run:
  "sublist (extractClassName s) s \<and> list_all ecn_char (extractClassName s)
     \<and> extractClassName s \<noteq> latin1 ''const''"
  using ecn_loop_sublist [of s "[]"] ecn_loop_chars [of "[]" s] ecn_loop_not_const [of s "[]"]
  by (simp add: extractClassName_def)

lemma ex_store_wf: "store_wf ex_store (\<lambda>j. j)"
  by (simp add: store_wf_def ex_store_def ex_type_node_def ex_class_node_def)

lemma ex_walk: "walk_to_type ex_store (parent_node ex_store (ex_prop name 1)) = Some (Some ex_type_node)"
  by (simp add: walk_unfold parent_node_def ex_prop_def ex_store_def isQmlType_def ex_type_node_def)

lemma ex_find_color:
  "findCorrespondingCppProperty ex_store ex_db (ex_prop (latin1 ''color'') 1) = Some (Some ex_color)"
  unfolding findCorrespondingCppProperty_def ex_walk
  by (simp add: ex_prop_def ex_db_def ex_type_node_def latin1_def)

subsection \<open>Properties\<close>

text \<open>C11: in a well-formed store (parent pointers into the store, of decreasing rank) findCorrespondingCppProperty, isWritable and isRequired all return.\<close>

theorem property_lookups_terminate:
  assumes "store_wf st rank"
  shows "(\<exists>r. findCorrespondingCppProperty st db p = Some r) \<and> (\<exists>w. isWritable st db p = Some w)
    \<and> (\<exists>b. isRequired st db p = Some b)"
  using find_terminates [OF assms] isWritable_terminates [OF assms]
  by (auto simp: isRequired_def)

theorem property_lookups_terminate_witness:
  "(\<exists>r. findCorrespondingCppProperty ex_store ex_db (ex_prop (latin1 ''font.bold'') 1) = Some r)
   \<and> (\<exists>w. isWritable ex_store ex_db (ex_prop (latin1 ''font.bold'') 1) = Some w)
   \<and> (\<exists>b. isRequired ex_store ex_db (ex_prop (latin1 ''font.bold'') 1) = Some b)"
  using property_lookups_terminate [OF ex_store_wf] .



text \<open>The node the constructor creates is a JS property under a JS type and a QML property otherwise, an alias exactly when its type is alias, internal exactly when its name starts with two underscores, with no read-only or required flag.\<close>

theorem QmlPropertyNode_fields:
  assumes "st parent = Some pa" "QmlPropertyNode st parent i name ty att = Some (st', p)"
  shows "n_type p = (if n_type pa = JsType then JsProperty else QmlProperty) \<and> n_parent p = Some parent
    \<and> qp_isAlias p = (ty = latin1 ''alias'')
    \<and> n_status p = (if prefix (latin1 ''__'') name then Internal else Active)
    \<and> qp_readOnly p = FlagValueDefault \<and> qp_required p = FlagValueDefault"
  using assms(2) by (rule QmlPropertyNode_SomeE) (simp_all add: assms(1) isJsType_def)

theorem QmlPropertyNode_fields_witness:
  "n_status (snd (the (QmlPropertyNode ex_store 1 3 (latin1 ''__data'') (latin1 ''alias'') False))) = Internal
   \<and> qp_isAlias (snd (the (QmlPropertyNode ex_store 1 3 (latin1 ''__data'') (latin1 ''alias'') False)))"
proof -
  obtain st' p where r: "QmlPropertyNode ex_store 1 3 (latin1 ''__data'') (latin1 ''alias'') False = Some (st', p)"
    by (simp add: QmlPropertyNode_def ex_store_def Let_def)
  have pa: "ex_store 1 = Some ex_type_node" by (simp add: ex_store_def)
  have "prefix (latin1 ''__'') (latin1 ''__data'')" by (simp add: latin1_def)
  then show ?thesis
    using QmlPropertyNode_fields [of ex_store 1 ex_type_node 3 "latin1 ''__data''" "latin1 ''alias''" False st' p, OF pa r] r
    by simp
qed

text \<open>C14: isWritable answers false only for an explicit read-only flag or a corresponding C++ property that is not writable.\<close>

theorem isWritable_false_from_flag_or_cpp:
  assumes "isWritable st db p = Some (False, ws)"
  shows "qp_readOnly p = FlagValueTrue
    \<or> (\<exists>pn. findCorrespondingCppProperty st db p = Some (Some pn) \<and> \<not> pn_isWritable pn)"
  using assms by (cases "qp_readOnly p") (auto simp: isWritable_def split: option.splits if_splits)

theorem isWritable_false_from_flag_or_cpp_witness:
  "isWritable ex_store ex_db (ex_prop (latin1 ''color'') 1) = Some (False, [])
   \<and> (\<exists>pn. findCorrespondingCppProperty ex_store ex_db (ex_prop (latin1 ''color'') 1) = Some (Some pn)
          \<and> \<not> pn_isWritable pn)"
proof -
  have t: "qmlTypeNode ex_store (ex_prop (latin1 ''color'') 1) = Some (Some ex_type_node)"
    by (simp add: qmlTypeNode_def walk_unfold ex_prop_def isQmlType_def isJsType_def node.defs
        parent_node_def ex_store_def ex_type_node_def)
  have h: "isWritable ex_store ex_db (ex_prop (latin1 ''color'') 1) = Some (False, [])"
    using t ex_find_color by (simp add: isWritable_def) (simp add: ex_prop_def ex_type_node_def ex_color_def)
  show ?thesis using isWritable_false_from_flag_or_cpp [OF h] h by (simp add: ex_prop_def)
qed

text \<open>isRequired answers true exactly for an explicit required flag, or with no flag when the corresponding C++ property is required.\<close>

theorem isRequired_iff:
  "isRequired st db p = Some True \<longleftrightarrow>
     qp_required p = FlagValueTrue \<or>
     (qp_required p = FlagValueDefault \<and>
      (\<exists>pn. findCorrespondingCppProperty st db p = Some (Some pn) \<and> pn_isRequired pn))"
  by (cases "qp_required p") (auto simp: isRequired_def split: option.splits)

text \<open>C13: for a grouped property group.name whose group is a property of the C++ class but whose type names no documented class, findCorrespondingCppProperty returns null although the group property exists.\<close>

theorem group_class_missing:
  assumes "walk_to_type st (parent_node st p) = Some (Some qcn)" "n_classNode qcn = Some cn"
    "qsplit 0x2E (n_name p) = g # q # rest" "db_findPropertyNode db cn g = Some pn"
    "db_findClassNode db [extractClassName (pn_qualifiedDataType pn)] = None"
  shows "findCorrespondingCppProperty st db p = Some None"
  using assms by (simp add: findCorrespondingCppProperty_def)

theorem group_class_missing_witness:
  "findCorrespondingCppProperty ex_store ex_db (ex_prop (latin1 ''font.bold'') 1) = Some None
   \<and> db_findPropertyNode ex_db 2 (latin1 ''font'') = Some ex_font"
proof -
  have s: "qsplit 0x2E (n_name (ex_prop (latin1 ''font.bold'') 1)) = [latin1 ''font'', latin1 ''bold'']"
    by (simp add: ex_prop_def latin1_def)
  have "findCorrespondingCppProperty ex_store ex_db (ex_prop (latin1 ''font.bold'') 1) = Some None"
    using group_class_missing [OF ex_walk _ s] by (simp add: ex_type_node_def ex_db_def)
  then show ?thesis by (simp add: ex_db_def latin1_def)
qed



text \<open>on a non-type node that is its own parent, the walk of findCorrespondingCppProperty never ends.\<close>

theorem parent_cycle_loops:
  assumes "st k = Some m" "n_parent m = Some k" "\<not> (isQmlType m \<or> isJsType m)" "n_parent p = Some k"
  shows "findCorrespondingCppProperty st db p = None"
proof -
  have "walk_to_type st (Some m) = None"
    unfolding walk_to_type_def by (rule while_option_stuck) (simp_all add: assms parent_node_def)
  then show ?thesis using assms by (simp add: findCorrespondingCppProperty_def parent_node_def)
qed

theorem parent_cycle_loops_witness:
  "findCorrespondingCppProperty ex_cycle_store ex_db (ex_prop (latin1 ''x'') 5) = None"
  using parent_cycle_loops [of ex_cycle_store 5 ex_loop_node "ex_prop (latin1 ''x'') 5" ex_db]
  by (simp add: ex_cycle_store_def ex_loop_node_def ex_prop_def isQmlType_def isJsType_def)

end
