(* ===== verification/Qt_Geometry.thy ===== *)
theory Qt_Geometry
  imports QM_Base "HOL-Library.Signed_Division"
begin

text \<open>
  The Qt geometry values the Designer components compute with, modelled from Qt's
  documentation: \<open>QPoint\<close> as a pair of \<open>int\<close>, \<open>QRect\<close> by its corners with
  \<open>contains\<close> and \<open>center\<close>, and the orientation and layout direction of a widget.
\<close>

type_synonym point = "int \<times> int"

text \<open>\<open>QPoint::isNull\<close>, \<open>QPoint::manhattanLength\<close>, \<open>QPoint::operator-\<close>.\<close>

definition qpoint_isNull :: "point \<Rightarrow> bool" where
  "qpoint_isNull p = (fst p = 0 \<and> snd p = 0)"

definition manhattanLength :: "point \<Rightarrow> int" where
  "manhattanLength p = \<bar>fst p\<bar> + \<bar>snd p\<bar>"

definition point_minus :: "point \<Rightarrow> point \<Rightarrow> point" where
  "point_minus a b = (fst a - fst b, snd a - snd b)"

text \<open>\<open>QRect\<close> by its corners \<open>(x1, y1)\<close>, \<open>(x2, y2)\<close>; \<open>QRect(QPoint(0, 0), size)\<close>;
  \<open>QRect::contains(QPoint)\<close> (not proper), which normalises a rectangle of negative
  size.\<close>

record qrect =
  r_x1 :: int
  r_y1 :: int
  r_x2 :: int
  r_y2 :: int

definition qrect_of_size :: "int \<times> int \<Rightarrow> qrect" where
  "qrect_of_size sz = \<lparr>r_x1 = 0, r_y1 = 0, r_x2 = fst sz - 1, r_y2 = snd sz - 1\<rparr>"

definition qrect_contains :: "qrect \<Rightarrow> point \<Rightarrow> bool" where
  "qrect_contains r p =
     (let (l, rr) = (if r_x2 r < r_x1 r - 1 then (r_x2 r + 1, r_x1 r - 1) else (r_x1 r, r_x2 r));
          (t, b) = (if r_y2 r < r_y1 r - 1 then (r_y2 r + 1, r_y1 r - 1) else (r_y1 r, r_y2 r))
      in l \<le> fst p \<and> fst p \<le> rr \<and> t \<le> snd p \<and> snd p \<le> b)"

datatype orientation = Horizontal | Vertical
datatype layout_direction = LeftToRight | RightToLeft | LayoutDirectionAuto

text \<open>\<open>QRect::center\<close>: the midpoint, each coordinate's sum halved towards zero as
  C++ integer division does.\<close>

definition qrect_center :: "qrect \<Rightarrow> point" where
  "qrect_center r = ((r_x1 r + r_x2 r) sdiv 2, (r_y1 r + r_y2 r) sdiv 2)"

end
