(* ===== verification/Toolbar_Event_Filter.thy ===== *)
theory Toolbar_Event_Filter
  imports Qt_Geometry
begin

text \<open>
  Designer's event filter for toolbars on a form, src/src/designer/src/lib/shared/qdesigner_toolbar.cpp
  (\<open>qdesigner_internal::ToolBarEventFilter\<close>): it turns mouse presses and moves on a
  toolbar into a drag of the action under the mouse, accepts drops of actions from the
  action editor, and offers a context menu to insert separators and remove actions or
  the toolbar.  Its state is the toolbar's action list, the press position
  \<open>m_startPosition\<close>, the lazily created promotion menu, and the form window's undo
  stack, onto which it pushes the commands that change the action list.  The window
  system (geometry, the style's handle area, the result of \<open>QDrag::exec\<close>, the entry
  the user picks in the menu) is the environment: a record, and fields of the events.
\<close>

subsection \<open>Qt values: action lists\<close>

type_synonym action = nat
text \<open>\<open>QList::indexOf\<close>: the first index of an element, -1 when absent.\<close>

fun indexOf :: "'a list \<Rightarrow> 'a \<Rightarrow> int" where
  "indexOf [] x = -1"
| "indexOf (y # ys) x = (if y = x then 0 else (let i = indexOf ys x in if i = -1 then -1 else i + 1))"

text \<open>\<open>QWidget::insertAction(before, action)\<close>: an action already present is removed
  first; it goes before \<open>before\<close>, or at the end when \<open>before\<close> is null or not an
  action of the widget.  \<open>QWidget::addAction\<close> is insertion before null, and
  \<open>QWidget::removeAction\<close> removes every occurrence.\<close>

definition insertAction :: "action list \<Rightarrow> action option \<Rightarrow> action \<Rightarrow> action list" where
  "insertAction acts before a =
     (let acts1 = removeAll a acts;
          i = (case before of None \<Rightarrow> -1 | Some b \<Rightarrow> indexOf acts1 b);
          pos = (if i < 0 then length acts1 else nat i)
      in take pos acts1 @ a # drop pos acts1)"

definition removeAction :: "action list \<Rightarrow> action \<Rightarrow> action list" where
  "removeAction acts a = removeAll a acts"

subsection \<open>Designer's commands\<close>

text \<open>The undo commands the filter pushes (qdesigner_command.cpp):
  \<open>InsertActionIntoCommand\<close> and \<open>RemoveActionFromCommand\<close> with the action and the
  action before which it goes back, \<open>AddActionCommand\<close> and \<open>DeleteToolBarCommand\<close>,
  which change the form but not this toolbar's actions.\<close>

datatype command = AddActionCmd action | InsertActionIntoCmd action "action option"
  | RemoveActionFromCmd action "action option" | DeleteToolBarCmd

fun cmd_redo :: "command \<Rightarrow> action list \<Rightarrow> action list" where
  "cmd_redo (InsertActionIntoCmd a b) acts = insertAction acts b a"
| "cmd_redo (RemoveActionFromCmd a b) acts = removeAction acts a"
| "cmd_redo _ acts = acts"

fun cmd_undo :: "command \<Rightarrow> action list \<Rightarrow> action list" where
  "cmd_undo (InsertActionIntoCmd a b) acts = removeAction acts a"
| "cmd_undo (RemoveActionFromCmd a b) acts = insertAction acts b a"
| "cmd_undo _ acts = acts"

text \<open>An entry of the undo stack: a command, or the bracket of a macro
  (\<open>beginCommand\<close>/\<open>endCommand\<close>).\<close>

datatype undo_entry = Cmd command | BeginMacro string | EndMacro

subsection \<open>State, environment and events\<close>

datatype drop_action = CopyAction | MoveAction | IgnoreAction

datatype menu_entry = InsertSeparatorBefore action | AppendSeparator | PromotionEntry nat
  | RemoveActionEntry action | RemoveToolBarEntry

text \<open>What the filter does that is visible outside its state, in order.\<close>

datatype effect = SetTransparentForMouse | SetNoFocus | EventAccept | EventIgnore
  | EventAcceptProposed | EventAcceptAs drop_action | Indicator point
  | FormClearSelection | InspectorClearSelection | InspectorSelectToolBar | PropertyEditorSetToolBar
  | MenuExec "menu_entry list" | DragExec action drop_action | PromotionChosen nat

record tb_filter =
  tf_actions :: "action list"
  tf_separator :: "action \<Rightarrow> bool"
  tf_startPosition :: point
  tf_promotionTaskMenu :: bool
  tf_nextAction :: action
  tf_undo :: "undo_entry list"
  tf_log :: "effect list"

text \<open>The toolbar's geometry as the layout and the style give it, \<open>actionIndexAt\<close>
  (actionprovider_p.h) included, and the rest of Designer the filter calls: whether
  there is a form window, an action-provider extension and an object inspector, the
  drag distance, \<open>QAction::menu()\<close>, whether an action belongs to the form's main
  container, and the entries the promotion menu adds.\<close>

record tb_env =
  g_size :: "int \<times> int"
  g_orientation :: orientation
  g_layoutDirection :: layout_direction
  g_handleArea :: qrect
  g_actionGeometry :: "action \<Rightarrow> qrect"
  g_actionIndexAt :: "action list \<Rightarrow> point \<Rightarrow> int"
  g_mapFromGlobal :: "point \<Rightarrow> point"
  e_formWindow :: bool
  e_actionProvider :: bool
  e_objectInspector :: bool
  e_startDragDistance :: int
  e_hasMenu :: "action \<Rightarrow> bool"
  e_inMainContainer :: "action \<Rightarrow> bool"
  e_promotionEntries :: "nat list"

datatype mime_data = ActionRepositoryMimeData "action option list" drop_action | OtherMimeData

datatype mouse_button = LeftButton | RightButton | MiddleButton

text \<open>The events the filter handles.  A context-menu event carries the entry the user
  triggers in \<open>QMenu::exec\<close>; a mouse move carries whether Control is held and what
  \<open>QDrag::exec\<close> returns if the move starts a drag.\<close>

datatype tb_event = ChildAdded bool | ContextMenu point "nat option"
  | DragEnter mime_data point | DragMove mime_data point | DragLeave | Drop mime_data point
  | MouseButtonPress mouse_button point point | MouseButtonRelease mouse_button point
  | MouseMove point point bool drop_action | OtherEvent

definition emit :: "effect \<Rightarrow> tb_filter \<Rightarrow> tb_filter" where
  "emit e s = s\<lparr>tf_log := tf_log s @ [e]\<rparr>"

text \<open>\<open>QUndoStack::push\<close> runs the command's \<open>redo\<close>.\<close>

definition push :: "command \<Rightarrow> tb_filter \<Rightarrow> tb_filter" where
  "push c s = s\<lparr>tf_actions := cmd_redo c (tf_actions s), tf_undo := tf_undo s @ [Cmd c]\<rparr>"

subsection \<open>The filter\<close>

text \<open>Lines 38--50: a new filter on a toolbar with actions \<open>acts\<close>; \<open>m_startPosition\<close> is
  a null \<open>QPoint\<close> and there is no promotion menu yet.  \<open>sep\<close> and \<open>next\<close> describe the
  existing \<open>QAction\<close> objects: their separator flags, and an address above all of them.\<close>

definition ToolBarEventFilter :: "action list \<Rightarrow> (action \<Rightarrow> bool) \<Rightarrow> action \<Rightarrow> tb_filter" where
  "ToolBarEventFilter acts sep next =
     \<lparr>tf_actions = acts, tf_separator = sep, tf_startPosition = (0, 0), tf_promotionTaskMenu = False,
      tf_nextAction = next, tf_undo = [], tf_log = []\<rparr>"

text \<open>Lines 225--237: the drag indicator is moved through the toolbar's
  action-provider extension when there is a form window; \<open>(-1, -1)\<close> hides it.\<close>

definition adjustDragIndicator :: "tb_env \<Rightarrow> point \<Rightarrow> tb_filter \<Rightarrow> tb_filter" where
  "adjustDragIndicator env pos s =
     (if e_formWindow env \<and> e_actionProvider env then emit (Indicator pos) s else s)"

definition hideDragIndicator :: "tb_env \<Rightarrow> tb_filter \<Rightarrow> tb_filter" where
  "hideDragIndicator env s = adjustDragIndicator env (-1, -1) s"

text \<open>Lines 410--420 (the handle area is the style's) and 422--446: the part of the
  toolbar behind the last action (behind the handle when there is none).\<close>

definition withinHandleArea :: "tb_env \<Rightarrow> point \<Rightarrow> bool" where
  "withinHandleArea env pos = qrect_contains (g_handleArea env) pos"

definition freeArea :: "tb_env \<Rightarrow> action list \<Rightarrow> qrect" where
  "freeArea env acts =
     (let rc = qrect_of_size (g_size env);
          ex = (if acts = [] then g_handleArea env else g_actionGeometry env (last acts))
      in case g_orientation env of
           Horizontal \<Rightarrow>
             (case g_layoutDirection env of
                RightToLeft \<Rightarrow> rc\<lparr>r_x2 := r_x1 ex\<rparr>
              | _ \<Rightarrow> rc\<lparr>r_x1 := r_x2 ex + 1\<rparr>)
         | Vertical \<Rightarrow> rc\<lparr>r_y1 := r_y2 ex + 1\<rparr>)"

text \<open>Lines 396--402.  \<open>QList::at\<close> out of range is undefined: \<open>None\<close>.\<close>

definition action_at_index :: "action list \<Rightarrow> int \<Rightarrow> action option" where
  "action_at_index acts i = (if 0 \<le> i \<and> nat i < length acts then Some (acts ! nat i) else None)"

definition actionAt :: "tb_env \<Rightarrow> action list \<Rightarrow> point \<Rightarrow> action option option" where
  "actionAt env acts pos =
     (let index = g_actionIndexAt env acts pos
      in if index = -1 then Some None else map_option Some (action_at_index acts index))"

text \<open>Lines 208--223: a new \<open>QAction\<close> at a fresh address, a separator when asked,
  added to the form by an \<open>AddActionCommand\<close> (its object name is not modelled).\<close>

definition createAction :: "tb_filter \<Rightarrow> bool \<Rightarrow> action \<times> tb_filter" where
  "createAction s separator =
     (let a = tf_nextAction s;
          s1 = s\<lparr>tf_nextAction := Suc a, tf_separator := (tf_separator s)(a := separator)\<rparr>
      in (a, push (AddActionCmd a) s1))"

text \<open>Lines 99--141: the context menu's entries at a global position.  Creating the
  promotion menu is the one change of state.\<close>

definition contextMenuActions :: "tb_env \<Rightarrow> tb_filter \<Rightarrow> point \<Rightarrow> (menu_entry list \<times> tb_filter) option" where
  "contextMenuActions env s globalPos =
     (let acts = tf_actions s;
          index = g_actionIndexAt env acts (g_mapFromGlobal env globalPos)
      in case (if index \<noteq> -1 then map_option Some (action_at_index acts index) else Some None) of
           None \<Rightarrow> None
         | Some action \<Rightarrow>
             (let rc1 = (case action of
                           Some a \<Rightarrow> if index \<noteq> 0 \<and> \<not> tf_separator s a then [InsertSeparatorBefore a] else []
                         | None \<Rightarrow> []);
                  rc2 = rc1 @ (if acts = [] \<or> \<not> tf_separator s (last acts) then [AppendSeparator] else []);
                  rc3 = rc2 @ map PromotionEntry (e_promotionEntries env);
                  rc4 = rc3 @ (case action of Some a \<Rightarrow> [RemoveActionEntry a] | None \<Rightarrow> [])
              in Some (rc4 @ [RemoveToolBarEntry], s\<lparr>tf_promotionTaskMenu := True\<rparr>)))"

text \<open>Lines 158--179: remove the action, remembering the one after it so that undo
  puts it back.  A null form window fails the assertion: \<open>None\<close>.\<close>

definition slotRemoveSelectedAction :: "tb_env \<Rightarrow> tb_filter \<Rightarrow> action \<Rightarrow> tb_filter option" where
  "slotRemoveSelectedAction env s a =
     (if \<not> e_formWindow env then None
      else let actions = tf_actions s;
               pos = indexOf actions a;
               action_before = (if pos \<noteq> -1 \<and> int (length actions) > pos + 1
                                then Some (actions ! nat (pos + 1)) else None)
           in Some (push (RemoveActionFromCmd a action_before) s))"

text \<open>Lines 181--188.\<close>

definition slotRemoveToolBar :: "tb_env \<Rightarrow> tb_filter \<Rightarrow> tb_filter option" where
  "slotRemoveToolBar env s = (if \<not> e_formWindow env then None else Some (push DeleteToolBarCmd s))"

text \<open>Lines 190--201: in one macro, create a separator action and insert it before
  \<open>previous\<close> (at the end when null).\<close>

definition slotInsertSeparator :: "tb_env \<Rightarrow> tb_filter \<Rightarrow> action option \<Rightarrow> tb_filter option" where
  "slotInsertSeparator env s previous =
     (if \<not> e_formWindow env then None
      else let s1 = s\<lparr>tf_undo := tf_undo s @ [BeginMacro ''Insert Separator'']\<rparr>;
               (a, s2) = createAction s1 True;
               s3 = push (InsertActionIntoCmd a previous) s2
           in Some (s3\<lparr>tf_undo := tf_undo s3 @ [EndMacro]\<rparr>))"

text \<open>Lines 143--156, with the slot of the entry the user triggers inside
  \<open>QMenu::exec\<close>.\<close>

definition handleContextMenuEvent :: "tb_env \<Rightarrow> tb_filter \<Rightarrow> point \<Rightarrow> nat option \<Rightarrow> (bool \<times> tb_filter) option" where
  "handleContextMenuEvent env s globalPos choice =
     (case contextMenuActions env (emit EventAccept s) globalPos of
        None \<Rightarrow> None
      | Some (al, s1) \<Rightarrow>
          (let s2 = emit (MenuExec al) s1
           in map_option (\<lambda>s'. (True, s'))
                (case choice of
                   Some k \<Rightarrow>
                     if k < length al then
                       (case al ! k of
                          InsertSeparatorBefore a \<Rightarrow> slotInsertSeparator env s2 (Some a)
                        | AppendSeparator \<Rightarrow> slotInsertSeparator env s2 None
                        | PromotionEntry n \<Rightarrow> Some (emit (PromotionChosen n) s2)
                        | RemoveActionEntry a \<Rightarrow> slotRemoveSelectedAction env s2 a
                        | RemoveToolBarEntry \<Rightarrow> slotRemoveToolBar env s2)
                     else Some s2
                 | None \<Rightarrow> Some s2)))"

text \<open>Lines 239--257: a left press outside the handle selects the toolbar in the form
  window, the object inspector and the property editor, and records the position.\<close>

definition handleMousePressEvent :: "tb_env \<Rightarrow> tb_filter \<Rightarrow> mouse_button \<Rightarrow> point \<Rightarrow> point \<Rightarrow> bool \<times> tb_filter" where
  "handleMousePressEvent env s button pos globalPos =
     (if button \<noteq> LeftButton \<or> withinHandleArea env pos then (False, s)
      else let s1 = (if e_formWindow env then
                       (let s0 = emit FormClearSelection s;
                            s0' = (if e_objectInspector env
                                   then emit InspectorSelectToolBar (emit InspectorClearSelection s0) else s0)
                        in emit PropertyEditorSetToolBar s0')
                     else s)
           in (True, emit EventAccept (s1\<lparr>tf_startPosition := g_mapFromGlobal env globalPos\<rparr>)))"

text \<open>Lines 259--268.\<close>

definition handleMouseReleaseEvent :: "tb_env \<Rightarrow> tb_filter \<Rightarrow> mouse_button \<Rightarrow> point \<Rightarrow> bool \<times> tb_filter" where
  "handleMouseReleaseEvent env s button pos =
     (if button \<noteq> LeftButton \<or> qpoint_isNull (tf_startPosition s) \<or> withinHandleArea env pos then (False, s)
      else (True, emit EventAccept (s\<lparr>tf_startPosition := (0, 0)\<rparr>)))"

text \<open>Lines 359--394: drag the action at the press position (the range tests of
  lines 373 and 387 guard \<open>QList::at\<close> as \<open>action_at_index\<close> does).  A move drag removes it
  first (remembering the next action); when the drag is ignored the indicator is
  hidden and a move drag puts the action back before the action now at its index.
  \<open>QDrag::exec\<close> returns \<open>result\<close>; a drop on this same toolbar during the drag is
  not modelled.\<close>

definition startDrag :: "tb_env \<Rightarrow> tb_filter \<Rightarrow> point \<Rightarrow> bool \<Rightarrow> drop_action \<Rightarrow> tb_filter option" where
  "startDrag env s pos control result =
     (let index = g_actionIndexAt env (tf_actions s) pos
      in if index = -1 then Some s
      else case action_at_index (tf_actions s) index of
        None \<Rightarrow> None
      | Some action \<Rightarrow>
          (let actions = tf_actions s;
               dropAction = (if control then CopyAction else MoveAction)
           in if dropAction = MoveAction \<and> \<not> e_formWindow env then None
           else
             let nextAction = action_at_index actions (index + 1);
                 s1 = (if dropAction = MoveAction then push (RemoveActionFromCmd action nextAction) s else s);
                 s2 = emit (DragExec action dropAction) s1
             in if result = IgnoreAction then
                  (let s3 = hideDragIndicator env s2
                   in if dropAction = MoveAction then
                        (let currentActions = tf_actions s3;
                             previous = action_at_index currentActions index
                         in Some (push (InsertActionIntoCmd action previous) s3))
                      else Some s3)
                else Some s2))"

text \<open>Lines 270--283: a move farther than the drag distance from the press position
  starts a drag and forgets the press.\<close>

definition handleMouseMoveEvent ::
  "tb_env \<Rightarrow> tb_filter \<Rightarrow> point \<Rightarrow> point \<Rightarrow> bool \<Rightarrow> drop_action \<Rightarrow> (bool \<times> tb_filter) option" where
  "handleMouseMoveEvent env s pos globalPos control result =
     (if qpoint_isNull (tf_startPosition s) \<or> withinHandleArea env pos then Some (False, s)
      else let p = g_mapFromGlobal env globalPos
           in if manhattanLength (point_minus p (tf_startPosition s)) > e_startDragDistance env then
                (case startDrag env s (tf_startPosition s) control result of
                   None \<Rightarrow> None
                 | Some s1 \<Rightarrow> Some (True, emit EventAccept (s1\<lparr>tf_startPosition := (0, 0)\<rparr>)))
              else Some (False, s))"

text \<open>The first action a drag carries, \<open>d->actionList().first()\<close> (the list is not
  empty where it is read).\<close>

definition first_action :: "action option list \<Rightarrow> action option" where
  "first_action al = hd al"

text \<open>Lines 285--307: accept a drag of an action that is not a menu, not on the
  toolbar yet, and part of the form; \<open>formWindow()\<close> is dereferenced without a check.\<close>

definition handleDragEnterMoveEvent :: "tb_env \<Rightarrow> tb_filter \<Rightarrow> mime_data \<Rightarrow> point \<Rightarrow> (bool \<times> tb_filter) option" where
  "handleDragEnterMoveEvent env s md pos =
     (case md of
        OtherMimeData \<Rightarrow> Some (False, s)
      | ActionRepositoryMimeData al da \<Rightarrow>
          (let ignore = Some (True, hideDragIndicator env (emit EventIgnore s))
           in if al = [] then ignore
              else case first_action al of
                None \<Rightarrow> ignore
              | Some action \<Rightarrow>
                  if e_hasMenu env action \<or> action \<in> set (tf_actions s) then ignore
                  else if \<not> e_formWindow env then None
                  else if \<not> e_inMainContainer env action then ignore
                  else Some (True, adjustDragIndicator env pos (emit (EventAcceptAs da) s))))"

text \<open>Lines 309--313.\<close>

definition handleDragLeaveEvent :: "tb_env \<Rightarrow> tb_filter \<Rightarrow> bool \<times> tb_filter" where
  "handleDragLeaveEvent env s = (False, hideDragIndicator env s)"

text \<open>Lines 315--357: insert the dropped action before the action under the mouse, or
  at the end when the mouse is in the free area.\<close>

definition handleDropEvent :: "tb_env \<Rightarrow> tb_filter \<Rightarrow> mime_data \<Rightarrow> point \<Rightarrow> (bool \<times> tb_filter) option" where
  "handleDropEvent env s md pos =
     (case md of
        OtherMimeData \<Rightarrow> Some (False, s)
      | ActionRepositoryMimeData al da \<Rightarrow>
          (let ignore = Some (True, hideDragIndicator env (emit EventIgnore s));
               actions = tf_actions s
           in if al = [] then ignore
              else case first_action al of
                None \<Rightarrow> ignore
              | Some action \<Rightarrow>
                  if action \<in> set actions then ignore
                  else
                    let index = g_actionIndexAt env actions pos;
                        insert = (\<lambda>beforeAction.
                          if \<not> e_formWindow env then None
                          else Some (True, hideDragIndicator env
                                             (push (InsertActionIntoCmd action beforeAction) (emit EventAcceptProposed s))))
                    in if index \<noteq> -1 then
                         (case action_at_index actions index of
                            None \<Rightarrow> None
                          | Some beforeAction \<Rightarrow> insert (Some beforeAction))
                       else if \<not> qrect_contains (freeArea env actions) pos then ignore
                       else insert None))"

text \<open>Lines 63--97: events of the toolbar go to their handler; everything else, and
  every event of another object, passes (\<open>QObject::eventFilter\<close> returns false).  A
  child widget added to the toolbar is made transparent for the mouse.\<close>

definition eventFilter :: "tb_env \<Rightarrow> tb_filter \<Rightarrow> bool \<Rightarrow> tb_event \<Rightarrow> (bool \<times> tb_filter) option" where
  "eventFilter env s watched_is_toolbar ev =
     (if \<not> watched_is_toolbar then Some (False, s)
      else case ev of
        ChildAdded is_widget \<Rightarrow>
          Some (False, if is_widget then emit SetNoFocus (emit SetTransparentForMouse s) else s)
      | ContextMenu globalPos choice \<Rightarrow> handleContextMenuEvent env s globalPos choice
      | DragEnter md pos \<Rightarrow> handleDragEnterMoveEvent env s md pos
      | DragMove md pos \<Rightarrow> handleDragEnterMoveEvent env s md pos
      | DragLeave \<Rightarrow> Some (handleDragLeaveEvent env s)
      | Drop md pos \<Rightarrow> handleDropEvent env s md pos
      | MouseButtonPress b pos globalPos \<Rightarrow> Some (handleMousePressEvent env s b pos globalPos)
      | MouseButtonRelease b pos \<Rightarrow> Some (handleMouseReleaseEvent env s b pos)
      | MouseMove pos globalPos control result \<Rightarrow> handleMouseMoveEvent env s pos globalPos control result
      | OtherEvent \<Rightarrow> Some (False, s))"

subsection \<open>Well-formed states and runs\<close>

text \<open>The toolbar's actions are distinct existing \<open>QAction\<close> objects (addresses below
  \<open>tf_nextAction\<close>).\<close>

definition tf_inv :: "tb_filter \<Rightarrow> bool" where
  "tf_inv s = (distinct (tf_actions s) \<and> list_all (\<lambda>a. a < tf_nextAction s) (tf_actions s))"




subsection \<open>Example\<close>

text \<open>A horizontal, left-to-right toolbar without a handle (not movable), 100 by 20
  pixels at global position (100, 50), with actions laid out in slots of 20 pixels;
  a form window with an action provider and an object inspector.  The filter starts
  on actions 1, 2, 3, of which 2 is a separator.\<close>

definition ex_env :: tb_env where
  "ex_env = \<lparr>g_size = (100, 20), g_orientation = Horizontal, g_layoutDirection = LeftToRight,
     g_handleArea = \<lparr>r_x1 = 0, r_y1 = 0, r_x2 = -1, r_y2 = -1\<rparr>,
     g_actionGeometry = (\<lambda>a. \<lparr>r_x1 = 20 * (int a - 1), r_y1 = 0, r_x2 = 20 * int a - 1, r_y2 = 19\<rparr>),
     g_actionIndexAt = (\<lambda>acts p. if 0 \<le> fst p \<and> 0 \<le> snd p \<and> snd p < 20 \<and> fst p div 20 < int (length acts)
                                 then fst p div 20 else -1),
     g_mapFromGlobal = (\<lambda>p. (fst p - 100, snd p - 50)),
     e_formWindow = True, e_actionProvider = True, e_objectInspector = True, e_startDragDistance = 10,
     e_hasMenu = (\<lambda>_. False), e_inMainContainer = (\<lambda>_. True), e_promotionEntries = []\<rparr>"

definition ex_tb :: tb_filter where
  "ex_tb = ToolBarEventFilter [1, 2, 3] (\<lambda>a. a = 2) 10"

subsection \<open>Lemmas\<close>

lemma indexOf_nth:
  "distinct xs \<Longrightarrow> i < length xs \<Longrightarrow> indexOf xs (xs ! i) = int i"
proof (induction xs arbitrary: i)
  case Nil
  then show ?case by simp
next
  case (Cons y ys)
  show ?case
  proof (cases i)
    case 0
    then show ?thesis by simp
  next
    case (Suc j)
    then have "ys ! j \<noteq> y" "j < length ys" using Cons.prems by (auto simp: nth_mem)
    then show ?thesis using Cons Suc by (simp add: Let_def)
  qed
qed



lemma insertAction_end: "a \<notin> set acts \<Longrightarrow> insertAction acts None a = acts @ [a]"
  by (simp add: insertAction_def)

lemma insertAction_before:
  assumes "distinct acts" "a \<notin> set acts" "i < length acts"
  shows "insertAction acts (Some (acts ! i)) a = take i acts @ a # drop i acts"
  using assms by (simp add: insertAction_def indexOf_nth)

lemma removeAll_nth:
  assumes "distinct acts" "i < length acts"
  shows "removeAll (acts ! i) acts = take i acts @ drop (Suc i) acts"
proof -
  have acts: "acts = take i acts @ acts ! i # drop (Suc i) acts"
    using assms(2) by (simp add: id_take_nth_drop)
  have "distinct (take i acts @ acts ! i # drop (Suc i) acts)" using assms(1) acts by simp
  then have "acts ! i \<notin> set (take i acts)" "acts ! i \<notin> set (drop (Suc i) acts)" by auto
  then show ?thesis by (subst acts) simp
qed

lemma insertAction_restores:
  assumes "distinct acts" "i < length acts"
  shows "insertAction (removeAll (acts ! i) acts)
           (if Suc i < length acts then Some (acts ! Suc i) else None) (acts ! i) = acts"
proof -
  let ?r = "take i acts @ drop (Suc i) acts"
  have r: "removeAll (acts ! i) acts = ?r" by (rule removeAll_nth [OF assms])
  have d: "distinct ?r" using assms(1) by (metis r distinct_removeAll)
  have notin: "acts ! i \<notin> set ?r" using r [symmetric] by simp
  show ?thesis
  proof (cases "Suc i < length acts")
    case True
    have "?r ! i = acts ! Suc i" using True by (simp add: nth_append min_def)
    moreover have "i < length ?r" using True by simp
    ultimately have "insertAction ?r (Some (acts ! Suc i)) (acts ! i) = take i ?r @ acts ! i # drop i ?r"
      using insertAction_before [OF d notin] by metis
    also have "\<dots> = acts" using assms(2) by (simp add: id_take_nth_drop [symmetric] min_def)
    finally show ?thesis using r True by simp
  next
    case False
    then have "take (Suc i) acts = acts" "drop (Suc i) acts = []" by simp_all
    then have "?r @ [acts ! i] = acts" using take_Suc_conv_app_nth [OF assms(2)] by simp
    then show ?thesis using insertAction_end [OF notin] r False by simp
  qed
qed


lemma emit_frame [simp]:
  "tf_actions (emit e s) = tf_actions s" "tf_nextAction (emit e s) = tf_nextAction s"
  "tf_separator (emit e s) = tf_separator s" "tf_startPosition (emit e s) = tf_startPosition s"
  "tf_undo (emit e s) = tf_undo s"
  by (simp_all add: emit_def)

lemma indicator_frame [simp]:
  "tf_actions (adjustDragIndicator env p s) = tf_actions s"
  "tf_nextAction (adjustDragIndicator env p s) = tf_nextAction s"
  "tf_undo (adjustDragIndicator env p s) = tf_undo s"
  "tf_actions (hideDragIndicator env s) = tf_actions s"
  "tf_nextAction (hideDragIndicator env s) = tf_nextAction s"
  "tf_undo (hideDragIndicator env s) = tf_undo s"
  by (simp_all add: adjustDragIndicator_def hideDragIndicator_def)

lemma push_fields [simp]:
  "tf_actions (push c s) = cmd_redo c (tf_actions s)" "tf_nextAction (push c s) = tf_nextAction s"
  "tf_undo (push c s) = tf_undo s @ [Cmd c]" "tf_separator (push c s) = tf_separator s"
  "tf_startPosition (push c s) = tf_startPosition s"
  by (simp_all add: push_def)





lemma contextMenuActions_frame:
  "contextMenuActions env s p = Some (al, s') \<Longrightarrow>
     tf_actions s' = tf_actions s \<and> tf_nextAction s' = tf_nextAction s \<and> tf_separator s' = tf_separator s
     \<and> tf_undo s' = tf_undo s"
  by (auto simp: contextMenuActions_def Let_def split: option.splits if_splits)



lemma tf_inv_emit [simp]: "tf_inv (emit e s) = tf_inv s"
  by (simp add: tf_inv_def)

lemma tf_inv_indicator [simp]:
  "tf_inv (adjustDragIndicator env p s) = tf_inv s" "tf_inv (hideDragIndicator env s) = tf_inv s"
  by (simp_all add: tf_inv_def)

lemma tf_inv_startPosition [simp]: "tf_inv (s\<lparr>tf_startPosition := p\<rparr>) = tf_inv s"
  by (simp add: tf_inv_def)










lemma action_at_index_next:
  "action_at_index acts (int i + 1) = (if Suc i < length acts then Some (acts ! Suc i) else None)"
  by (simp add: action_at_index_def nat_add_distrib)

lemma action_at_index_removed:
  assumes "distinct acts" "i < length acts"
  shows "action_at_index (removeAll (acts ! i) acts) (int i)
       = (if Suc i < length acts then Some (acts ! Suc i) else None)"
  using removeAll_nth [OF assms] assms(2) by (auto simp: action_at_index_def nth_append min_def)

lemma action_at_index_int:
  "action_at_index acts i = Some a \<Longrightarrow> \<exists>k. i = int k \<and> k < length acts \<and> a = acts ! k"
  by (auto simp: action_at_index_def split: if_splits) (metis nat_0_le)

lemma startDrag_restores:
  assumes "distinct (tf_actions s)" "control \<or> result = IgnoreAction"
    "startDrag env s pos control result = Some s'"
  shows "tf_actions s' = tf_actions s"
proof (cases "g_actionIndexAt env (tf_actions s) pos = -1")
  case True
  then show ?thesis using assms by (simp add: startDrag_def)
next
  case False
  note nidx = this
  then obtain a where a: "action_at_index (tf_actions s) (g_actionIndexAt env (tf_actions s) pos) = Some a"
    using assms(3) by (auto simp: startDrag_def Let_def split: option.splits)
  then obtain i where i: "g_actionIndexAt env (tf_actions s) pos = int i" "i < length (tf_actions s)"
    "a = tf_actions s ! i"
    using action_at_index_int by blast
  show ?thesis
  proof (cases control)
    case True
    then show ?thesis using assms a by (auto simp: startDrag_def Let_def split: if_splits)
  next
    case False
    then have ign: "result = IgnoreAction" using assms(2) by simp
    have fw: "e_formWindow env" using assms(3) False nidx a by (auto simp: startDrag_def Let_def split: if_splits)
    show ?thesis
      using assms(3) nidx a i False ign fw
        action_at_index_removed [OF assms(1) i(2)] insertAction_restores [OF assms(1) i(2)]
      by (auto simp: startDrag_def Let_def removeAction_def action_at_index_next)
  qed
qed

lemma drop_at_index:
  assumes "a \<notin> set (tf_actions s)" "e_formWindow env"
    "g_actionIndexAt env (tf_actions s) pos = int i" "i < length (tf_actions s)"
  shows "handleDropEvent env s (ActionRepositoryMimeData (Some a # rest) da) pos
      = Some (True, hideDragIndicator env (push (InsertActionIntoCmd a (Some (tf_actions s ! i)))
                                              (emit EventAcceptProposed s)))"
proof -
  have at: "action_at_index (tf_actions s) (int i) = Some (tf_actions s ! i)"
    using assms(4) by (simp add: action_at_index_def)
  show ?thesis
    unfolding handleDropEvent_def first_action_def
    by (simp only: mime_data.case list.sel list.simps Let_def assms(3) at if_False if_True
        simp_thms option.case) (simp add: assms(1,2))
qed

lemma contextMenuActions_Some:
  assumes "contextMenuActions env s gp = Some (al, s')"
  obtains action where
    "(if g_actionIndexAt env (tf_actions s) (g_mapFromGlobal env gp) \<noteq> -1
      then map_option Some (action_at_index (tf_actions s) (g_actionIndexAt env (tf_actions s) (g_mapFromGlobal env gp)))
      else Some None) = Some action"
    "al = (case action of
             Some a \<Rightarrow> if g_actionIndexAt env (tf_actions s) (g_mapFromGlobal env gp) \<noteq> 0 \<and> \<not> tf_separator s a
                       then [InsertSeparatorBefore a] else []
           | None \<Rightarrow> [])
          @ (if tf_actions s = [] \<or> \<not> tf_separator s (last (tf_actions s)) then [AppendSeparator] else [])
          @ map PromotionEntry (e_promotionEntries env)
          @ (case action of Some a \<Rightarrow> [RemoveActionEntry a] | None \<Rightarrow> []) @ [RemoveToolBarEntry]"
    "tf_promotionTaskMenu s'"
proof -
  obtain action where act:
    "(if g_actionIndexAt env (tf_actions s) (g_mapFromGlobal env gp) \<noteq> -1
      then map_option Some (action_at_index (tf_actions s) (g_actionIndexAt env (tf_actions s) (g_mapFromGlobal env gp)))
      else Some None) = Some action"
    using assms unfolding contextMenuActions_def Let_def by (auto split: option.splits)
  have "Some (al, s') = Some (((case action of
             Some a \<Rightarrow> if g_actionIndexAt env (tf_actions s) (g_mapFromGlobal env gp) \<noteq> 0 \<and> \<not> tf_separator s a
                       then [InsertSeparatorBefore a] else []
           | None \<Rightarrow> [])
          @ (if tf_actions s = [] \<or> \<not> tf_separator s (last (tf_actions s)) then [AppendSeparator] else [])
          @ map PromotionEntry (e_promotionEntries env)
          @ (case action of Some a \<Rightarrow> [RemoveActionEntry a] | None \<Rightarrow> []) @ [RemoveToolBarEntry]),
          s\<lparr>tf_promotionTaskMenu := True\<rparr>)"
    using assms unfolding contextMenuActions_def Let_def act option.case append_assoc by (rule sym)
  then show ?thesis using that [OF act] by simp
qed

lemma menu_list_entries:
  assumes "al = (case action of
             Some a \<Rightarrow> if i \<noteq> 0 \<and> \<not> sep a then [InsertSeparatorBefore a] else []
           | None \<Rightarrow> [])
          @ (if acts = [] \<or> \<not> sep (last acts) then [AppendSeparator] else [])
          @ map PromotionEntry pe
          @ (case action of Some a \<Rightarrow> [RemoveActionEntry a] | None \<Rightarrow> []) @ [RemoveToolBarEntry]"
  shows "last al = RemoveToolBarEntry"
    "AppendSeparator \<in> set al \<longleftrightarrow> acts = [] \<or> \<not> sep (last acts)"
    "InsertSeparatorBefore a \<in> set al \<Longrightarrow> action = Some a \<and> i \<noteq> 0 \<and> \<not> sep a"
  unfolding assms by (cases action; auto split: if_splits)+

lemma ex_env_fields:
  "g_size ex_env = (100, 20)" "g_orientation ex_env = Horizontal" "g_layoutDirection ex_env = LeftToRight"
  "g_handleArea ex_env = \<lparr>r_x1 = 0, r_y1 = 0, r_x2 = -1, r_y2 = -1\<rparr>"
  "g_actionGeometry ex_env a = \<lparr>r_x1 = 20 * (int a - 1), r_y1 = 0, r_x2 = 20 * int a - 1, r_y2 = 19\<rparr>"
  "g_actionIndexAt ex_env acts p = (if 0 \<le> fst p \<and> 0 \<le> snd p \<and> snd p < 20 \<and> fst p div 20 < int (length acts)
                                    then fst p div 20 else -1)"
  "g_mapFromGlobal ex_env p = (fst p - 100, snd p - 50)"
  "e_formWindow ex_env" "e_actionProvider ex_env" "e_objectInspector ex_env" "e_startDragDistance ex_env = 10"
  "e_hasMenu ex_env a = False" "e_inMainContainer ex_env a" "e_promotionEntries ex_env = []"
  by (simp_all add: ex_env_def)

lemmas ex_tb_simps = ex_env_fields ex_tb_def ToolBarEventFilter_def

subsection \<open>Properties\<close>



text \<open>C17: removing an action from the context menu pushes one command whose undo puts the action back where it was.\<close>

theorem remove_action_undo_restores:
  assumes "distinct (tf_actions s)" "a \<in> set (tf_actions s)" "slotRemoveSelectedAction env s a = Some s'"
  shows "\<exists>c. tf_undo s' = tf_undo s @ [Cmd c] \<and> a \<notin> set (tf_actions s')
           \<and> cmd_undo c (tf_actions s') = tf_actions s"
proof -
  obtain i where i: "i < length (tf_actions s)" "tf_actions s ! i = a"
    using assms(2) by (auto simp: in_set_conv_nth)
  have idx: "indexOf (tf_actions s) a = int i" using indexOf_nth [OF assms(1) i(1)] i(2) by simp
  have suc: "nat (int i + 1) = Suc i" by simp
  define before where "before = (if Suc i < length (tf_actions s) then Some (tf_actions s ! Suc i) else None)"
  have s': "s' = push (RemoveActionFromCmd a before) s"
    using assms(3) idx unfolding slotRemoveSelectedAction_def Let_def before_def
    by (cases "Suc i < length (tf_actions s)") (auto simp: suc split: if_splits)
  have "cmd_undo (RemoveActionFromCmd a before) (tf_actions s') = tf_actions s"
    using insertAction_restores [OF assms(1) i(1)] i(2) s' by (simp add: before_def removeAction_def)
  then show ?thesis using s' by (auto simp: removeAction_def)
qed

theorem remove_action_undo_restores_witness:
  "\<exists>c. tf_undo (the (slotRemoveSelectedAction ex_env ex_tb 2)) = [Cmd c]
     \<and> 2 \<notin> set (tf_actions (the (slotRemoveSelectedAction ex_env ex_tb 2)))
     \<and> cmd_undo c (tf_actions (the (slotRemoveSelectedAction ex_env ex_tb 2))) = [1, 2, 3]"
proof -
  obtain s' where r: "slotRemoveSelectedAction ex_env ex_tb 2 = Some s'"
    by (simp add: slotRemoveSelectedAction_def ex_tb_simps)
  have "distinct (tf_actions ex_tb)" "(2::nat) \<in> set (tf_actions ex_tb)" by (simp_all add: ex_tb_simps)
  then show ?thesis using remove_action_undo_restores [OF _ _ r] r by (simp add: ex_tb_simps)
qed

text \<open>C16: a mouse move leaves the toolbar's actions as they were unless it starts a move drag that is dropped somewhere: a copy drag, or a move drag that is ignored, restores the list.\<close>

theorem mouse_move_keeps_actions:
  assumes "distinct (tf_actions s)" "control \<or> result = IgnoreAction"
    "eventFilter env s True (MouseMove pos globalPos control result) = Some (b, s')"
  shows "tf_actions s' = tf_actions s"
proof -
  have "handleMouseMoveEvent env s pos globalPos control result = Some (b, s')"
    using assms(3) by (simp add: eventFilter_def)
  then consider "s' = s"
    | s1 where "startDrag env s (tf_startPosition s) control result = Some s1"
        "s' = emit EventAccept (s1\<lparr>tf_startPosition := (0, 0)\<rparr>)"
    by (auto simp: handleMouseMoveEvent_def Let_def split: if_splits option.splits)
  then show ?thesis
  proof cases
    case (2 s1)
    then show ?thesis using startDrag_restores [OF assms(1,2) 2(1)] by simp
  qed simp
qed

theorem mouse_move_keeps_actions_witness:
  "tf_actions (snd (the (eventFilter ex_env
      (snd (the (eventFilter ex_env ex_tb True (MouseButtonPress LeftButton (25, 5) (125, 55)))))
      True (MouseMove (60, 5) (160, 55) False IgnoreAction)))) = [1, 2, 3]"
proof -
  define s1 where "s1 = snd (the (eventFilter ex_env ex_tb True (MouseButtonPress LeftButton (25, 5) (125, 55))))"
  have s1: "tf_actions s1 = [1, 2, 3]" "tf_startPosition s1 = (25, 5)"
    by (simp_all add: s1_def eventFilter_def handleMousePressEvent_def withinHandleArea_def
        qrect_contains_def ex_tb_simps)
  obtain b s' where r: "eventFilter ex_env s1 True (MouseMove (60, 5) (160, 55) False IgnoreAction) = Some (b, s')"
    using s1 by (simp add: eventFilter_def handleMouseMoveEvent_def startDrag_def withinHandleArea_def
        qrect_contains_def qpoint_isNull_def manhattanLength_def point_minus_def action_at_index_def
        Let_def ex_tb_simps)
  have "distinct (tf_actions s1)" using s1 by simp
  then show ?thesis using mouse_move_keeps_actions [OF _ _ r] r s1 by (simp add: s1_def)
qed

text \<open>C30: dropping a new action on the action at index i inserts it at index i.\<close>

theorem drop_inserts_before:
  assumes "distinct (tf_actions s)" "a \<notin> set (tf_actions s)" "e_formWindow env"
    "g_actionIndexAt env (tf_actions s) pos = int i" "i < length (tf_actions s)"
  shows "map_option (\<lambda>(b, s'). (b, tf_actions s'))
           (eventFilter env s True (Drop (ActionRepositoryMimeData (Some a # rest) da) pos))
         = Some (True, take i (tf_actions s) @ a # drop i (tf_actions s))"
  using drop_at_index [OF assms(2-5)] insertAction_before [OF assms(1,2,5)] by (simp add: eventFilter_def)

theorem drop_inserts_before_witness:
  "map_option (\<lambda>(b, s'). (b, tf_actions s'))
     (eventFilter ex_env ex_tb True (Drop (ActionRepositoryMimeData [Some 7] MoveAction) (35, 5)))
   = Some (True, [1, 7, 2, 3])"
proof -
  have h: "distinct (tf_actions ex_tb)" "(7::nat) \<notin> set (tf_actions ex_tb)" "e_formWindow ex_env"
    "g_actionIndexAt ex_env (tf_actions ex_tb) (35, 5) = int 1" "1 < length (tf_actions ex_tb)"
    by (simp_all add: ex_tb_simps)
  show ?thesis using drop_inserts_before [OF h, of "[]" MoveAction] by (simp add: ex_tb_simps)
qed

text \<open>C31: the context menu always ends with Remove Toolbar, offers Append Separator exactly when the toolbar is empty or does not end with a separator, and offers Insert Separator only before an action that is not the first and not a separator.\<close>

theorem contextMenu_entries:
  assumes "distinct (tf_actions s)" "contextMenuActions env s gp = Some (al, s')"
  shows "last al = RemoveToolBarEntry \<and> tf_promotionTaskMenu s'
    \<and> (AppendSeparator \<in> set al \<longleftrightarrow> tf_actions s = [] \<or> \<not> tf_separator s (last (tf_actions s)))
    \<and> (\<forall>a. InsertSeparatorBefore a \<in> set al \<longrightarrow>
           a \<in> set (tf_actions s) \<and> \<not> tf_separator s a \<and> a \<noteq> hd (tf_actions s))"
proof -
  let ?acts = "tf_actions s"
  let ?index = "g_actionIndexAt env ?acts (g_mapFromGlobal env gp)"
  obtain action where act: "(if ?index \<noteq> -1 then map_option Some (action_at_index ?acts ?index) else Some None)
      = Some action"
    and al: "al = (case action of
             Some a \<Rightarrow> if ?index \<noteq> 0 \<and> \<not> tf_separator s a then [InsertSeparatorBefore a] else []
           | None \<Rightarrow> [])
          @ (if ?acts = [] \<or> \<not> tf_separator s (last ?acts) then [AppendSeparator] else [])
          @ map PromotionEntry (e_promotionEntries env)
          @ (case action of Some a \<Rightarrow> [RemoveActionEntry a] | None \<Rightarrow> []) @ [RemoveToolBarEntry]"
    and s': "tf_promotionTaskMenu s'"
    by (rule contextMenuActions_Some [OF assms(2)])
  note m = menu_list_entries [OF al]
  have ins: "a \<in> set ?acts \<and> \<not> tf_separator s a \<and> a \<noteq> hd ?acts" if "InsertSeparatorBefore a \<in> set al" for a
  proof -
    have a: "action = Some a" "?index \<noteq> 0" "\<not> tf_separator s a" using m(3) [OF that] by simp_all
    have "?index \<noteq> -1"
    proof
      assume "?index = -1"
      then show False using act a(1) by simp
    qed
    then have "action_at_index ?acts ?index = Some a" using act a(1) by simp
    then obtain k where k: "?index = int k" "k < length ?acts" "a = ?acts ! k"
      using action_at_index_int by blast
    then have k0: "k \<noteq> 0" using a(2) by auto
    have len: "0 < length ?acts" using k(2) by linarith
    have "?acts ! k \<noteq> ?acts ! 0" using nth_eq_iff_index_eq [OF assms(1) k(2) len] k0 by simp
    moreover have "hd ?acts = ?acts ! 0" using len by (simp add: hd_conv_nth)
    moreover have "a \<in> set ?acts" using k(2,3) by simp
    ultimately show ?thesis using k(3) a(3) by simp
  qed
  have "\<forall>a. InsertSeparatorBefore a \<in> set al \<longrightarrow>
      a \<in> set ?acts \<and> \<not> tf_separator s a \<and> a \<noteq> hd ?acts"
    using ins by blast
  then show ?thesis using m(1,2) s' by simp
qed

theorem contextMenu_entries_witness:
  "last (fst (the (contextMenuActions ex_env ex_tb (150, 55)))) = RemoveToolBarEntry
   \<and> AppendSeparator \<in> set (fst (the (contextMenuActions ex_env ex_tb (150, 55))))
   \<and> InsertSeparatorBefore 3 \<in> set (fst (the (contextMenuActions ex_env ex_tb (150, 55))))"
proof -
  have c: "contextMenuActions ex_env ex_tb (150, 55) =
      Some ([InsertSeparatorBefore 3, AppendSeparator, RemoveActionEntry 3, RemoveToolBarEntry],
            ex_tb\<lparr>tf_promotionTaskMenu := True\<rparr>)"
    by (simp add: contextMenuActions_def action_at_index_def Let_def ex_tb_simps)
  have "distinct (tf_actions ex_tb)" by (simp add: ex_tb_simps)
  then show ?thesis using contextMenu_entries [OF _ c] c by (simp add: ex_tb_simps)
qed

text \<open>C32: Insert Separator before an action whose predecessor is a separator puts two separators next to each other.\<close>

theorem insert_separator_after_separator:
  assumes inv: "tf_inv s" and i: "0 < i" "i < length (tf_actions s)"
    and sep: "tf_separator s (tf_actions s ! (i - 1))" "\<not> tf_separator s (tf_actions s ! i)"
    and idx: "g_actionIndexAt env (tf_actions s) (g_mapFromGlobal env gp) = int i" and fw: "e_formWindow env"
  shows "\<exists>s'. eventFilter env s True (ContextMenu gp (Some 0)) = Some (True, s')
    \<and> tf_actions s' = take i (tf_actions s) @ tf_nextAction s # drop i (tf_actions s)
    \<and> tf_separator s' (tf_actions s' ! (i - 1)) \<and> tf_separator s' (tf_actions s' ! i)"
proof -
  let ?acts = "tf_actions s" and ?a = "tf_nextAction s"
  have d: "distinct ?acts" and fresh: "?a \<notin> set ?acts" using inv by (auto simp: tf_inv_def list_all_iff)
  have at: "action_at_index ?acts (int i) = Some (?acts ! i)" using i by (simp add: action_at_index_def)
  obtain al s1 where c: "contextMenuActions env (emit EventAccept s) gp = Some (al, s1)"
    using idx at by (simp add: contextMenuActions_def Let_def)
  have al0: "al ! 0 = InsertSeparatorBefore (?acts ! i)" "0 < length al"
    using c idx at i sep by (auto simp: contextMenuActions_def Let_def)
  have f1: "tf_actions s1 = ?acts" "tf_nextAction s1 = ?a" "tf_separator s1 = tf_separator s"
    using contextMenuActions_frame [OF c] by simp_all
  define s2 where "s2 = emit (MenuExec al) s1"
  have r: "eventFilter env s True (ContextMenu gp (Some 0))
      = map_option (\<lambda>s'. (True, s')) (slotInsertSeparator env s2 (Some (?acts ! i)))"
    using c al0 by (simp add: eventFilter_def handleContextMenuEvent_def s2_def)
  define s' where "s' = the (slotInsertSeparator env s2 (Some (?acts ! i)))"
  have some: "slotInsertSeparator env s2 (Some (?acts ! i)) = Some s'"
    using fw by (simp add: s'_def slotInsertSeparator_def Let_def split: prod.splits)
  have acts': "tf_actions s' = insertAction ?acts (Some (?acts ! i)) ?a"
    and sep': "tf_separator s' = (tf_separator s)(?a := True)"
    using some fw f1 by (auto simp: slotInsertSeparator_def Let_def createAction_def s2_def)
  have new: "tf_actions s' = take i ?acts @ ?a # drop i ?acts"
    using acts' insertAction_before [OF d fresh i(2)] by simp
  have "tf_actions s' ! (i - 1) = ?acts ! (i - 1)" "tf_actions s' ! i = ?a"
    using new i by (simp_all add: nth_append min_def)
  moreover have "?acts ! (i - 1) \<noteq> ?a" using fresh i by (metis less_imp_diff_less nth_mem)
  ultimately have "tf_separator s' (tf_actions s' ! (i - 1)) \<and> tf_separator s' (tf_actions s' ! i)"
    using sep' sep(1) by simp
  moreover have "eventFilter env s True (ContextMenu gp (Some 0)) = Some (True, s')" using r some by simp
  ultimately show ?thesis using new by blast
qed

theorem insert_separator_after_separator_witness:
  "tf_actions (snd (the (eventFilter ex_env ex_tb True (ContextMenu (150, 55) (Some 0))))) = [1, 2, 10, 3]
   \<and> tf_separator (snd (the (eventFilter ex_env ex_tb True (ContextMenu (150, 55) (Some 0))))) 2
   \<and> tf_separator (snd (the (eventFilter ex_env ex_tb True (ContextMenu (150, 55) (Some 0))))) 10"
proof -
  have h: "tf_inv ex_tb" "0 < (2::nat)" "2 < length (tf_actions ex_tb)"
    "tf_separator ex_tb (tf_actions ex_tb ! (2 - 1))" "\<not> tf_separator ex_tb (tf_actions ex_tb ! 2)"
    "g_actionIndexAt ex_env (tf_actions ex_tb) (g_mapFromGlobal ex_env (150, 55)) = int 2" "e_formWindow ex_env"
    by (simp_all add: tf_inv_def ex_tb_simps)
  obtain s' where "eventFilter ex_env ex_tb True (ContextMenu (150, 55) (Some 0)) = Some (True, s')"
    "tf_actions s' = take 2 (tf_actions ex_tb) @ tf_nextAction ex_tb # drop 2 (tf_actions ex_tb)"
    "tf_separator s' (tf_actions s' ! (2 - 1))" "tf_separator s' (tf_actions s' ! 2)"
    using insert_separator_after_separator [OF h] by blast
  then show ?thesis by (simp add: ex_tb_simps)
qed

text \<open>In a left-to-right toolbar the free area behind the last action is disjoint from that action; in a right-to-left one it shares the action's left column.\<close>

theorem freeArea_last_column:
  assumes "g_orientation env = Horizontal" "acts \<noteq> []" "ex = g_actionGeometry env (last acts)"
    "0 \<le> r_x1 ex" "r_x1 ex \<le> r_x2 ex" "r_x2 ex < fst (g_size env)"
    "r_y1 ex \<le> y" "y \<le> r_y2 ex" "0 \<le> y" "y < snd (g_size env)"
  shows "(g_layoutDirection env = RightToLeft \<longrightarrow>
            qrect_contains (freeArea env acts) (r_x1 ex, y) \<and> qrect_contains ex (r_x1 ex, y))
       \<and> (g_layoutDirection env = LeftToRight \<longrightarrow>
            \<not> (\<exists>p. qrect_contains (freeArea env acts) p \<and> qrect_contains ex p))"
  using assms by (auto simp: freeArea_def qrect_contains_def qrect_of_size_def Let_def)

theorem freeArea_last_column_witness:
  "qrect_contains (freeArea (ex_env\<lparr>g_layoutDirection := RightToLeft\<rparr>) [1, 2, 3]) (40, 5)
   \<and> qrect_contains (g_actionGeometry ex_env 3) (40, 5)"
proof -
  let ?e = "ex_env\<lparr>g_layoutDirection := RightToLeft\<rparr>"
  have "g_orientation ?e = Horizontal" "[1, 2, 3::nat] \<noteq> []"
    "g_actionGeometry ex_env 3 = g_actionGeometry ?e (last [1, 2, 3])"
    "0 \<le> r_x1 (g_actionGeometry ex_env 3)" "r_x1 (g_actionGeometry ex_env 3) \<le> r_x2 (g_actionGeometry ex_env 3)"
    "r_x2 (g_actionGeometry ex_env 3) < fst (g_size ?e)"
    "r_y1 (g_actionGeometry ex_env 3) \<le> 5" "5 \<le> r_y2 (g_actionGeometry ex_env 3)" "0 \<le> (5::int)"
    "5 < snd (g_size ?e)"
    by (simp_all add: ex_env_fields)
  from freeArea_last_column [OF this] show ?thesis by (simp add: ex_env_fields)
qed

text \<open>a press at the toolbar's origin (outside the handle) is accepted but records the null point, so no later move starts a drag and the release is not accepted.\<close>

theorem press_at_origin_not_armed:
  assumes "\<not> withinHandleArea env pos" "g_mapFromGlobal env globalPos = (0, 0)"
    "eventFilter env s True (MouseButtonPress LeftButton pos globalPos) = Some (b, s1)"
  shows "b \<and> eventFilter env s1 True (MouseMove pos2 globalPos2 control result) = Some (False, s1)
    \<and> eventFilter env s1 True (MouseButtonRelease LeftButton pos3) = Some (False, s1)"
proof -
  have "b \<and> tf_startPosition s1 = (0, 0)"
    using assms by (auto simp: eventFilter_def handleMousePressEvent_def Let_def split: if_splits)
  then show ?thesis
    by (simp add: eventFilter_def handleMouseMoveEvent_def handleMouseReleaseEvent_def qpoint_isNull_def)
qed

theorem press_at_origin_not_armed_witness:
  "eventFilter ex_env (snd (the (eventFilter ex_env ex_tb True (MouseButtonPress LeftButton (0, 0) (100, 50)))))
     True (MouseMove (60, 5) (160, 55) False MoveAction)
   = Some (False, snd (the (eventFilter ex_env ex_tb True (MouseButtonPress LeftButton (0, 0) (100, 50)))))"
proof -
  have h: "\<not> withinHandleArea ex_env (0, 0)" "g_mapFromGlobal ex_env (100, 50) = (0, 0)"
    by (simp_all add: withinHandleArea_def qrect_contains_def ex_env_fields)
  obtain b s1 where r: "eventFilter ex_env ex_tb True (MouseButtonPress LeftButton (0, 0) (100, 50)) = Some (b, s1)"
    by (cases "handleMousePressEvent ex_env ex_tb LeftButton (0, 0) (100, 50)") (simp add: eventFilter_def)
  show ?thesis using press_at_origin_not_armed [OF h r] r by simp
qed

end
