(* ===== verification/Buddy_Editor.thy ===== *)
theory Buddy_Editor
  imports Qt_Geometry
begin

text \<open>
  Designer's buddy editor, src/src/designer/src/components/buddyeditor/buddyeditor.cpp:
  the editing mode of a form in which each label is connected to its buddy, the widget
  that gets the focus for the label's shortcut.  A connection stands for the label's
  \<open>buddy\<close> property; the editor keeps the connections in step with the properties
  (\<open>setBackground\<close>, \<open>updateBackground\<close>), turns new connections into property
  commands (\<open>endConnection\<close>), resets the properties of deleted connections
  (\<open>widgetRemoved\<close>, \<open>deleteSelected\<close>), and pairs labels with the widgets to their
  right (\<open>autoBuddy\<close>, \<open>findBuddy\<close>).  The form is a tree of widgets; the connection
  list, the selection and the undo stack are the editor's state.
\<close>

subsection \<open>The form's widgets\<close>

datatype focus_policy = NoFocus | TabFocus | ClickFocus | StrongFocus | WheelFocus

text \<open>A widget as the editor reads it: its address, whether it is a \<open>QLabel\<close> or a
  Designer layout widget, hidden, managed by the form, its object name, what its
  property sheet holds (\<open>None\<close>: no sheet or no such property; for \<open>focusPolicy\<close>, an
  inner \<open>None\<close> when the value does not convert), whether it is promoted, and its
  geometry in its parent.\<close>

record widget =
  w_id :: nat
  w_isLabel :: bool
  w_isLayoutWidget :: bool
  w_hidden :: bool
  w_managed :: bool
  w_name :: string
  w_focusPolicy :: "focus_policy option option"
  w_buddy :: "string option"
  w_promoted :: bool
  w_geometry :: qrect
  w_layoutDirection :: layout_direction

text \<open>The object tree below a widget, children in order.\<close>

datatype wtree = WNode widget "wtree list"

fun wt_widget :: "wtree \<Rightarrow> widget" where
  "wt_widget (WNode w cs) = w"

fun wt_children :: "wtree \<Rightarrow> wtree list" where
  "wt_children (WNode w cs) = cs"

text \<open>\<open>QObject::findChildren\<close> (recursive): every descendant, depth first, each before
  its own descendants.\<close>

fun descendants :: "wtree \<Rightarrow> widget list" where
  "descendants (WNode w cs) = concat (map (\<lambda>c. wt_widget c # descendants c) cs)"

text \<open>\<open>QObject::findChild\<close> (recursive): a matching child first, then the first match
  in the subtrees of the children, in order.\<close>

fun first_some :: "'a option list \<Rightarrow> 'a option" where
  "first_some [] = None"
| "first_some (Some x # xs) = Some x"
| "first_some (None # xs) = first_some xs"

fun find_child :: "(widget \<Rightarrow> bool) \<Rightarrow> wtree \<Rightarrow> widget option" where
  "find_child P (WNode w cs) =
     (case find P (map wt_widget cs) of
        Some c \<Rightarrow> Some c
      | None \<Rightarrow> first_some (map (find_child P) cs))"

text \<open>The subtree of the widget with address \<open>i\<close>, and the widgets from the root down
  to it.\<close>

fun subtree :: "nat \<Rightarrow> wtree \<Rightarrow> wtree option" where
  "subtree i (WNode w cs) = (if w_id w = i then Some (WNode w cs) else first_some (map (subtree i) cs))"

fun path_to :: "nat \<Rightarrow> wtree \<Rightarrow> widget list option" where
  "path_to i (WNode w cs) =
     (if w_id w = i then Some [w] else map_option (\<lambda>p. w # p) (first_some (map (path_to i) cs)))"

text \<open>A property command's effect on the tree: the label's \<open>buddy\<close> property set or
  reset.\<close>

fun set_buddy :: "nat \<Rightarrow> string option \<Rightarrow> wtree \<Rightarrow> wtree" where
  "set_buddy i v (WNode w cs) =
     WNode (if w_id w = i then w\<lparr>w_buddy := v\<rparr> else w) (map (set_buddy i v) cs)"

text \<open>The parent's width, \<open>parentWidget()->size().width()\<close>.\<close>

definition qrect_width :: "qrect \<Rightarrow> int" where
  "qrect_width r = r_x2 r - r_x1 r + 1"

subsection \<open>The editor\<close>

text \<open>A connection of \<open>ConnectionEdit\<close>: its identity and its source and target
  widgets.\<close>

record conn =
  c_id :: nat
  c_source :: nat
  c_target :: nat

datatype buddy_cmd = SetBuddyCommand nat string | ResetBuddyCommand nat | BeginMacro string | EndMacro

datatype edit_state = Editing | Connecting | Dragging

record buddy_editor =
  be_background :: "wtree option"
  be_connections :: "conn list"
  be_selected :: "nat list"
  be_updating :: bool
  be_nextConn :: nat
  be_undo :: "buddy_cmd list"

text \<open>What the editor asks of the rest of Designer: the form's main container,
  the widget \<open>ConnectionEdit::widgetAt\<close> finds under a
  point, the editing state, and \<open>QWidget::childAt\<close> in a label's parent.\<close>

record buddy_env =
  e_mainContainer :: nat
  e_widgetUnder :: "point \<Rightarrow> nat option"
  e_state :: edit_state
  e_childAt :: "nat \<Rightarrow> point \<Rightarrow> nat option"

text \<open>The widget at an address in the form.\<close>

definition widget_of :: "wtree \<Rightarrow> nat \<Rightarrow> widget option" where
  "widget_of bg i = map_option wt_widget (subtree i bg)"

text \<open>Lines 33--51: a widget can be a buddy when it is not a layout widget, not a
  label, not the main container, not hidden, and its property sheet has a focus
  policy other than \<open>NoFocus\<close> (or the widget is promoted).\<close>

definition canBeBuddy :: "buddy_env \<Rightarrow> widget \<Rightarrow> bool" where
  "canBeBuddy env w =
     (if w_isLayoutWidget w \<or> w_isLabel w then False
      else if w_id w = e_mainContainer env \<or> w_hidden w then False
      else case w_focusPolicy w of
        None \<Rightarrow> False
      | Some v \<Rightarrow> (case v of Some q \<Rightarrow> q \<noteq> NoFocus | None \<Rightarrow> False) \<or> w_promoted w)"

text \<open>Lines 53--62: the label's \<open>buddy\<close> property, empty when there is none.\<close>

definition buddy :: "widget \<Rightarrow> string" where
  "buddy label = (case w_buddy label of None \<Rightarrow> [] | Some s \<Rightarrow> s)"

text \<open>Lines 70--75.\<close>

definition BuddyEditor :: buddy_editor where
  "BuddyEditor = \<lparr>be_background = None, be_connections = [], be_selected = [], be_updating = False,
     be_nextConn = 0, be_undo = []\<rparr>"

text \<open>Lines 78--103: the widget under the mouse, moved up to its nearest managed
  ancestor; in the editing state only a label without a buddy connection, otherwise
  only a possible buddy.\<close>

definition widgetAt :: "buddy_env \<Rightarrow> buddy_editor \<Rightarrow> point \<Rightarrow> widget option" where
  "widgetAt env s pos =
     (case (be_background s, e_widgetUnder env pos) of
        (Some bg, Some i) \<Rightarrow>
          (case path_to i bg of
             None \<Rightarrow> None
           | Some path \<Rightarrow>
               (case find w_managed (rev path) of
                  None \<Rightarrow> None
                | Some w \<Rightarrow>
                    if e_state env = Editing then
                      (if \<not> w_isLabel w then None
                       else if list_ex (\<lambda>c. c_source c = w_id w) (be_connections s) then None
                       else Some w)
                    else if \<not> canBeBuddy env w then None else Some w))
      | _ \<Rightarrow> None)"

text \<open>Lines 122--142: for every label with a buddy name, the first widget of that
  name that is not hidden.\<close>

definition buddy_pairs :: "wtree \<Rightarrow> (nat \<times> nat) list" where
  "buddy_pairs bg =
     concat (map (\<lambda>label.
        let buddy_name = buddy label
        in if buddy_name = [] then []
           else case find (\<lambda>w. \<not> w_hidden w) (filter (\<lambda>w. w_name w = buddy_name) (descendants bg)) of
                  None \<Rightarrow> []
                | Some t \<Rightarrow> [(w_id label, w_id t)])
       (filter w_isLabel (descendants bg)))"

text \<open>\<open>ConnectionEdit::addConnection\<close>: the connection is appended.  The redo of
  \<open>AddConnectionCommand\<close> also makes it the only selected connection.\<close>

definition addConnection :: "nat \<Rightarrow> nat \<Rightarrow> buddy_editor \<Rightarrow> buddy_editor" where
  "addConnection src tgt s =
     s\<lparr>be_connections := be_connections s @ [\<lparr>c_id = be_nextConn s, c_source = src, c_target = tgt\<rparr>],
       be_nextConn := Suc (be_nextConn s)\<rparr>"

definition addConnectionCommand :: "nat \<Rightarrow> nat \<Rightarrow> buddy_editor \<Rightarrow> buddy_editor" where
  "addConnectionCommand src tgt s = (addConnection src tgt s)\<lparr>be_selected := [be_nextConn s]\<rparr>"

text \<open>Removing connections (\<open>DeleteConnectionsCommand\<close>, \<open>takeConnection\<close>) drops
  them from the list and from the selection.\<close>

definition removeConnections :: "nat list \<Rightarrow> buddy_editor \<Rightarrow> buddy_editor" where
  "removeConnections ids s =
     s\<lparr>be_connections := filter (\<lambda>c. c_id c \<notin> set ids) (be_connections s),
       be_selected := filter (\<lambda>i. i \<notin> set ids) (be_selected s)\<rparr>"

definition has_pair :: "buddy_editor \<Rightarrow> nat \<times> nat \<Rightarrow> bool" where
  "has_pair s p = list_ex (\<lambda>c. (c_source c, c_target c) = p) (be_connections s)"

text \<open>Lines 165--182: a buddy pair without a connection gets one, added by the redo
  of an \<open>AddConnectionCommand\<close>.\<close>

definition addIfMissing :: "buddy_editor \<Rightarrow> nat \<times> nat \<Rightarrow> buddy_editor" where
  "addIfMissing st p = (if has_pair st p then st else addConnectionCommand (fst p) (snd p) st)"

text \<open>Lines 115--184: connections without a buddy property are deleted, then each
  buddy pair without a connection gets one.\<close>

definition updateBackground :: "buddy_editor \<Rightarrow> buddy_editor" where
  "updateBackground s =
     (case be_background s of
        None \<Rightarrow> s
      | Some bg \<Rightarrow>
          if be_updating s then s
          else
            let newList = buddy_pairs bg;
                toRemove = map c_id (filter (\<lambda>c. (c_source c, c_target c) \<notin> set newList) (be_connections s));
                s1 = (if toRemove \<noteq> [] then removeConnections toRemove s else s)
            in foldl addIfMissing s1 newList)"

text \<open>Lines 194--206: a label with a buddy name is connected to the widget
  \<open>findChild\<close> returns for that name, by \<open>ConnectionEdit::addConnection\<close>.\<close>

definition connectLabel :: "wtree \<Rightarrow> buddy_editor \<Rightarrow> widget \<Rightarrow> buddy_editor" where
  "connectLabel bg st label =
     (let buddy_name = buddy label
      in if buddy_name = [] then st
         else case find_child (\<lambda>w. w_name w = buddy_name) bg of
                None \<Rightarrow> st
              | Some target \<Rightarrow> addConnection (w_id label) (w_id target) st)"

text \<open>Lines 186--207, with \<open>ConnectionEdit::clear\<close> and \<open>ConnectionEdit::setBackground\<close>
  (which stores the background and calls the virtual \<open>updateBackground\<close>): then each
  label with a buddy name is connected to the widget \<open>findChild\<close> returns.\<close>

definition setBackground :: "buddy_editor \<Rightarrow> wtree option \<Rightarrow> buddy_editor" where
  "setBackground s background =
     (let s0 = s\<lparr>be_background := None, be_connections := [], be_selected := []\<rparr>
      in case background of
           None \<Rightarrow> s0
         | Some bg \<Rightarrow>
             foldl (connectLabel bg)
               (updateBackground (s0\<lparr>be_background := Some bg\<rparr>))
               (filter w_isLabel (descendants bg)))"

text \<open>\<open>QUndoStack::push\<close> of a property command: its redo sets or resets the label's
  \<open>buddy\<close> property in the form.\<close>

fun push_cmd :: "buddy_cmd \<Rightarrow> buddy_editor \<Rightarrow> buddy_editor" where
  "push_cmd (SetBuddyCommand l n) s =
     s\<lparr>be_undo := be_undo s @ [SetBuddyCommand l n], be_background := map_option (set_buddy l (Some n)) (be_background s)\<rparr>"
| "push_cmd (ResetBuddyCommand l) s =
     s\<lparr>be_undo := be_undo s @ [ResetBuddyCommand l], be_background := map_option (set_buddy l None) (be_background s)\<rparr>"
| "push_cmd c s = s\<lparr>be_undo := be_undo s @ [c]\<rparr>"

text \<open>Lines 209--215.\<close>

definition createBuddyCommand :: "widget \<Rightarrow> widget \<Rightarrow> buddy_cmd" where
  "createBuddyCommand label buddy_w = SetBuddyCommand (w_id label) (w_name buddy_w)"

text \<open>Lines 217--248: the connection drawn from \<open>source\<close> to \<open>target\<close> is added and
  selected, and a label source gets the target as buddy.\<close>

definition endConnection :: "buddy_editor \<Rightarrow> widget \<Rightarrow> widget \<Rightarrow> buddy_editor" where
  "endConnection s source target =
     (let new_id = be_nextConn s;
          s1 = addConnection (w_id source) (w_id target) (s\<lparr>be_selected := []\<rparr>);
          s2 = (if w_isLabel source then push_cmd (createBuddyCommand source target) s1 else s1)
      in s2\<lparr>be_selected := [new_id]\<rparr>)"

text \<open>\<open>ConnectionSet\<close> iterates its connections in the order of their addresses.\<close>

definition connection_set :: "conn list \<Rightarrow> conn list" where
  "connection_set cs = sort_key c_id (remdups cs)"

text \<open>\<open>qobject_cast<QLabel*>\<close> of a connection end: the widget of that address in
  the given trees is a label.\<close>

definition is_label :: "wtree list \<Rightarrow> nat \<Rightarrow> bool" where
  "is_label ts i =
     (case find (\<lambda>w. w_id w = i) (concat (map (\<lambda>t. wt_widget t # descendants t) ts)) of
        Some w \<Rightarrow> w_isLabel w
      | None \<Rightarrow> False)"

text \<open>Lines 266--276 (and 290--300): a connection to delete is unselected, its label
  source gets its \<open>buddy\<close> property reset, and the connection is taken.\<close>

definition removeBuddy :: "wtree list \<Rightarrow> buddy_editor \<Rightarrow> conn \<Rightarrow> buddy_editor" where
  "removeBuddy ts st c =
     removeConnections [c_id c]
       (if is_label ts (c_source c) then push_cmd (ResetBuddyCommand (c_source c)) st else st)"

text \<open>The connections to delete, in one macro.\<close>

definition remove_buddies :: "string \<Rightarrow> wtree list \<Rightarrow> conn list \<Rightarrow> buddy_editor \<Rightarrow> buddy_editor" where
  "remove_buddies title ts cs s =
     push_cmd EndMacro (foldl (removeBuddy ts) (push_cmd (BeginMacro title) s) cs)"

text \<open>Lines 250--281: the connections from or to the removed widget or any widget
  below it.\<close>

definition widgetRemoved :: "buddy_editor \<Rightarrow> wtree \<Rightarrow> buddy_editor" where
  "widgetRemoved s removed =
     (let child_list = map w_id (wt_widget removed # descendants removed);
          remove_set = connection_set (filter (\<lambda>c. c_source c \<in> set child_list \<or> c_target c \<in> set child_list)
                                              (be_connections s))
      in if remove_set = [] then s
         else remove_buddies ''Remove buddies'' (removed # (case be_background s of None \<Rightarrow> [] | Some bg \<Rightarrow> [bg])) remove_set s)"

text \<open>Lines 283--304.\<close>

definition deleteSelected :: "buddy_editor \<Rightarrow> buddy_editor" where
  "deleteSelected s =
     (let selectedConnections = connection_set (filter (\<lambda>c. c_id c \<in> set (be_selected s)) (be_connections s))
      in if selectedConnections = [] then s
         else remove_buddies ''Remove %n buddies'' (case be_background s of None \<Rightarrow> [] | Some bg \<Rightarrow> [bg]) selectedConnections s)"

text \<open>Lines 350--384: walk from the label in steps of 5 pixels along its centre line,
  to the right (to the left for a right-to-left label), to the first managed widget;
  it is the buddy when it is not taken and can be a buddy.\<close>

function scan_right :: "(int \<Rightarrow> widget option) \<Rightarrow> int \<Rightarrow> int \<Rightarrow> widget option" where
  "scan_right childAt x xEnd =
     (if x < xEnd then
        (case childAt x of
           Some c \<Rightarrow> if w_managed c then Some c else scan_right childAt (x + 5) xEnd
         | None \<Rightarrow> scan_right childAt (x + 5) xEnd)
      else None)"
  by pat_completeness auto
termination by (relation "measure (\<lambda>(_, x, xEnd). nat (xEnd - x))") auto

function scan_left :: "(int \<Rightarrow> widget option) \<Rightarrow> int \<Rightarrow> widget option" where
  "scan_left childAt x =
     (if 0 \<le> x then
        (case childAt x of
           Some c \<Rightarrow> if w_managed c then Some c else scan_left childAt (x - 5)
         | None \<Rightarrow> scan_left childAt (x - 5))
      else None)"
  by pat_completeness auto
termination by (relation "measure (\<lambda>(_, x). nat (x + 1))") auto

declare scan_right.simps [simp del] scan_left.simps [simp del]

definition findBuddy :: "buddy_env \<Rightarrow> wtree \<Rightarrow> widget \<Rightarrow> nat list \<Rightarrow> widget option" where
  "findBuddy env bg l existingBuddies =
     (case path_to (w_id l) bg of
        Some path \<Rightarrow>
          if length path < 2 then None
          else
            let parent = path ! (length path - 2);
                geom = w_geometry l;
                y = snd (qrect_center geom);
                childAt = (\<lambda>x. case e_childAt env (w_id parent) (x, y) of
                                  Some i \<Rightarrow> widget_of bg i | None \<Rightarrow> None);
                neighbour = (case w_layoutDirection l of
                               RightToLeft \<Rightarrow> scan_left childAt (r_x1 geom - 1)
                             | _ \<Rightarrow> scan_right childAt (r_x2 geom + 1) (qrect_width (w_geometry parent)))
            in case neighbour of
                 Some n \<Rightarrow> if w_id n \<notin> set existingBuddies \<and> canBeBuddy env n then Some n else None
               | None \<Rightarrow> None
      | None \<Rightarrow> None)"

text \<open>Lines 306--348: every managed label without a buddy gets the widget
  \<open>findBuddy\<close> finds, each widget at most once, in one macro; then the connections
  to the new buddies are selected.\<close>

fun auto_pairs :: "buddy_env \<Rightarrow> wtree \<Rightarrow> widget list \<Rightarrow> nat list \<Rightarrow> (widget \<times> widget) list" where
  "auto_pairs env bg [] used = []"
| "auto_pairs env bg (label # ls) used =
     (let newBuddy = (if w_managed label \<and> buddy label = [] then findBuddy env bg label used else None)
      in case newBuddy of
           Some b \<Rightarrow> (label, b) # auto_pairs env bg ls (used @ [w_id b])
         | None \<Rightarrow> auto_pairs env bg ls used)"

definition autoBuddy :: "buddy_env \<Rightarrow> buddy_editor \<Rightarrow> buddy_editor" where
  "autoBuddy env s =
     (case be_background s of
        None \<Rightarrow> s
      | Some bg \<Rightarrow>
          let labelList = filter w_isLabel (descendants bg)
          in if labelList = [] then s
             else
               let pairs = auto_pairs env bg labelList (map c_target (be_connections s))
               in if pairs = [] then s
                  else
                    let s1 = push_cmd (BeginMacro ''Add buddies'') s;
                        s2 = foldl (\<lambda>st p. push_cmd (createBuddyCommand (fst p) (snd p)) st) s1 pairs;
                        s3 = push_cmd EndMacro s2;
                        buddies = map (w_id \<circ> snd) pairs
                    in s3\<lparr>be_selected := map c_id (filter (\<lambda>c. c_target c \<in> set buddies) (be_connections s3))\<rparr>)"

subsection \<open>The editor's connections as buddy pairs, and its invariant\<close>

definition conn_pair :: "conn \<Rightarrow> nat \<times> nat" where
  "conn_pair c = (c_source c, c_target c)"

text \<open>Connection identities are distinct and below the counter, and the selection
  holds connections of the list.\<close>

definition buddy_inv :: "buddy_editor \<Rightarrow> bool" where
  "buddy_inv s =
     (distinct (map c_id (be_connections s)) \<and> list_all (\<lambda>c. c_id c < be_nextConn s) (be_connections s)
      \<and> set (be_selected s) \<subseteq> set (map c_id (be_connections s)))"



subsection \<open>Example form\<close>

definition ex_widget :: "nat \<Rightarrow> string \<Rightarrow> bool \<Rightarrow> qrect \<Rightarrow> widget" where
  "ex_widget i n lbl g = \<lparr>w_id = i, w_isLabel = lbl, w_isLayoutWidget = False, w_hidden = False,
     w_managed = True, w_name = n, w_focusPolicy = Some (Some (if lbl then NoFocus else StrongFocus)),
     w_buddy = (if lbl then Some [] else None), w_promoted = False, w_geometry = g,
     w_layoutDirection = LeftToRight\<rparr>"

definition ex_form :: wtree where
  "ex_form = WNode (ex_widget 0 ''Form'' False \<lparr>r_x1 = 0, r_y1 = 0, r_x2 = 199, r_y2 = 99\<rparr>)
     [WNode ((ex_widget 1 ''label'' True \<lparr>r_x1 = 10, r_y1 = 10, r_x2 = 49, r_y2 = 29\<rparr>)\<lparr>w_buddy := Some ''lineEdit''\<rparr>) [],
      WNode (ex_widget 2 ''lineEdit'' False \<lparr>r_x1 = 60, r_y1 = 10, r_x2 = 159, r_y2 = 29\<rparr>) [],
      WNode (ex_widget 3 ''label_2'' True \<lparr>r_x1 = 10, r_y1 = 40, r_x2 = 49, r_y2 = 59\<rparr>) [],
      WNode (ex_widget 4 ''spinBox'' False \<lparr>r_x1 = 60, r_y1 = 40, r_x2 = 119, r_y2 = 59\<rparr>) []]"

definition ex_benv :: buddy_env where
  "ex_benv = \<lparr>e_mainContainer = 0, e_widgetUnder = (\<lambda>_. None), e_state = Editing,
     e_childAt = (\<lambda>p (x, y). if p = 0 \<and> 60 \<le> x \<and> x < 160 \<and> 10 \<le> y \<and> y < 30 then Some 2
                          else if p = 0 \<and> 60 \<le> x \<and> x < 120 \<and> 40 \<le> y \<and> y < 60 then Some 4 else None)\<rparr>"

definition ex_state :: buddy_editor where
  "ex_state = BuddyEditor\<lparr>be_background := Some ex_form,
     be_connections := [\<lparr>c_id = 0, c_source = 1, c_target = 2\<rparr>], be_selected := [0], be_nextConn := 1\<rparr>"


subsection \<open>Properties\<close>

lemma ex_benv_fields [simp]:
  "e_mainContainer ex_benv = 0" "e_childAt ex_benv = (\<lambda>p (x, y). if p = 0 \<and> 60 \<le> x \<and> x < 160 \<and> 10 \<le> y \<and> y < 30 then Some 2
                          else if p = 0 \<and> 60 \<le> x \<and> x < 120 \<and> 40 \<le> y \<and> y < 60 then Some 4 else None)"
  by (simp_all add: ex_benv_def)

lemma ex_descendants:
  "descendants ex_form =
     [(ex_widget 1 ''label'' True \<lparr>r_x1 = 10, r_y1 = 10, r_x2 = 49, r_y2 = 29\<rparr>)\<lparr>w_buddy := Some ''lineEdit''\<rparr>,
      ex_widget 2 ''lineEdit'' False \<lparr>r_x1 = 60, r_y1 = 10, r_x2 = 159, r_y2 = 29\<rparr>,
      ex_widget 3 ''label_2'' True \<lparr>r_x1 = 10, r_y1 = 40, r_x2 = 49, r_y2 = 59\<rparr>,
      ex_widget 4 ''spinBox'' False \<lparr>r_x1 = 60, r_y1 = 40, r_x2 = 119, r_y2 = 59\<rparr>]"
  by (simp add: ex_form_def)

lemma ex_buddy_pairs: "buddy_pairs ex_form = [(1, 2)]"
  by (simp add: buddy_pairs_def ex_form_def ex_widget_def buddy_def)



lemma first_some_None_iff: "first_some xs = None \<longleftrightarrow> (\<forall>x\<in>set xs. x = None)"
  by (induction xs rule: first_some.induct) auto

lemma first_some_Some: "first_some xs = Some y \<Longrightarrow> Some y \<in> set xs"
  by (induction xs rule: first_some.induct) auto

lemma set_descendants: "set (descendants (WNode w cs)) = (\<Union>c\<in>set cs. insert (wt_widget c) (set (descendants c)))"
  by auto

lemma find_child_None_iff: "find_child P t = None \<longleftrightarrow> (\<forall>w\<in>set (descendants t). \<not> P w)"
proof (induction t)
  case (WNode w cs)
  then show ?case
    by (auto simp: find_None_iff first_some_None_iff find_Some_iff split: option.splits)
qed

lemma find_child_Some: "find_child P t = Some x \<Longrightarrow> x \<in> set (descendants t) \<and> P x"
proof (induction t)
  case (WNode w cs)
  show ?case
  proof (cases "find P (map wt_widget cs)")
    case None
    have "Some x \<in> set (map (find_child P) cs)"
      by (rule first_some_Some) (use WNode.prems None in simp)
    then obtain c where "c \<in> set cs" "find_child P c = Some x" by auto
    with WNode.IH show ?thesis by auto
  next
    case (Some c)
    with WNode.prems show ?thesis by (auto simp: find_Some_iff)
  qed
qed

lemma find_distinct_key:
  "distinct (map f xs) \<Longrightarrow> x \<in> set xs \<Longrightarrow> f x = v \<Longrightarrow> find (\<lambda>w. f w = v) xs = Some x"
  by (induction xs) (auto simp: image_iff)

lemma find_child_distinct_key:
  assumes "distinct (map f (descendants t))"
  shows "find_child (\<lambda>w. f w = v) t = find (\<lambda>w. f w = v) (descendants t)"
proof (cases "find_child (\<lambda>w. f w = v) t")
  case None
  then have "find (\<lambda>w. f w = v) (descendants t) = None"
    by (simp add: find_child_None_iff find_None_iff)
  with None show ?thesis by simp
next
  case (Some x)
  then show ?thesis using find_child_Some [OF Some] find_distinct_key [OF assms, of x v] by simp
qed

lemma find_filter: "find P (filter Q xs) = find (\<lambda>x. Q x \<and> P x) xs"
  by (induction xs) auto

lemma has_pair_iff: "has_pair s p \<longleftrightarrow> p \<in> set (map conn_pair (be_connections s))"
  by (auto simp: has_pair_def list_ex_iff conn_pair_def)

lemma addConnection_pairs [simp]:
  "map conn_pair (be_connections (addConnection a b s)) = map conn_pair (be_connections s) @ [(a, b)]"
  "map conn_pair (be_connections (addConnectionCommand a b s)) = map conn_pair (be_connections s) @ [(a, b)]"
  by (simp_all add: addConnectionCommand_def addConnection_def conn_pair_def)




lemma addIfMissing_appends:
  "distinct ps \<Longrightarrow> set ps \<inter> set (map conn_pair (be_connections st)) = {} \<Longrightarrow>
   map conn_pair (be_connections (foldl addIfMissing st ps)) = map conn_pair (be_connections st) @ ps"
proof (induction ps arbitrary: st)
  case Nil
  then show ?case by simp
next
  case (Cons p ps)
  then have "addIfMissing st p = addConnectionCommand (fst p) (snd p) st"
    by (auto simp: addIfMissing_def has_pair_iff)
  moreover have "set ps \<inter> set (map conn_pair (be_connections (addConnectionCommand (fst p) (snd p) st))) = {}"
    using Cons.prems by auto
  ultimately show ?case
    using Cons.IH [of "addConnectionCommand (fst p) (snd p) st"] Cons.prems by simp
qed

lemma removeConnections_conns [simp]:
  "be_connections (removeConnections ids s) = filter (\<lambda>c. c_id c \<notin> set ids) (be_connections s)"
  by (simp add: removeConnections_def)




lemma push_cmd_fields [simp]:
  "be_connections (push_cmd c s) = be_connections s"
  "be_selected (push_cmd c s) = be_selected s"
  "be_nextConn (push_cmd c s) = be_nextConn s"
  "be_updating (push_cmd c s) = be_updating s"
  by (cases c; simp)+

lemma buddy_inv_fields [simp]:
  "buddy_inv (s\<lparr>be_undo := u\<rparr>) = buddy_inv s"
  "buddy_inv (s\<lparr>be_background := b\<rparr>) = buddy_inv s"
  by (simp_all add: buddy_inv_def)

lemma buddy_inv_push [intro]: "buddy_inv s \<Longrightarrow> buddy_inv (push_cmd c s)"
  by (simp add: buddy_inv_def)

lemma buddy_inv_addConnection [intro]: "buddy_inv s \<Longrightarrow> buddy_inv (addConnection a b s)"
  by (auto simp: buddy_inv_def addConnection_def list_all_iff)

lemma buddy_inv_addConnectionCommand [intro]: "buddy_inv s \<Longrightarrow> buddy_inv (addConnectionCommand a b s)"
  by (auto simp: buddy_inv_def addConnectionCommand_def addConnection_def list_all_iff)

lemma buddy_inv_removeConnections [intro]: "buddy_inv s \<Longrightarrow> buddy_inv (removeConnections ids s)"
  by (auto simp: buddy_inv_def removeConnections_def list_all_iff distinct_map_filter)

lemma buddy_inv_foldl:
  assumes "\<And>st x. buddy_inv st \<Longrightarrow> buddy_inv (f st x)"
  shows "buddy_inv s \<Longrightarrow> buddy_inv (foldl f s xs)"
  by (induction xs arbitrary: s) (simp_all add: assms)

lemma buddy_inv_addIfMissing [intro]: "buddy_inv s \<Longrightarrow> buddy_inv (addIfMissing s p)"
  by (auto simp: addIfMissing_def)

lemma buddy_inv_connectLabel [intro]: "buddy_inv s \<Longrightarrow> buddy_inv (connectLabel bg s l)"
  by (auto simp: connectLabel_def Let_def split: option.split)

lemma buddy_inv_updateBackground [intro]: "buddy_inv s \<Longrightarrow> buddy_inv (updateBackground s)"
  by (auto simp: updateBackground_def Let_def intro: buddy_inv_foldl split: option.split)

lemma buddy_inv_select:
  "buddy_inv st \<Longrightarrow> set sel \<subseteq> set (map c_id (be_connections st)) \<Longrightarrow> buddy_inv (st\<lparr>be_selected := sel\<rparr>)"
  by (simp add: buddy_inv_def)

lemma buddy_inv_setBackground [intro]: "buddy_inv s \<Longrightarrow> buddy_inv (setBackground s b)"
proof -
  assume inv: "buddy_inv s"
  let ?s0 = "s\<lparr>be_background := None, be_connections := [], be_selected := []\<rparr>"
  have s0: "buddy_inv ?s0"
    using inv by (simp add: buddy_inv_def)
  show ?thesis
  proof (cases b)
    case None
    with s0 show ?thesis by (simp add: setBackground_def)
  next
    case (Some bg)
    have "buddy_inv (updateBackground (?s0\<lparr>be_background := Some bg\<rparr>))"
      using inv by (intro buddy_inv_updateBackground) (simp add: buddy_inv_def)
    then show ?thesis
      unfolding setBackground_def Let_def Some option.case
      by (rule buddy_inv_foldl [rotated]) (rule buddy_inv_connectLabel)
  qed
qed

lemma buddy_inv_endConnection [intro]: "buddy_inv s \<Longrightarrow> buddy_inv (endConnection s src tgt)"
proof -
  assume inv: "buddy_inv s"
  let ?s1 = "addConnection (w_id src) (w_id tgt) (s\<lparr>be_selected := []\<rparr>)"
  let ?s2 = "if w_isLabel src then push_cmd (createBuddyCommand src tgt) ?s1 else ?s1"
  have e: "endConnection s src tgt = ?s2\<lparr>be_selected := [be_nextConn s]\<rparr>"
    by (simp add: endConnection_def Let_def)
  have "buddy_inv ?s1" using inv by (intro buddy_inv_addConnection) (simp add: buddy_inv_def)
  then have "buddy_inv ?s2" by auto
  moreover have "be_nextConn s \<in> set (map c_id (be_connections ?s2))"
    by (cases "w_isLabel src") (simp_all add: addConnection_def)
  ultimately show ?thesis
    unfolding e by (auto intro!: buddy_inv_select)
qed

lemma buddy_inv_removeBuddy [intro]: "buddy_inv s \<Longrightarrow> buddy_inv (removeBuddy ts s c)"
  by (simp add: removeBuddy_def buddy_inv_removeConnections)

lemma buddy_inv_remove_buddies [intro]: "buddy_inv s \<Longrightarrow> buddy_inv (remove_buddies title ts cs s)"
  by (auto simp: remove_buddies_def intro!: buddy_inv_foldl buddy_inv_removeBuddy)

lemma push_fold_fields [simp]:
  "be_connections (foldl (\<lambda>st p. push_cmd (g p) st) s xs) = be_connections s"
  "be_selected (foldl (\<lambda>st p. push_cmd (g p) st) s xs) = be_selected s"
  "be_nextConn (foldl (\<lambda>st p. push_cmd (g p) st) s xs) = be_nextConn s"
  by (induction xs arbitrary: s) simp_all

lemma buddy_inv_autoBuddy [intro]: "buddy_inv s \<Longrightarrow> buddy_inv (autoBuddy env s)"
  by (auto simp: autoBuddy_def Let_def buddy_inv_def split: option.split)




lemma find_cong_set: "(\<And>x. x \<in> set xs \<Longrightarrow> P x = Q x) \<Longrightarrow> find P xs = find Q xs"
  by (induction xs) auto

lemma distinct_concat_keyed:
  assumes "distinct (map f xs)" "\<And>x. x \<in> set xs \<Longrightarrow> map fst (g x) = [] \<or> map fst (g x) = [f x]"
  shows "distinct (map fst (concat (map g xs))) \<and> set (map fst (concat (map g xs))) \<subseteq> f ` set xs"
  using assms
proof (induction xs)
  case Nil
  then show ?case by simp
next
  case (Cons x xs)
  have h: "map fst (g x) = [] \<or> map fst (g x) = [f x]" using Cons.prems(2) by simp
  have IH: "distinct (map fst (concat (map g xs))) \<and> set (map fst (concat (map g xs))) \<subseteq> f ` set xs"
    using Cons by simp
  have "f x \<notin> f ` set xs" using Cons.prems(1) by simp
  with h IH show ?case
    by (elim disjE) (auto simp del: set_map)
qed

lemma buddy_pairs_distinct:
  "distinct (map w_id (descendants bg)) \<Longrightarrow> distinct (buddy_pairs bg)"
proof -
  assume d: "distinct (map w_id (descendants bg))"
  have "distinct (map fst (buddy_pairs bg))"
    unfolding buddy_pairs_def
    by (rule conjunct1 [OF distinct_concat_keyed [where f = w_id]])
       (use d in \<open>auto simp: distinct_map_filter Let_def split: option.split\<close>)
  then show ?thesis by (simp add: distinct_map)
qed

lemma connectLabel_fold_pairs:
  "map conn_pair (be_connections (foldl (connectLabel bg) st ls)) =
   map conn_pair (be_connections st) @
   concat (map (\<lambda>label. if buddy label = [] then []
                        else case find_child (\<lambda>w. w_name w = buddy label) bg of
                               None \<Rightarrow> [] | Some t \<Rightarrow> [(w_id label, w_id t)]) ls)"
  by (induction ls arbitrary: st) (simp_all add: connectLabel_def Let_def split: option.split)


lemma buddy_pairs_unique_names:
  assumes "distinct (map w_name (descendants bg))" "list_all (\<lambda>w. \<not> w_hidden w) (descendants bg)"
  shows "buddy_pairs bg =
    concat (map (\<lambda>label. if buddy label = [] then []
                         else case find_child (\<lambda>w. w_name w = buddy label) bg of
                                None \<Rightarrow> [] | Some t \<Rightarrow> [(w_id label, w_id t)])
                (filter w_isLabel (descendants bg)))"
proof -
  have eq: "find (\<lambda>w. \<not> w_hidden w) (filter (\<lambda>w. w_name w = n) (descendants bg)) = find_child (\<lambda>w. w_name w = n) bg" for n
    using assms
    by (simp add: find_filter find_child_distinct_key list_all_iff cong: find_cong_set)
  show ?thesis
    unfolding buddy_pairs_def Let_def eq ..
qed

text \<open>C33: setBackground first lets the base class call updateBackground, which
  connects every label to its buddy, and then connects the labels again itself: in a
  form with unique, visible widget names each buddy connection appears twice.\<close>

theorem setBackground_connects_twice:
  assumes "\<not> be_updating s" "distinct (map w_id (descendants bg))"
    "distinct (map w_name (descendants bg))" "list_all (\<lambda>w. \<not> w_hidden w) (descendants bg)"
  shows "map conn_pair (be_connections (setBackground s (Some bg))) = buddy_pairs bg @ buddy_pairs bg"
proof -
  let ?s0 = "s\<lparr>be_background := None, be_connections := [], be_selected := []\<rparr>\<lparr>be_background := Some bg\<rparr>"
  have "updateBackground ?s0 = foldl addIfMissing ?s0 (buddy_pairs bg)"
    using assms(1) by (simp add: updateBackground_def Let_def)
  then have "map conn_pair (be_connections (updateBackground ?s0)) = buddy_pairs bg"
    using addIfMissing_appends [of "buddy_pairs bg" ?s0] buddy_pairs_distinct [OF assms(2)] by simp
  then show ?thesis
    using buddy_pairs_unique_names [OF assms(3,4)]
    by (simp add: setBackground_def connectLabel_fold_pairs)
qed


theorem setBackground_connects_twice_witness:
  "\<not> be_updating BuddyEditor \<and> distinct (map w_id (descendants ex_form)) \<and>
   distinct (map w_name (descendants ex_form)) \<and> list_all (\<lambda>w. \<not> w_hidden w) (descendants ex_form) \<and>
   map conn_pair (be_connections (setBackground BuddyEditor (Some ex_form))) = [(1, 2), (1, 2)]"
  using setBackground_connects_twice [of BuddyEditor ex_form] ex_buddy_pairs
  by (simp add: BuddyEditor_def ex_descendants ex_widget_def)

lemma scan_right_managed: "scan_right f x e = Some c \<Longrightarrow> w_managed c"
  by (induction f x e rule: scan_right.induct) (subst (asm) scan_right.simps, auto split: if_splits option.splits)

lemma scan_left_managed: "scan_left f x = Some c \<Longrightarrow> w_managed c"
  by (induction f x rule: scan_left.induct) (subst (asm) scan_left.simps, auto split: if_splits option.splits)

lemma findBuddy_sound:
  "findBuddy env bg l ex = Some n \<Longrightarrow> canBeBuddy env n \<and> w_id n \<notin> set ex \<and> w_managed n"
  unfolding findBuddy_def Let_def
  by (auto split: option.splits if_splits layout_direction.splits
           dest: scan_right_managed scan_left_managed)

text \<open>C34: the loop of autoBuddy pairs only managed labels without a buddy, with
  managed widgets that can be buddies, each buddy at most once and none that is
  already the target of a connection.\<close>

theorem auto_pairs_fresh_buddies:
  "distinct (map (w_id \<circ> snd) (auto_pairs env bg ls used)) \<and>
   (\<forall>p\<in>set (auto_pairs env bg ls used).
      w_id (snd p) \<notin> set used \<and> canBeBuddy env (snd p) \<and> w_managed (snd p) \<and>
      fst p \<in> set ls \<and> w_managed (fst p) \<and> buddy (fst p) = [])"
proof (induction ls arbitrary: used)
  case Nil
  then show ?case by simp
next
  case (Cons l ls)
  show ?case
  proof (cases "w_managed l \<and> buddy l = [] \<and> findBuddy env bg l used \<noteq> None")
    case True
    then obtain b where b: "findBuddy env bg l used = Some b" "w_managed l" "buddy l = []" by auto
    have "auto_pairs env bg (l # ls) used = (l, b) # auto_pairs env bg ls (used @ [w_id b])"
      using b by simp
    with Cons.IH [of "used @ [w_id b]"] findBuddy_sound [OF b(1)] b(2,3) show ?thesis
      by (auto simp: image_iff)
  next
    case False
    then have "auto_pairs env bg (l # ls) used = auto_pairs env bg ls used"
      by (auto split: option.split)
    with Cons.IH [of used] show ?thesis by auto
  qed
qed


theorem auto_pairs_fresh_buddies_witness:
  "map (\<lambda>p. (w_id (fst p), w_id (snd p))) (auto_pairs ex_benv ex_form (filter w_isLabel (descendants ex_form)) [1]) = [(3, 4)] \<and>
   canBeBuddy ex_benv (snd (hd (auto_pairs ex_benv ex_form (filter w_isLabel (descendants ex_form)) [1]))) \<and>
   buddy (fst (hd (auto_pairs ex_benv ex_form (filter w_isLabel (descendants ex_form)) [1]))) = []"
  using auto_pairs_fresh_buddies [of ex_benv ex_form "filter w_isLabel (descendants ex_form)" "[1]"]
  by (simp add: ex_form_def ex_widget_def buddy_def findBuddy_def qrect_center_def qrect_width_def
      widget_of_def scan_right.simps canBeBuddy_def Let_def signed_divide_int_def)

lemma removeBuddy_fold:
  "be_connections (foldl (removeBuddy ts) st cs) = filter (\<lambda>c. c_id c \<notin> c_id ` set cs) (be_connections st) \<and>
   be_selected (foldl (removeBuddy ts) st cs) = filter (\<lambda>i. i \<notin> c_id ` set cs) (be_selected st) \<and>
   be_undo (foldl (removeBuddy ts) st cs) =
     be_undo st @ concat (map (\<lambda>c. if is_label ts (c_source c) then [ResetBuddyCommand (c_source c)] else []) cs)"
proof (induction cs arbitrary: st)
  case Nil
  then show ?case by simp
next
  case (Cons c cs)
  then show ?case
    by (simp add: removeBuddy_def removeConnections_def)
qed

lemma remove_buddies_effect:
  "be_connections (remove_buddies title ts cs s) = filter (\<lambda>c. c_id c \<notin> c_id ` set cs) (be_connections s)"
  "be_selected (remove_buddies title ts cs s) = filter (\<lambda>i. i \<notin> c_id ` set cs) (be_selected s)"
  "be_undo (remove_buddies title ts cs s) =
     be_undo s @ BeginMacro title #
     concat (map (\<lambda>c. if is_label ts (c_source c) then [ResetBuddyCommand (c_source c)] else []) cs) @ [EndMacro]"
  using removeBuddy_fold [of ts "push_cmd (BeginMacro title) s" cs]
  by (simp_all add: remove_buddies_def)

lemma set_connection_set [simp]: "set (connection_set cs) = set cs"
  by (simp add: connection_set_def)

lemma connection_set_Nil [simp]: "connection_set cs = [] \<longleftrightarrow> cs = []"
  by (metis set_connection_set set_empty)

text \<open>C37: after widgetRemoved no connection touches the removed widget or a widget
  below it, no connection is created, and each removed connection from a label
  resets that label's buddy property on the undo stack.\<close>

theorem widgetRemoved_disconnects:
  "(\<forall>c\<in>set (be_connections (widgetRemoved s t)).
      c \<in> set (be_connections s) \<and> c_source c \<notin> w_id ` set (wt_widget t # descendants t) \<and>
      c_target c \<notin> w_id ` set (wt_widget t # descendants t)) \<and>
   (\<forall>c\<in>set (be_connections s).
      (c_source c \<in> w_id ` set (wt_widget t # descendants t) \<or> c_target c \<in> w_id ` set (wt_widget t # descendants t)) \<and>
      is_label (t # (case be_background s of None \<Rightarrow> [] | Some bg \<Rightarrow> [bg])) (c_source c) \<longrightarrow>
      ResetBuddyCommand (c_source c) \<in> set (be_undo (widgetRemoved s t)))"
  by (auto simp: widgetRemoved_def Let_def remove_buddies_effect image_iff filter_empty_conv)

theorem widgetRemoved_disconnects_witness:
  "be_connections (widgetRemoved ex_state (WNode (ex_widget 2 ''lineEdit'' False \<lparr>r_x1 = 60, r_y1 = 10, r_x2 = 159, r_y2 = 29\<rparr>) [])) = [] \<and>
   be_undo (widgetRemoved ex_state (WNode (ex_widget 2 ''lineEdit'' False \<lparr>r_x1 = 60, r_y1 = 10, r_x2 = 159, r_y2 = 29\<rparr>) []))
     = [BeginMacro ''Remove buddies'', ResetBuddyCommand 1, EndMacro]"
  using widgetRemoved_disconnects [of ex_state "WNode (ex_widget 2 ''lineEdit'' False \<lparr>r_x1 = 60, r_y1 = 10, r_x2 = 159, r_y2 = 29\<rparr>) []"]
  by (simp add: ex_state_def BuddyEditor_def widgetRemoved_def remove_buddies_effect connection_set_def Let_def
      is_label_def ex_form_def ex_widget_def)

text \<open>deleteSelected removes exactly the selected connections and leaves the
  selection empty.\<close>

theorem deleteSelected_removes_selection:
  "buddy_inv s \<Longrightarrow>
   be_connections (deleteSelected s) = filter (\<lambda>c. c_id c \<notin> set (be_selected s)) (be_connections s) \<and>
   be_selected (deleteSelected s) = []"
  by (auto simp: deleteSelected_def Let_def remove_buddies_effect buddy_inv_def filter_empty_conv image_iff
           intro: filter_cong)
    (metis imageE list.set_intros(1) neq_Nil_conv subsetD)


theorem deleteSelected_removes_selection_witness:
  "buddy_inv ex_state \<and> be_connections (deleteSelected ex_state) = [] \<and> be_selected (deleteSelected ex_state) = []"
  using deleteSelected_removes_selection [of ex_state]
  by (simp add: buddy_inv_def ex_state_def BuddyEditor_def)

end
