(* ===== verification/Signal_Slot_Editor.thy ===== *)
theory Signal_Slot_Editor
  imports Qt_String Qt_Support Qt_Geometry "HOL-Library.List_Lexorder"
begin

text \<open>
  Designer's signal/slot editor window,
  src/src/designer/src/components/signalsloteditor/signalsloteditorwindow.cpp: the list of
  object names a connection may name (\<open>objectNameList\<close>), the item model that shows
  the form's connections as rows of sender, signal, receiver and slot
  (\<open>ConnectionModel\<close>), the combo box the view edits a cell with (\<open>InlineEditorModel\<close>,
  \<open>InlineEditor\<close>) and the delegate that fills it (\<open>ConnectionDelegate::createEditor\<close>),
  and the window's buttons.  Strings are \<open>QString\<close>s as lists of UTF-16 units; the
  form, the connection editor and the class database are what the window reads of
  them.
\<close>

subsection \<open>The form's object names\<close>

datatype meta_kind = MK_LayoutWidget | MK_Spacer | MK_Widget

record form_widget =
  fw_meta :: meta_kind
  fw_name :: "u16 list"

text \<open>An action of the form: a separator or not, the object name and whether the
  meta database knows it, and the same for its menu, if it has one.\<close>

record form_action =
  fa_separator :: bool
  fa_name :: "u16 list"
  fa_managed :: bool
  fa_menu :: "(u16 list \<times> bool) option"

record button_group =
  bg_name :: "u16 list"
  bg_managed :: bool

text \<open>What \<open>objectNameList\<close> reads of the form: whether it has a main container, the
  pages of the main container's container extension (\<open>None\<close>: no extension), the
  widgets of the form's cursor, and the actions and button groups below the main
  container in \<open>findChildren\<close> order.\<close>

record ss_form =
  sf_hasMainContainer :: bool
  sf_containerPages :: "form_widget list option"
  sf_cursorWidgets :: "form_widget list"
  sf_actions :: "form_action list"
  sf_buttonGroups :: "button_group list"

text \<open>\<open>QString::trimmed\<close>: white space removed from both ends.\<close>

definition qtrimmed :: "u16 list \<Rightarrow> u16 list" where
  "qtrimmed s = rev (dropWhile qchar_isSpace (rev (dropWhile qchar_isSpace s)))"

text \<open>Lines 47--55: layout widgets and spacers are left out, and so are widgets whose
  trimmed name is empty.\<close>

definition addWidgetToObjectList :: "u16 list list \<Rightarrow> form_widget \<Rightarrow> u16 list list" where
  "addWidgetToObjectList r w =
     (if fw_meta w \<noteq> MK_LayoutWidget \<and> fw_meta w \<noteq> MK_Spacer then
        (let name = qtrimmed (fw_name w) in if name \<noteq> [] then r @ [name] else r)
      else r)"

text \<open>Lines 81--92: a managed action, or the managed menu of an action.\<close>

definition actionNames :: "form_action \<Rightarrow> u16 list list" where
  "actionNames a =
     (if \<not> fa_separator a then
        (case fa_menu a of
           Some (menuName, menuManaged) \<Rightarrow> if menuManaged then [menuName] else []
         | None \<Rightarrow> if fa_managed a then [fa_name a] else [])
      else [])"

text \<open>Lines 57--103.\<close>

definition objectNameList :: "ss_form \<Rightarrow> u16 list list" where
  "objectNameList form =
     (if \<not> sf_hasMainContainer form then []
      else
        let r1 = (case sf_containerPages form of None \<Rightarrow> [] | Some ps \<Rightarrow> foldl addWidgetToObjectList [] ps);
            r2 = foldl addWidgetToObjectList r1 (sf_cursorWidgets form);
            r3 = r2 @ concat (map actionNames (sf_actions form));
            r4 = r3 @ map bg_name (filter bg_managed (sf_buttonGroups form))
        in sort r4)"

subsection \<open>The connection model\<close>

text \<open>A signal/slot connection as the model shows it: the names of its sender and
  receiver and the signatures of its signal and slot.\<close>

record ss_conn =
  sc_sender :: "u16 list"
  sc_signal :: "u16 list"
  sc_receiver :: "u16 list"
  sc_slot :: "u16 list"

datatype member_type = SignalMember | SlotMember

text \<open>\<open>QModelIndex\<close>: \<open>createIndex(row, column)\<close> is valid exactly when both are
  non-negative; an invalid index has row and column \<open>-1\<close>.\<close>

datatype model_index = InvalidIndex | MIndex int int

definition createIndex :: "int \<Rightarrow> int \<Rightarrow> model_index" where
  "createIndex r c = (if 0 \<le> r \<and> 0 \<le> c then MIndex r c else InvalidIndex)"

fun idx_valid :: "model_index \<Rightarrow> bool" where
  "idx_valid InvalidIndex = False"
| "idx_valid (MIndex r c) = True"

fun idx_row :: "model_index \<Rightarrow> int" where
  "idx_row InvalidIndex = -1"
| "idx_row (MIndex r c) = r"

fun idx_column :: "model_index \<Rightarrow> int" where
  "idx_column InvalidIndex = -1"
| "idx_column (MIndex r c) = c"

datatype item_role = DisplayRole | EditRole | ForegroundRole | FontRole | UserRole | OtherRole

datatype qvariant = QVNull | QVString "u16 list" | QVInt int

text \<open>The model's state: the form's \<open>SignalSlotEditor\<close>, if the model has one, as its
  address and its connection list.\<close>

record connection_model =
  cm_editor :: "(nat \<times> ss_conn list) option"

text \<open>The class database and the form, as the model and the delegate ask them:
  whether an object (by name) has a signal or slot of a signature
  (\<open>memberFunctionListContains\<close>), the classes and members
  \<open>reverseClassesMemberFunctions\<close> offers for an object and the peer member, and
  the form's objects.\<close>

record ss_env =
  se_form :: ss_form
  se_hasMember :: "u16 list \<Rightarrow> member_type \<Rightarrow> u16 list \<Rightarrow> bool"
  se_classMembers :: "u16 list \<Rightarrow> member_type \<Rightarrow> u16 list \<Rightarrow> (u16 list \<times> u16 list list) list"

text \<open>\<open>SignalSlotEditor::connection(i)\<close> (\<open>QList::at\<close>): out of range is undefined.\<close>

definition connection_at :: "ss_conn list \<Rightarrow> int \<Rightarrow> ub + ss_conn" where
  "connection_at cs i = (if 0 \<le> i \<and> i < int (length cs) then Inr (cs ! nat i) else Inl (OutOfBounds i))"

text \<open>Lines 109--146: a new editor resets the model.\<close>

definition ConnectionModel :: connection_model where
  "ConnectionModel = \<lparr>cm_editor = None\<rparr>"

definition setEditor :: "connection_model \<Rightarrow> (nat \<times> ss_conn list) option \<Rightarrow> connection_model \<times> bool" where
  "setEditor m e =
     (if map_option fst (cm_editor m) = map_option fst e then (m, False) else (m\<lparr>cm_editor := e\<rparr>, True))"

text \<open>Lines 148--170.\<close>

definition headerData :: "int \<Rightarrow> orientation \<Rightarrow> item_role \<Rightarrow> qvariant" where
  "headerData section orient role =
     (if orient = Vertical \<or> role \<noteq> DisplayRole then QVNull
      else if section = 0 then QVString (latin1 ''Sender'')
      else if section = 1 then QVString (latin1 ''Signal'')
      else if section = 2 then QVString (latin1 ''Receiver'')
      else if section = 3 then QVString (latin1 ''Slot'')
      else QVNull)"

text \<open>Lines 172--180.\<close>

definition index :: "connection_model \<Rightarrow> int \<Rightarrow> int \<Rightarrow> model_index \<Rightarrow> model_index" where
  "index m row column parent =
     (case map_option snd (cm_editor m) of
        None \<Rightarrow> InvalidIndex
      | Some cs \<Rightarrow>
          if idx_valid parent then InvalidIndex
          else if row < 0 \<or> int (length cs) \<le> row then InvalidIndex
          else createIndex row column)"

text \<open>Lines 191--195: \<open>connectionToIndex\<close> of a connection at the position \<open>indexOfConnection\<close> returns
  (\<open>None\<close> for \<open>-1\<close>).\<close>

definition connectionToIndex :: "nat option \<Rightarrow> model_index" where
  "connectionToIndex i = createIndex (case i of Some k \<Rightarrow> int k | None \<Rightarrow> -1) 0"

text \<open>Lines 202--214.\<close>

definition rowCount :: "connection_model \<Rightarrow> model_index \<Rightarrow> int" where
  "rowCount m parent =
     (case map_option snd (cm_editor m) of None \<Rightarrow> 0 | Some cs \<Rightarrow> if idx_valid parent then 0 else int (length cs))"

definition columnCount :: "model_index \<Rightarrow> int" where
  "columnCount parent = (if idx_valid parent then 0 else 4)"

text \<open>Lines 216--222: only the row is checked, not the index.\<close>

definition connectionAt :: "connection_model \<Rightarrow> model_index \<Rightarrow> ss_conn option" where
  "connectionAt m idx =
     (case map_option snd (cm_editor m) of
        None \<Rightarrow> None
      | Some cs \<Rightarrow>
          let row = idx_row idx
          in if 0 \<le> row \<and> row < int (length cs) then Some (cs ! nat row) else None)"

text \<open>Lines 254--280: an empty field shows as a placeholder.\<close>

definition columnText :: "ss_conn \<Rightarrow> int \<Rightarrow> u16 list" where
  "columnText con column =
     (if column = 0 then (if sc_sender con = [] then latin1 ''<sender>'' else sc_sender con)
      else if column = 1 then (if sc_signal con = [] then latin1 ''<signal>'' else sc_signal con)
      else if column = 2 then (if sc_receiver con = [] then latin1 ''<receiver>'' else sc_receiver con)
      else if column = 3 then (if sc_slot con = [] then latin1 ''<slot>'' else sc_slot con)
      else [])"

text \<open>Lines 224--252 (the deprecation marking is switched off: \<open>deprecatedMember = 0\<close>).\<close>

definition data :: "connection_model \<Rightarrow> model_index \<Rightarrow> item_role \<Rightarrow> qvariant" where
  "data m idx role =
     (case connectionAt m idx of
        None \<Rightarrow> QVNull
      | Some con \<Rightarrow>
          (case role of
             DisplayRole \<Rightarrow> QVString (columnText con (idx_column idx))
           | EditRole \<Rightarrow> QVString (columnText con (idx_column idx))
           | _ \<Rightarrow> QVNull))"

text \<open>What \<open>setData\<close> asks of the editor: to set one end or member of the connection
  at a row.\<close>

datatype ss_edit = SetSource int "u16 list" | SetSignal int "u16 list" | SetTarget int "u16 list"
  | SetSlot int "u16 list"

text \<open>Lines 282--317: a name that is not an object of the form, or a member the
  object does not have, is replaced by the empty string.  The connection at the row is
  read with \<open>QList::at\<close>.\<close>

definition setData :: "ss_env \<Rightarrow> connection_model \<Rightarrow> model_index \<Rightarrow> qvariant \<Rightarrow> ub + bool \<times> ss_edit option" where
  "setData env m idx v =
     (case map_option snd (cm_editor m) of
        None \<Rightarrow> Inr (False, None)
      | Some cs \<Rightarrow>
          if \<not> idx_valid idx then Inr (False, None)
          else case v of
            QVString s \<Rightarrow>
              (case connection_at cs (idx_row idx) of
                 Inl e \<Rightarrow> Inl e
               | Inr con \<Rightarrow>
                   let row = idx_row idx; names = objectNameList (se_form env)
                   in if idx_column idx = 0 then
                        Inr (True, Some (SetSource row (if s \<noteq> [] \<and> s \<notin> set names then [] else s)))
                      else if idx_column idx = 1 then
                        Inr (True, Some (SetSignal row (if \<not> se_hasMember env (sc_sender con) SignalMember s then [] else s)))
                      else if idx_column idx = 2 then
                        Inr (True, Some (SetTarget row (if s \<noteq> [] \<and> s \<notin> set names then [] else s)))
                      else if idx_column idx = 3 then
                        Inr (True, Some (SetSlot row (if \<not> se_hasMember env (sc_receiver con) SlotMember s then [] else s)))
                      else Inr (True, None))
          | _ \<Rightarrow> Inr (False, None))"

text \<open>What the model reports when a connection changes: a warning when another
  connection has the same four fields, then \<open>dataChanged\<close> for the row.\<close>

datatype ss_report = DuplicateWarning ss_conn | DataChanged model_index model_index

text \<open>Lines 347--366, for the connection at row \<open>idx\<close>.\<close>

definition connectionChanged :: "ss_conn list \<Rightarrow> nat \<Rightarrow> ss_report list" where
  "connectionChanged cs idx =
     (let changedCon = cs ! idx;
          same = (\<lambda>c. sc_sender c = sc_sender changedCon \<and> sc_signal c = sc_signal changedCon
                      \<and> sc_receiver c = sc_receiver changedCon \<and> sc_slot c = sc_slot changedCon);
          others = map snd (filter (\<lambda>(i, c). i \<noteq> idx) (zip [0..<length cs] cs))
      in (if list_ex same others then [DuplicateWarning changedCon] else [])
         @ [DataChanged (createIndex (int idx) 0) (createIndex (int idx) 3)])"

text \<open>Lines 368--371.\<close>

definition updateAll :: "connection_model \<Rightarrow> ss_report" where
  "updateAll m =
     DataChanged (index m 0 0 InvalidIndex)
       (index m (rowCount m InvalidIndex - 1) (columnCount InvalidIndex - 1) InvalidIndex)"

subsection \<open>The inline editor\<close>

text \<open>A row of \<open>InlineEditorModel\<close>: its text, whether it is a class title
  (\<open>UserRole\<close> holds \<open>TitleItem\<close>), and whether it is marked as deprecated.\<close>

record ie_item =
  ii_text :: "u16 list"
  ii_title :: bool
  ii_marked :: bool

text \<open>\<open>QMap<QString, bool>\<close> as its entries in key order.\<close>

definition qmap_of :: "(u16 list \<times> bool) list \<Rightarrow> (u16 list \<times> bool) list" where
  "qmap_of kvs = foldl (\<lambda>m kv. qmap_insert fst kv m) [] kvs"

text \<open>Lines 400--410.\<close>

definition addTitle :: "ie_item list \<Rightarrow> u16 list \<Rightarrow> ie_item list" where
  "addTitle rows title = rows @ [\<lparr>ii_text = title @ latin1 '':'', ii_title = True, ii_marked = False\<rparr>]"

text \<open>Lines 412--418: a row out of range has no \<open>UserRole\<close> data.\<close>

definition isTitle :: "ie_item list \<Rightarrow> int \<Rightarrow> bool" where
  "isTitle rows idx =
     (if idx = -1 then False else 0 \<le> idx \<and> idx < int (length rows) \<and> ii_title (rows ! nat idx))"

text \<open>Lines 420--425.\<close>

definition addText :: "ie_item list \<Rightarrow> u16 list \<Rightarrow> ie_item list" where
  "addText rows text = rows @ [\<lparr>ii_text = text, ii_title = False, ii_marked = False\<rparr>]"

text \<open>Lines 427--445.\<close>

definition addTextList :: "ie_item list \<Rightarrow> (u16 list \<times> bool) list \<Rightarrow> ie_item list" where
  "addTextList rows text_list = rows @ map (\<lambda>(k, v). \<lparr>ii_text = k, ii_title = False, ii_marked = v\<rparr>) text_list"

text \<open>Lines 447--452: titles can not be selected.\<close>

definition itemSelectable :: "ie_item list \<Rightarrow> int \<Rightarrow> bool" where
  "itemSelectable rows idx = (\<not> isTitle rows idx)"

text \<open>Lines 454--465: the first row that is not a title and has the text.\<close>

fun findText_from :: "nat \<Rightarrow> ie_item list \<Rightarrow> u16 list \<Rightarrow> int" where
  "findText_from i [] text = -1"
| "findText_from i (r # rs) text =
     (if ii_title r then findText_from (Suc i) rs text
      else if ii_text r = text then int i
      else findText_from (Suc i) rs text)"

definition findText :: "ie_item list \<Rightarrow> u16 list \<Rightarrow> int" where
  "findText rows text = findText_from 0 rows text"

text \<open>The combo box: its rows, its current index (\<open>-1\<close> for none) and \<open>m_idx\<close>, the
  last row the user picked that is not a title.\<close>

record inline_editor =
  ie_rows :: "ie_item list"
  ie_current :: int
  ie_idx :: int

text \<open>\<open>QComboBox::setCurrentIndex\<close>: an index out of range leaves no current item.\<close>

definition setCurrentIndex :: "inline_editor \<Rightarrow> int \<Rightarrow> inline_editor" where
  "setCurrentIndex e i = e\<lparr>ie_current := (if 0 \<le> i \<and> i < int (length (ie_rows e)) then i else -1)\<rparr>"

text \<open>The combo box's model after rows were appended to it; rows inserted into an
  empty combo box make row 0 current.\<close>

definition rows_appended :: "inline_editor \<Rightarrow> ie_item list \<Rightarrow> inline_editor" where
  "rows_appended e rows =
     e\<lparr>ie_rows := rows,
       ie_current := (if ie_rows e = [] \<and> rows \<noteq> [] \<and> ie_current e = -1 then 0 else ie_current e)\<rparr>"

text \<open>Lines 490--498.\<close>

definition InlineEditor :: inline_editor where
  "InlineEditor = \<lparr>ie_rows = [], ie_current = -1, ie_idx = -1\<rparr>"

text \<open>Lines 500--509: picking a title puts the previous choice back.\<close>

definition checkSelection :: "inline_editor \<Rightarrow> int \<Rightarrow> inline_editor" where
  "checkSelection e idx =
     (if idx = ie_idx e then e
      else if isTitle (ie_rows e) idx then setCurrentIndex e (ie_idx e)
      else e\<lparr>ie_idx := idx\<rparr>)"

text \<open>The user picks row \<open>i\<close> of the popup: the combo box makes it current and emits
  \<open>activated(i)\<close>, connected to \<open>checkSelection\<close>.\<close>

definition activate :: "inline_editor \<Rightarrow> int \<Rightarrow> inline_editor" where
  "activate e i = checkSelection (setCurrentIndex e i) i"

text \<open>Lines 511--524.\<close>

definition ie_addTitle :: "inline_editor \<Rightarrow> u16 list \<Rightarrow> inline_editor" where
  "ie_addTitle e title = rows_appended e (addTitle (ie_rows e) title)"

definition ie_addTextList :: "inline_editor \<Rightarrow> (u16 list \<times> bool) list \<Rightarrow> inline_editor" where
  "ie_addTextList e text_list = rows_appended e (addTextList (ie_rows e) text_list)"

definition ie_addText :: "inline_editor \<Rightarrow> u16 list \<Rightarrow> inline_editor" where
  "ie_addText e text = rows_appended e (addText (ie_rows e) text)"

text \<open>Lines 526--537: \<open>text()\<close> is \<open>currentText()\<close>, the current row's text; \<open>setText\<close> selects the row
  with the text, or row 0.\<close>

definition currentText :: "inline_editor \<Rightarrow> u16 list" where
  "currentText e =
     (if 0 \<le> ie_current e \<and> ie_current e < int (length (ie_rows e)) then ii_text (ie_rows e ! nat (ie_current e))
      else [])"

definition setText :: "inline_editor \<Rightarrow> u16 list \<Rightarrow> inline_editor" where
  "setText e t =
     (let i = findText (ie_rows e) t;
          m_idx = (if i = -1 then 0 else i)
      in setCurrentIndex (e\<lparr>ie_idx := m_idx\<rparr>) m_idx)"

subsection \<open>The delegate\<close>

text \<open>Lines 596--608: the editor of an object column offers \<open><object>\<close> and the
  form's object names.\<close>

definition objectEditor :: "ss_env \<Rightarrow> inline_editor" where
  "objectEditor env =
     ie_addTextList (ie_addTextList InlineEditor [(latin1 ''<object>'', False)])
       (qmap_of (map (\<lambda>n. (n, False)) (objectNameList (se_form env))))"

text \<open>Lines 618--628: a class with a name and members gets a title and its members.\<close>

definition addClassMembers :: "inline_editor \<Rightarrow> u16 list \<times> u16 list list \<Rightarrow> inline_editor" where
  "addClassMembers ed classInfo =
     (if fst classInfo = [] \<or> snd classInfo = [] then ed
      else ie_addTextList (ie_addTitle ed (fst classInfo)) (qmap_of (map (\<lambda>n. (n, False)) (snd classInfo))))"

text \<open>Lines 609--629: the editor of a member column offers \<open><signal>\<close> or \<open><slot>\<close>
  and, under a title per class, the members that fit the object and the peer member.\<close>

definition memberEditor :: "ss_env \<Rightarrow> u16 list \<Rightarrow> member_type \<Rightarrow> u16 list \<Rightarrow> inline_editor" where
  "memberEditor env obj_name type peer =
     foldl addClassMembers
       (ie_addText InlineEditor (if type = SignalMember then latin1 ''<signal>'' else latin1 ''<slot>''))
       (se_classMembers env obj_name type peer)"

text \<open>Lines 581--638: the editor for a cell of the source row \<open>row\<close>; the object of
  the cell is the sender for columns 0 and 1 and the receiver for columns 2 and 3.
  Without a form there is no editor.\<close>

definition createEditor :: "ss_env \<Rightarrow> bool \<Rightarrow> connection_model \<Rightarrow> int \<Rightarrow> int \<Rightarrow> inline_editor option" where
  "createEditor env hasForm m row column =
     (if \<not> hasForm then None
      else
        let cell = (\<lambda>c. case data m (index m row c InvalidIndex) DisplayRole of QVString s \<Rightarrow> s | _ \<Rightarrow> []);
            obj_name = cell (if column \<le> 1 then 0 else 2)
        in if column = 0 \<or> column = 2 then Some (objectEditor env)
           else if column = 1 \<or> column = 3 then
             let type = (if column = 1 then SignalMember else SlotMember);
                 peer = cell (if type = SignalMember then 3 else 1)
             in Some (memberEditor env obj_name type peer)
           else Some InlineEditor)"

subsection \<open>The window\<close>

text \<open>The window's state: the model, the view's current index (an index of the sort
  proxy), the connections selected in the form's editor (by row), the guard
  \<open>m_handling_selection_change\<close>, and the enabled state of the two buttons.\<close>

record ss_window =
  sw_model :: connection_model
  sw_current :: model_index
  sw_selected :: "nat list"
  sw_handling :: bool
  sw_addEnabled :: bool
  sw_removeEnabled :: bool

text \<open>The view's \<open>QSortFilterProxyModel\<close>: its mapping of indexes to and from the
  connection model.\<close>

record proxy_env =
  pv_mapToSource :: "model_index \<Rightarrow> model_index"
  pv_mapFromSource :: "model_index \<Rightarrow> model_index"

text \<open>Lines 805--809.\<close>

definition updateUi :: "ss_window \<Rightarrow> ss_window" where
  "updateUi w =
     w\<lparr>sw_addEnabled := (cm_editor (sw_model w) \<noteq> None),
       sw_removeEnabled := (cm_editor (sw_model w) \<noteq> None \<and> idx_valid (sw_current w))\<rparr>"

text \<open>Lines 182--189: \<open>indexToConnection\<close>, the connection (by its row) an index of
  the connection model stands for.\<close>

definition indexToRow :: "connection_model \<Rightarrow> model_index \<Rightarrow> nat option" where
  "indexToRow m idx =
     (case map_option snd (cm_editor m) of
        None \<Rightarrow> None
      | Some cs \<Rightarrow>
          if \<not> idx_valid idx then None
          else if idx_row idx < 0 \<or> int (length cs) \<le> idx_row idx then None
          else Some (nat (idx_row idx)))"

text \<open>Lines 746--779.  The view's \<open>setCurrentIndex\<close> emits \<open>currentChanged\<close>, connected
  to \<open>updateEditorSelection\<close>; the editor's \<open>setSelected\<close> emits \<open>connectionSelected\<close>,
  connected to \<open>updateDialogSelection\<close>.  Each handler sets the guard before it
  triggers the other, which then returns at once: the measure is the guard.\<close>

function updateDialogSelection :: "proxy_env \<Rightarrow> ss_window \<Rightarrow> nat \<Rightarrow> ss_window"
  and updateEditorSelection :: "proxy_env \<Rightarrow> ss_window \<Rightarrow> model_index \<Rightarrow> ss_window" where
  "updateDialogSelection pe w con =
     (if sw_handling w \<or> cm_editor (sw_model w) = None then w
      else
        let pidx = pv_mapFromSource pe (connectionToIndex (Some con))
        in if \<not> idx_valid pidx \<or> pidx = sw_current w then w
           else
             let w1 = w\<lparr>sw_handling := True, sw_current := pidx\<rparr>;
                 w2 = updateEditorSelection pe w1 pidx
             in updateUi (w2\<lparr>sw_handling := False\<rparr>))"
| "updateEditorSelection pe w idx =
     (if sw_handling w \<or> cm_editor (sw_model w) = None then w
      else
        case indexToRow (sw_model w) (pv_mapToSource pe idx) of
          None \<Rightarrow> updateUi (w\<lparr>sw_selected := []\<rparr>)
        | Some con \<Rightarrow>
            if con \<in> set (sw_selected w) then w
            else
              let w1 = w\<lparr>sw_handling := True, sw_selected := [con]\<rparr>;
                  w2 = updateDialogSelection pe w1 con
              in updateUi (w2\<lparr>sw_handling := False\<rparr>))"
  by pat_completeness auto
termination
  by (relation "measure (\<lambda>x. case x of Inl (_, w, _) \<Rightarrow> if sw_handling w then 0 else 1
                                    | Inr (_, w, _) \<Rightarrow> if sw_handling w then 0 else 1)") auto

text \<open>Lines 781--785: a renamed object refreshes every cell.\<close>

definition objectNameChanged :: "ss_window \<Rightarrow> ss_report option" where
  "objectNameChanged w = (if cm_editor (sw_model w) \<noteq> None then Some (updateAll (sw_model w)) else None)"

text \<open>What the window asks of the form's editor.\<close>

datatype window_request = AddEmptyConnection | DeleteSelectedConnections

text \<open>Lines 787--803.\<close>

definition addConnection_window :: "ss_window \<Rightarrow> ss_window \<times> window_request option" where
  "addConnection_window w = (if cm_editor (sw_model w) = None then (w, None) else (updateUi w, Some AddEmptyConnection))"

definition removeConnection_window :: "ss_window \<Rightarrow> ss_window \<times> window_request option" where
  "removeConnection_window w =
     (if cm_editor (sw_model w) = None then (w, None) else (updateUi w, Some DeleteSelectedConnections))"

subsection \<open>Invariant of the inline editor\<close>

definition ie_inv :: "inline_editor \<Rightarrow> bool" where
  "ie_inv e = (0 \<le> ie_idx e \<and> ie_idx e < int (length (ie_rows e)) \<and> \<not> ii_title (ie_rows e ! nat (ie_idx e))
               \<and> ie_current e = ie_idx e)"

inductive ie_reachable :: "inline_editor \<Rightarrow> inline_editor \<Rightarrow> bool" for e0 :: inline_editor where
  editorData: "ie_reachable e0 (setText e0 t)"
| setText_again: "ie_reachable e0 e \<Longrightarrow> ie_reachable e0 (setText e t)"
| pick: "ie_reachable e0 e \<Longrightarrow> 0 \<le> i \<Longrightarrow> i < int (length (ie_rows e)) \<Longrightarrow> ie_reachable e0 (activate e i)"

subsection \<open>Examples\<close>

definition ex_ssform :: ss_form where
  "ex_ssform = \<lparr>sf_hasMainContainer = True, sf_containerPages = None,
     sf_cursorWidgets = [\<lparr>fw_meta = MK_Widget, fw_name = latin1 ''pushButton''\<rparr>,
                         \<lparr>fw_meta = MK_LayoutWidget, fw_name = latin1 ''horizontalLayout''\<rparr>],
     sf_actions = [], sf_buttonGroups = []\<rparr>"

definition ex_ssenv :: ss_env where
  "ex_ssenv = \<lparr>se_form = ex_ssform,
     se_hasMember = (\<lambda>obj t s. obj = latin1 ''pushButton'' \<and> t = SignalMember \<and> s = latin1 ''clicked()''),
     se_classMembers = (\<lambda>obj t peer. [(latin1 ''QPushButton'', [latin1 ''pressed()'', latin1 ''clicked()'']),
                                      ([], [latin1 ''destroyed()''])])\<rparr>"

definition ex_conn :: ss_conn where
  "ex_conn = \<lparr>sc_sender = latin1 ''pushButton'', sc_signal = latin1 ''clicked()'', sc_receiver = [], sc_slot = []\<rparr>"

definition ex_model :: connection_model where
  "ex_model = \<lparr>cm_editor = Some (7, [ex_conn])\<rparr>"

definition ex_window :: ss_window where
  "ex_window = \<lparr>sw_model = ex_model, sw_current = InvalidIndex, sw_selected = [], sw_handling = False,
     sw_addEnabled = True, sw_removeEnabled = False\<rparr>"

definition ex_proxy :: proxy_env where
  "ex_proxy = \<lparr>pv_mapToSource = id, pv_mapFromSource = id\<rparr>"

subsection \<open>Properties\<close>


text \<open>C18: setData never asks the editor to name an object that is not in the form's
  object list, nor a signal or slot the object does not have: such a string is
  replaced by the empty one.  It edits the field of the index's column, at the index's
  row, which is a row of the editor.\<close>

theorem setData_sanitises:
  assumes "setData env m idx v = Inr (ok, Some ed)"
  shows "\<exists>cs. map_option snd (cm_editor m) = Some cs \<and> 0 \<le> idx_row idx \<and> idx_row idx < int (length cs) \<and>
     (case ed of
        SetSource r s \<Rightarrow> r = idx_row idx \<and> idx_column idx = 0 \<and> (s = [] \<or> s \<in> set (objectNameList (se_form env)))
      | SetSignal r s \<Rightarrow> r = idx_row idx \<and> idx_column idx = 1 \<and>
          (s = [] \<or> se_hasMember env (sc_sender (cs ! nat r)) SignalMember s)
      | SetTarget r s \<Rightarrow> r = idx_row idx \<and> idx_column idx = 2 \<and> (s = [] \<or> s \<in> set (objectNameList (se_form env)))
      | SetSlot r s \<Rightarrow> r = idx_row idx \<and> idx_column idx = 3 \<and>
          (s = [] \<or> se_hasMember env (sc_receiver (cs ! nat r)) SlotMember s))"
  using assms
  by (auto simp: setData_def connection_at_def Let_def split: option.splits qvariant.splits if_splits)


lemma ss_conn_eq_fields:
  fixes c d :: ss_conn
  shows "(sc_sender c = sc_sender d \<and> sc_signal c = sc_signal d \<and> sc_receiver c = sc_receiver d \<and> sc_slot c = sc_slot d)
   \<longleftrightarrow> c = d"
  by (cases c, cases d) simp

lemma others_set:
  "set (map snd (filter (\<lambda>(j, c). j \<noteq> i) (zip [0..<length cs] cs))) = {cs ! j |j. j < length cs \<and> j \<noteq> i}"
proof
  show "set (map snd (filter (\<lambda>(j, c). j \<noteq> i) (zip [0..<length cs] cs))) \<subseteq> {cs ! j |j. j < length cs \<and> j \<noteq> i}"
    by (auto simp: set_zip)
  show "{cs ! j |j. j < length cs \<and> j \<noteq> i} \<subseteq> set (map snd (filter (\<lambda>(j, c). j \<noteq> i) (zip [0..<length cs] cs)))"
  proof
    fix x assume "x \<in> {cs ! j |j. j < length cs \<and> j \<noteq> i}"
    then obtain j where j: "x = cs ! j" "j < length cs" "j \<noteq> i" by blast
    then have "(j, x) \<in> set (zip [0..<length cs] cs)"
      by (auto simp: set_zip intro!: exI [of _ j])
    with j show "x \<in> set (map snd (filter (\<lambda>(j, c). j \<noteq> i) (zip [0..<length cs] cs)))"
      by (force simp: image_iff)
  qed
qed

text \<open>C35: when a connection changes, the model warns exactly when another connection
  has the same sender, signal, receiver and slot, and it always ends by reporting the
  row's four cells as changed.\<close>

theorem connectionChanged_warns_iff_duplicate:
  assumes "i < length cs"
  shows "(DuplicateWarning (cs ! i) \<in> set (connectionChanged cs i) \<longleftrightarrow> (\<exists>j<length cs. j \<noteq> i \<and> cs ! j = cs ! i)) \<and>
         last (connectionChanged cs i) = DataChanged (MIndex (int i) 0) (MIndex (int i) 3)"
proof -
  have "list_ex (\<lambda>c. sc_sender c = sc_sender (cs ! i) \<and> sc_signal c = sc_signal (cs ! i) \<and>
                     sc_receiver c = sc_receiver (cs ! i) \<and> sc_slot c = sc_slot (cs ! i))
          (map snd (filter (\<lambda>(j, c). j \<noteq> i) (zip [0..<length cs] cs)))
        \<longleftrightarrow> (\<exists>j<length cs. j \<noteq> i \<and> cs ! j = cs ! i)"
    unfolding list_ex_iff others_set ss_conn_eq_fields by blast
  then show ?thesis
    by (simp add: connectionChanged_def Let_def createIndex_def)
qed


lemma findText_from_found:
  "findText_from k rows t = -1 \<and> (\<forall>r\<in>set rows. ii_title r \<or> ii_text r \<noteq> t) \<or>
   (\<exists>j<length rows. findText_from k rows t = int (k + j) \<and> \<not> ii_title (rows ! j) \<and> ii_text (rows ! j) = t)"
proof (induction rows arbitrary: k)
  case Nil
  then show ?case by simp
next
  case (Cons r rs)
  show ?case
  proof (cases "\<not> ii_title r \<and> ii_text r = t")
    case True
    then show ?thesis by (intro disjI2 exI [of _ 0]) simp
  next
    case False
    then have f: "findText_from k (r # rs) t = findText_from (Suc k) rs t" by auto
    from Cons.IH [of "Suc k"] show ?thesis
    proof
      assume "findText_from (Suc k) rs t = -1 \<and> (\<forall>r\<in>set rs. ii_title r \<or> ii_text r \<noteq> t)"
      with False f show ?thesis by auto
    next
      assume "\<exists>j<length rs. findText_from (Suc k) rs t = int (Suc k + j) \<and> \<not> ii_title (rs ! j) \<and> ii_text (rs ! j) = t"
      then obtain j where "j < length rs" "findText_from (Suc k) rs t = int (Suc k + j)"
        "\<not> ii_title (rs ! j)" "ii_text (rs ! j) = t" by blast
      with f show ?thesis by (intro disjI2 exI [of _ "Suc j"]) simp
    qed
  qed
qed

lemma setText_rows [simp]: "ie_rows (setText e t) = ie_rows e"
  by (simp add: setText_def setCurrentIndex_def Let_def)

lemma activate_rows [simp]: "ie_rows (activate e i) = ie_rows e"
  by (simp add: activate_def checkSelection_def setCurrentIndex_def)

lemma setText_inv:
  assumes "ie_rows e \<noteq> []" "\<not> ii_title (hd (ie_rows e))"
  shows "ie_inv (setText e t)"
  using findText_from_found [of 0 "ie_rows e" t] assms
  by (auto simp: setText_def setCurrentIndex_def ie_inv_def findText_def Let_def hd_conv_nth)

lemma activate_inv:
  assumes "ie_inv e" "0 \<le> i" "i < int (length (ie_rows e))"
  shows "ie_inv (activate e i)"
  using assms
  by (auto simp: activate_def checkSelection_def setCurrentIndex_def ie_inv_def isTitle_def)

text \<open>C36: setText followed by text() gives the text back when a row that is not a
  title has it, and the first row's text otherwise.\<close>

theorem setText_currentText:
  assumes "ie_rows e \<noteq> []" "\<not> ii_title (hd (ie_rows e))"
  shows "currentText (setText e t) =
           (if list_ex (\<lambda>r. \<not> ii_title r \<and> ii_text r = t) (ie_rows e) then t else ii_text (hd (ie_rows e)))"
  using findText_from_found [of 0 "ie_rows e" t] assms
  by (auto simp: setText_def setCurrentIndex_def currentText_def findText_def Let_def hd_conv_nth list_ex_iff)


lemma ie_reachable_rows: "ie_reachable e0 e \<Longrightarrow> ie_rows e = ie_rows e0"
  by (induction rule: ie_reachable.induct) simp_all

lemma rows_appended_rows [simp]: "ie_rows (rows_appended e rs) = rs"
  by (simp add: rows_appended_def)

lemma addClassMembers_prefix: "\<exists>zs. ie_rows (foldl addClassMembers e cl) = ie_rows e @ zs"
proof (induction cl arbitrary: e)
  case Nil
  then show ?case by simp
next
  case (Cons c cl)
  have "ie_rows (addClassMembers e c) = ie_rows e @
          (if fst c = [] \<or> snd c = [] then []
           else ie_rows (addClassMembers InlineEditor c))"
    by (simp add: addClassMembers_def ie_addTextList_def ie_addTitle_def addTextList_def addTitle_def InlineEditor_def)
  then obtain ys where "ie_rows (addClassMembers e c) = ie_rows e @ ys" by blast
  with Cons.IH [of "addClassMembers e c"] show ?case by auto
qed

lemma createEditor_wf:
  assumes "createEditor env True m row column = Some e0" "0 \<le> column" "column \<le> 3"
  shows "ie_rows e0 \<noteq> [] \<and> \<not> ii_title (hd (ie_rows e0))"
proof -
  have "column = 0 \<or> column = 2 \<or> column = 1 \<or> column = 3" using assms(2,3) by arith
  then have "e0 = objectEditor env \<or> (\<exists>ob t p. e0 = memberEditor env ob t p)"
    using assms(1) unfolding createEditor_def Let_def by (auto split: if_splits)
  then show ?thesis
  proof
    assume "e0 = objectEditor env"
    then show ?thesis by (simp add: objectEditor_def ie_addTextList_def addTextList_def InlineEditor_def)
  next
    assume "\<exists>ob t p. e0 = memberEditor env ob t p"
    then obtain ob t p where e0: "e0 = memberEditor env ob t p" by blast
    let ?e1 = "ie_addText InlineEditor (if t = SignalMember then latin1 ''<signal>'' else latin1 ''<slot>'')"
    obtain zs where "ie_rows e0 = ie_rows ?e1 @ zs"
      using addClassMembers_prefix [of ?e1] unfolding e0 memberEditor_def by blast
    then show ?thesis by (simp add: ie_addText_def addText_def InlineEditor_def)
  qed
qed

text \<open>C19: an inline editor the delegate creates for one of the four columns, once the
  view has set its text, never shows a class title as its current entry, whatever the
  user picks: checkSelection puts the previous choice back.\<close>

theorem inline_editor_never_on_title:
  assumes "createEditor env True m row column = Some e0" "0 \<le> column" "column \<le> 3" "ie_reachable e0 e"
  shows "ie_current e = ie_idx e \<and> 0 \<le> ie_current e \<and> ie_current e < int (length (ie_rows e)) \<and>
         \<not> isTitle (ie_rows e) (ie_current e)"
proof -
  have wf: "ie_rows e0 \<noteq> [] \<and> \<not> ii_title (hd (ie_rows e0))"
    using createEditor_wf [OF assms(1-3)] .
  from assms(4) have "ie_inv e"
  proof (induction rule: ie_reachable.induct)
    case (editorData t)
    then show ?case using wf by (intro setText_inv) simp_all
  next
    case (setText_again e t)
    then show ?case using wf ie_reachable_rows by (intro setText_inv) simp_all
  next
    case (pick e i)
    then show ?case by (intro activate_inv)
  qed
  then show ?thesis by (auto simp: ie_inv_def isTitle_def)
qed


lemma selection_handlers_guarded [simp]:
  "sw_handling w \<Longrightarrow> updateDialogSelection pe w con = w"
  "sw_handling w \<Longrightarrow> updateEditorSelection pe w idx = w"
  by simp_all

lemma updateUi_fields [simp]:
  "sw_handling (updateUi w) = sw_handling w" "sw_current (updateUi w) = sw_current w"
  "sw_selected (updateUi w) = sw_selected w" "sw_model (updateUi w) = sw_model w"
  by (simp_all add: updateUi_def)

text \<open>C20: the two selection handlers of the window trigger each other through the
  view's and the editor's signals, and the guard m_handling_selection_change stops the
  echo: each handler leaves the guard clear and the other side's state as the echo
  found it, the editor ends with the picked row selected, and the view with the
  connection's index current.\<close>

theorem selection_handlers_settle:
  assumes "\<not> sw_handling w"
  shows "\<not> sw_handling (updateEditorSelection pe w idx) \<and> sw_current (updateEditorSelection pe w idx) = sw_current w \<and>
         (cm_editor (sw_model w) \<noteq> None \<longrightarrow> indexToRow (sw_model w) (pv_mapToSource pe idx) = Some r \<longrightarrow>
            r \<in> set (sw_selected (updateEditorSelection pe w idx))) \<and>
         \<not> sw_handling (updateDialogSelection pe w con) \<and> sw_selected (updateDialogSelection pe w con) = sw_selected w \<and>
         (cm_editor (sw_model w) \<noteq> None \<longrightarrow> idx_valid (pv_mapFromSource pe (connectionToIndex (Some con))) \<longrightarrow>
            sw_current (updateDialogSelection pe w con) = pv_mapFromSource pe (connectionToIndex (Some con)))"
  using assms by (auto simp: Let_def split: option.split)


text \<open>\<open>index()\<close> returns a valid index for any row of the editor and any
  non-negative column, also past the four columns of columnCount().\<close>

theorem index_ignores_column:
  "idx_valid (index m row column InvalidIndex) \<longleftrightarrow>
   (\<exists>p cs. cm_editor m = Some (p, cs) \<and> 0 \<le> row \<and> row < int (length cs) \<and> 0 \<le> column)"
  by (cases "cm_editor m") (auto simp: index_def createIndex_def)

lemma ex_ssenv_fields [simp]:
  "se_form ex_ssenv = ex_ssform"
  "se_classMembers ex_ssenv obj t peer = [(latin1 ''QPushButton'', [latin1 ''pressed()'', latin1 ''clicked()'']),
                                          ([], [latin1 ''destroyed()''])]"
  by (simp_all add: ex_ssenv_def)

lemma ex_objectNameList: "objectNameList ex_ssform = [latin1 ''pushButton'']"
  by (simp add: objectNameList_def ex_ssform_def addWidgetToObjectList_def qtrimmed_def latin1_def qchar_isSpace_def)

theorem setData_sanitises_witness:
  "setData ex_ssenv ex_model (MIndex 0 0) (QVString (latin1 ''label'')) = Inr (True, Some (SetSource 0 [])) \<and>
   (\<exists>cs. map_option snd (cm_editor ex_model) = Some cs \<and> 0 \<le> idx_row (MIndex 0 0) \<and> idx_row (MIndex 0 0) < int (length cs))"
proof -
  have e: "setData ex_ssenv ex_model (MIndex 0 0) (QVString (latin1 ''label'')) = Inr (True, Some (SetSource 0 []))"
    by (simp add: setData_def ex_model_def connection_at_def ex_objectNameList latin1_def)
  show ?thesis
    using setData_sanitises [OF e] e by simp
qed

lemma ex_editor:
  "createEditor ex_ssenv True ex_model 0 1 = Some (memberEditor ex_ssenv (latin1 ''pushButton'') SignalMember (latin1 ''<slot>''))"
  by (simp add: createEditor_def data_def index_def connectionAt_def columnText_def ex_model_def ex_conn_def
      createIndex_def latin1_def)

lemma ex_editor_rows:
  "ie_rows (memberEditor ex_ssenv obj SignalMember peer) =
     [\<lparr>ii_text = latin1 ''<signal>'', ii_title = False, ii_marked = False\<rparr>,
      \<lparr>ii_text = latin1 ''QPushButton:'', ii_title = True, ii_marked = False\<rparr>,
      \<lparr>ii_text = latin1 ''clicked()'', ii_title = False, ii_marked = False\<rparr>,
      \<lparr>ii_text = latin1 ''pressed()'', ii_title = False, ii_marked = False\<rparr>]"
  by (simp add: memberEditor_def addClassMembers_def ie_addTextList_def ie_addTitle_def ie_addText_def
      addTextList_def addTitle_def addText_def InlineEditor_def qmap_of_def latin1_def rows_appended_def)


theorem connectionChanged_warns_iff_duplicate_witness:
  "0 < length [ex_conn, ex_conn] \<and>
   connectionChanged [ex_conn, ex_conn] 0 = [DuplicateWarning ex_conn, DataChanged (MIndex 0 0) (MIndex 0 3)]"
  using connectionChanged_warns_iff_duplicate [of 0 "[ex_conn, ex_conn]"]
  by (simp add: connectionChanged_def Let_def createIndex_def)

theorem inline_editor_never_on_title_witness:
  "createEditor ex_ssenv True ex_model 0 1 = Some (memberEditor ex_ssenv (latin1 ''pushButton'') SignalMember (latin1 ''<slot>'')) \<and>
   ie_current (activate (setText (memberEditor ex_ssenv (latin1 ''pushButton'') SignalMember (latin1 ''<slot>'')) (latin1 ''clicked()'')) 1) = 2 \<and>
   \<not> isTitle (ie_rows (memberEditor ex_ssenv (latin1 ''pushButton'') SignalMember (latin1 ''<slot>''))) 2"
proof -
  let ?E = "memberEditor ex_ssenv (latin1 ''pushButton'') SignalMember (latin1 ''<slot>'')"
  let ?e = "activate (setText ?E (latin1 ''clicked()'')) 1"
  have r: "ie_reachable ?E ?e"
    by (rule ie_reachable.pick [OF ie_reachable.editorData]) (simp_all add: ex_editor_rows)
  have "ie_current ?e = ie_idx ?e \<and> 0 \<le> ie_current ?e \<and> ie_current ?e < int (length (ie_rows ?e)) \<and>
        \<not> isTitle (ie_rows ?e) (ie_current ?e)"
    by (rule inline_editor_never_on_title [OF ex_editor _ _ r]) simp_all
  moreover have "ie_idx ?e = 2"
    by (simp add: activate_def checkSelection_def setCurrentIndex_def setText_def findText_def isTitle_def
        ex_editor_rows latin1_def)
  ultimately have c: "ie_current ?e = 2" "\<not> isTitle (ie_rows ?E) (ie_current ?e)"
    using ie_reachable_rows [OF r] by auto
  from c(2) have "\<not> isTitle (ie_rows ?E) 2" unfolding c(1) .
  with c(1) ex_editor show ?thesis by (intro conjI)
qed

theorem setText_currentText_witness:
  "ie_rows (memberEditor ex_ssenv (latin1 ''pushButton'') SignalMember (latin1 ''<slot>'')) \<noteq> [] \<and>
   \<not> ii_title (hd (ie_rows (memberEditor ex_ssenv (latin1 ''pushButton'') SignalMember (latin1 ''<slot>'')))) \<and>
   currentText (setText (memberEditor ex_ssenv (latin1 ''pushButton'') SignalMember (latin1 ''<slot>'')) (latin1 ''pressed()''))
     = latin1 ''pressed()''"
  using setText_currentText [of "memberEditor ex_ssenv (latin1 ''pushButton'') SignalMember (latin1 ''<slot>'')"
      "latin1 ''pressed()''"]
  by (simp add: ex_editor_rows latin1_def)

theorem selection_handlers_settle_witness:
  "\<not> sw_handling ex_window \<and> sw_selected (updateEditorSelection ex_proxy ex_window (MIndex 0 1)) = [0] \<and>
   sw_current (updateDialogSelection ex_proxy ex_window 0) = MIndex 0 0"
  using selection_handlers_settle [of ex_window ex_proxy "MIndex 0 1" 0 0]
  by (simp add: ex_window_def ex_proxy_def ex_model_def indexToRow_def connectionToIndex_def createIndex_def Let_def updateUi_def)

end
