(* ===== verification/Translation_Settings.thy ===== *)
theory Translation_Settings
  imports Qt_String "HOL-Library.List_Lexorder"
begin

text \<open>
  Linguist's translation settings dialog, src/src/linguist/linguist/translationsettingsdialog.cpp:
  four combo boxes for the source and target language and country of a translation file
  (a \<open>DataModel\<close>) or of a phrase book.  The two language boxes share one item model,
  filled from \<open>QLocale\<close>'s language table; choosing a language refills the country box
  below it (\<open>fillCountryCombo\<close>, through \<open>currentIndexChanged\<close>); \<open>showEvent\<close> selects the
  settings of the file and \<open>on_buttonBox_accepted\<close> writes the selection back.  A combo
  box is its items (text and integer data) and its current index; \<open>QLocale\<close>'s tables are
  an argument of the model.
\<close>

subsection \<open>QLocale and QComboBox\<close>

text \<open>\<open>QLocale::C\<close> and \<open>QLocale::AnyCountry\<close>.\<close>

definition QLocale_C :: int where
  "QLocale_C = 1"

definition AnyCountry :: int where
  "AnyCountry = 0"

text \<open>The \<open>QLocale\<close> tables the dialog reads: \<open>QLocale::LastLanguage\<close> and
  \<open>QLocale::English\<close>, the names of languages and countries, the language of the locale
  \<open>QLocale(language)\<close> and \<open>QLocale(language, country)\<close> (the default locale's language
  when there is no data), the native names, and \<open>countriesForLanguage\<close>.\<close>

record ts_env =
  tl_lastLanguage :: int
  tl_english :: int
  tl_languageToString :: "int \<Rightarrow> u16 list"
  tl_localeLanguage :: "int \<Rightarrow> int"
  tl_nativeLanguageName :: "int \<Rightarrow> u16 list"
  tl_countriesForLanguage :: "int \<Rightarrow> int list"
  tl_countryToString :: "int \<Rightarrow> u16 list"
  tl_localeLanguage2 :: "int \<Rightarrow> int \<Rightarrow> int"
  tl_nativeCountryName :: "int \<Rightarrow> int \<Rightarrow> u16 list"

text \<open>\<open>tr("%1 (%2)").arg(a, b)\<close>.\<close>

definition tr_arg2 :: "u16 list \<Rightarrow> u16 list \<Rightarrow> u16 list" where
  "tr_arg2 a b = a @ latin1 '' ('' @ b @ latin1 '')''"

text \<open>A combo box: its items (display text and \<open>int\<close> data) and its current index
  (\<open>-1\<close> for none).\<close>

record combo =
  cb_items :: "(u16 list \<times> int) list"
  cb_current :: int

definition cb_valid :: "(u16 list \<times> int) list \<Rightarrow> int \<Rightarrow> bool" where
  "cb_valid items i = (0 \<le> i \<and> i < int (length items))"

text \<open>\<open>QComboBox::itemData(i).toInt()\<close>: 0 for an index out of range.\<close>

definition itemData :: "(u16 list \<times> int) list \<Rightarrow> int \<Rightarrow> int" where
  "itemData items i = (if cb_valid items i then snd (items ! nat i) else 0)"

text \<open>\<open>QComboBox::findData\<close>: the first item with the data, or \<open>-1\<close>.\<close>

fun findData_from :: "nat \<Rightarrow> (u16 list \<times> int) list \<Rightarrow> int \<Rightarrow> int" where
  "findData_from k [] v = -1"
| "findData_from k (x # xs) v = (if snd x = v then int k else findData_from (Suc k) xs v)"

definition findData :: "(u16 list \<times> int) list \<Rightarrow> int \<Rightarrow> int" where
  "findData items v = findData_from 0 items v"

text \<open>\<open>QComboBox::setCurrentIndex\<close>: an index out of range leaves no current item.\<close>

definition cb_index :: "(u16 list \<times> int) list \<Rightarrow> int \<Rightarrow> int" where
  "cb_index items i = (if cb_valid items i then i else -1)"

text \<open>\<open>QAbstractItemModel::sort(0, Qt::AscendingOrder)\<close> on a \<open>QStandardItemModel\<close>: a
  stable sort by display text.\<close>

definition sort_items :: "(u16 list \<times> int) list \<Rightarrow> (u16 list \<times> int) list" where
  "sort_items items = sort_key fst items"

subsection \<open>The dialog\<close>

text \<open>The language settings of a translation file or a phrase book, and its file name.\<close>

record lang_settings =
  ls_language :: int
  ls_country :: int
  ls_sourceLanguage :: int
  ls_sourceCountry :: int
  ls_fileName :: "u16 list"

text \<open>The dialog: the item model the two language boxes share and their current
  indexes, the two country boxes, the file whose settings it edits (\<open>m_dataModel\<close>,
  \<open>m_phraseBook\<close>; \<open>None\<close> for a null pointer) and the window title.\<close>

record ts_dialog =
  td_langItems :: "(u16 list \<times> int) list"
  td_srcLang :: int
  td_tgtLang :: int
  td_srcCountry :: combo
  td_tgtCountry :: combo
  td_dataModel :: "lang_settings option"
  td_phraseBook :: "lang_settings option"
  td_title :: "u16 list"

text \<open>Lines 19--30: a language's entry, with its endonym when \<open>QLocale\<close> has data for
  the language and it is not English.\<close>

definition languageItem :: "ts_env \<Rightarrow> int \<Rightarrow> u16 list \<times> int" where
  "languageItem env i =
     (let lang = tl_languageToString env i
      in if tl_localeLanguage env i = i \<and> i \<noteq> tl_english env then
           (let native = tl_nativeLanguageName env i in if native \<noteq> [] then (tr_arg2 lang native, i) else (lang, i))
         else (lang, i))"

text \<open>Lines 54--73: the countries of a language, with their native names unless the
  locale is English, sorted, after \<open>Any Country\<close>, which is current.\<close>

definition countryItem :: "ts_env \<Rightarrow> int \<Rightarrow> int \<Rightarrow> u16 list \<times> int" where
  "countryItem env lang cntr =
     (let country = tl_countryToString env cntr
      in if tl_localeLanguage2 env lang cntr \<noteq> tl_english env then
           (let ncn = tl_nativeCountryName env lang cntr in if ncn \<noteq> [] then (tr_arg2 country ncn, cntr) else (country, cntr))
         else (country, cntr))"

definition fillCountryCombo :: "ts_env \<Rightarrow> int \<Rightarrow> combo" where
  "fillCountryCombo env lang =
     \<lparr>cb_items = (latin1 ''Any Country'', AnyCountry) #
                 (if lang \<noteq> QLocale_C then sort_items (map (countryItem env lang) (tl_countriesForLanguage env lang))
                  else []),
      cb_current = 0\<rparr>"

text \<open>Lines 75--83: setting a language box's current index emits
  \<open>currentIndexChanged\<close> when the index changes, and its slot refills the country box.\<close>

definition setSrcLangIndex :: "ts_env \<Rightarrow> ts_dialog \<Rightarrow> int \<Rightarrow> ts_dialog" where
  "setSrcLangIndex env d i =
     (let idx = cb_index (td_langItems d) i
      in if idx = td_srcLang d then d
         else d\<lparr>td_srcLang := idx, td_srcCountry := fillCountryCombo env (itemData (td_langItems d) idx)\<rparr>)"

definition setTgtLangIndex :: "ts_env \<Rightarrow> ts_dialog \<Rightarrow> int \<Rightarrow> ts_dialog" where
  "setTgtLangIndex env d i =
     (let idx = cb_index (td_langItems d) i
      in if idx = td_tgtLang d then d
         else d\<lparr>td_tgtLang := idx, td_tgtCountry := fillCountryCombo env (itemData (td_langItems d) idx)\<rparr>)"

definition setCountryIndex :: "combo \<Rightarrow> int \<Rightarrow> combo" where
  "setCountryIndex c i = c\<lparr>cb_current := cb_index (cb_items c) i\<rparr>"

text \<open>Lines 13--36.  The first language added becomes current and fills the source
  country box; sorting and inserting \<open>POSIX\<close> in front move that item, and the box
  follows it; the target box takes the shared model and its first item.\<close>

definition TranslationSettingsDialog :: "ts_env \<Rightarrow> ts_dialog" where
  "TranslationSettingsDialog env =
     (let items0 = map (languageItem env) [QLocale_C + 1..tl_lastLanguage env - 1];
          empty = \<lparr>cb_items = [], cb_current = -1\<rparr>;
          d0 = \<lparr>td_langItems = [], td_srcLang = -1, td_tgtLang = -1, td_srcCountry = empty,
                td_tgtCountry = empty, td_dataModel = None, td_phraseBook = None, td_title = []\<rparr>;
          d1 = (if items0 = [] then d0
                else (setSrcLangIndex env (d0\<lparr>td_langItems := [hd items0]\<rparr>) 0)\<lparr>td_langItems := items0\<rparr>);
          sorted = sort_items items0;
          d2 = (if items0 = [] then d1
                else setSrcLangIndex env (d1\<lparr>td_langItems := sorted\<rparr>) (findData sorted (snd (hd items0))));
          items = (latin1 ''POSIX'', QLocale_C) # sorted;
          d3 = setSrcLangIndex env (d2\<lparr>td_langItems := items\<rparr>)
                 (if td_srcLang d2 = -1 then 0 else td_srcLang d2 + 1)
      in setTgtLangIndex env d3 0)"

text \<open>\<open>QFileInfo::baseName\<close>: the file name without its directory, up to the first dot.\<close>

definition qbaseName :: "u16 list \<Rightarrow> u16 list" where
  "qbaseName fn = takeWhile (\<lambda>c. c \<noteq> 0x2E) (rev (takeWhile (\<lambda>c. c \<noteq> 0x2F) (rev fn)))"

definition settingsTitle :: "u16 list \<Rightarrow> u16 list" where
  "settingsTitle fn = latin1 ''Settings for '' @ [0x27] @ qbaseName fn @ [0x27] @ latin1 '' - Qt Linguist''"

text \<open>Lines 38--52.\<close>

definition setDataModel :: "ts_dialog \<Rightarrow> lang_settings \<Rightarrow> ts_dialog" where
  "setDataModel d dm =
     d\<lparr>td_dataModel := Some dm, td_phraseBook := None, td_title := settingsTitle (ls_fileName dm)\<rparr>"

definition setPhraseBook :: "ts_dialog \<Rightarrow> lang_settings \<Rightarrow> ts_dialog" where
  "setPhraseBook d pb =
     d\<lparr>td_phraseBook := Some pb, td_dataModel := None, td_title := settingsTitle (ls_fileName pb)\<rparr>"

text \<open>The file the dialog reads and writes: the phrase book if there is one, else the
  translation file (\<open>None\<close>: both pointers null, which the code dereferences).\<close>

definition settings_of :: "ts_dialog \<Rightarrow> lang_settings option" where
  "settings_of d = (case td_phraseBook d of Some pb \<Rightarrow> Some pb | None \<Rightarrow> td_dataModel d)"

text \<open>Lines 85--112: the four selections are written to the phrase book, or else to
  the translation file.\<close>

definition on_buttonBox_accepted :: "ts_dialog \<Rightarrow> ts_dialog option" where
  "on_buttonBox_accepted d =
     (let lang = itemData (td_langItems d) (td_tgtLang d);
          country = itemData (cb_items (td_tgtCountry d)) (cb_current (td_tgtCountry d));
          lang2 = itemData (td_langItems d) (td_srcLang d);
          country2 = itemData (cb_items (td_srcCountry d)) (cb_current (td_srcCountry d));
          upd = (\<lambda>s. s\<lparr>ls_language := lang, ls_country := country, ls_sourceLanguage := lang2,
                        ls_sourceCountry := country2\<rparr>)
      in case td_phraseBook d of
           Some pb \<Rightarrow> Some (d\<lparr>td_phraseBook := Some (upd pb)\<rparr>)
         | None \<Rightarrow> (case td_dataModel d of
                      Some dm \<Rightarrow> Some (d\<lparr>td_dataModel := Some (upd dm)\<rparr>)
                    | None \<Rightarrow> None))"

text \<open>Lines 114--142: each box selects the file's value, or its first item when the
  value is not among its items; the target language first (which may refill the
  target country box), then the target country, then the same for the source.\<close>

definition showEvent :: "ts_env \<Rightarrow> ts_dialog \<Rightarrow> ts_dialog option" where
  "showEvent env d =
     (case settings_of d of
        None \<Rightarrow> None
      | Some s \<Rightarrow>
          let d1 = (let i = findData (td_langItems d) (ls_language s) in setTgtLangIndex env d (if i = -1 then 0 else i));
              d2 = (let i = findData (cb_items (td_tgtCountry d1)) (ls_country s)
                    in d1\<lparr>td_tgtCountry := setCountryIndex (td_tgtCountry d1) (if i = -1 then 0 else i)\<rparr>);
              d3 = (let i = findData (td_langItems d2) (ls_sourceLanguage s) in setSrcLangIndex env d2 (if i = -1 then 0 else i));
              d4 = (let i = findData (cb_items (td_srcCountry d3)) (ls_sourceCountry s)
                    in d3\<lparr>td_srcCountry := setCountryIndex (td_srcCountry d3) (if i = -1 then 0 else i)\<rparr>)
          in Some d4)"

subsection \<open>Invariant and reachable states\<close>

text \<open>The shared language model starts with \<open>POSIX\<close> (data \<open>QLocale::C\<close>), both language
  boxes have a current item, and each country box holds the countries of the language
  above it and has a current item.\<close>

definition ts_inv :: "ts_env \<Rightarrow> ts_dialog \<Rightarrow> bool" where
  "ts_inv env d =
     (td_langItems d \<noteq> [] \<and> snd (hd (td_langItems d)) = QLocale_C \<and>
      cb_valid (td_langItems d) (td_srcLang d) \<and> cb_valid (td_langItems d) (td_tgtLang d) \<and>
      cb_items (td_srcCountry d) = cb_items (fillCountryCombo env (itemData (td_langItems d) (td_srcLang d))) \<and>
      cb_valid (cb_items (td_srcCountry d)) (cb_current (td_srcCountry d)) \<and>
      cb_items (td_tgtCountry d) = cb_items (fillCountryCombo env (itemData (td_langItems d) (td_tgtLang d))) \<and>
      cb_valid (cb_items (td_tgtCountry d)) (cb_current (td_tgtCountry d)))"

text \<open>What happens to the dialog: the user picks an entry of one of the four boxes
  (only entries that exist), the dialog is given a translation file or a phrase book,
  it is shown, or OK is pressed.\<close>

datatype ts_event =
    PickSrcLanguage int | PickTgtLanguage int | PickSrcCountry int | PickTgtCountry int
  | SetDataModel lang_settings | SetPhraseBook lang_settings | Show | Accept

fun ts_step :: "ts_env \<Rightarrow> ts_event \<Rightarrow> ts_dialog \<Rightarrow> ts_dialog option" where
  "ts_step env (PickSrcLanguage i) d = Some (setSrcLangIndex env d i)"
| "ts_step env (PickTgtLanguage i) d = Some (setTgtLangIndex env d i)"
| "ts_step env (PickSrcCountry i) d = Some (d\<lparr>td_srcCountry := setCountryIndex (td_srcCountry d) i\<rparr>)"
| "ts_step env (PickTgtCountry i) d = Some (d\<lparr>td_tgtCountry := setCountryIndex (td_tgtCountry d) i\<rparr>)"
| "ts_step env (SetDataModel dm) d = Some (setDataModel d dm)"
| "ts_step env (SetPhraseBook pb) d = Some (setPhraseBook d pb)"
| "ts_step env Show d = showEvent env d"
| "ts_step env Accept d = on_buttonBox_accepted d"

text \<open>A pick names an entry of the box it is made in.\<close>

fun pick_ok :: "ts_dialog \<Rightarrow> ts_event \<Rightarrow> bool" where
  "pick_ok d (PickSrcLanguage i) = cb_valid (td_langItems d) i"
| "pick_ok d (PickTgtLanguage i) = cb_valid (td_langItems d) i"
| "pick_ok d (PickSrcCountry i) = cb_valid (cb_items (td_srcCountry d)) i"
| "pick_ok d (PickTgtCountry i) = cb_valid (cb_items (td_tgtCountry d)) i"
| "pick_ok d _ = True"

inductive ts_reachable :: "ts_env \<Rightarrow> ts_dialog \<Rightarrow> bool" for env :: ts_env where
  created: "ts_reachable env (TranslationSettingsDialog env)"
| step: "ts_reachable env d \<Longrightarrow> pick_ok d ev \<Longrightarrow> ts_step env ev d = Some d' \<Longrightarrow> ts_reachable env d'"

subsection \<open>Examples\<close>

text \<open>A small language table: POSIX, Abkhazian and English, with Canada and Australia
  the countries of English; and a translation file whose target country is not one of them.\<close>

definition ex_tsenv :: ts_env where
  "ex_tsenv = \<lparr>tl_lastLanguage = 4, tl_english = 3,
     tl_languageToString = (\<lambda>i. if i = 2 then latin1 ''Abkhazian'' else latin1 ''English''),
     tl_localeLanguage = (\<lambda>i. if i = 3 then 3 else 0),
     tl_nativeLanguageName = (\<lambda>i. latin1 ''English''),
     tl_countriesForLanguage = (\<lambda>i. if i = 3 then [6, 5] else []),
     tl_countryToString = (\<lambda>c. if c = 5 then latin1 ''Canada'' else latin1 ''Australia''),
     tl_localeLanguage2 = (\<lambda>l c. 3),
     tl_nativeCountryName = (\<lambda>l c. [])\<rparr>"

definition ex_ts_settings :: lang_settings where
  "ex_ts_settings = \<lparr>ls_language = 3, ls_country = 99, ls_sourceLanguage = 7, ls_sourceCountry = 5,
     ls_fileName = latin1 ''/tmp/app_de.ts''\<rparr>"

subsection \<open>Lemmas\<close>

lemma findData_from_spec:
  "findData_from k xs v = -1 \<and> v \<notin> snd ` set xs \<or>
   (\<exists>j<length xs. findData_from k xs v = int (k + j) \<and> snd (xs ! j) = v)"
proof (induction xs arbitrary: k)
  case Nil
  then show ?case by simp
next
  case (Cons x xs)
  show ?case
  proof (cases "snd x = v")
    case True
    then show ?thesis by (intro disjI2 exI [of _ 0]) simp
  next
    case False
    from Cons.IH [of "Suc k"] show ?thesis
    proof
      assume "findData_from (Suc k) xs v = -1 \<and> v \<notin> snd ` set xs"
      with False show ?thesis by auto
    next
      assume "\<exists>j<length xs. findData_from (Suc k) xs v = int (Suc k + j) \<and> snd (xs ! j) = v"
      then obtain j where "j < length xs" "findData_from (Suc k) xs v = int (Suc k + j)" "snd (xs ! j) = v"
        by blast
      with False show ?thesis by (intro disjI2 exI [of _ "Suc j"]) simp
    qed
  qed
qed

lemma findData_found:
  assumes "v \<in> snd ` set xs"
  shows "cb_valid xs (findData xs v) \<and> itemData xs (findData xs v) = v"
  using findData_from_spec [of 0 xs v] assms
  by (auto simp: findData_def cb_valid_def itemData_def)

lemma findData_missing:
  assumes "v \<notin> snd ` set xs"
  shows "findData xs v = -1"
  using findData_from_spec [of 0 xs v] assms
  by (auto simp: findData_def)

lemma fill_items_ne [simp]: "cb_items (fillCountryCombo env l) \<noteq> []"
  by (simp add: fillCountryCombo_def)

lemma fill_current_valid [simp]: "cb_valid (cb_items (fillCountryCombo env l)) (cb_current (fillCountryCombo env l))"
  by (simp add: fillCountryCombo_def cb_valid_def)

lemma fill_first [simp]: "itemData (cb_items (fillCountryCombo env l)) 0 = AnyCountry"
  by (simp add: fillCountryCombo_def itemData_def cb_valid_def)

lemma setSrcLangIndex_valid:
  assumes "ts_inv env d" "cb_valid (td_langItems d) i"
  shows "ts_inv env (setSrcLangIndex env d i) \<and> td_srcLang (setSrcLangIndex env d i) = i \<and>
         td_tgtLang (setSrcLangIndex env d i) = td_tgtLang d \<and> td_tgtCountry (setSrcLangIndex env d i) = td_tgtCountry d \<and>
         td_langItems (setSrcLangIndex env d i) = td_langItems d \<and>
         td_phraseBook (setSrcLangIndex env d i) = td_phraseBook d \<and> td_dataModel (setSrcLangIndex env d i) = td_dataModel d"
  using assms by (auto simp: setSrcLangIndex_def cb_index_def ts_inv_def Let_def settings_of_def)

lemma setTgtLangIndex_valid:
  assumes "ts_inv env d" "cb_valid (td_langItems d) i"
  shows "ts_inv env (setTgtLangIndex env d i) \<and> td_tgtLang (setTgtLangIndex env d i) = i \<and>
         td_srcLang (setTgtLangIndex env d i) = td_srcLang d \<and> td_srcCountry (setTgtLangIndex env d i) = td_srcCountry d \<and>
         td_langItems (setTgtLangIndex env d i) = td_langItems d \<and>
         td_phraseBook (setTgtLangIndex env d i) = td_phraseBook d \<and> td_dataModel (setTgtLangIndex env d i) = td_dataModel d"
  using assms by (auto simp: setTgtLangIndex_def cb_index_def ts_inv_def Let_def settings_of_def)


lemma choose_index:
  assumes "xs \<noteq> []"
  shows "cb_valid xs (if findData xs v = -1 then 0 else findData xs v) \<and>
         itemData xs (if findData xs v = -1 then 0 else findData xs v) = (if v \<in> snd ` set xs then v else snd (hd xs))"
proof (cases "v \<in> snd ` set xs")
  case True
  with findData_found [OF True] show ?thesis by (auto simp: cb_valid_def)
next
  case False
  with findData_missing [OF False] assms show ?thesis
    by (simp add: cb_valid_def itemData_def hd_conv_nth)
qed

lemma fill_hd [simp]: "snd (hd (cb_items (fillCountryCombo env l))) = AnyCountry"
  by (simp add: fillCountryCombo_def)

lemma setCountryIndex_valid:
  "cb_valid (cb_items c) i \<Longrightarrow> cb_items (setCountryIndex c i) = cb_items c \<and> cb_current (setCountryIndex c i) = i"
  by (simp add: setCountryIndex_def cb_index_def)

lemma pick_country_inv:
  "ts_inv env d \<Longrightarrow> cb_valid (cb_items (td_tgtCountry d)) j \<Longrightarrow>
     ts_inv env (d\<lparr>td_tgtCountry := setCountryIndex (td_tgtCountry d) j\<rparr>)"
  "ts_inv env d \<Longrightarrow> cb_valid (cb_items (td_srcCountry d)) j \<Longrightarrow>
     ts_inv env (d\<lparr>td_srcCountry := setCountryIndex (td_srcCountry d) j\<rparr>)"
  by (auto simp: ts_inv_def setCountryIndex_def cb_index_def)

lemma showEvent_selects:
  assumes inv: "ts_inv env d" and s: "settings_of d = Some s"
  defines "L \<equiv> (if ls_language s \<in> snd ` set (td_langItems d) then ls_language s else QLocale_C)"
    and "L2 \<equiv> (if ls_sourceLanguage s \<in> snd ` set (td_langItems d) then ls_sourceLanguage s else QLocale_C)"
  shows "\<exists>d'. showEvent env d = Some d' \<and> ts_inv env d' \<and>
     td_phraseBook d' = td_phraseBook d \<and> td_dataModel d' = td_dataModel d \<and>
     itemData (td_langItems d') (td_tgtLang d') = L \<and> itemData (td_langItems d') (td_srcLang d') = L2 \<and>
     itemData (cb_items (td_tgtCountry d')) (cb_current (td_tgtCountry d')) =
       (if ls_country s \<in> snd ` set (cb_items (fillCountryCombo env L)) then ls_country s else AnyCountry) \<and>
     itemData (cb_items (td_srcCountry d')) (cb_current (td_srcCountry d')) =
       (if ls_sourceCountry s \<in> snd ` set (cb_items (fillCountryCombo env L2)) then ls_sourceCountry s else AnyCountry)"
proof -
  let ?items = "td_langItems d"
  have ne: "?items \<noteq> []" and hd: "snd (hd ?items) = QLocale_C" using inv by (simp_all add: ts_inv_def)
  define i1 where "i1 = (let i = findData ?items (ls_language s) in if i = -1 then 0 else i)"
  have i1: "cb_valid ?items i1" "itemData ?items i1 = L"
    using choose_index [OF ne, of "ls_language s"] hd by (simp_all add: i1_def L_def Let_def)
  define d1 where "d1 = setTgtLangIndex env d i1"
  have d1: "ts_inv env d1" "td_tgtLang d1 = i1" "td_srcLang d1 = td_srcLang d" "td_langItems d1 = ?items"
    "td_phraseBook d1 = td_phraseBook d" "td_dataModel d1 = td_dataModel d"
    using setTgtLangIndex_valid [OF inv i1(1)] by (simp_all add: d1_def)
  have c1: "cb_items (td_tgtCountry d1) = cb_items (fillCountryCombo env L)"
    using d1 i1 by (simp add: ts_inv_def)
  define j1 where "j1 = (let i = findData (cb_items (td_tgtCountry d1)) (ls_country s) in if i = -1 then 0 else i)"
  have j1: "cb_valid (cb_items (td_tgtCountry d1)) j1"
    "itemData (cb_items (td_tgtCountry d1)) j1 =
       (if ls_country s \<in> snd ` set (cb_items (fillCountryCombo env L)) then ls_country s else AnyCountry)"
    unfolding j1_def c1 Let_def using choose_index [of "cb_items (fillCountryCombo env L)" "ls_country s"] by simp_all
  define d2 where "d2 = d1\<lparr>td_tgtCountry := setCountryIndex (td_tgtCountry d1) j1\<rparr>"
  have d2: "ts_inv env d2"
    unfolding d2_def by (rule pick_country_inv(1) [OF d1(1) j1(1)])
  have d2f: "td_langItems d2 = ?items" "td_tgtLang d2 = i1" "td_phraseBook d2 = td_phraseBook d"
    "td_dataModel d2 = td_dataModel d"
    using d1 by (simp_all add: d2_def)
  define i2 where "i2 = (let i = findData (td_langItems d2) (ls_sourceLanguage s) in if i = -1 then 0 else i)"
  have i2: "cb_valid ?items i2" "itemData ?items i2 = L2"
    using choose_index [OF ne, of "ls_sourceLanguage s"] hd by (simp_all add: i2_def L2_def Let_def d2f(1))
  define d3 where "d3 = setSrcLangIndex env d2 i2"
  have i2': "cb_valid (td_langItems d2) i2" using i2(1) d2f(1) by simp
  have d3: "ts_inv env d3" "td_srcLang d3 = i2" "td_tgtLang d3 = i1" "td_tgtCountry d3 = td_tgtCountry d2"
    "td_langItems d3 = ?items" "td_phraseBook d3 = td_phraseBook d" "td_dataModel d3 = td_dataModel d"
    using setSrcLangIndex_valid [OF d2 i2'] d2f unfolding d3_def by simp_all
  have c3: "cb_items (td_srcCountry d3) = cb_items (fillCountryCombo env L2)"
    using d3 i2 by (simp add: ts_inv_def)
  define j2 where "j2 = (let i = findData (cb_items (td_srcCountry d3)) (ls_sourceCountry s) in if i = -1 then 0 else i)"
  have j2: "cb_valid (cb_items (td_srcCountry d3)) j2"
    "itemData (cb_items (td_srcCountry d3)) j2 =
       (if ls_sourceCountry s \<in> snd ` set (cb_items (fillCountryCombo env L2)) then ls_sourceCountry s else AnyCountry)"
    unfolding j2_def c3 Let_def using choose_index [of "cb_items (fillCountryCombo env L2)" "ls_sourceCountry s"] by simp_all
  define d4 where "d4 = d3\<lparr>td_srcCountry := setCountryIndex (td_srcCountry d3) j2\<rparr>"
  have show_eq: "showEvent env d = Some d4"
    unfolding showEvent_def s option.case Let_def d4_def d3_def d2_def d1_def j2_def i2_def j1_def i1_def
    by (rule refl)
  have tgtc: "itemData (cb_items (td_tgtCountry d4)) (cb_current (td_tgtCountry d4)) =
       (if ls_country s \<in> snd ` set (cb_items (fillCountryCombo env L)) then ls_country s else AnyCountry)"
    using setCountryIndex_valid [OF j1(1)] j1(2) d3(4) by (simp add: d4_def d2_def)
  have srcc: "itemData (cb_items (td_srcCountry d4)) (cb_current (td_srcCountry d4)) =
       (if ls_sourceCountry s \<in> snd ` set (cb_items (fillCountryCombo env L2)) then ls_sourceCountry s else AnyCountry)"
    using setCountryIndex_valid [OF j2(1)] j2(2) by (simp add: d4_def)
  have langs: "itemData (td_langItems d4) (td_tgtLang d4) = L" "itemData (td_langItems d4) (td_srcLang d4) = L2"
    using d3 i1 i2 by (simp_all add: d4_def)
  have pb: "td_phraseBook d4 = td_phraseBook d" "td_dataModel d4 = td_dataModel d"
    using d3 by (simp_all add: d4_def)
  have "ts_inv env d4"
    unfolding d4_def by (rule pick_country_inv(2) [OF d3(1) j2(1)])
  then show ?thesis
    using pb tgtc srcc langs show_eq by blast
qed

text \<open>C24: showing the dialog for a file and pressing OK at once writes back the file's
  settings, except that a language missing from the language table becomes POSIX
  (\<open>QLocale::C\<close>) and a country not offered for the chosen language becomes
  \<open>AnyCountry\<close>; the dialog keeps its invariant meanwhile.\<close>

theorem show_accept_normalises:
  assumes inv: "ts_inv env d" and s: "settings_of d = Some s"
  defines "L \<equiv> (if ls_language s \<in> snd ` set (td_langItems d) then ls_language s else QLocale_C)"
    and "L2 \<equiv> (if ls_sourceLanguage s \<in> snd ` set (td_langItems d) then ls_sourceLanguage s else QLocale_C)"
  shows "\<exists>d' d''. showEvent env d = Some d' \<and> on_buttonBox_accepted d' = Some d'' \<and>
     settings_of d'' = Some (s\<lparr>ls_language := L,
        ls_country := (if ls_country s \<in> snd ` set (cb_items (fillCountryCombo env L)) then ls_country s else AnyCountry),
        ls_sourceLanguage := L2,
        ls_sourceCountry := (if ls_sourceCountry s \<in> snd ` set (cb_items (fillCountryCombo env L2))
                             then ls_sourceCountry s else AnyCountry)\<rparr>)"
proof -
  obtain d' where d': "showEvent env d = Some d'" "td_phraseBook d' = td_phraseBook d" "td_dataModel d' = td_dataModel d"
    "itemData (td_langItems d') (td_tgtLang d') = L" "itemData (td_langItems d') (td_srcLang d') = L2"
    "itemData (cb_items (td_tgtCountry d')) (cb_current (td_tgtCountry d')) =
       (if ls_country s \<in> snd ` set (cb_items (fillCountryCombo env L)) then ls_country s else AnyCountry)"
    "itemData (cb_items (td_srcCountry d')) (cb_current (td_srcCountry d')) =
       (if ls_sourceCountry s \<in> snd ` set (cb_items (fillCountryCombo env L2)) then ls_sourceCountry s else AnyCountry)"
    using showEvent_selects [OF inv s] unfolding L_def L2_def by blast
  then show ?thesis
    using s by (auto simp: on_buttonBox_accepted_def settings_of_def Let_def split: option.splits)
qed


lemma setSrcLangIndex_change:
  assumes "cb_valid (td_langItems d) i" "i \<noteq> td_srcLang d"
  shows "setSrcLangIndex env d i =
           d\<lparr>td_srcLang := i, td_srcCountry := fillCountryCombo env (itemData (td_langItems d) i)\<rparr>"
  using assms by (simp add: setSrcLangIndex_def cb_index_def)

lemma setTgtLangIndex_change:
  assumes "cb_valid (td_langItems d) i" "i \<noteq> td_tgtLang d"
  shows "setTgtLangIndex env d i =
           d\<lparr>td_tgtLang := i, td_tgtCountry := fillCountryCombo env (itemData (td_langItems d) i)\<rparr>"
  using assms by (simp add: setTgtLangIndex_def cb_index_def)

lemma findData_valid: "v \<in> snd ` set xs \<Longrightarrow> cb_valid xs (findData xs v)"
  using findData_found by blast

lemma setSrcLangIndex_fields [simp]:
  "td_langItems (setSrcLangIndex env d i) = td_langItems d"
  "td_tgtLang (setSrcLangIndex env d i) = td_tgtLang d"
  by (simp_all add: setSrcLangIndex_def Let_def)

lemma constructor_inv: "ts_inv env (TranslationSettingsDialog env)"
proof -
  define items0 where "items0 = map (languageItem env) [QLocale_C + 1..tl_lastLanguage env - 1]"
  define empty where "empty = \<lparr>cb_items = ([] :: (u16 list \<times> int) list), cb_current = -1\<rparr>"
  define d0 where "d0 = \<lparr>td_langItems = [], td_srcLang = -1, td_tgtLang = -1, td_srcCountry = empty,
                td_tgtCountry = empty, td_dataModel = None, td_phraseBook = None, td_title = []\<rparr>"
  define d1 where "d1 = (if items0 = [] then d0
                else (setSrcLangIndex env (d0\<lparr>td_langItems := [hd items0]\<rparr>) 0)\<lparr>td_langItems := items0\<rparr>)"
  define sorted where "sorted = sort_items items0"
  define d2 where "d2 = (if items0 = [] then d1
                else setSrcLangIndex env (d1\<lparr>td_langItems := sorted\<rparr>) (findData sorted (snd (hd items0))))"
  define items where "items = (latin1 ''POSIX'', QLocale_C) # sorted"
  define k where "k = (if td_srcLang d2 = -1 then 0 else td_srcLang d2 + 1)"
  define d3 where "d3 = setSrcLangIndex env (d2\<lparr>td_langItems := items\<rparr>) k"
  have ctor: "TranslationSettingsDialog env = setTgtLangIndex env d3 0"
    unfolding TranslationSettingsDialog_def Let_def items0_def empty_def d0_def d1_def sorted_def d2_def
      items_def k_def d3_def ..
  have tgt2: "td_tgtLang d2 = -1"
    by (simp add: d2_def d1_def d0_def)
  have k: "cb_valid items k \<and> k \<noteq> td_srcLang d2"
  proof (cases "items0 = []")
    case True
    then show ?thesis by (simp add: k_def d2_def d1_def d0_def items_def cb_valid_def)
  next
    case False
    then have "snd (hd items0) \<in> snd ` set sorted"
      by (simp add: sorted_def sort_items_def)
    then have v: "cb_valid sorted (findData sorted (snd (hd items0)))" by (rule findData_valid)
    then have "td_srcLang d2 = findData sorted (snd (hd items0))"
      using False by (simp add: d2_def setSrcLangIndex_def cb_index_def Let_def)
    with v show ?thesis by (simp add: k_def items_def cb_valid_def)
  qed
  have d3: "d3 = (d2\<lparr>td_langItems := items\<rparr>)\<lparr>td_srcLang := k, td_srcCountry := fillCountryCombo env (itemData items k)\<rparr>"
    unfolding d3_def using k by (simp add: setSrcLangIndex_def cb_index_def)
  have items_ne: "items \<noteq> []" "snd (hd items) = QLocale_C" by (simp_all add: items_def)
  have v0: "cb_valid (td_langItems d3) 0" "0 \<noteq> td_tgtLang d3"
    using tgt2 by (simp_all add: d3 items_def cb_valid_def)
  show ?thesis
    unfolding ctor setTgtLangIndex_change [OF v0]
    using k items_ne v0(1) by (simp add: d3 ts_inv_def)
qed

text \<open>C23: every state the dialog reaches from its constructor through picks of existing
  entries, new files, showing and OK satisfies the invariant: the language model starts
  with POSIX, every box has a current item, and each country box holds the countries of
  the language selected above it.\<close>

theorem translation_settings_invariant:
  "ts_reachable env d \<Longrightarrow> ts_inv env d"
proof (induction rule: ts_reachable.induct)
  case created
  then show ?case by (rule constructor_inv)
next
  case (step d ev d')
  then show ?case
  proof (cases ev)
    case (PickSrcLanguage i)
    with step show ?thesis using setSrcLangIndex_valid [of env d i] by auto
  next
    case (PickTgtLanguage i)
    with step show ?thesis using setTgtLangIndex_valid [of env d i] by auto
  next
    case (PickSrcCountry i)
    with step show ?thesis using pick_country_inv(2) [of env d i] by auto
  next
    case (PickTgtCountry i)
    with step show ?thesis using pick_country_inv(1) [of env d i] by auto
  next
    case (SetDataModel dm)
    with step show ?thesis by (auto simp: setDataModel_def ts_inv_def)
  next
    case (SetPhraseBook pb)
    with step show ?thesis by (auto simp: setPhraseBook_def ts_inv_def)
  next
    case Show
    with step show ?thesis
      by (cases "settings_of d") (auto simp: showEvent_def dest: showEvent_selects [of env d])
  next
    case Accept
    with step show ?thesis
      by (auto simp: on_buttonBox_accepted_def ts_inv_def Let_def split: option.splits)
  qed
qed


lemma ex_items0:
  "map (languageItem ex_tsenv) [QLocale_C + 1..tl_lastLanguage ex_tsenv - 1] =
     [(latin1 ''Abkhazian'', 2), (latin1 ''English'', 3)]"
  by (simp add: ex_tsenv_def languageItem_def QLocale_C_def upto.simps)
lemma ex_sorted: "sort_items [(latin1 ''Abkhazian'', 2), (latin1 ''English'', 3)] = [(latin1 ''Abkhazian'', 2), (latin1 ''English'', 3)]"
  by (simp add: sort_items_def latin1_def)
lemma ex_ctor:
  "TranslationSettingsDialog ex_tsenv =
     \<lparr>td_langItems = [(latin1 ''POSIX'', 1), (latin1 ''Abkhazian'', 2), (latin1 ''English'', 3)],
      td_srcLang = 1, td_tgtLang = 0,
      td_srcCountry = fillCountryCombo ex_tsenv 2, td_tgtCountry = fillCountryCombo ex_tsenv 1,
      td_dataModel = None, td_phraseBook = None, td_title = []\<rparr>"
  unfolding TranslationSettingsDialog_def Let_def ex_items0 ex_sorted
  by (simp add: QLocale_C_def setSrcLangIndex_def setTgtLangIndex_def cb_index_def cb_valid_def itemData_def
      findData_def)

lemma ts_inv_file_fields [simp]:
  "ts_inv env (d\<lparr>td_dataModel := a, td_phraseBook := b, td_title := t\<rparr>) = ts_inv env d"
  "ts_inv env (d\<lparr>td_phraseBook := b, td_dataModel := a, td_title := t\<rparr>) = ts_inv env d"
  by (simp_all add: ts_inv_def)

lemma setDataModel_inv: "ts_inv env d \<Longrightarrow> ts_inv env (setDataModel d dm)"
  by (simp add: setDataModel_def)

theorem show_accept_normalises_witness:
  "ts_inv ex_tsenv (setDataModel (TranslationSettingsDialog ex_tsenv) ex_ts_settings) \<and>
   settings_of (setDataModel (TranslationSettingsDialog ex_tsenv) ex_ts_settings) = Some ex_ts_settings \<and>
   (\<exists>d' d''. showEvent ex_tsenv (setDataModel (TranslationSettingsDialog ex_tsenv) ex_ts_settings) = Some d' \<and>
      on_buttonBox_accepted d' = Some d'' \<and>
      settings_of d'' = Some (ex_ts_settings\<lparr>ls_language := 3, ls_country := AnyCountry, ls_sourceLanguage := 1,
                                             ls_sourceCountry := AnyCountry\<rparr>))"
proof -
  have inv: "ts_inv ex_tsenv (setDataModel (TranslationSettingsDialog ex_tsenv) ex_ts_settings)"
    by (rule setDataModel_inv [OF constructor_inv])
  have s: "settings_of (setDataModel (TranslationSettingsDialog ex_tsenv) ex_ts_settings) = Some ex_ts_settings"
    by (simp add: settings_of_def setDataModel_def)
  let ?D = "setDataModel (TranslationSettingsDialog ex_tsenv) ex_ts_settings"
  have items: "td_langItems ?D = [(latin1 ''POSIX'', 1), (latin1 ''Abkhazian'', 2), (latin1 ''English'', 3)]"
    by (simp add: ex_ctor setDataModel_def)
  have L: "(if ls_language ex_ts_settings \<in> snd ` set (td_langItems ?D) then ls_language ex_ts_settings else QLocale_C) = 3"
    and L2: "(if ls_sourceLanguage ex_ts_settings \<in> snd ` set (td_langItems ?D) then ls_sourceLanguage ex_ts_settings
              else QLocale_C) = 1"
    unfolding items by (simp_all add: ex_ts_settings_def QLocale_C_def)
  have cn1: "(if ls_country ex_ts_settings \<in> snd ` set (cb_items (fillCountryCombo ex_tsenv 3)) then ls_country ex_ts_settings
             else AnyCountry) = AnyCountry"
    by (simp add: fillCountryCombo_def ex_tsenv_def ex_ts_settings_def sort_items_def countryItem_def QLocale_C_def
        AnyCountry_def)
  have cn2: "(if ls_sourceCountry ex_ts_settings \<in> snd ` set (cb_items (fillCountryCombo ex_tsenv 1))
             then ls_sourceCountry ex_ts_settings else AnyCountry) = AnyCountry"
    by (simp add: fillCountryCombo_def ex_ts_settings_def QLocale_C_def AnyCountry_def)
  have "\<exists>d' d''. showEvent ex_tsenv ?D = Some d' \<and> on_buttonBox_accepted d' = Some d'' \<and>
      settings_of d'' = Some (ex_ts_settings\<lparr>ls_language := 3, ls_country := AnyCountry, ls_sourceLanguage := 1,
                                             ls_sourceCountry := AnyCountry\<rparr>)"
    using show_accept_normalises [OF inv s] unfolding L L2 cn1 cn2 .
  with inv s show ?thesis by blast
qed

theorem translation_settings_invariant_witness:
  "ts_inv ex_tsenv (TranslationSettingsDialog ex_tsenv) \<and>
   td_langItems (TranslationSettingsDialog ex_tsenv) = [(latin1 ''POSIX'', 1), (latin1 ''Abkhazian'', 2), (latin1 ''English'', 3)]"
  using translation_settings_invariant [OF ts_reachable.created [of ex_tsenv]]
  by (simp add: ex_ctor)

end
