(* ===== verification/Spec2Isabelle.thy ===== *)
theory Spec2Isabelle
  imports QM_Behaviour QML_Findings Run_Qt_Tool QML_Property_Node Toolbar_Event_Filter Buddy_Editor
    Signal_Slot_Editor Translation_Settings
begin

text \<open>
  \<^bold>\<open>A verification library for qttools: the QM codec, qdoc's QML markup visitor and
  property node, Linguist's tool runner, and Designer's toolbar filter, buddy editor
  and signal/slot editor window, and Linguist's translation settings dialog.\<close>

  The repository is mostly GUI code over Qt (Designer, Linguist, qdoc).  The parts with
  logic of their own that can be stated without a window system are modelled here:
  \<^item> the QM codec, src/src/linguist/shared/qm.cpp: a writer (\<open>Releaser\<close>, driven by
    \<open>saveQM\<close>) that turns translation messages into a tagged-block file with a hash
    index, and a reader (\<open>loadQM\<close>) that turns such a file back into messages.  They
    share the wire format and meet only through the bytes of the file;
  \<^item> qdoc's QML markup visitor, src/src/qdoc/qmlmarkupvisitor.cpp, which walks a
    QML syntax tree and writes the source text with markup tags around its tokens,
    copying the comments and pragmas between them;
  \<^item> qdoc's \<open>QmlPropertyNode\<close>, src/src/qdoc/qmlpropertynode.cpp, which finds the C++
    property a documented QML property corresponds to by walking up the node tree;
  \<^item> Linguist's tool runner, src/src/linguist/shared/runqttool.cpp, which builds a
    shell command line for another Qt tool and runs it with \<open>std::system\<close>;
  \<^item> Designer's toolbar event filter, src/src/designer/src/lib/shared/qdesigner_toolbar.cpp,
    which turns presses, moves, drops and context-menu choices on a form's toolbar into
    undo commands that change the toolbar's action list;
  \<^item> Designer's buddy editor, src/src/designer/src/components/buddyeditor/buddyeditor.cpp,
    which shows each label's \<open>buddy\<close> property as a connection from the label to a
    widget of the form, keeps the connections in step with the properties, and turns
    new and deleted connections into property commands on the form's undo stack.
    Both Designer parts share the geometry of Qt_Geometry;
  \<^item> Designer's signal/slot editor window,
    src/src/designer/src/components/signalsloteditor/signalsloteditorwindow.cpp, which
    lists the form's connections in a table (\<open>ConnectionModel\<close>), lets the user edit a
    cell with a combo box of object names or of signals and slots grouped under class
    titles (\<open>InlineEditor\<close>, \<open>ConnectionDelegate\<close>), and keeps the table's current row
    and the form's selected connection in step;
  \<^item> Linguist's translation settings dialog,
    src/src/linguist/linguist/translationsettingsdialog.cpp, whose four combo boxes
    pick the source and target language and country of a translation file or phrase
    book, filled from \<open>QLocale\<close>'s tables, selected from the file when the dialog is
    shown and written back when OK is pressed.

  \<^bold>\<open>Theories.\<close>
  \<^item> QM_Base (the prelude): machine types (\<open>byte\<close>, \<open>u16\<close>, \<open>u32\<close>), \<open>QByteArray\<close> as
    a byte list and \<open>QString\<close> as UTF-16 units, big-endian encoding and its round trip,
    the \<open>ub\<close> values for undefined behaviour, the collection \<open>codec_simps\<close>.
  \<^item> Qt_String: the \<open>QString\<close> operations the visitor and the tool runner call
    (Latin-1 literals, \<open>mid\<close>, \<open>QChar::isSpace\<close>, \<open>join\<close>, \<open>split\<close>).
  \<^item> QM_Format, Qt_Support, Translator_Model: the constants of qm.cpp and \<open>elfHash\<close>;
    the Qt behaviour the codec relies on (\<open>QDataStream\<close>, \<open>QMap::insert\<close>,
    \<open>QMultiMap::insert\<close>, strict UTF-8); \<open>TranslatorMessage\<close>, \<open>Translator\<close>,
    \<open>ConversionData\<close> (outside src/, from the spec).
  \<^item> QM_Releaser, QM_Reader, QM_Save: \<open>Releaser\<close> as a record and each member as a
    function on it; \<open>loadQM\<close> with its record loop as \<open>partial_function (option)\<close>
    (it can loop) and undefined behaviour as the value \<open>Inl\<close>; the \<open>saveQM\<close> loop
    with its counters.  QM_Roundtrip and QM_Behaviour hold the round trip of
    \<open>SaveEverything\<close> files and the cases where the reader does not invert the
    writer.
  \<^item> QML_Markup: the visitor's state as a record, the constructor's merge of
    comments and pragmas, \<open>protect\<close>, \<open>addExtra\<close>, \<open>addVerbatim\<close>,
    \<open>addMarkedUpToken\<close>, every \<open>visit\<close>/\<open>endVisit\<close> method in six groups over a
    mutual datatype of syntax nodes, and \<open>Node::accept\<close> with Qt's recursion-depth
    guard (the measure of its termination proof).  QML_Text proves that stripping
    the markup from the output gives the source back; QML_Findings the
    constructor's merge and the behaviours that differ from the comments.
  \<^item> Run_Qt_Tool: every function of runqttool.cpp on Unix, with the status
    \<open>std::system\<close> returns as an argument and \<open>/bin/sh\<close>'s word splitting
    (\<open>sh_split\<close>, a state machine over the characters) as the reader of the command
    line.
  \<^item> QML_Property_Node: the node tree as a store from addresses to nodes (a record;
    \<open>QmlPropertyNode\<close> a record extension of \<open>Node\<close>), the constructor with its link
    into the parent, the parent walk as \<open>while_option\<close>, \<open>findCorrespondingCppProperty\<close>,
    \<open>isWritable\<close> with its warnings, \<open>isRequired\<close>; the class database is an
    interface record of two lookup functions.
  \<^item> Qt_Geometry: \<open>QPoint\<close> and \<open>QRect\<close> with the operations both Designer parts
    call (\<open>manhattanLength\<close>, \<open>contains\<close>, \<open>center\<close> with C++ truncating division),
    orientation and layout direction.
  \<^item> Toolbar_Event_Filter: the filter's state as a record (the toolbar's actions, the
    press position, the promotion menu, the undo stack, a log of the calls made), one
    function per handler and slot, \<open>eventFilter\<close> dispatching on a datatype of events,
    and \<open>tb_reachable\<close>, the inductive relation of the states events lead to.  The
    window system (geometry, the style's handle area, \<open>actionIndexAt\<close>, the form
    window) is the record \<open>tb_env\<close>; the entry the user picks in the menu and the result
    of \<open>QDrag::exec\<close> are fields of the events.  \<open>QWidget::insertAction\<close> and the
    redo/undo of Designer's action commands are modelled from Qt and Designer.
  \<^item> Buddy_Editor: the form as a tree of widget records (what the editor reads of a
    widget: label or not, hidden, managed, name, focus policy, buddy property,
    geometry), \<open>findChildren\<close> and \<open>findChild\<close> as functions on it, the editor's
    state as a record (connections, selection, the \<open>m_updating\<close> flag, the undo
    stack), and one function per member of buddyeditor.cpp: \<open>canBeBuddy\<close>,
    \<open>buddy\<close>, \<open>widgetAt\<close>, \<open>updateBackground\<close>, \<open>setBackground\<close>,
    \<open>endConnection\<close>, \<open>widgetRemoved\<close>, \<open>deleteSelected\<close>, \<open>autoBuddy\<close> and
    \<open>findBuddy\<close> (its scans in steps of 5 pixels as functions with a measure).  The
    base class \<open>ConnectionEdit\<close> (outside the repository) contributes \<open>clear\<close>,
    \<open>addConnection\<close>, the redo of its connection commands, and a \<open>setBackground\<close>
    that stores the background and calls the virtual \<open>updateBackground\<close>; the
    record \<open>buddy_env\<close> holds the form's main container, the widget under the mouse,
    the editing state and \<open>QWidget::childAt\<close>.
  \<^item> Signal_Slot_Editor: \<open>objectNameList\<close> over a record of what it reads of the form;
    \<open>ConnectionModel\<close> over the editor's connection list, with \<open>QModelIndex\<close> as a
    datatype (\<open>createIndex\<close> valid for non-negative row and column) and \<open>setData\<close>
    returning the edit it asks of the editor (the editor's setters are outside the
    repository); the inline editor's rows and its combo box state (current index and
    \<open>m_idx\<close>), the user's pick as \<open>activate\<close>, \<open>ie_reachable\<close> the inductive relation of
    the states picks and \<open>setText\<close> lead to; the delegate's \<open>createEditor\<close>; the
    window's two selection handlers as mutually recursive functions whose measure is
    the re-entrancy guard.  The class database (\<open>memberFunctionListContains\<close>,
    \<open>reverseClassesMemberFunctions\<close>) and the sort proxy's index mapping are
    arguments of the model.
  \<^item> Translation_Settings: a combo box as a record of its items (text and integer
    data) and current index, with \<open>findData\<close>, \<open>itemData\<close> and \<open>setCurrentIndex\<close>
    (which refills the country box below a language box, as the
    \<open>currentIndexChanged\<close> connection does); the dialog as a record of its four boxes,
    the shared language model, the file and the title; one function per member of
    translationsettingsdialog.cpp (\<open>languageItem\<close>, the constructor,
    \<open>setDataModel\<close>, \<open>setPhraseBook\<close>, \<open>fillCountryCombo\<close>, the two index slots,
    \<open>on_buttonBox_accepted\<close>, \<open>showEvent\<close>), \<open>QLocale\<close>'s tables as the record
    \<open>ts_env\<close>, and \<open>ts_reachable\<close>, the inductive relation of the states picks,
    files, showing and OK lead to.

  \<^bold>\<open>What the lemmas show.\<close>  For the codec: the \<open>SaveEverything\<close> round trip, the
  invariants of the save loop and its diagnostics, the bounds of \<open>elfHash\<close> and of
  the context table, and the writer and reader behaviours the spec does not expect
  (dropped and inherited comments, a loader that loops or reads out of bounds).  For
  the visitor: the text invariant kept by every visit and the source round trip, the
  refinement of the constructor's merge by a sorted merge when comments come first,
  and the places where it reads past a list or drops markup.  For the tool runner:
  the shell reads back the program and arguments when they hold no metacharacter,
  and the arguments it splits, drops or reports as success.  For the property node:
  termination of its lookups on a well-formed store (and non-termination on a parent
  cycle), preservation of well-formedness by the constructor, the answers of
  \<open>isWritable\<close> and \<open>isRequired\<close>, and the group-property case that returns null.  For
  the toolbar filter: distinct existing actions in every reachable state (rule
  induction over \<open>tb_reachable\<close>, one lemma per handler), the round trips of an ignored
  move drag and of undoing a removal, where a drop inserts, the context menu's
  entries, and three edge cases (adjacent separators, the right-to-left free area, a
  press at the origin).  For the buddy editor: \<open>updateBackground\<close> refines the
  buddy relation (its connections are exactly the pairs the properties name, and the
  connections already standing for a pair are kept), every operation keeps the
  connection identities distinct and the selection inside the list, \<open>setBackground\<close>
  creates each connection twice, \<open>autoBuddy\<close> proposes each buddy once and only
  unused, focusable widgets, and \<open>widgetRemoved\<close> and \<open>deleteSelected\<close> remove
  exactly the affected connections and reset the labels' properties.  For the
  signal/slot window: \<open>setData\<close> only passes names and members the form has (or the
  empty string), a change warns exactly on a duplicate connection, the inline editor
  never rests on a class title (rule induction over \<open>ie_reachable\<close>) and gives back
  the text it was set to, the selection handlers settle after one echo, and
  \<open>index\<close> accepts any non-negative column.  For the translation settings dialog:
  every reachable state keeps the language model headed by POSIX, a current item in
  every box and each country box filled for the language above it (rule induction
  over \<open>ts_reachable\<close>), and showing the dialog then pressing OK writes the file's
  settings back, with an unknown language replaced by POSIX and a country the
  language does not offer replaced by \<open>AnyCountry\<close>.

  \<^bold>\<open>Bounds and fuel.\<close>  Sizes written as \<open>quint32\<close> wrap (\<open>word_of_nat\<close>); the theorems
  state the bounds (files under \<open>2^31\<close> bytes, fewer than 10000 contexts) under which
  nothing wraps.  \<open>loadQM\<close>'s record loop has no fuel: it is a
  \<open>partial_function (option)\<close>, and the round trip proves it returns.  The visitor's
  recursion is bounded by Qt's recursion limit, the measure of \<open>accept\<close>.  The
  property node's walk is \<open>while_option\<close>; its termination is proved from a rank
  that decreases along parent pointers, which a tree built by the constructor has.
  The scans of \<open>findBuddy\<close> end because the distance to the parent's edge decreases
  by 5 at each step.  The signal/slot window's handlers call each other only with the
  guard set, in which case they return at once; that is their termination measure.

  \<^bold>\<open>Modelling decisions.\<close>  QM text fields are represented by their UTF-8 encoding,
  so \<open>originalBytes\<close> is the identity and \<open>fromBytes\<close> keeps the bytes with the
  decoder's error flag.  The reader's memory is the file plus its NUL terminator.  The
  shell model treats a metacharacter as a failure, not an interpretation.
  \<open>Node::extractClassName\<close> recognises ASCII letters and digits only.

  \<^bold>\<open>Not modelled.\<close>  Designer's layout-widget property sheet and the widget-box and task-menu interfaces, and qdoc's code-marker
  declarations and test drivers: widget, model/view and painting code whose state
  lives in Qt objects outside this repository; the components list names each.  The
  Windows branches of runqttool, and the I/O of printing warnings and errors (the
  model returns the warnings instead).  In the toolbar filter, \<open>eventFilterOf\<close> (a search
  of Qt's object tree) and a drop on the same toolbar while its own drag runs.  In the
  buddy editor, \<open>createContextMenu\<close> (a menu entry wired to \<open>autoBuddy\<close>), the
  painting and endpoint positions of connections, and the form's reaction to the
  property commands (Designer updates the background when the form changes; the
  model leaves the connection list as the commands found it, so the selection
  \<open>autoBuddy\<close> makes is over the connections present before its macro).  In the
  signal/slot window: painting, fonts and colours, the tree view's column sizes, the
  window's construction and \<open>setActiveFormWindow\<close> (signal wiring), and the effect
  of the edits \<open>setData\<close> asks for (done by \<open>SignalSlotEditor\<close>, outside the repository).
  In the translation settings dialog, the generated form (\<open>setupUi\<close>) and the dialog's
  window title beyond the text it is built from; \<open>QLocale\<close>'s tables are arguments.
\<close>

end
